(* ===== verification/Prelude.thy ===== *)
theory Prelude
  imports Complex_Main "HOL-Library.AList" "HOL-Library.Sublist"
begin

text \<open>
  What the components share: Python's exceptions as a \<open>datatype\<close> and results as a sum,
  Python's strings (a \<open>string\<close> is a list of characters, one per code point below 256), its
  insertion-ordered dictionaries (association lists updated in place by \<open>AList.update\<close>), points
  of time as rational seconds, and the generic lemmas and rule collections the component proofs
  use. Nothing here models a file of the repository; it models the part of the Python language
  and standard library the repository calls.
\<close>

section \<open>Exceptions and results\<close>

datatype py_error =
    TypeError | ValueError | KeyError | IndexError | AttributeError | AssertionError
  | RuntimeError | NotImplementedError | TimeoutError | UnknownException string

type_synonym 'a res = "py_error + 'a"

text \<open>Sequencing of a computation that may raise: the first error ends it.\<close>

definition rbind :: "'a res \<Rightarrow> ('a \<Rightarrow> 'b res) \<Rightarrow> 'b res" where
  "rbind m f = (case m of Inl e \<Rightarrow> Inl e | Inr x \<Rightarrow> f x)"

lemma rbind_simps [simp]: "rbind (Inl e) f = Inl e" "rbind (Inr x) f = f x"
  by (simp_all add: rbind_def)

lemma rbind_Inr_iff: "rbind m f = Inr y \<longleftrightarrow> (\<exists>x. m = Inr x \<and> f x = Inr y)"
  by (cases m) simp_all

lemma rbind_Inl_iff: "rbind m f = Inl e \<longleftrightarrow> m = Inl e \<or> (\<exists>x. m = Inr x \<and> f x = Inl e)"
  by (cases m) simp_all

section \<open>Time\<close>

text \<open>
  \<open>time.time()\<close> and \<open>time.perf_counter()\<close> are points on a rational axis of seconds. A reading of
  the clock is always an argument of the definition that takes it.
\<close>

type_synonym time = rat

text \<open>Python's \<open>int(x)\<close> on a float truncates towards zero.\<close>

definition py_trunc :: "rat \<Rightarrow> int" where
  "py_trunc x = (if 0 \<le> x then \<lfloor>x\<rfloor> else \<lceil>x\<rceil>)"

text \<open>Truthiness of an optional float: \<open>None\<close> and \<open>0.0\<close> are false.\<close>

definition truthy_time :: "time option \<Rightarrow> bool" where
  "truthy_time t = (case t of None \<Rightarrow> False | Some x \<Rightarrow> x \<noteq> 0)"

lemma truthy_time_simps [simp]: "\<not> truthy_time None" "truthy_time (Some x) \<longleftrightarrow> x \<noteq> 0"
  by (simp_all add: truthy_time_def)

lemma case_Some2:
  "(case (a, b) of (Some x, Some y) \<Rightarrow> P x y | _ \<Rightarrow> False) \<Longrightarrow> \<exists>x y. a = Some x \<and> b = Some y \<and> P x y"
  by (auto split: option.splits)

lemma case_Inr: "(case a of Inl _ \<Rightarrow> False | Inr x \<Rightarrow> P x) \<Longrightarrow> \<exists>x. a = Inr x \<and> P x"
  by (auto split: sum.splits)

lemma case_Some: "(case a of None \<Rightarrow> False | Some x \<Rightarrow> P x) \<Longrightarrow> \<exists>x. a = Some x \<and> P x"
  by (auto split: option.splits)

section \<open>Rule collections\<close>

named_theorems defs_simp \<open>definitions a component's proofs unfold together\<close>
named_theorems inv_intro \<open>preservation of a component's invariant by one of its operations\<close>

section \<open>Strings\<close>

definition NL :: char where "NL = CHR 0x0A"

definition nl :: string where "nl = [NL]"

definition char_code :: "char \<Rightarrow> nat" where "char_code c = of_char c"

definition is_space :: "char \<Rightarrow> bool" where
  "is_space c = (let n = char_code c in
     (9 \<le> n \<and> n \<le> 13) \<or> (28 \<le> n \<and> n \<le> 32) \<or> n = 133 \<or> n = 160)"

definition is_digit :: "char \<Rightarrow> bool" where
  "is_digit c = (48 \<le> char_code c \<and> char_code c \<le> 57)"

definition is_upper :: "char \<Rightarrow> bool" where
  "is_upper c = (65 \<le> char_code c \<and> char_code c \<le> 90)"

definition is_lower :: "char \<Rightarrow> bool" where
  "is_lower c = (97 \<le> char_code c \<and> char_code c \<le> 122)"

definition is_word :: "char \<Rightarrow> bool" where
  "is_word c = (is_digit c \<or> is_upper c \<or> is_lower c \<or> c = CHR ''_'')"

definition to_lower :: "char \<Rightarrow> char" where
  "to_lower c = (if is_upper c then char_of (char_code c + 32) else c)"

definition to_upper :: "char \<Rightarrow> char" where
  "to_upper c = (if is_lower c then char_of (char_code c - 32) else c)"

definition py_lower :: "string \<Rightarrow> string" where "py_lower s = map to_lower s"

definition py_upper :: "string \<Rightarrow> string" where "py_upper s = map to_upper s"

text \<open>\<open>s.startswith(p)\<close>, \<open>s.endswith(p)\<close>, \<open>p in s\<close>, and \<open>s.count(p)\<close> (non-overlapping, \<open>p\<close> not empty).\<close>

definition starts_with :: "'a list \<Rightarrow> 'a list \<Rightarrow> bool" where
  "starts_with s p = (take (length p) s = p)"

definition ends_with :: "'a list \<Rightarrow> 'a list \<Rightarrow> bool" where
  "ends_with s p = starts_with (rev s) (rev p)"

fun contains :: "'a list \<Rightarrow> 'a list \<Rightarrow> bool" where
  "contains [] p = (p = [])"
| "contains (c # s) p = (starts_with (c # s) p \<or> contains s p)"

function py_count :: "'a list \<Rightarrow> 'a list \<Rightarrow> nat" where
  "py_count s p = (if s = [] \<or> p = [] then 0
     else if starts_with s p then Suc (py_count (drop (length p) s) p)
     else py_count (tl s) p)"
  by pat_completeness auto
termination
  by (relation "measure (\<lambda>(s, p). length s)") (auto simp: neq_Nil_conv)

declare py_count.simps [simp del]

text \<open>\<open>s.split()\<close>: the maximal runs of non-space characters.\<close>

fun py_words_acc :: "string \<Rightarrow> string \<Rightarrow> string list" where
  "py_words_acc w [] = (if w = [] then [] else [rev w])"
| "py_words_acc w (c # s) =
     (if is_space c then (if w = [] then py_words_acc [] s else rev w # py_words_acc [] s)
      else py_words_acc (c # w) s)"

definition py_words :: "string \<Rightarrow> string list" where "py_words s = py_words_acc [] s"

text \<open>\<open>s.split(c)\<close> and \<open>s.split(c, 1)\<close> for a one-character separator.\<close>

fun py_split_acc :: "char \<Rightarrow> string \<Rightarrow> string \<Rightarrow> string list" where
  "py_split_acc d w [] = [rev w]"
| "py_split_acc d w (c # s) =
     (if c = d then rev w # py_split_acc d [] s else py_split_acc d (c # w) s)"

definition py_split :: "char \<Rightarrow> string \<Rightarrow> string list" where "py_split d s = py_split_acc d [] s"

definition py_split1 :: "char \<Rightarrow> string \<Rightarrow> string list" where
  "py_split1 d s = (case dropWhile (\<lambda>c. c \<noteq> d) s of
     [] \<Rightarrow> [s] | _ # r \<Rightarrow> [takeWhile (\<lambda>c. c \<noteq> d) s, r])"

definition py_strip :: "string \<Rightarrow> string" where
  "py_strip s = rev (dropWhile is_space (rev (dropWhile is_space s)))"

text \<open>\<open>s.split(sep)\<close> for a separator that is not empty.\<close>

function py_split_on :: "string \<Rightarrow> string \<Rightarrow> string \<Rightarrow> string list" where
  "py_split_on sep w s = (if s = [] \<or> sep = [] then [rev w @ s]
     else if starts_with s sep then rev w # py_split_on sep [] (drop (length sep) s)
     else py_split_on sep (hd s # w) (tl s))"
  by pat_completeness auto
termination
  by (relation "measure (\<lambda>(sep, w, s). length s)") (auto simp: neq_Nil_conv)

declare py_split_on.simps [simp del]

text \<open>\<open>s.replace(p, '')\<close> for a \<open>p\<close> that is not empty.\<close>

definition py_remove :: "string \<Rightarrow> string \<Rightarrow> string" where
  "py_remove p s = concat (py_split_on p [] s)"

text \<open>\<open>sep.join(parts)\<close>\<close>

fun py_join :: "string \<Rightarrow> string list \<Rightarrow> string" where
  "py_join sep [] = []"
| "py_join sep [p] = p"
| "py_join sep (p # q # ps) = p @ sep @ py_join sep (q # ps)"

text \<open>Decimal notation of integers, \<open>str(n)\<close>, and back, \<open>int(s)\<close> on a string of digits.\<close>

definition digit_char :: "nat \<Rightarrow> char" where "digit_char d = char_of (48 + d)"

fun str_nat :: "nat \<Rightarrow> string" where
  "str_nat n = (if n < 10 then [digit_char n] else str_nat (n div 10) @ [digit_char (n mod 10)])"

declare str_nat.simps [simp del]

definition str_int :: "int \<Rightarrow> string" where
  "str_int i = (if i < 0 then CHR ''-'' # str_nat (nat (- i)) else str_nat (nat i))"

definition digit_val :: "char \<Rightarrow> nat" where "digit_val c = char_code c - 48"

definition nat_of_digits :: "string \<Rightarrow> nat" where
  "nat_of_digits s = fold (\<lambda>c n. 10 * n + digit_val c) s 0"

definition py_int_of :: "string \<Rightarrow> nat res" where
  "py_int_of s = (if s \<noteq> [] \<and> list_all is_digit s then Inr (nat_of_digits s) else Inl ValueError)"

text \<open>Zero-padded decimal notation, \<open>f"{n:0wd}"\<close>.\<close>

definition pad_nat :: "nat \<Rightarrow> nat \<Rightarrow> string" where
  "pad_nat w n = (let s = str_nat n in replicate (w - length s) (CHR ''0'') @ s)"

section \<open>Lemmas on strings\<close>

lemma of_char_char_of_small [simp]: "n < 256 \<Longrightarrow> of_char (char_of n :: char) = (n :: nat)"
  by simp

lemma starts_with_append [simp]: "starts_with (p @ s) p"
  by (simp add: starts_with_def)

lemma starts_with_Nil [simp]: "starts_with s []"
  by (simp add: starts_with_def)

lemma starts_with_iff: "starts_with s p \<longleftrightarrow> (\<exists>r. s = p @ r)"
  by (metis append_eq_conv_conj starts_with_def)

lemma starts_with_prefix: "starts_with s p \<longleftrightarrow> prefix p s"
  by (auto simp: starts_with_iff prefix_def)

lemma contains_iff: "contains s p \<longleftrightarrow> (\<exists>a b. s = a @ p @ b)"
proof (induction s)
  case Nil
  then show ?case by auto
next
  case (Cons c s)
  have "starts_with (c # s) p \<or> (\<exists>a b. s = a @ p @ b) \<longleftrightarrow> (\<exists>a b. c # s = a @ p @ b)" (is "?L \<longleftrightarrow> ?R")
  proof
    assume ?L
    then show ?R
    proof
      assume "starts_with (c # s) p"
      then obtain r where "c # s = [] @ p @ r" by (auto simp: starts_with_iff)
      then show ?R by blast
    next
      assume "\<exists>a b. s = a @ p @ b"
      then obtain a b where "c # s = (c # a) @ p @ b" by auto
      then show ?R by blast
    qed
  next
    assume ?R
    then obtain a b where eq: "c # s = a @ p @ b" by blast
    show ?L
    proof (cases a)
      case Nil
      with eq show ?thesis by (auto simp: starts_with_iff)
    next
      case (Cons d a')
      with eq show ?thesis by auto
    qed
  qed
  with Cons show ?case by simp
qed

lemma contains_refl [simp]: "contains s s"
  by (auto simp: contains_iff intro: exI [of _ "[]"])

lemma contains_appendI1: "contains s p \<Longrightarrow> contains (s @ t) p"
  by (auto simp: contains_iff) (metis append.assoc)

lemma contains_appendI2: "contains t p \<Longrightarrow> contains (s @ t) p"
  by (auto simp: contains_iff) (metis append.assoc)

lemma py_join_Cons: "py_join sep (p # ps) = (if ps = [] then p else p @ sep @ py_join sep ps)"
  by (cases ps) simp_all

lemma str_nat_nonempty [simp]: "str_nat n \<noteq> []"
  by (subst str_nat.simps) simp

lemma digit_char_digit: "d < 10 \<Longrightarrow> is_digit (digit_char d)"
  by (simp add: is_digit_def digit_char_def char_code_def)

lemma digit_val_digit_char [simp]: "d < 10 \<Longrightarrow> digit_val (digit_char d) = d"
  by (simp add: digit_val_def digit_char_def char_code_def)

lemma str_nat_digits: "list_all is_digit (str_nat n)"
proof (induction n rule: str_nat.induct)
  case (1 n)
  show ?case
  proof (cases "n < 10")
    case True
    then show ?thesis by (subst str_nat.simps) (simp add: digit_char_digit)
  next
    case False
    with 1 show ?thesis by (subst str_nat.simps) (simp add: digit_char_digit)
  qed
qed

lemma nat_of_digits_snoc [simp]: "nat_of_digits (s @ [c]) = 10 * nat_of_digits s + digit_val c"
  by (simp add: nat_of_digits_def)

lemma nat_of_digits_str_nat [simp]: "nat_of_digits (str_nat n) = n"
proof (induction n rule: str_nat.induct)
  case (1 n)
  show ?case
  proof (cases "n < 10")
    case True
    then show ?thesis by (subst str_nat.simps) (simp add: nat_of_digits_def)
  next
    case False
    with 1 show ?thesis by (subst str_nat.simps) simp
  qed
qed

lemma py_int_of_str_nat [simp]: "py_int_of (str_nat n) = Inr n"
  by (simp add: py_int_of_def str_nat_digits)

lemma py_split_acc_append:
  "d \<notin> set a \<Longrightarrow> py_split_acc d w (a @ d # b) = (rev w @ a) # py_split_acc d [] b"
  by (induction a arbitrary: w) auto

lemma py_split_acc_no_sep: "d \<notin> set s \<Longrightarrow> py_split_acc d w s = [rev w @ s]"
  by (induction s arbitrary: w) auto

lemma py_split_join:
  "ps \<noteq> [] \<Longrightarrow> (\<forall>p\<in>set ps. d \<notin> set p) \<Longrightarrow> py_split d (py_join [d] ps) = ps"
proof (induction ps rule: induct_list012)
  case (3 p q ps)
  from "3.prems" "3.IH"(2) have "py_split_acc d [] (py_join [d] (q # ps)) = q # ps" by (simp add: py_split_def)
  with "3.prems" show ?case by (simp add: py_split_def py_split_acc_append del: py_split_acc.simps)
qed (simp_all add: py_split_def py_split_acc_no_sep)

lemma set_py_join: "set (py_join sep ls) \<subseteq> set sep \<union> (\<Union>l\<in>set ls. set l)"
  by (induction sep ls rule: py_join.induct) auto

lemma split_on_absent: "\<not> contains s p \<Longrightarrow> p \<noteq> [] \<Longrightarrow> py_split_on p w s = [rev w @ s]"
  by (induction s arbitrary: w) (simp_all add: py_split_on.simps)

lemma py_remove_prefix: "\<not> contains s p \<Longrightarrow> p \<noteq> [] \<Longrightarrow> py_remove p (p @ s) = s"
  by (subst py_remove_def, subst py_split_on.simps) (simp add: split_on_absent)

lemma py_split_acc_nonempty [simp]: "py_split_acc d w s \<noteq> []"
  by (induction d w s rule: py_split_acc.induct) auto

lemma py_split_nonempty [simp]: "py_split d s \<noteq> []"
  by (simp add: py_split_def)

lemma length_py_split_acc: "length (py_split_acc d w s) = Suc (count_list s d)"
  by (induction d w s rule: py_split_acc.induct) auto

lemma length_py_split [simp]: "length (py_split d s) = Suc (count_list s d)"
  by (simp add: py_split_def length_py_split_acc)

lemma py_split_acc_hd: "hd (py_split_acc d w s) = rev w @ takeWhile (\<lambda>c. c \<noteq> d) s"
  by (induction d w s rule: py_split_acc.induct) auto

lemma hd_py_split: "hd (py_split d s) = takeWhile (\<lambda>c. c \<noteq> d) s"
  by (simp add: py_split_def py_split_acc_hd)

lemma hd_py_split1: "hd (py_split1 d s) = takeWhile (\<lambda>c. c \<noteq> d) s"
proof (cases "dropWhile (\<lambda>c. c \<noteq> d) s")
  case Nil
  then have "takeWhile (\<lambda>c. c \<noteq> d) s = s"
    by (metis append_Nil2 takeWhile_dropWhile_id)
  with Nil show ?thesis by (simp add: py_split1_def del: dropWhile_eq_Nil_conv takeWhile_eq_all_conv)
next
  case (Cons c r)
  then show ?thesis by (simp add: py_split1_def)
qed

section \<open>Dictionaries\<close>

text \<open>
  A Python \<open>dict\<close> keeps insertion order: assigning to a present key keeps its place, a new key goes
  last. \<open>AList.update\<close> and \<open>AList.delete\<close> do exactly that.
\<close>

type_synonym ('k, 'v) dict = "('k \<times> 'v) list"

abbreviation dget :: "('k, 'v) dict \<Rightarrow> 'k \<Rightarrow> 'v option" where "dget \<equiv> map_of"

abbreviation dset :: "'k \<Rightarrow> 'v \<Rightarrow> ('k, 'v) dict \<Rightarrow> ('k, 'v) dict" where "dset \<equiv> AList.update"

abbreviation ddel :: "'k \<Rightarrow> ('k, 'v) dict \<Rightarrow> ('k, 'v) dict" where "ddel \<equiv> AList.delete"

definition dget_default :: "('k, 'v) dict \<Rightarrow> 'k \<Rightarrow> 'v \<Rightarrow> 'v" where
  "dget_default d k v = (case dget d k of None \<Rightarrow> v | Some x \<Rightarrow> x)"

definition dindex :: "('k, 'v) dict \<Rightarrow> 'k \<Rightarrow> 'v res" where
  "dindex d k = (case dget d k of None \<Rightarrow> Inl KeyError | Some x \<Rightarrow> Inr x)"

definition dmem :: "('k, 'v) dict \<Rightarrow> 'k \<Rightarrow> bool" where
  "dmem d k = (dget d k \<noteq> None)"

lemma dget_dset: "dget (dset k v d) k' = (if k' = k then Some v else dget d k')"
  by (simp add: AList.update_conv')

lemma dget_ddel: "dget (ddel k d) k' = (if k' = k then None else dget d k')"
  by (simp add: AList.delete_conv')

lemma distinct_dset [simp]: "distinct (map fst d) \<Longrightarrow> distinct (map fst (dset k v d))"
  by (rule AList.distinct_update)

lemma distinct_ddel [simp]: "distinct (map fst d) \<Longrightarrow> distinct (map fst (ddel k d))"
  by (rule AList.distinct_delete)

lemma dmem_iff: "dmem d k \<longleftrightarrow> k \<in> fst ` set d"
  by (simp add: dmem_def map_of_eq_None_iff)

lemma ddel_absent: "dget d k = None \<Longrightarrow> ddel k d = d"
  by (induction d) (auto simp: AList.delete_eq split: if_splits)

lemma dset_absent: "dget d k = None \<Longrightarrow> dset k v d = d @ [(k, v)]"
  by (induction d) (auto split: if_splits)

lemma set_dset_subset: "set (dset k v d) \<subseteq> insert (k, v) (set d)"
  by (induction d) auto

lemma set_ddel_subset: "set (ddel k d) \<subseteq> set d"
  by (auto simp: AList.delete_eq)

section \<open>Loops\<close>

text \<open>
  \<open>for x in xs: s = step(s, x)\<close>; a step that also yields values appends them to the output.
\<close>

fun run_gen :: "('s \<Rightarrow> 'x \<Rightarrow> 's \<times> 'y list) \<Rightarrow> 's \<Rightarrow> 'x list \<Rightarrow> 's \<times> 'y list" where
  "run_gen step s [] = (s, [])"
| "run_gen step s (x # xs) =
     (let (s1, ys) = step s x; (s2, zs) = run_gen step s1 xs in (s2, ys @ zs))"

lemma run_gen_append:
  "run_gen step s (xs @ ys) =
     (let (s1, us) = run_gen step s xs; (s2, vs) = run_gen step s1 ys in (s2, us @ vs))"
  by (induction xs arbitrary: s) (auto simp: Let_def split: prod.splits)

lemma run_gen_subseq:
  assumes "\<And>s x. subseq (map g (snd (step s x))) (h x)"
  shows "subseq (map g (snd (run_gen step s xs))) (concat (map h xs))"
proof (induction xs arbitrary: s)
  case (Cons x xs)
  obtain s1 ys where st: "step s x = (s1, ys)" by (cases "step s x")
  obtain s2 zs where r: "run_gen step s1 xs = (s2, zs)" by (cases "run_gen step s1 xs")
  have "subseq (map g ys @ map g zs) (h x @ concat (map h xs))"
    using assms [of s x] Cons.IH [of s1] st r by (intro list_emb_append_mono) auto
  then show ?case by (simp add: st r)
qed simp

text \<open>
  An invariant of every step is an invariant of the loop, and what every step yields under the
  invariant is what the loop yields.
\<close>

locale gen_loop =
  fixes step :: "'s \<Rightarrow> 'x \<Rightarrow> 's \<times> 'y list"
    and inv :: "'s \<Rightarrow> bool"
    and good :: "'y \<Rightarrow> bool"
  assumes step_inv: "inv s \<Longrightarrow> inv (fst (step s x))"
    and step_good: "inv s \<Longrightarrow> y \<in> set (snd (step s x)) \<Longrightarrow> good y"
begin

lemma loop_inv: "inv s \<Longrightarrow> inv (fst (run_gen step s xs))"
proof (induction xs arbitrary: s)
  case (Cons x xs)
  from step_inv [OF Cons.prems] have "inv (fst (run_gen step (fst (step s x)) xs))"
    by (rule Cons.IH)
  then show ?case by (simp add: Let_def case_prod_beta)
qed simp

lemma loop_good: "inv s \<Longrightarrow> y \<in> set (snd (run_gen step s xs)) \<Longrightarrow> good y"
proof (induction xs arbitrary: s)
  case (Cons x xs)
  from Cons.prems(2) have "y \<in> set (snd (step s x)) \<or> y \<in> set (snd (run_gen step (fst (step s x)) xs))"
    by (auto simp: Let_def split: prod.splits)
  then show ?case
    using step_good [OF Cons.prems(1)] Cons.IH [OF step_inv [OF Cons.prems(1)]] by blast
qed simp

end

end
