(* ===== verification/Pystd.thy ===== *)
theory Pystd
  imports Prelude
begin

text \<open>
  The parts of Python's standard library whose behaviour the events subsystem depends on: regular
  expressions (\<open>re.compile\<close>, \<open>search\<close>, \<open>match\<close>, \<open>findall\<close>), file-name globbing (\<open>fnmatch.filter\<close>)
  and \<open>str.format\<close>. A pattern is kept as the source's string; \<open>re_compile\<close> parses it to the type
  \<open>rx\<close> and \<open>rx_run\<close> is a backtracking matcher that lists the ways to match in the order Python
  tries them, so that the first one is Python's match, with its groups.
\<close>

section \<open>Regular expressions\<close>

text \<open>
  HOL's string literals hold no backslash: \<open>raw\<close> reads a Python raw string written with a tilde
  for each backslash (no pattern of the repository contains a tilde).
\<close>

definition raw :: "string \<Rightarrow> string" where
  "raw s = map (\<lambda>c. if c = CHR ''~'' then CHR 0x5C else c) s"

datatype cclass = CDigit | CWord | CSpace | CNotDigit | CNotWord | CNotSpace | CRange char char

fun cclass_has :: "cclass \<Rightarrow> char \<Rightarrow> bool" where
  "cclass_has CDigit c = is_digit c"
| "cclass_has CWord c = is_word c"
| "cclass_has CSpace c = is_space c"
| "cclass_has CNotDigit c = (\<not> is_digit c)"
| "cclass_has CNotWord c = (\<not> is_word c)"
| "cclass_has CNotSpace c = (\<not> is_space c)"
| "cclass_has (CRange a b) c = (char_code a \<le> char_code c \<and> char_code c \<le> char_code b)"

datatype rx =
    REps
  | RSet bool "cclass list"    \<comment> \<open>a character class; \<open>True\<close> for a negated one\<close>
  | RAny | RBol | REol
  | RSeq rx rx | RAlt rx rx
  | RStar bool rx              \<comment> \<open>\<open>True\<close> for greedy\<close>
  | ROpt bool rx
  | RNeg rx                    \<comment> \<open>negative lookahead\<close>
  | RGrp string rx             \<comment> \<open>a group, by its name or by its number\<close>

record re_flags =
  ignorecase :: bool
  multiline :: bool
  dotall :: bool

definition no_flags :: re_flags where
  "no_flags = \<lparr>ignorecase = False, multiline = False, dotall = False\<rparr>"

definition flag_ignorecase :: re_flags where
  "flag_ignorecase = no_flags\<lparr>ignorecase := True\<rparr>"

definition flag_multiline_dotall :: re_flags where
  "flag_multiline_dotall = no_flags\<lparr>multiline := True, dotall := True\<rparr>"

definition set_has :: "re_flags \<Rightarrow> bool \<Rightarrow> cclass list \<Rightarrow> char \<Rightarrow> bool" where
  "set_has f neg cs c =
     (let hit = list_ex (\<lambda>k. cclass_has k c \<or>
                  (ignorecase f \<and> (cclass_has k (to_lower c) \<or> cclass_has k (to_upper c)))) cs
      in if neg then \<not> hit else hit)"

text \<open>The state of a match: what was read (reversed), what is left, and the groups so far.\<close>

type_synonym rx_state = "string \<times> string \<times> (string, string) dict"

definition at_bol :: "re_flags \<Rightarrow> string \<Rightarrow> bool" where
  "at_bol f bef = (case bef of [] \<Rightarrow> True | c # _ \<Rightarrow> multiline f \<and> c = NL)"

definition at_eol :: "re_flags \<Rightarrow> string \<Rightarrow> bool" where
  "at_eol f s = (s = [] \<or> s = nl \<or> (multiline f \<and> starts_with s nl))"

function rx_run :: "re_flags \<Rightarrow> rx \<Rightarrow> rx_state \<Rightarrow> rx_state list" where
  "rx_run f REps st = [st]"
| "rx_run f (RSet neg cs) (bef, s, g) =
     (case s of [] \<Rightarrow> [] | c # t \<Rightarrow> if set_has f neg cs c then [(c # bef, t, g)] else [])"
| "rx_run f RAny (bef, s, g) =
     (case s of [] \<Rightarrow> [] | c # t \<Rightarrow> if dotall f \<or> c \<noteq> NL then [(c # bef, t, g)] else [])"
| "rx_run f RBol (bef, s, g) = (if at_bol f bef then [(bef, s, g)] else [])"
| "rx_run f REol (bef, s, g) = (if at_eol f s then [(bef, s, g)] else [])"
| "rx_run f (RSeq a b) st = concat (map (rx_run f b) (rx_run f a st))"
| "rx_run f (RAlt a b) st = rx_run f a st @ rx_run f b st"
| "rx_run f (RStar greedy a) (bef, s, g) =
     (let more = concat (map (\<lambda>(bef1, s1, g1).
           if length s1 < length s then rx_run f (RStar greedy a) (bef1, s1, g1) else [])
           (rx_run f a (bef, s, g)))
      in if greedy then more @ [(bef, s, g)] else (bef, s, g) # more)"
| "rx_run f (ROpt greedy a) st = (if greedy then rx_run f a st @ [st] else st # rx_run f a st)"
| "rx_run f (RNeg a) st = (if rx_run f a st = [] then [st] else [])"
| "rx_run f (RGrp n a) (bef, s, g) =
     map (\<lambda>(bef1, s1, g1). (bef1, s1, dset n (take (length s - length s1) s) g1))
         (rx_run f a (bef, s, g))"
  by pat_completeness auto
termination
  by (relation "measures [\<lambda>(f, r, st). size r, \<lambda>(f, r, st). length (fst (snd st))]") auto

record re_match =
  m_text :: string                  \<comment> \<open>\<open>group(0)\<close>\<close>
  m_groups :: "(string, string) dict"

text \<open>A match at the beginning of what is left, and the leftmost one (\<open>Pattern.search\<close>).\<close>

definition rx_here :: "re_flags \<Rightarrow> rx \<Rightarrow> string \<Rightarrow> string \<Rightarrow> re_match option" where
  "rx_here f r bef s = (case rx_run f r (bef, s, []) of
     [] \<Rightarrow> None
   | (_, s1, g) # _ \<Rightarrow> Some \<lparr>m_text = take (length s - length s1) s, m_groups = g\<rparr>)"

fun rx_search_from :: "re_flags \<Rightarrow> rx \<Rightarrow> string \<Rightarrow> string \<Rightarrow> re_match option" where
  "rx_search_from f r bef [] = rx_here f r bef []"
| "rx_search_from f r bef (c # s) = (case rx_here f r bef (c # s) of
     Some m \<Rightarrow> Some m | None \<Rightarrow> rx_search_from f r (c # bef) s)"

subsection \<open>Parsing a pattern\<close>

definition rx_char :: "char \<Rightarrow> rx" where "rx_char c = RSet False [CRange c c]"

definition is_letter :: "char \<Rightarrow> bool" where "is_letter c = (is_upper c \<or> is_lower c)"

text \<open>
  An escape in a pattern: a class, a control character, or a punctuation character standing for
  itself. Back-references and the escapes the repository does not use are refused.
\<close>

definition rx_escape_class :: "char \<Rightarrow> cclass option" where
  "rx_escape_class c =
     (if c = CHR ''d'' then Some CDigit else if c = CHR ''D'' then Some CNotDigit
      else if c = CHR ''w'' then Some CWord else if c = CHR ''W'' then Some CNotWord
      else if c = CHR ''s'' then Some CSpace else if c = CHR ''S'' then Some CNotSpace
      else if c = CHR ''n'' then Some (CRange NL NL)
      else if c = CHR ''t'' then Some (CRange (CHR 0x09) (CHR 0x09))
      else if is_letter c \<or> is_digit c then None
      else Some (CRange c c))"

text \<open>The items of a character class up to its closing bracket.\<close>

fun rx_items :: "cclass list \<Rightarrow> string \<Rightarrow> (cclass list \<times> string) option" where
  "rx_items acc [] = None"
| "rx_items acc (c # cs) =
     (if c = CHR '']'' \<and> acc \<noteq> [] then Some (acc, cs)
      else if c = CHR 0x5C then
        (case cs of [] \<Rightarrow> None
         | d # ds \<Rightarrow> (case rx_escape_class d of None \<Rightarrow> None | Some k \<Rightarrow> rx_items (k # acc) ds))
      else (case cs of
          d # e # ds \<Rightarrow>
            if d = CHR ''-'' \<and> e \<noteq> CHR '']'' then rx_items (CRange c e # acc) ds
            else rx_items (CRange c c # acc) cs
        | _ \<Rightarrow> rx_items (CRange c c # acc) cs))"

definition rx_class :: "string \<Rightarrow> (rx \<times> string) option" where
  "rx_class cs = (case cs of
     [] \<Rightarrow> None
   | c # ds \<Rightarrow> (if c = CHR ''^'' then map_option (apfst (RSet True)) (rx_items [] ds)
                else map_option (apfst (RSet False)) (rx_items [] cs)))"

datatype gkind = GTop | GCap string | GNon | GNeg

text \<open>An open group: its kind, the alternatives already closed, and the current one (reversed).\<close>

type_synonym rx_frame = "gkind \<times> rx list \<times> rx list"

definition rx_seq :: "rx list \<Rightarrow> rx" where
  "rx_seq cur = (case cur of [] \<Rightarrow> REps | r # rs \<Rightarrow> fold RSeq rs r)"

definition rx_close :: "rx list \<Rightarrow> rx list \<Rightarrow> rx" where
  "rx_close alts cur = foldr RAlt alts (rx_seq cur)"

fun rx_push :: "rx \<Rightarrow> rx_frame list \<Rightarrow> rx_frame list" where
  "rx_push r ((k, alts, cur) # fs) = (k, alts, r # cur) # fs"
| "rx_push r [] = []"

fun rx_wrap :: "gkind \<Rightarrow> rx \<Rightarrow> rx" where
  "rx_wrap GTop r = r"
| "rx_wrap (GCap n) r = RGrp n r"
| "rx_wrap GNon r = r"
| "rx_wrap GNeg r = RNeg r"

text \<open>A quantifier applies to the last item of the current alternative.\<close>

fun rx_quant :: "(rx \<Rightarrow> rx) \<Rightarrow> rx_frame list \<Rightarrow> rx_frame list option" where
  "rx_quant q ((k, alts, r # cur) # fs) = Some ((k, alts, q r # cur) # fs)"
| "rx_quant q _ = None"

definition rx_quantifier :: "char \<Rightarrow> bool \<Rightarrow> rx \<Rightarrow> rx" where
  "rx_quantifier c greedy r =
     (if c = CHR ''*'' then RStar greedy r
      else if c = CHR ''+'' then RSeq r (RStar greedy r)
      else ROpt greedy r)"

definition rx_repeat :: "nat \<Rightarrow> rx \<Rightarrow> rx" where "rx_repeat n r = rx_seq (replicate n r)"

function rx_parse :: "nat \<Rightarrow> rx_frame list \<Rightarrow> string \<Rightarrow> rx option" where
  "rx_parse n fs [] = (case fs of [(GTop, alts, cur)] \<Rightarrow> Some (rx_close alts cur) | _ \<Rightarrow> None)"
| "rx_parse n fs (c # cs) =
     (if c = CHR 0x5C then
        (case cs of [] \<Rightarrow> None
         | d # ds \<Rightarrow> (case rx_escape_class d of None \<Rightarrow> None
                      | Some k \<Rightarrow> rx_parse n (rx_push (RSet False [k]) fs) ds))
      else if c = CHR ''.'' then rx_parse n (rx_push RAny fs) cs
      else if c = CHR ''^'' then rx_parse n (rx_push RBol fs) cs
      else if c = CHR ''$'' then rx_parse n (rx_push REol fs) cs
      else if c = CHR ''['' then
        (case rx_class cs of None \<Rightarrow> None
         | Some (r, ds) \<Rightarrow> if length ds \<le> length cs then rx_parse n (rx_push r fs) ds else None)
      else if c = CHR ''('' then
        (if starts_with cs ''?P<'' then
           (let nm = takeWhile (\<lambda>d. d \<noteq> CHR ''>'') (drop 3 cs)
            in rx_parse (Suc n) ((GCap nm, [], []) # fs) (drop (4 + length nm) cs))
         else if starts_with cs ''?!'' then rx_parse n ((GNeg, [], []) # fs) (drop 2 cs)
         else if starts_with cs ''?:'' then rx_parse n ((GNon, [], []) # fs) (drop 2 cs)
         else if starts_with cs ''?'' then None
         else rx_parse (Suc n) ((GCap (str_nat n), [], []) # fs) cs)
      else if c = CHR '')'' then
        (case fs of (k, alts, cur) # (k2, alts2, cur2) # fs2 \<Rightarrow>
              rx_parse n ((k2, alts2, rx_wrap k (rx_close alts cur) # cur2) # fs2) cs
         | _ \<Rightarrow> None)
      else if c = CHR ''|'' then
        (case fs of (k, alts, cur) # fs2 \<Rightarrow> rx_parse n ((k, alts @ [rx_seq cur], []) # fs2) cs
         | [] \<Rightarrow> None)
      else if c = CHR ''*'' \<or> c = CHR ''+'' \<or> c = CHR ''?'' then
        (case rx_quant (rx_quantifier c (\<not> starts_with cs ''?'')) fs of None \<Rightarrow> None
         | Some fs2 \<Rightarrow> rx_parse n fs2 (if starts_with cs ''?'' then drop 1 cs else cs))
      else if c = CHR ''{'' \<and> takeWhile is_digit cs \<noteq> [] \<and> starts_with (dropWhile is_digit cs) ''}'' then
        (case rx_quant (rx_repeat (nat_of_digits (takeWhile is_digit cs))) fs of None \<Rightarrow> None
         | Some fs2 \<Rightarrow> rx_parse n fs2 (drop 1 (dropWhile is_digit cs)))
      else rx_parse n (rx_push (rx_char c) fs) cs)"
  by pat_completeness auto
termination
proof (relation "measure (\<lambda>(n, fs, s). length s)", goal_cases)
  case 1
  show ?case by simp
qed (auto simp: less_Suc_eq_le le_diff_conv intro: le_SucI order_trans [OF length_dropWhile_le])

definition re_compile :: "string \<Rightarrow> rx option" where
  "re_compile p = rx_parse 1 [(GTop, [], [])] p"

subsection \<open>The operations of a compiled pattern\<close>

definition re_search :: "re_flags \<Rightarrow> rx \<Rightarrow> string \<Rightarrow> re_match option" where
  "re_search f r s = rx_search_from f r [] s"

definition re_match_at :: "re_flags \<Rightarrow> rx \<Rightarrow> string \<Rightarrow> re_match option" where
  "re_match_at f r s = rx_here f r [] s"

definition re_search_b :: "re_flags \<Rightarrow> rx \<Rightarrow> string \<Rightarrow> bool" where
  "re_search_b f r s = (re_search f r s \<noteq> None)"

definition re_match_b :: "re_flags \<Rightarrow> rx \<Rightarrow> string \<Rightarrow> bool" where
  "re_match_b f r s = (re_match_at f r s \<noteq> None)"

text \<open>A module-level \<open>re.compile(p).search(s)\<close>: no match when the pattern is refused.\<close>

definition pat_search :: "re_flags \<Rightarrow> string \<Rightarrow> string \<Rightarrow> re_match option" where
  "pat_search f p s = (case re_compile p of None \<Rightarrow> None | Some r \<Rightarrow> re_search f r s)"

definition pat_match :: "re_flags \<Rightarrow> string \<Rightarrow> string \<Rightarrow> re_match option" where
  "pat_match f p s = (case re_compile p of None \<Rightarrow> None | Some r \<Rightarrow> re_match_at f r s)"

definition m_group :: "re_match \<Rightarrow> string \<Rightarrow> string option" where
  "m_group m n = dget (m_groups m) n"

section \<open>File-name patterns\<close>

definition glob_class :: "string \<Rightarrow> (bool \<times> string \<times> string) option" where
  "glob_class ps =
     (let neg = starts_with ps ''!''; qs = (if neg then drop 1 ps else ps);
          (pre, rest) = (if starts_with qs '']'' then ('']'', drop 1 qs) else ([], qs));
          body = takeWhile (\<lambda>c. c \<noteq> CHR '']'') rest; after = dropWhile (\<lambda>c. c \<noteq> CHR '']'') rest
      in if after = [] then None else Some (neg, pre @ body, tl after))"

fun glob_body_has :: "string \<Rightarrow> char \<Rightarrow> bool" where
  "glob_body_has (a # b # d # ps) c =
     (if b = CHR ''-'' then (char_code a \<le> char_code c \<and> char_code c \<le> char_code d) \<or> glob_body_has ps c
      else a = c \<or> glob_body_has (b # d # ps) c)"
| "glob_body_has ps c = (c \<in> set ps)"

lemma glob_class_length:
  "glob_class ps = Some (neg, body, rest) \<Longrightarrow> length rest \<le> length ps"
proof -
  have tl_le: "length (tl (dropWhile P xs)) \<le> length xs" for P and xs :: string
    using length_dropWhile_le [of P xs] by simp
  assume "glob_class ps = Some (neg, body, rest)"
  then obtain qs :: string where "rest = tl (dropWhile (\<lambda>c. c \<noteq> CHR '']'') qs)" "length qs \<le> length ps"
    by (auto simp: glob_class_def Let_def split: if_splits)
  then show ?thesis using tl_le [of "\<lambda>c. c \<noteq> CHR '']''" qs] by simp
qed

text \<open>\<open>fnmatch.fnmatchcase(s, p)\<close>\<close>

function glob :: "string \<Rightarrow> string \<Rightarrow> bool" where
  "glob [] s = (s = [])"
| "glob (p # ps) s =
     (if p = CHR ''*'' then glob ps s \<or> (case s of [] \<Rightarrow> False | _ # t \<Rightarrow> glob (p # ps) t)
      else (case s of
          [] \<Rightarrow> False
        | c # t \<Rightarrow>
            if p = CHR ''?'' then glob ps t
            else if p = CHR ''['' then
              (case glob_class ps of
                 None \<Rightarrow> c = p \<and> glob ps t
               | Some (neg, body, rest) \<Rightarrow> (glob_body_has body c \<noteq> neg) \<and> glob rest t)
            else c = p \<and> glob ps t))"
  by pat_completeness auto
termination
  by (relation "measure (\<lambda>(p, s). length p + length s)") (auto dest: glob_class_length)

declare glob.simps [simp del]

definition fnmatch_filter :: "string list \<Rightarrow> string \<Rightarrow> string list" where
  "fnmatch_filter names pat = filter (glob pat) names"

lemma glob_literal:
  assumes "CHR ''*'' \<notin> set p" "CHR ''?'' \<notin> set p" "CHR ''['' \<notin> set p"
  shows "glob p s \<longleftrightarrow> s = p"
  using assms
proof (induction p arbitrary: s)
  case (Cons c p)
  then show ?case by (cases s) (auto simp: glob.simps)
qed (simp add: glob.simps)

lemma glob_star: "glob ''*'' s"
  by (induction s) (auto simp: glob.simps)

section \<open>str.format\<close>

text \<open>
  \<open>template.format(obj)\<close> where the replacement fields name attributes of the one argument:
  \<open>{0.name}\<close> is replaced, a doubled brace is a brace, an unbalanced brace is a \<open>ValueError\<close>, another
  positional index is an \<open>IndexError\<close>, a keyword is a \<open>KeyError\<close>. Fields with a format
  specification or a conversion do not occur in the repository's templates.
\<close>

definition format_field :: "(string \<Rightarrow> string option) \<Rightarrow> string \<Rightarrow> string res" where
  "format_field attr fld =
     (if starts_with fld ''0.'' then
        (case attr (drop 2 fld) of None \<Rightarrow> Inl AttributeError | Some v \<Rightarrow> Inr v)
      else if fld \<noteq> [] \<and> list_all is_digit fld \<and> fld \<noteq> ''0'' then Inl IndexError
      else if list_ex (\<lambda>c. c = CHR '':'' \<or> c = CHR ''!'') fld then Inl (UnknownException ''format'')
      else if fld = [] \<or> fld = ''0'' then
        (case attr [] of None \<Rightarrow> Inl AttributeError | Some v \<Rightarrow> Inr v)
      else Inl KeyError)"

function py_format :: "(string \<Rightarrow> string option) \<Rightarrow> string \<Rightarrow> string res" where
  "py_format attr [] = Inr []"
| "py_format attr (c # cs) =
     (if c = CHR ''{'' then
        (if starts_with cs ''{'' then rbind (py_format attr (drop 1 cs)) (\<lambda>r. Inr (c # r))
         else (let fld = takeWhile (\<lambda>d. d \<noteq> CHR ''}'') cs; after = drop (length fld) cs
               in if after = [] \<or> CHR ''{'' \<in> set fld then Inl ValueError
                  else rbind (format_field attr fld) (\<lambda>v.
                       rbind (py_format attr (drop 1 after)) (\<lambda>r. Inr (v @ r)))))
      else if c = CHR ''}'' then
        (if starts_with cs ''}'' then rbind (py_format attr (drop 1 cs)) (\<lambda>r. Inr (c # r))
         else Inl ValueError)
      else rbind (py_format attr cs) (\<lambda>r. Inr (c # r)))"
  by pat_completeness auto
termination
  by (relation "measure (\<lambda>(attr, s). length s)") auto

declare py_format.simps [simp del]

definition no_braces :: "string \<Rightarrow> bool" where
  "no_braces s = (CHR ''{'' \<notin> set s \<and> CHR ''}'' \<notin> set s)"

lemma py_format_Nil [simp]: "py_format attr [] = Inr []"
  by (simp add: py_format.simps)

text \<open>Text without braces is copied, and a well-formed field is replaced.\<close>

lemma py_format_plain:
  "no_braces s \<Longrightarrow> py_format attr (s @ t) = rbind (py_format attr t) (\<lambda>r. Inr (s @ r))"
proof (induction s)
  case Nil
  then show ?case by (cases "py_format attr t") simp_all
next
  case (Cons c s)
  then have "py_format attr (s @ t) = rbind (py_format attr t) (\<lambda>r. Inr (s @ r))"
    by (simp add: no_braces_def)
  with Cons.prems show ?case
    by (cases "py_format attr t") (auto simp: no_braces_def py_format.simps(2))
qed

lemma py_format_plain0: "no_braces s \<Longrightarrow> py_format attr s = Inr s"
  using py_format_plain [of s attr "[]"] by simp

lemma py_format_field:
  assumes "no_braces n" "attr n = Some v"
  shows "py_format attr (''{0.'' @ n @ ''}'' @ t) = rbind (py_format attr t) (\<lambda>r. Inr (v @ r))"
proof -
  have tw: "takeWhile (\<lambda>d. d \<noteq> CHR ''}'') (''0.'' @ n @ ''}'' @ t) = ''0.'' @ n"
    using assms(1) by (subst append_assoc [symmetric], subst takeWhile_append2) (auto simp: no_braces_def)
  have eq: "''{0.'' @ n @ ''}'' @ t = CHR ''{'' # (''0.'' @ n @ ''}'' @ t)" by simp
  have "format_field attr (''0.'' @ n) = Inr v"
    using assms(2) by (simp add: format_field_def starts_with_def)
  then show ?thesis
    using assms(1) unfolding eq
    by (subst py_format.simps(2)) (simp only: tw, auto simp: starts_with_def no_braces_def Let_def)
qed

section \<open>Lemmas on matching\<close>

text \<open>A search succeeds when the pattern matches at some position of the subject.\<close>

lemma rx_search_from_iff:
  "(rx_search_from f r bef s \<noteq> None) \<longleftrightarrow>
     (\<exists>a b. s = a @ b \<and> rx_run f r (rev a @ bef, b, []) \<noteq> [])"
proof (induction s arbitrary: bef)
  case Nil
  then show ?case by (auto simp: rx_here_def split: list.splits)
next
  case (Cons c s)
  have here: "(rx_here f r bef (c # s) \<noteq> None) \<longleftrightarrow> rx_run f r (bef, c # s, []) \<noteq> []"
    by (auto simp: rx_here_def split: list.splits)
  have "(\<exists>a b. c # s = a @ b \<and> rx_run f r (rev a @ bef, b, []) \<noteq> []) \<longleftrightarrow>
        rx_run f r (bef, c # s, []) \<noteq> [] \<or>
        (\<exists>a b. s = a @ b \<and> rx_run f r (rev a @ c # bef, b, []) \<noteq> [])"
    (is "?L \<longleftrightarrow> ?A \<or> ?B")
  proof
    assume ?L
    then show "?A \<or> ?B" by (fastforce simp: Cons_eq_append_conv)
  next
    assume "?A \<or> ?B"
    then show ?L
    proof
      assume ?A
      then show ?L by (intro exI [of _ "[]"] exI [of _ "c # s"]) simp
    next
      assume ?B
      then obtain a b where "s = a @ b" "rx_run f r (rev a @ c # bef, b, []) \<noteq> []" by blast
      then show ?L by (intro exI [of _ "c # a"] exI [of _ b]) simp
    qed
  qed
  then show ?case
    using Cons.IH [of "c # bef"] here by (auto split: option.splits)
qed

lemma re_search_b_iff:
  "re_search_b f r s \<longleftrightarrow> (\<exists>a b. s = a @ b \<and> rx_run f r (rev a, b, []) \<noteq> [])"
  using rx_search_from_iff [of f r "[]" s] by (simp add: re_search_b_def re_search_def)

text \<open>What matches at the beginning is found by a search.\<close>

lemma re_match_b_search_b: "re_match_b f r s \<Longrightarrow> re_search_b f r s"
  by (subst re_search_b_iff, rule exI [of _ "[]"], rule exI [of _ s])
     (auto simp: re_match_b_def re_match_at_def rx_here_def split: list.splits)

subsection \<open>Comparing patterns\<close>

text \<open>
  A sequence as the list of its items. A pattern whose items begin with the items of another matches
  only where the other does.
\<close>

fun rx_flat :: "rx \<Rightarrow> rx list" where
  "rx_flat (RSeq a b) = a # rx_flat b"
| "rx_flat r = [r]"

lemma rx_run_eps: "concat (map (rx_run f REps) sts) = sts"
  by (induction sts) simp_all

lemma rx_run_flat: "rx_run f (foldr RSeq (rx_flat r) REps) st = rx_run f r st"
proof (induction r arbitrary: st rule: rx_flat.induct)
  case (1 a b)
  then show ?case by (simp cong: map_cong)
qed (simp_all add: rx_run_eps del: rx_run.simps(1))

lemma rx_run_foldr_append:
  "rx_run f (foldr RSeq (xs @ ys) REps) st \<noteq> [] \<Longrightarrow> rx_run f (foldr RSeq xs REps) st \<noteq> []"
  by (induction xs arbitrary: st) auto

lemma rx_run_prefix:
  assumes "prefix (rx_flat r1) (rx_flat r2)" "rx_run f r2 st \<noteq> []"
  shows "rx_run f r1 st \<noteq> []"
proof -
  from assms(1) obtain ys where "rx_flat r2 = rx_flat r1 @ ys" by (auto simp: prefix_def)
  with assms(2) rx_run_foldr_append [of f "rx_flat r1" ys st] show ?thesis
    by (metis rx_run_flat)
qed

lemma re_search_b_prefix:
  assumes "prefix (rx_flat r1) (rx_flat r2)" "re_search_b f r2 s"
  shows "re_search_b f r1 s"
  using assms(2) rx_run_prefix [OF assms(1)] unfolding re_search_b_iff by blast

lemma re_match_b_first:
  assumes "rx_flat r = RSet False cs # rs" "\<not> set_has f False cs c"
  shows "\<not> re_match_b f r (c # s)"
proof -
  have "prefix (rx_flat (RSet False cs)) (rx_flat r)" using assms(1) by simp
  from rx_run_prefix [OF this, of f "([], c # s, [])"] assms(2) show ?thesis
    by (auto simp: re_match_b_def re_match_at_def rx_here_def split: list.splits)
qed

subsection \<open>Patterns that look for a text\<close>

abbreviation lit_rx :: "char \<Rightarrow> rx" where "lit_rx c \<equiv> RSet False [CRange c c]"

lemma cclass_has_lit [simp]: "cclass_has (CRange c c) d = (d = c)"
proof -
  have "cclass_has (CRange c c) d \<longleftrightarrow> char_code d = char_code c" by auto
  then show ?thesis by (simp add: char_code_def)
qed

lemma rx_run_literal:
  "\<not> ignorecase f \<Longrightarrow> rx_run f (foldr RSeq (map lit_rx p) REps) (bef, s, g) =
     (if starts_with s p then [(rev p @ bef, drop (length p) s, g)] else [])"
proof (induction p arbitrary: bef s)
  case (Cons c p)
  then show ?case by (cases s) (auto simp: starts_with_def set_has_def simp del: cclass_has.simps)
qed (simp add: starts_with_def)

lemma contains_starts_iff: "contains s p \<longleftrightarrow> (\<exists>a b. s = a @ b \<and> starts_with b p)"
  by (auto simp: contains_iff starts_with_iff)

text \<open>A literal pattern is found exactly where the text is contained.\<close>

lemma search_literal:
  assumes "rx_flat r = map lit_rx p" "\<not> ignorecase f"
  shows "re_search_b f r s \<longleftrightarrow> contains s p"
proof -
  have "rx_run f r st = rx_run f (foldr RSeq (map lit_rx p) REps) st" for st
    using rx_run_flat [of f r st] assms(1) by simp
  then show ?thesis
    unfolding re_search_b_iff contains_starts_iff by (auto simp: rx_run_literal [OF assms(2)] split: if_splits)
qed

lemma star_any_suffixes:
  assumes "dotall f"
  shows "x \<in> set (rx_run f (RStar True RAny) (bef, s, g)) \<longleftrightarrow> (\<exists>a b. s = a @ b \<and> x = (rev a @ bef, b, g))"
proof (induction s arbitrary: bef)
  case (Cons c s)
  have "(\<exists>a b. c # s = a @ b \<and> x = (rev a @ bef, b, g)) \<longleftrightarrow>
        x = (bef, c # s, g) \<or> (\<exists>a b. s = a @ b \<and> x = (rev a @ c # bef, b, g))"
    (is "?L \<longleftrightarrow> ?A \<or> ?B")
  proof
    assume ?L
    then show "?A \<or> ?B" by (fastforce simp: Cons_eq_append_conv)
  next
    assume "?A \<or> ?B"
    then show ?L
    proof
      assume ?A
      then show ?L by (intro exI [of _ "[]"] exI [of _ "c # s"]) simp
    next
      assume ?B
      then obtain a b where "s = a @ b" "x = (rev a @ c # bef, b, g)" by blast
      then show ?L by (intro exI [of _ "c # a"] exI [of _ b]) simp
    qed
  qed
  moreover have "set (rx_run f (RStar True RAny) (bef, c # s, g)) =
      insert (bef, c # s, g) (set (rx_run f (RStar True RAny) (c # bef, s, g)))"
    using assms by (subst rx_run.simps(8)) (simp del: rx_run.simps(8))
  ultimately show ?case using Cons [of "c # bef"] by (simp del: rx_run.simps(8))
qed (subst rx_run.simps(8), simp del: rx_run.simps(8))

text \<open>\<open>re.match(".*text")\<close> with \<open>DOTALL\<close> asks whether the text is contained.\<close>

lemma match_star_literal:
  assumes "rx_flat r = RStar True RAny # map lit_rx p" "\<not> ignorecase f" "dotall f"
  shows "re_match_b f r s \<longleftrightarrow> contains s p"
proof -
  note rx_run.simps(8) [simp del]
  let ?lit = "rx_run f (foldr RSeq (map lit_rx p) REps)"
  let ?sts = "rx_run f (RStar True RAny) ([], s, [])"
  have "rx_run f r ([], s, []) = concat (map ?lit ?sts)"
    using rx_run_flat [of f r "([], s, [])"] assms(1) by simp
  then have "rx_run f r ([], s, []) \<noteq> [] \<longleftrightarrow> (\<exists>x\<in>set ?sts. ?lit x \<noteq> [])" by simp
  also have "\<dots> \<longleftrightarrow> (\<exists>a b. s = a @ b \<and> ?lit (rev a, b, []) \<noteq> [])"
    unfolding Bex_def star_any_suffixes [OF assms(3)] append_Nil2 by blast
  also have "\<dots> \<longleftrightarrow> contains s p"
    unfolding contains_starts_iff by (auto simp: rx_run_literal [OF assms(2)] split: if_splits)
  finally show ?thesis
    by (auto simp: re_match_b_def re_match_at_def rx_here_def split: list.splits)
qed

end
