(* ===== verification/Events_Base.thy ===== *)
theory Events_Base
  imports Pystd
begin

text \<open>
  \<open>sdcm/sct_events/__init__.py\<close> and \<open>sdcm/sct_events/base.py\<close>: severities, the registry of event
  types with its configured maximal severities and limit rules, the event object and its life
  cycle (creation, subcontext, publication), the messages it is printed as, and log events.
\<close>

section \<open>Severity\<close>

datatype severity = DEBUG | UNKNOWN | NORMAL | WARNING | ERROR | CRITICAL

fun sev_value :: "severity \<Rightarrow> int" where
  "sev_value DEBUG = -1"
| "sev_value UNKNOWN = 0"
| "sev_value NORMAL = 1"
| "sev_value WARNING = 2"
| "sev_value ERROR = 3"
| "sev_value CRITICAL = 4"

fun sev_name :: "severity \<Rightarrow> string" where
  "sev_name DEBUG = ''DEBUG''"
| "sev_name UNKNOWN = ''UNKNOWN''"
| "sev_name NORMAL = ''NORMAL''"
| "sev_name WARNING = ''WARNING''"
| "sev_name ERROR = ''ERROR''"
| "sev_name CRITICAL = ''CRITICAL''"

definition all_severities :: "severity list" where
  "all_severities = [DEBUG, UNKNOWN, NORMAL, WARNING, ERROR, CRITICAL]"

text \<open>\<open>Severity[name]\<close>\<close>

definition sev_of_name :: "string \<Rightarrow> severity res" where
  "sev_of_name n = dindex (map (\<lambda>s. (sev_name s, s)) all_severities) n"

text \<open>Severities are ordered by their values, as the code compares them.\<close>

instantiation severity :: linorder
begin

definition less_eq_severity :: "severity \<Rightarrow> severity \<Rightarrow> bool" where
  "a \<le> b \<longleftrightarrow> sev_value a \<le> sev_value b"

definition less_severity :: "severity \<Rightarrow> severity \<Rightarrow> bool" where
  "a < b \<longleftrightarrow> sev_value a < sev_value b"

instance
proof
  fix x y z :: severity
  show "x < y \<longleftrightarrow> x \<le> y \<and> \<not> y \<le> x"
    by (auto simp: less_severity_def less_eq_severity_def)
  show "x \<le> x" by (simp add: less_eq_severity_def)
  show "x \<le> y \<Longrightarrow> y \<le> z \<Longrightarrow> x \<le> z" by (simp add: less_eq_severity_def)
  show "x \<le> y \<Longrightarrow> y \<le> x \<Longrightarrow> x = y" by (cases x; cases y) (simp_all add: less_eq_severity_def)
  show "x \<le> y \<or> y \<le> x" by (auto simp: less_eq_severity_def)
qed

end

lemma set_all_severities [simp]: "s \<in> set all_severities"
  by (cases s) (simp_all add: all_severities_def)

lemma sev_of_name_sev_name [simp]: "sev_of_name (sev_name s) = Inr s"
  by (cases s) (simp_all add: sev_of_name_def all_severities_def dindex_def)

lemma sev_name_inject [simp]: "sev_name a = sev_name b \<longleftrightarrow> a = b"
  by (cases a; cases b) simp_all

section \<open>The registry of event types\<close>

text \<open>
  What the registry keeps of a class: its name (\<open>Base\<close>, \<open>Base.TYPE\<close> or \<open>Base.TYPE.subtype\<close>), the
  class attributes that \<open>__init_subclass__\<close> and \<open>add_subevent_type\<close> set, its method resolution
  order (by names, itself first) and the names of the attributes its body defines.
\<close>

record event_class =
  c_name :: string
  c_base :: string
  c_abstract :: bool
  c_type :: "string option"
  c_subtype :: "string option"
  c_mro :: "string list"
  c_attrs :: "string list"

record types_registry =
  reg_types :: "(string, event_class) dict"
  max_severities :: "(string, severity) dict"
  limit_rules :: "(string \<times> severity) list"

definition DOT :: char where "DOT = CHR ''.''"

text \<open>The attributes of the class \<open>SctEvent\<close> itself.\<close>

definition sct_event_attrs :: "string list" where
  "sct_event_attrs = [''_sct_event_types_registry'', ''_events_processes_registry'', ''_abstract'',
     ''base'', ''type'', ''subtype'', ''subcontext'', ''period_type'', ''formatter'',
     ''event_timestamp'', ''source_timestamp'', ''severity'', ''_ready_to_publish'',
     ''publish_to_grafana'', ''save_to_files'', ''__init_subclass__'', ''__new__'', ''__init__'',
     ''is_abstract'', ''add_subevent_type'', ''_formatted_timestamp'',
     ''formatted_event_timestamp'', ''formatted_source_timestamp'', ''timestamp'',
     ''subcontext_fmt'', ''concatenate_subcontext_for_message'', ''msgfmt'', ''add_subcontext'',
     ''publish'', ''publish_or_dump'', ''dont_publish'', ''ready_to_publish'',
     ''subcontext_fields'', ''to_json'', ''attribute_with_value_for_json'', ''__getstate__'',
     ''__str__'', ''__eq__'', ''__del__'']"

definition sct_event_class :: event_class where
  "sct_event_class = \<lparr>c_name = ''SctEvent'', c_base = ''SctEvent'', c_abstract = True,
     c_type = None, c_subtype = None, c_mro = [''SctEvent''], c_attrs = sct_event_attrs\<rparr>"

text \<open>\<open>__setitem__\<close>: a class that can be instantiated needs a configured maximal severity.\<close>

definition registry_setitem :: "types_registry \<Rightarrow> string \<Rightarrow> event_class \<Rightarrow> types_registry res" where
  "registry_setitem reg key c =
     (if \<not> c_abstract c \<and> \<not> dmem (max_severities reg) key then Inl ValueError
      else Inr (reg\<lparr>reg_types := dset key c (reg_types reg)\<rparr>))"

text \<open>
  \<open>__init__\<close> with the configured severities (the names looked up by \<open>Severity[...]\<close>), and
  \<open>__set_name__\<close>, which puts \<open>SctEvent\<close> itself in.
\<close>

fun read_severities :: "(string \<times> string) list \<Rightarrow> (string, severity) dict res" where
  "read_severities [] = Inr []"
| "read_severities ((t, n) # conf) =
     rbind (sev_of_name n) (\<lambda>s. rbind (read_severities conf) (\<lambda>d. Inr ((t, s) # d)))"

definition new_registry :: "(string \<times> string) list \<Rightarrow> types_registry res" where
  "new_registry conf = rbind (read_severities conf) (\<lambda>d.
     registry_setitem \<lparr>reg_types = [], max_severities = d, limit_rules = []\<rparr> ''SctEvent'' sct_event_class)"

definition init_subclass :: "types_registry \<Rightarrow> event_class \<Rightarrow> bool \<Rightarrow> types_registry res" where
  "init_subclass reg c abstract =
     (if dmem (reg_types reg) (c_name c) then Inl TypeError
      else registry_setitem reg (c_name c)
             (c\<lparr>c_base := hd (py_split1 DOT (c_name c)), c_abstract := abstract\<rparr>))"

text \<open>\<open>str.isidentifier\<close> on ASCII text, and \<open>keyword.iskeyword\<close>.\<close>

definition is_identifier :: "string \<Rightarrow> bool" where
  "is_identifier s = (s \<noteq> [] \<and> list_all is_word s \<and> \<not> is_digit (hd s))"

definition is_keyword :: "string \<Rightarrow> bool" where
  "is_keyword s = (s \<in> set [''False'', ''None'', ''True'', ''and'', ''as'', ''assert'', ''async'',
     ''await'', ''break'', ''class'', ''continue'', ''def'', ''del'', ''elif'', ''else'', ''except'',
     ''finally'', ''for'', ''from'', ''global'', ''if'', ''import'', ''in'', ''is'', ''lambda'',
     ''nonlocal'', ''not'', ''or'', ''pass'', ''raise'', ''return'', ''try'', ''while'', ''with'',
     ''yield''])"

text \<open>\<open>hasattr(cls, name)\<close>: some class of the resolution order defines the name.\<close>

definition class_hasattr :: "types_registry \<Rightarrow> event_class \<Rightarrow> string \<Rightarrow> bool" where
  "class_hasattr reg c name =
     (name \<in> set (c_attrs c) \<or> list_ex (\<lambda>k. case dget (reg_types reg) k of
        None \<Rightarrow> False | Some d \<Rightarrow> name \<in> set (c_attrs d)) (c_mro c))"

text \<open>
  A \<open>class Name(Parent, abstract=...)\<close> statement: the body defines \<open>attrs\<close>; type and subtype are
  inherited.
\<close>

definition class_statement ::
    "types_registry \<Rightarrow> string \<Rightarrow> event_class \<Rightarrow> string list \<Rightarrow> bool \<Rightarrow> types_registry res" where
  "class_statement reg name parent attrs abstract =
     (if \<not> is_identifier name then Inl ValueError
      else init_subclass reg \<lparr>c_name = name, c_base = c_base parent, c_abstract = abstract,
             c_type = c_type parent, c_subtype = c_subtype parent,
             c_mro = name # c_mro parent, c_attrs = attrs\<rparr> abstract)"

text \<open>
  \<open>add_subevent_type\<close> on the class registered as \<open>cls\<close>; \<open>mixin\<close> is the resolution order a mixin
  class puts first.
\<close>

definition add_subevent_type ::
    "types_registry \<Rightarrow> string \<Rightarrow> string \<Rightarrow> bool \<Rightarrow> string list \<Rightarrow> types_registry res" where
  "add_subevent_type reg cls name abstract mixin =
     rbind (dindex (reg_types reg) cls) (\<lambda>c.
       if \<not> length (py_split DOT (c_name c)) < 3 then Inl AssertionError
       else if \<not> (is_identifier name \<and> \<not> is_keyword name) then Inl AssertionError
       else if class_hasattr reg c name then Inl AssertionError
       else (let n = c_name c @ [DOT] @ name;
                 new = \<lparr>c_name = n, c_base = c_base c, c_abstract = abstract,
                   c_type = (if c_type c = None then Some name else c_type c),
                   c_subtype = (if c_type c = None then c_subtype c else Some name),
                   c_mro = n # mixin @ c_mro c, c_attrs = [''__init__'']\<rparr>
             in rbind (init_subclass reg new abstract) (\<lambda>reg1.
                  Inr (reg1\<lparr>reg_types := dset cls (c\<lparr>c_attrs := name # c_attrs c\<rparr>) (reg_types reg1)\<rparr>))))"

section \<open>Limit rules\<close>

text \<open>One rule \<open>pattern=SEVERITY\<close>; a rule that cannot be read is logged and left out.\<close>

definition parse_limit_rule :: "string \<Rightarrow> (string \<times> severity) res" where
  "parse_limit_rule rule = (case py_split1 (CHR ''='') rule of
     [p, s] \<Rightarrow> rbind (sev_of_name (py_strip s)) (\<lambda>sev. Inr (py_strip p, sev))
   | _ \<Rightarrow> Inl ValueError)"

fun add_severity_limit_rules :: "types_registry \<Rightarrow> string list \<Rightarrow> types_registry" where
  "add_severity_limit_rules reg [] = reg"
| "add_severity_limit_rules reg (rule # rules) =
     (if rule = [] then add_severity_limit_rules reg rules
      else (case parse_limit_rule rule of
          Inl _ \<Rightarrow> add_severity_limit_rules reg rules
        | Inr r \<Rightarrow> add_severity_limit_rules (reg\<lparr>limit_rules := r # limit_rules reg\<rparr>) rules))"

fun first_rule :: "(string \<times> severity) list \<Rightarrow> string list \<Rightarrow> severity option" where
  "first_rule [] keys = None"
| "first_rule ((pattern, sev) # rules) keys =
     (if fnmatch_filter keys pattern \<noteq> [] then Some sev else first_rule rules keys)"

definition max_severity_of :: "types_registry \<Rightarrow> string list \<Rightarrow> string \<Rightarrow> severity res" where
  "max_severity_of reg keys name = (case first_rule (limit_rules reg) keys of
     Some sev \<Rightarrow> Inr sev | None \<Rightarrow> dindex (max_severities reg) name)"

definition print_critical_events :: "types_registry \<Rightarrow> string list" where
  "print_critical_events reg =
     filter (\<lambda>n. max_severity_of reg [n] n = Inr CRITICAL) (map fst (max_severities reg))"

section \<open>Events\<close>

datatype event_period = BEGIN | END | INFORMATIONAL | NOT_DEFINED

fun period_value :: "event_period \<Rightarrow> string" where
  "period_value BEGIN = ''begin''"
| "period_value END = ''end''"
| "period_value INFORMATIONAL = ''one-time''"
| "period_value NOT_DEFINED = ''not-set''"

datatype log_level = L_DEBUG | L_INFO | L_WARNING | L_ERROR | L_CRITICAL

fun LOG_LEVEL_MAPPING :: "severity \<Rightarrow> log_level" where
  "LOG_LEVEL_MAPPING WARNING = L_DEBUG"
| "LOG_LEVEL_MAPPING CRITICAL = L_CRITICAL"
| "LOG_LEVEL_MAPPING ERROR = L_ERROR"
| "LOG_LEVEL_MAPPING DEBUG = L_DEBUG"
| "LOG_LEVEL_MAPPING NORMAL = L_INFO"
| "LOG_LEVEL_MAPPING UNKNOWN = L_WARNING"

text \<open>
  A running disruption as an event's subcontext keeps it: the fields of
  \<open>DisruptionEvent.subcontext_fields\<close>. Two references are equal when they are the same event; its
  \<open>event_id\<close> is a fresh UUID.
\<close>

record nemesis_ref =
  n_event_id :: string
  n_name :: string
  n_node :: string

text \<open>The attributes a \<open>LogEvent\<close> adds.\<close>

record log_info =
  l_regex :: "string option"
  l_node :: "string option"
  l_line :: "string option"
  l_line_number :: "int option"
  l_backtrace :: "string option"
  l_raw_backtrace :: "string option"
  l_known_issue :: "string option"

text \<open>The attributes a \<open>ContinuousEvent\<close> adds.\<close>

record cont_info =
  k_errors :: "string list"
  k_publish_event :: bool
  k_begin_timestamp :: "time option"
  k_end_timestamp :: "time option"
  k_is_skipped :: bool
  k_skip_reason :: string
  k_duration :: "int option"
  k_hash :: "string list"    \<comment> \<open>\<open>continuous_hash_tuple\<close>: the class name and the hash fields\<close>

text \<open>
  An event object. The class attributes of its type come first; \<open>attrs\<close> holds the attributes that
  subclasses of the three kinds define, \<open>None\<close> standing for Python's \<open>None\<close>.
\<close>

record event =
  cls_name :: string
  base :: string
  etype :: "string option"
  esubtype :: "string option"
  is_system :: bool
  publish_to_grafana :: bool
  save_to_files :: bool
  severity :: severity
  event_timestamp :: "time option"
  source_timestamp :: "time option"
  event_id :: string
  period_type :: event_period
  log_level :: log_level
  ready_to_publish :: bool
  subcontext :: "nemesis_ref list option"
  log :: "log_info option"
  cont :: "cont_info option"
  attrs :: "(string, string option) dict"

text \<open>
  \<open>__new__\<close> and \<open>SctEvent.__init__\<close>: the class, the severity, a reading of the clock and the fresh
  UUID.
\<close>

definition new_event :: "event_class \<Rightarrow> severity \<Rightarrow> time \<Rightarrow> string \<Rightarrow> event res" where
  "new_event c sev now uid =
     (if c_abstract c then Inl TypeError
      else Inr \<lparr>cls_name = c_name c, base = c_base c, etype = c_type c, esubtype = c_subtype c,
        is_system = (''SystemEvent'' \<in> set (c_mro c)), publish_to_grafana = True,
        save_to_files = True, severity = sev, event_timestamp = Some now, source_timestamp = None,
        event_id = uid, period_type = NOT_DEFINED, log_level = LOG_LEVEL_MAPPING sev,
        ready_to_publish = True, subcontext = Some [], log = None, cont = None, attrs = []\<rparr>)"

definition py_str_opt :: "string option \<Rightarrow> string" where
  "py_str_opt x = (case x of None \<Rightarrow> ''None'' | Some s \<Rightarrow> s)"

definition severity_keys :: "event \<Rightarrow> string list" where
  "severity_keys e = [base e, base e @ [DOT] @ py_str_opt (etype e),
     base e @ [DOT] @ py_str_opt (etype e) @ [DOT] @ py_str_opt (esubtype e)]"

definition max_severity :: "types_registry \<Rightarrow> event \<Rightarrow> severity res" where
  "max_severity reg e = max_severity_of reg (severity_keys e) (cls_name e)"

text \<open>The property \<open>timestamp\<close>: the time of the source when there is one.\<close>

definition timestamp :: "event \<Rightarrow> time option" where
  "timestamp e = (if truthy_time (source_timestamp e) then source_timestamp e else event_timestamp e)"

subsection \<open>Subcontext\<close>

fun add_nemeses :: "nemesis_ref list \<Rightarrow> nemesis_ref list \<Rightarrow> nemesis_ref list" where
  "add_nemeses ctx [] = ctx"
| "add_nemeses ctx (n # ns) = add_nemeses (if n \<in> set ctx then ctx else ctx @ [n]) ns"

text \<open>\<open>running\<close> is what \<open>ContinuousEventsRegistry().find_running_disruption_events()\<close> returns.\<close>

definition add_subcontext :: "nemesis_ref list \<Rightarrow> event \<Rightarrow> event" where
  "add_subcontext running e =
     (if sev_value (severity e) < 3 then e
      else (let ctx = (case subcontext e of None \<Rightarrow> [] | Some c \<Rightarrow> c) in
            if base e = ''DisruptionEvent'' \<or> running = [] then e\<lparr>subcontext := Some ctx\<rparr>
            else (let ctx1 = (if length running = 1 then [] else ctx)
                  in e\<lparr>subcontext := Some (add_nemeses ctx1 running)\<rparr>)))"

definition concatenate_subcontext :: "event \<Rightarrow> string" where
  "concatenate_subcontext e =
     py_join '','' (map n_name (case subcontext e of None \<Rightarrow> [] | Some c \<Rightarrow> c))"

subsection \<open>Publication\<close>

text \<open>
  \<open>publish\<close> returns the event and what it hands to the main device (at most one event).
\<close>

definition publish :: "event \<Rightarrow> event \<times> event list" where
  "publish e = (if \<not> ready_to_publish e then (e, [])
                else (e\<lparr>ready_to_publish := False\<rparr>, [e]))"

text \<open>Where \<open>publish_or_dump\<close> can send an event.\<close>

datatype main_device = NoDevice | DeviceAlive | DeviceStopped

datatype destination = ToDevice event | ToFileLogger event | ToDefaultLogger event

definition publish_or_dump :: "main_device \<Rightarrow> bool \<Rightarrow> event \<Rightarrow> event \<times> destination list" where
  "publish_or_dump dev default_logger e =
     (if \<not> ready_to_publish e then (e, [])
      else (e\<lparr>ready_to_publish := False\<rparr>,
            case dev of
              DeviceAlive \<Rightarrow> map ToDevice (snd (publish e))
            | DeviceStopped \<Rightarrow> [ToFileLogger e]
            | NoDevice \<Rightarrow> if default_logger then [ToDefaultLogger e] else []))"

definition dont_publish :: "event \<Rightarrow> event" where "dont_publish e = e\<lparr>ready_to_publish := False\<rparr>"

definition mark_ready :: "event \<Rightarrow> event" where "mark_ready e = e\<lparr>ready_to_publish := True\<rparr>"

text \<open>
  \<open>__getstate__\<close> leaves out every attribute whose name starts with an underscore, so a pickled copy
  of an event falls back to the class's values of \<open>_ready_to_publish\<close> and \<open>_duration\<close>.
\<close>

definition unpickle :: "event \<Rightarrow> event" where
  "unpickle e = e\<lparr>ready_to_publish := False, cont := map_option (\<lambda>k. k\<lparr>k_duration := None\<rparr>) (cont e)\<rparr>"

definition informational_event :: "nemesis_ref list \<Rightarrow> event \<Rightarrow> event" where
  "informational_event running e = add_subcontext running (e\<lparr>period_type := INFORMATIONAL\<rparr>)"

section \<open>Log events\<close>

text \<open>
  \<open>LogEvent.__init__\<close> after \<open>InformationalEvent.__init__\<close>. Its check on the pattern counts how often
  the pattern occurs in the string \<open>.*\<close>.
\<close>

definition log_event_init :: "nemesis_ref list \<Rightarrow> string option \<Rightarrow> event \<Rightarrow> event res" where
  "log_event_init running regex e =
     (let bad = (case regex of None \<Rightarrow> False | Some r \<Rightarrow> r \<noteq> [] \<and> \<not> py_count ''.*'' r < 2) in
      if bad then Inl AssertionError
      else Inr ((informational_event running e)\<lparr>
        log := Some \<lparr>l_regex = regex, l_node = None, l_line = None, l_line_number = Some 0,
                     l_backtrace = None, l_raw_backtrace = None, l_known_issue = None\<rparr>,
        subcontext := Some [], ready_to_publish := False\<rparr>))"

text \<open>
  \<open>add_info\<close>: the words of the line that hold the time (a line without words is an
  \<open>IndexError\<close>, which is not caught), \<open>dateutil.parser.parse\<close> as the parameter \<open>parse_date\<close>
  (\<open>None\<close> for its \<open>ValueError\<close>).
\<close>

definition line_time :: "string \<Rightarrow> string res" where
  "line_time line = (case py_words line of
     [] \<Rightarrow> Inl IndexError
   | w # ws \<Rightarrow> Inr (if CHR ''T'' \<in> set w then w else py_join '' '' (take 2 (w # ws))))"

definition add_info ::
    "(string \<Rightarrow> time option) \<Rightarrow> nemesis_ref list \<Rightarrow> time \<Rightarrow> string \<Rightarrow> string \<Rightarrow> int \<Rightarrow> event \<Rightarrow> event res" where
  "add_info parse_date running now node line line_number e =
     rbind (line_time line) (\<lambda>t.
       let e1 = (case parse_date t of None \<Rightarrow> e | Some ts \<Rightarrow> e\<lparr>source_timestamp := Some ts\<rparr>);
           e2 = e1\<lparr>event_timestamp := Some now,
                   log := map_option (\<lambda>l. l\<lparr>l_node := Some node, l_line := Some line,
                                           l_line_number := Some line_number\<rparr>) (log e1)\<rparr>
       in Inr ((add_subcontext running e2)\<lparr>ready_to_publish := True\<rparr>))"

definition clone :: "event \<Rightarrow> event" where "clone e = unpickle e"

text \<open>\<open>isinstance(event, LogEventProtocol)\<close>\<close>

definition is_log_event :: "event \<Rightarrow> bool" where "is_log_event e = (log e \<noteq> None)"

section \<open>Invariant of the registry\<close>

definition class_ok :: "types_registry \<Rightarrow> string \<Rightarrow> event_class \<Rightarrow> bool" where
  "class_ok reg n c \<longleftrightarrow>
     c_name c = n \<and> c_base c = takeWhile (\<lambda>d. d \<noteq> DOT) n \<and> count_list n DOT \<le> 2 \<and>
     (\<not> c_abstract c \<longrightarrow> dmem (max_severities reg) n)"

definition registry_ok :: "types_registry \<Rightarrow> bool" where
  "registry_ok reg \<longleftrightarrow>
     (\<forall>n c. dget (reg_types reg) n = Some c \<longrightarrow> class_ok reg n c)"

lemma class_ok_frame: "max_severities r1 = max_severities r2 \<Longrightarrow> class_ok r1 n c = class_ok r2 n c"
  by (simp add: class_ok_def)

lemma registry_setitem_Inr:
  "registry_setitem reg key c = Inr reg1 \<longleftrightarrow>
     (c_abstract c \<or> dmem (max_severities reg) key) \<and>
     reg1 = reg\<lparr>reg_types := dset key c (reg_types reg)\<rparr>"
  by (auto simp: registry_setitem_def)

lemma registry_ok_dset:
  assumes "registry_ok reg" "class_ok reg n c"
  shows "registry_ok (reg\<lparr>reg_types := dset n c (reg_types reg)\<rparr>)"
  using assms by (auto simp: registry_ok_def dget_dset class_ok_def)

lemma init_subclass_ok [inv_intro]:
  assumes "registry_ok reg" "init_subclass reg c a = Inr reg1" "count_list (c_name c) DOT \<le> 2"
  shows "registry_ok reg1"
proof -
  let ?c = "c\<lparr>c_base := hd (py_split1 DOT (c_name c)), c_abstract := a\<rparr>"
  from assms(2) have eq: "reg1 = reg\<lparr>reg_types := dset (c_name c) ?c (reg_types reg)\<rparr>"
    and "a \<or> dmem (max_severities reg) (c_name c)"
    by (auto simp: init_subclass_def registry_setitem_Inr split: if_splits)
  then have "class_ok reg (c_name c) ?c"
    using assms(3) by (auto simp: class_ok_def hd_py_split1)
  with assms(1) show ?thesis unfolding eq by (rule registry_ok_dset)
qed

lemma identifier_no_dot: "is_identifier n \<Longrightarrow> DOT \<notin> set n"
  by (auto simp: is_identifier_def list_all_iff DOT_def is_word_def is_digit_def is_upper_def
      is_lower_def char_code_def)

lemma class_statement_ok [inv_intro]:
  assumes "registry_ok reg" "class_statement reg name parent ats a = Inr reg1"
  shows "registry_ok reg1"
proof -
  have "count_list name DOT = 0"
    using assms(2) identifier_no_dot by (auto simp: class_statement_def split: if_splits)
  with assms show ?thesis
    by (auto simp: class_statement_def split: if_splits intro: init_subclass_ok)
qed

lemma init_subclass_frame:
  "init_subclass reg c a = Inr reg1 \<Longrightarrow>
     max_severities reg1 = max_severities reg \<and> limit_rules reg1 = limit_rules reg"
  by (auto simp: init_subclass_def registry_setitem_Inr split: if_splits)

lemma add_subevent_type_ok [inv_intro]:
  assumes ok: "registry_ok reg" and add: "add_subevent_type reg cls name a m = Inr reg1"
  shows "registry_ok reg1"
proof -
  from add obtain c where c: "dget (reg_types reg) cls = Some c"
    by (cases "dget (reg_types reg) cls") (auto simp: add_subevent_type_def dindex_def)
  define new where "new = \<lparr>c_name = c_name c @ [DOT] @ name, c_base = c_base c, c_abstract = a,
    c_type = (if c_type c = None then Some name else c_type c),
    c_subtype = (if c_type c = None then c_subtype c else Some name),
    c_mro = (c_name c @ [DOT] @ name) # m @ c_mro c, c_attrs = [''__init__'']\<rparr>"
  from add c have depth: "count_list (c_name c) DOT < 2" and id: "is_identifier name"
    and "\<exists>reg2. init_subclass reg new a = Inr reg2 \<and>
       reg1 = reg2\<lparr>reg_types := dset cls (c\<lparr>c_attrs := name # c_attrs c\<rparr>) (reg_types reg2)\<rparr>"
    by (auto simp: add_subevent_type_def dindex_def rbind_Inr_iff Let_def new_def split: if_splits)
  then obtain reg2 where new: "c_name new = c_name c @ [DOT] @ name" "init_subclass reg new a = Inr reg2"
    and reg1: "reg1 = reg2\<lparr>reg_types := dset cls (c\<lparr>c_attrs := name # c_attrs c\<rparr>) (reg_types reg2)\<rparr>"
    by (auto simp: new_def)
  have "count_list (c_name new) DOT \<le> 2"
    using depth identifier_no_dot [OF id] new(1) by simp
  with ok new(2) have ok2: "registry_ok reg2" by (rule init_subclass_ok)
  have "class_ok reg cls c" using ok c by (auto simp: registry_ok_def)
  then have "class_ok reg2 cls (c\<lparr>c_attrs := name # c_attrs c\<rparr>)"
    using init_subclass_frame [OF new(2)] by (simp add: class_ok_def)
  with ok2 show ?thesis unfolding reg1 by (rule registry_ok_dset)
qed

lemma add_severity_limit_rules_frame [simp]:
  "reg_types (add_severity_limit_rules reg rules) = reg_types reg"
  "max_severities (add_severity_limit_rules reg rules) = max_severities reg"
  by (induction reg rules rule: add_severity_limit_rules.induct) (auto split: sum.splits)

lemma add_severity_limit_rules_ok [inv_intro]:
  "registry_ok reg \<Longrightarrow> registry_ok (add_severity_limit_rules reg rules)"
  by (simp add: registry_ok_def class_ok_def)

lemma new_registry_ok [inv_intro]: "new_registry conf = Inr reg \<Longrightarrow> registry_ok reg"
  by (auto simp: new_registry_def rbind_Inr_iff registry_setitem_Inr registry_ok_def class_ok_def
      sct_event_class_def DOT_def split: if_splits)

text \<open>
  The states of the registry: created from the configuration, extended by class statements, by
  sub-event types and by limit rules.
\<close>

inductive reachable_registry :: "types_registry \<Rightarrow> bool" where
  start: "new_registry conf = Inr reg \<Longrightarrow> reachable_registry reg"
| class_stmt: "reachable_registry reg \<Longrightarrow> class_statement reg name parent ats a = Inr reg1 \<Longrightarrow>
     reachable_registry reg1"
| subevent: "reachable_registry reg \<Longrightarrow> add_subevent_type reg cls name a m = Inr reg1 \<Longrightarrow>
     reachable_registry reg1"
| rules: "reachable_registry reg \<Longrightarrow> reachable_registry (add_severity_limit_rules reg rs)"

lemma reachable_registry_ok: "reachable_registry reg \<Longrightarrow> registry_ok reg"
  by (induction rule: reachable_registry.induct) (auto intro: inv_intro)

lemma max_severity_of_total:
  "dmem (max_severities reg) name \<Longrightarrow> \<exists>sev. max_severity_of reg keys name = Inr sev"
  by (auto simp: max_severity_of_def dindex_def dmem_def split: option.splits)

section \<open>Facts on limit rules\<close>

lemma parse_limit_rule_nonempty: "parse_limit_rule r = Inr x \<Longrightarrow> r \<noteq> []"
  by (auto simp: parse_limit_rule_def py_split1_def)

lemma add_severity_limit_rules_append:
  "add_severity_limit_rules reg (rs @ qs) = add_severity_limit_rules (add_severity_limit_rules reg rs) qs"
  by (induction reg rs rule: add_severity_limit_rules.induct) (auto split: sum.splits)

section \<open>Facts on publication\<close>

datatype pub_op = Publish | PublishOrDump main_device bool | DontPublish | MarkReady

fun pub_step :: "event \<Rightarrow> pub_op \<Rightarrow> event \<times> destination list" where
  "pub_step e Publish = (fst (publish e), map ToDevice (snd (publish e)))"
| "pub_step e (PublishOrDump d l) = publish_or_dump d l e"
| "pub_step e DontPublish = (dont_publish e, [])"
| "pub_step e MarkReady = (mark_ready e, [])"

definition is_mark :: "pub_op \<Rightarrow> bool" where "is_mark x = (x = MarkReady)"

lemma pub_step_bound:
  "length (snd (pub_step e x)) + of_bool (ready_to_publish (fst (pub_step e x)))
     \<le> of_bool (ready_to_publish e) + (of_bool (is_mark x) :: nat)"
  by (cases x) (auto simp: publish_def publish_or_dump_def dont_publish_def mark_ready_def is_mark_def
      split: main_device.splits)

lemma run_pub_bound:
  "length (snd (run_gen pub_step e xs)) \<le> of_bool (ready_to_publish e) + length (filter is_mark xs)"
proof (induction xs arbitrary: e)
  case (Cons x xs)
  have "length (snd (run_gen pub_step (fst (pub_step e x)) xs))
        \<le> of_bool (ready_to_publish (fst (pub_step e x))) + length (filter is_mark xs)"
    by (rule Cons.IH)
  with pub_step_bound [of e x] show ?case
    by (cases "is_mark x"; cases "ready_to_publish e") (simp_all add: case_prod_beta Let_def)
qed simp

section \<open>Facts on the check of a log event's pattern\<close>

lemma py_count_bound: "py_count s p * length p \<le> length s"
proof (induction s p rule: py_count.induct)
  case (1 s p)
  show ?case
  proof (cases "s = [] \<or> p = []")
    case True
    then show ?thesis by (subst py_count.simps) auto
  next
    case False
    show ?thesis
    proof (cases "starts_with s p")
      case True
      then obtain r where s: "s = p @ r" by (auto simp: starts_with_iff)
      from 1(1) False True s have "py_count r p * length p \<le> length r" by simp
      with False True s show ?thesis by (subst py_count.simps) simp
    next
      case no: False
      with 1(2) False have "py_count (tl s) p * length p \<le> length (tl s)" by simp
      with False no show ?thesis by (subst py_count.simps) simp
    qed
  qed
qed

lemma py_count_dot_star: "r \<noteq> [] \<Longrightarrow> py_count ''.*'' r < 2"
proof (cases "length r \<le> 1")
  case True
  assume "r \<noteq> []"
  with True obtain c where "r = [c]" by (cases r) auto
  then show ?thesis by (auto simp: py_count.simps starts_with_def)
next
  case False
  have "py_count ''.*'' r * length r \<le> 2" using py_count_bound [of "''.*''" r] by simp
  moreover have "py_count ''.*'' r * 2 \<le> py_count ''.*'' r * length r"
    using False by (intro mult_le_mono2) simp
  ultimately show ?thesis by linarith
qed

section \<open>Facts on subcontexts\<close>

lemma set_add_nemeses [simp]: "set (add_nemeses ctx ns) = set ctx \<union> set ns"
  by (induction ctx ns rule: add_nemeses.induct) auto

lemma distinct_add_nemeses: "distinct ctx \<Longrightarrow> distinct (add_nemeses ctx ns)"
  by (induction ctx ns rule: add_nemeses.induct) auto

lemma add_nemeses_idem: "set ns \<subseteq> set ctx \<Longrightarrow> add_nemeses ctx ns = ctx"
  by (induction ctx ns rule: add_nemeses.induct) auto

lemma add_subcontext_frame [simp]:
  "cls_name (add_subcontext r e) = cls_name e" "base (add_subcontext r e) = base e"
  "etype (add_subcontext r e) = etype e" "esubtype (add_subcontext r e) = esubtype e"
  "severity (add_subcontext r e) = severity e" "log (add_subcontext r e) = log e"
  "cont (add_subcontext r e) = cont e" "event_timestamp (add_subcontext r e) = event_timestamp e"
  "source_timestamp (add_subcontext r e) = source_timestamp e"
  "ready_to_publish (add_subcontext r e) = ready_to_publish e"
  "event_id (add_subcontext r e) = event_id e" "is_system (add_subcontext r e) = is_system e"
  "attrs (add_subcontext r e) = attrs e" "period_type (add_subcontext r e) = period_type e"
  "save_to_files (add_subcontext r e) = save_to_files e"
  "publish_to_grafana (add_subcontext r e) = publish_to_grafana e"
  "log_level (add_subcontext r e) = log_level e"
  by (simp_all add: add_subcontext_def Let_def)

section \<open>Properties\<close>

text \<open>
  C1. In every reachable state of the registry (created from the configuration, then extended by
  class statements, sub-event types and limit rules), an event created from a registered class has
  a maximal severity (looking it up never raises), its name has at most two dots, and its base is
  the part of the name before the first dot.
\<close>

theorem registered_event_has_max_severity:
  assumes "reachable_registry reg" "dget (reg_types reg) n = Some c" "new_event c sev now uid = Inr e"
  shows "(\<exists>m. max_severity reg e = Inr m) \<and> cls_name e = n \<and>
         base e = takeWhile (\<lambda>d. d \<noteq> DOT) n \<and> count_list n DOT \<le> 2"
proof -
  have ok: "class_ok reg n c"
    using reachable_registry_ok [OF assms(1)] assms(2) by (simp add: registry_ok_def)
  from assms(3) have e: "\<not> c_abstract c" "cls_name e = c_name c" "base e = c_base c"
    by (auto simp: new_event_def split: if_splits)
  with ok have "dmem (max_severities reg) (cls_name e)" by (simp add: class_ok_def)
  then show ?thesis
    using ok e max_severity_of_total by (auto simp: class_ok_def max_severity_def)
qed

definition sample_registry_res :: "types_registry res" where
  "sample_registry_res = rbind (new_registry [(''LogX.A'', ''ERROR'')]) (\<lambda>r.
     rbind (class_statement r ''LogX'' sct_event_class [] True) (\<lambda>r.
     add_subevent_type r ''LogX'' ''A'' False []))"

definition sample_registry :: types_registry where
  "sample_registry = (case sample_registry_res of
     Inr r \<Rightarrow> r | Inl _ \<Rightarrow> \<lparr>reg_types = [], max_severities = [], limit_rules = []\<rparr>)"

definition sample_class :: event_class where
  "sample_class = (case dget (reg_types sample_registry) ''LogX.A'' of
     Some c \<Rightarrow> c | None \<Rightarrow> sct_event_class)"

lemma sample_registry_reachable: "reachable_registry sample_registry"
proof -
  have "sample_registry_res = Inr sample_registry" by code_simp
  then show ?thesis
    unfolding sample_registry_res_def rbind_Inr_iff by (blast intro: reachable_registry.intros)
qed

theorem registered_event_has_max_severity_witness:
  "\<exists>e. new_event sample_class ERROR 5 ''id'' = Inr e \<and> base e = ''LogX'' \<and>
       (\<exists>m. max_severity sample_registry e = Inr m)"
proof -
  have c: "dget (reg_types sample_registry) ''LogX.A'' = Some sample_class" by code_simp
  have "\<not> c_abstract sample_class" by code_simp
  then obtain e where e: "new_event sample_class ERROR 5 ''id'' = Inr e" by (simp add: new_event_def)
  from registered_event_has_max_severity [OF sample_registry_reachable c e] e
  show ?thesis by (intro exI [of _ e]) (simp add: DOT_def)
qed

text \<open>
  C13. The rule added last wins: after adding a readable rule, an event one of whose keys matches the
  rule's pattern has the rule's severity as its limit, and every other event the limit it had before.
\<close>

theorem last_limit_rule_wins:
  assumes "parse_limit_rule r = Inr (p, s)"
  shows "max_severity_of (add_severity_limit_rules reg (rs @ [r])) keys name =
     (if \<exists>k\<in>set keys. glob p k then Inr s
      else max_severity_of (add_severity_limit_rules reg rs) keys name)"
proof -
  have "first_rule ((p, s) # q) keys = (if \<exists>k\<in>set keys. glob p k then Some s else first_rule q keys)" for q
    by (auto simp: fnmatch_filter_def filter_empty_conv)
  then show ?thesis
    using assms parse_limit_rule_nonempty [OF assms]
    by (auto simp: add_severity_limit_rules_append max_severity_of_def simp del: first_rule.simps
        split: option.splits)
qed

theorem last_limit_rule_wins_witness:
  "parse_limit_rule ''Disk* = WARNING'' = Inr (''Disk*'', WARNING) \<and>
   max_severity_of (add_severity_limit_rules \<lparr>reg_types = [], max_severities = [(''DiskFull'', CRITICAL)],
      limit_rules = []\<rparr> [''Disk*=ERROR'', ''Disk* = WARNING'']) [''DiskFull''] ''DiskFull'' = Inr WARNING"
proof -
  have p: "parse_limit_rule ''Disk* = WARNING'' = Inr (''Disk*'', WARNING)" by code_simp
  have g: "glob ''Disk*'' ''DiskFull''" by code_simp
  have "max_severity_of (add_severity_limit_rules \<lparr>reg_types = [], max_severities = [(''DiskFull'', CRITICAL)],
      limit_rules = []\<rparr> ([''Disk*=ERROR''] @ [''Disk* = WARNING''])) [''DiskFull''] ''DiskFull'' = Inr WARNING"
    by (subst last_limit_rule_wins [OF p]) (simp add: g)
  with p show ?thesis by (simp only: append_Cons append_Nil)
qed

text \<open>
  C12. An event is sent at most once for each time it is made ready: over any sequence of \<open>publish\<close>,
  \<open>publish_or_dump\<close>, \<open>dont_publish\<close> and \<open>ready_to_publish\<close> calls, the number of times it reaches the
  device, the file logger or the default logger is at most one for its initial readiness plus one for
  each \<open>ready_to_publish\<close> call.
\<close>

theorem no_double_publish:
  "length (snd (run_gen pub_step e ops)) \<le> of_bool (ready_to_publish e) + length (filter is_mark ops)"
  by (rule run_pub_bound)

text \<open>
  The check of \<open>LogEvent.__init__\<close> that a pattern has fewer than two \<open>.*\<close> never fails: it counts
  the occurrences of the pattern in \<open>.*\<close>, and no pattern occurs there twice. A log event is created
  from any pattern, also from one with many \<open>.*\<close>, and cannot be published before \<open>add_info\<close>.
\<close>

theorem log_event_pattern_check_vacuous:
  "\<exists>e1. log_event_init running regex e = Inr e1 \<and> \<not> ready_to_publish e1 \<and>
        (\<exists>l. log e1 = Some l \<and> l_regex l = regex)"
  using py_count_dot_star by (auto simp: log_event_init_def Let_def split: option.splits)

text \<open>
  Publishing the subcontext: for an event of severity at least \<open>ERROR\<close> that is not itself a
  disruption, every running disruption is in the subcontext afterwards, no disruption is listed
  twice, a single running disruption is the only one listed, and running the step again changes nothing.
\<close>

theorem subcontext_lists_running_nemeses:
  assumes "ERROR \<le> severity e" "base e \<noteq> ''DisruptionEvent''" "running \<noteq> []" "distinct running"
    and "subcontext e = Some ctx" "distinct ctx"
  shows "\<exists>ctx1. subcontext (add_subcontext running e) = Some ctx1 \<and> distinct ctx1 \<and>
           set running \<subseteq> set ctx1 \<and> (length running = 1 \<longrightarrow> ctx1 = running) \<and>
           add_subcontext running (add_subcontext running e) = add_subcontext running e"
proof -
  define c1 where "c1 = add_nemeses (if length running = Suc 0 then [] else ctx) running"
  have sev: "\<not> sev_value (severity e) < 3" using assms(1) by (simp add: less_eq_severity_def)
  have eq: "add_subcontext running e = e\<lparr>subcontext := Some c1\<rparr>"
    using sev assms(2,3,5) by (simp add: add_subcontext_def c1_def)
  have one: "c1 = running" if "length running = Suc 0"
    using that by (auto simp: c1_def length_Suc_conv)
  have "add_nemeses (if length running = Suc 0 then [] else c1) running = c1"
  proof (cases "length running = Suc 0")
    case True
    then show ?thesis by (simp add: c1_def)
  next
    case False
    then show ?thesis by (simp add: add_nemeses_idem c1_def)
  qed
  then have "add_subcontext running (e\<lparr>subcontext := Some c1\<rparr>) = e\<lparr>subcontext := Some c1\<rparr>"
    using sev assms(2,3) by (simp add: add_subcontext_def Let_def)
  moreover have "distinct c1" "set running \<subseteq> set c1"
    using assms(6) by (simp_all add: distinct_add_nemeses c1_def)
  ultimately show ?thesis using one unfolding eq by simp
qed

definition sample_nemesis :: "string \<Rightarrow> nemesis_ref" where
  "sample_nemesis n = \<lparr>n_event_id = n, n_name = n, n_node = ''node1''\<rparr>"

definition sample_event :: "string \<Rightarrow> string option \<Rightarrow> severity \<Rightarrow> time \<Rightarrow> event" where
  "sample_event b t s now =
     (case new_event \<lparr>c_name = (case t of None \<Rightarrow> b | Some x \<Rightarrow> b @ [DOT] @ x), c_base = b,
        c_abstract = False, c_type = t, c_subtype = None, c_mro = [b], c_attrs = []\<rparr> s now ''id'' of
      Inr e \<Rightarrow> e)"

theorem subcontext_lists_running_nemeses_witness:
  "\<exists>ctx1. subcontext (add_subcontext [sample_nemesis ''a'', sample_nemesis ''b'']
            (sample_event ''CoreDumpEvent'' None ERROR 1)) = Some ctx1 \<and>
     set [sample_nemesis ''a'', sample_nemesis ''b''] \<subseteq> set ctx1"
proof -
  let ?e = "sample_event ''CoreDumpEvent'' None ERROR 1"
  let ?r = "[sample_nemesis ''a'', sample_nemesis ''b'']"
  have e: "severity ?e = ERROR" "base ?e = ''CoreDumpEvent''" "subcontext ?e = Some []"
    by (simp_all add: sample_event_def new_event_def)
  have "\<exists>ctx1. subcontext (add_subcontext ?r ?e) = Some ctx1 \<and> distinct ctx1 \<and>
      set ?r \<subseteq> set ctx1 \<and> (length ?r = 1 \<longrightarrow> ctx1 = ?r) \<and>
      add_subcontext ?r (add_subcontext ?r ?e) = add_subcontext ?r ?e"
    by (rule subcontext_lists_running_nemeses [where ctx = "[]"]) (simp_all add: e sample_nemesis_def)
  then show ?thesis by blast
qed

end
