(* ===== verification/Event_Text.thy ===== *)
theory Event_Text
  imports Events_Base
begin

text \<open>
  How events are printed: the formatted timestamps of \<open>base.py\<close>, the attributes a template can name,
  the \<open>msgfmt\<close> template of each event class (\<open>base.py\<close>, \<open>continuous_event.py\<close>, \<open>database.py\<close>,
  \<open>loaders.py\<close>, \<open>stress_events.py\<close>, \<open>nemesis.py\<close>, \<open>monitors.py\<close>, \<open>health.py\<close>, \<open>nodetool.py\<close>,
  \<open>system.py\<close> of \<open>sdcm/sct_events\<close>) and \<open>__str__\<close>, which formats the template with the event.
\<close>

section \<open>Functions of third-party packages\<close>

text \<open>
  \<open>relativedelta(seconds=n)\<close> of \<open>dateutil\<close> as its days, hours, minutes and seconds, and
  \<open>dateutil.parser.parse(s).timestamp()\<close> with \<open>None\<close> for the \<open>ValueError\<close> it raises.
\<close>

record env =
  relativedelta :: "int \<Rightarrow> int \<times> int \<times> int \<times> int"
  parse_date :: "string \<Rightarrow> time option"

text \<open>What \<open>dateutil\<close> documents of a delta made from seconds alone: it is normalised.\<close>

definition relativedelta_normal :: "env \<Rightarrow> bool" where
  "relativedelta_normal w \<longleftrightarrow> (\<forall>n. 0 \<le> n \<longrightarrow> (case relativedelta w n of (d, h, m, s) \<Rightarrow>
     0 \<le> d \<and> 0 \<le> h \<and> h < 24 \<and> 0 \<le> m \<and> m < 60 \<and> 0 \<le> s \<and> s < 60 \<and>
     n = ((d * 24 + h) * 60 + m) * 60 + s))"

definition sample_env :: env where
  "sample_env = \<lparr>relativedelta = (\<lambda>n. (n div 86400, n mod 86400 div 3600, n mod 3600 div 60, n mod 60)),
     parse_date = (\<lambda>_. None)\<rparr>"

section \<open>Timestamps\<close>

text \<open>The proleptic Gregorian date of a day counted from 1970-01-01.\<close>

definition civil_from_days :: "int \<Rightarrow> int \<times> int \<times> int" where
  "civil_from_days z0 =
     (let z = z0 + 719468; era = z div 146097; doe = z mod 146097;
          yoe = (doe - doe div 1460 + doe div 36524 - doe div 146096) div 365;
          doy = doe - (365 * yoe + yoe div 4 - yoe div 100);
          mp = (5 * doy + 2) div 153;
          d = doy - (153 * mp + 2) div 5 + 1;
          m = (if mp < 10 then mp + 3 else mp - 9)
      in (yoe + era * 400 + (if m \<le> 2 then 1 else 0), m, d))"

definition round_half_even :: "rat \<Rightarrow> int" where
  "round_half_even x = (let f = \<lfloor>x\<rfloor>; r = x - of_int f in
     if r < 1 / 2 then f else if 1 / 2 < r then f + 1 else if even f then f else f + 1)"

definition pad_int :: "nat \<Rightarrow> int \<Rightarrow> string" where "pad_int w n = pad_nat w (nat n)"

text \<open>
  \<open>datetime.fromtimestamp(ts, tz=utc).strftime("%Y-%m-%d %H:%M:%S.%f")[:-3]\<close>: rounded to
  microseconds, printed to milliseconds. A timestamp that is \<open>None\<close> is the \<open>TypeError\<close> the
  code catches; a year outside 1 to 9999 is a \<open>ValueError\<close>, which it does not.
\<close>

definition format_timestamp :: "time \<Rightarrow> string res" where
  "format_timestamp t =
     (let us = round_half_even (t * 1000000); secs = us div 1000000;
          (y, m, d) = civil_from_days (secs div 86400); sod = secs mod 86400
      in if y < 1 \<or> 9999 < y then Inl ValueError
         else Inr (str_int y @ ''-'' @ pad_int 2 m @ ''-'' @ pad_int 2 d @ '' '' @
                   pad_int 2 (sod div 3600) @ '':'' @ pad_int 2 (sod mod 3600 div 60) @ '':'' @
                   pad_int 2 (sod mod 60) @ ''.'' @ pad_int 3 (us mod 1000000 div 1000)))"

definition formatted_timestamp :: "time option \<Rightarrow> string res" where
  "formatted_timestamp t = (case t of
     None \<Rightarrow> Inr ''0000-00-00 <UnknownTimestamp>'' | Some x \<Rightarrow> format_timestamp x)"

section \<open>Python's repr\<close>

definition hex_digit :: "nat \<Rightarrow> char" where
  "hex_digit d = (if d < 10 then char_of (48 + d) else char_of (87 + d))"

definition repr_char :: "char \<Rightarrow> char \<Rightarrow> string" where
  "repr_char q c =
     (let n = char_code c in
      if c = q \<or> n = 92 then [CHR 0x5C, c]
      else if n = 10 then [CHR 0x5C, CHR ''n'']
      else if n = 13 then [CHR 0x5C, CHR ''r'']
      else if n = 9 then [CHR 0x5C, CHR ''t'']
      else if n < 32 \<or> (127 \<le> n \<and> n \<le> 160) \<or> n = 173 then
        [CHR 0x5C, CHR ''x'', hex_digit (n div 16), hex_digit (n mod 16)]
      else [c])"

definition SQ :: char where "SQ = CHR 0x27"

definition DQ :: char where "DQ = CHR 0x22"

definition py_repr :: "string \<Rightarrow> string" where
  "py_repr s = (let q = (if SQ \<in> set s \<and> DQ \<notin> set s then DQ else SQ)
                in [q] @ concat (map (repr_char q) s) @ [q])"

definition py_repr_list :: "string list \<Rightarrow> string" where
  "py_repr_list xs = ''['' @ py_join '', '' (map py_repr xs) @ '']''"

section \<open>Durations\<close>

text \<open>The property \<open>duration\<close>: the cached value, else the seconds between begin and end.\<close>

definition duration :: "event \<Rightarrow> int option" where
  "duration e = (case cont e of None \<Rightarrow> None | Some k \<Rightarrow>
     (case k_duration k of Some d \<Rightarrow> Some d
      | None \<Rightarrow> (case (k_begin_timestamp k, k_end_timestamp k) of
          (Some b, Some f) \<Rightarrow> Some (py_trunc (f - b)) | _ \<Rightarrow> None)))"

definition format_duration :: "env \<Rightarrow> int \<Rightarrow> string" where
  "format_duration w n =
     (let (days, hours, minutes, sec) = relativedelta w n in
        (if days \<noteq> 0 then str_int days @ ''d'' else []) @
        (if days \<noteq> 0 \<or> hours \<noteq> 0 then str_int hours @ ''h'' else []) @
        (if (hours \<noteq> 0 \<or> days \<noteq> 0) \<or> (hours = 0 \<and> 0 < minutes) then str_int minutes @ ''m'' else []) @
        str_int sec @ ''s'')"

definition duration_formatted :: "env \<Rightarrow> event \<Rightarrow> string" where
  "duration_formatted w e = (case duration e of None \<Rightarrow> [] | Some n \<Rightarrow> format_duration w n)"

section \<open>Attributes\<close>

definition errors_of :: "event \<Rightarrow> string list" where
  "errors_of e = (case cont e of None \<Rightarrow> [] | Some k \<Rightarrow> k_errors k)"

definition errors_formatted :: "event \<Rightarrow> string" where
  "errors_formatted e = py_join nl (errors_of e)"

text \<open>An attribute that a subclass set, and whether it is true.\<close>

definition tattr :: "event \<Rightarrow> string \<Rightarrow> bool" where
  "tattr e n = (case dget (attrs e) n of Some (Some v) \<Rightarrow> v \<noteq> [] | _ \<Rightarrow> False)"

definition tstr :: "string option \<Rightarrow> bool" where
  "tstr x = (case x of None \<Rightarrow> False | Some s \<Rightarrow> s \<noteq> [])"

definition base_attrs :: "env \<Rightarrow> event \<Rightarrow> (string, string) dict" where
  "base_attrs w e =
     [(''base'', base e), (''severity'', ''Severity.'' @ sev_name (severity e)),
      (''period_type'', period_value (period_type e)), (''event_id'', event_id e),
      (''type'', py_str_opt (etype e)), (''subtype'', py_str_opt (esubtype e))] @
     (case log e of None \<Rightarrow> [] | Some l \<Rightarrow>
       [(''regex'', py_str_opt (l_regex l)),
        (''line_number'', case l_line_number l of None \<Rightarrow> ''None'' | Some n \<Rightarrow> str_int n),
        (''node'', py_str_opt (l_node l)), (''known_issue'', py_str_opt (l_known_issue l)),
        (''line'', py_str_opt (l_line l)), (''backtrace'', py_str_opt (l_backtrace l)),
        (''raw_backtrace'', py_str_opt (l_raw_backtrace l))]) @
     (case cont e of None \<Rightarrow> [] | Some k \<Rightarrow>
       [(''duration_formatted'', duration_formatted w e), (''errors'', py_repr_list (k_errors k)),
        (''errors_formatted'', errors_formatted e), (''skip_reason'', k_skip_reason k)])"

definition event_attr :: "env \<Rightarrow> event \<Rightarrow> string \<Rightarrow> string option" where
  "event_attr w e n = (case dget (base_attrs w e) n of
     Some v \<Rightarrow> Some v | None \<Rightarrow> map_option py_str_opt (dget (attrs e) n))"

section \<open>Templates\<close>

text \<open>The replacement field \<open>{0.n}\<close>.\<close>

definition fld :: "string \<Rightarrow> string" where "fld n = ''{0.'' @ n @ ''}''"

definition SctEvent_msgfmt :: "event \<Rightarrow> string" where
  "SctEvent_msgfmt e =
     ''('' @ fld ''base'' @ '' '' @ fld ''severity'' @ '') period_type='' @ fld ''period_type'' @
     '' event_id='' @ fld ''event_id'' @
     (let d = concatenate_subcontext e in if d \<noteq> [] then '' during_nemesis='' @ d else [])"

definition LogEvent_msgfmt :: "event \<Rightarrow> string" where
  "LogEvent_msgfmt e = (case log e of None \<Rightarrow> SctEvent_msgfmt e | Some l \<Rightarrow>
     SctEvent_msgfmt e @ '':'' @
     (if etype e \<noteq> None then '' type='' @ fld ''type'' else []) @
     (if l_regex l \<noteq> None then '' regex='' @ fld ''regex'' else []) @
     (if l_line_number l \<noteq> None then '' line_number='' @ fld ''line_number'' else []) @
     (if l_node l \<noteq> None then '' node='' @ fld ''node'' else []) @
     (if tstr (l_known_issue l) then '' known_issue='' @ fld ''known_issue'' else []) @
     (if l_line l \<noteq> None then nl @ fld ''line'' else []) @
     (if tstr (l_backtrace l) then nl @ fld ''backtrace''
      else if tstr (l_raw_backtrace l) then nl @ fld ''raw_backtrace'' else []))"

definition ContinuousEvent_msgfmt :: "event \<Rightarrow> string" where
  "ContinuousEvent_msgfmt e =
     SctEvent_msgfmt e @ (if duration e \<noteq> None then '' duration='' @ fld ''duration_formatted'' else [])"

definition msg_message :: "event \<Rightarrow> string" where
  "msg_message e = SctEvent_msgfmt e @ '': message='' @ fld ''message''"

definition is_skipped :: "event \<Rightarrow> bool" where
  "is_skipped e = (case cont e of None \<Rightarrow> False | Some k \<Rightarrow> k_is_skipped k)"

definition has_skip_reason :: "event \<Rightarrow> bool" where
  "has_skip_reason e = (case cont e of None \<Rightarrow> False | Some k \<Rightarrow> k_skip_reason k \<noteq> [])"

definition DisruptionEvent_msgfmt :: "event \<Rightarrow> string" where
  "DisruptionEvent_msgfmt e =
     ContinuousEvent_msgfmt e @ '': nemesis_name='' @ fld ''nemesis_name'' @ '' target_node='' @ fld ''node'' @
     (if is_skipped e then '' skipped'' else []) @
     (if has_skip_reason e then '' skip_reason='' @ fld ''skip_reason'' else []) @
     (if errors_of e \<noteq> [] then '' errors='' @ fld ''errors_formatted'' else []) @
     (if tattr e ''full_traceback'' then nl @ fld ''full_traceback'' else [])"

definition StressEvent_msgfmt :: "event \<Rightarrow> string" where
  "StressEvent_msgfmt e =
     ContinuousEvent_msgfmt e @ '':'' @
     (if tstr (etype e) then '' type='' @ fld ''type'' else []) @
     (if tattr e ''node'' then '' node='' @ fld ''node'' else []) @
     (if tattr e ''stress_cmd'' then nl @ ''stress_cmd='' @ fld ''stress_cmd'' else []) @
     (if errors_of e \<noteq> [] then nl @ ''errors:'' @ nl @ nl @ fld ''errors_formatted'' else [])"

definition CassandraHarryEvent_msgfmt :: "event \<Rightarrow> string" where
  "CassandraHarryEvent_msgfmt e =
     ContinuousEvent_msgfmt e @ '': type='' @ fld ''type'' @ '' node='' @ fld ''node'' @
     '' stress_cmd='' @ fld ''stress_cmd'' @
     (if errors_of e \<noteq> [] then '' error='' @ fld ''errors_formatted'' else [])"

definition GeminiStressEvent_msgfmt :: "event \<Rightarrow> string" where
  "GeminiStressEvent_msgfmt e =
     ContinuousEvent_msgfmt e @ '':'' @
     (if tstr (etype e) then '' type='' @ fld ''type'' else []) @
     '' node='' @ fld ''node'' @ '' gemini_cmd='' @ fld ''cmd'' @
     (if tattr e ''result'' then nl @ ''result='' @ fld ''result'' else []) @
     (if errors_of e \<noteq> [] then nl @ ''errors='' @ fld ''errors'' else [])"

definition GeminiStressLogEvent_msgfmt :: "event \<Rightarrow> string" where
  "GeminiStressLogEvent_msgfmt e =
     SctEvent_msgfmt e @ '':'' @
     (if tstr (etype e) then '' type='' @ fld ''type'' else []) @
     '' line_number='' @ fld ''line_number'' @ '' node='' @ fld ''node'' @
     (case log e of None \<Rightarrow> [] | Some l \<Rightarrow> if tstr (l_line l) then nl @ ''line='' @ fld ''line'' else [])"

definition SchemaDisagreementErrorEvent_msgfmt :: "event \<Rightarrow> string" where
  "SchemaDisagreementErrorEvent_msgfmt e =
     SctEvent_msgfmt e @ '':'' @ nl @ ''collected sstables:'' @ nl @ fld ''sstable_links_formatted'' @
     nl @ ''gossip info:'' @ nl @ fld ''gossip_info'' @ nl @ ''peers info:'' @ nl @ fld ''peers_info''"

definition ScyllaHelpErrorEvent_msgfmt :: "event \<Rightarrow> string" where
  "ScyllaHelpErrorEvent_msgfmt e = SctEvent_msgfmt e @ '': type='' @ fld ''type'' @
     (if dmem (attrs e) ''message'' then '' message='' @ fld ''message'' else [])"

definition ScyllaDatabaseContinuousEvent_msgfmt :: "event \<Rightarrow> string" where
  "ScyllaDatabaseContinuousEvent_msgfmt e =
     ContinuousEvent_msgfmt e @ (if tattr e ''node'' then '' node='' @ fld ''node'' else []) @
     (if (case dget (attrs e) ''shard'' of Some (Some _) \<Rightarrow> True | _ \<Rightarrow> False)
      then '' shard='' @ fld ''shard'' else [])"

definition msg_scan :: "event \<Rightarrow> string" where
  "msg_scan e = ScyllaDatabaseContinuousEvent_msgfmt e @ '' select_from='' @ fld ''ks_cf'' @
     (if tattr e ''message'' then '' message='' @ fld ''message'' else [])"

definition FullScanEvent_msgfmt :: "event \<Rightarrow> string" where
  "FullScanEvent_msgfmt e = msg_scan e @
     (if tattr e ''user'' then '' user='' @ fld ''user'' else []) @
     (if tattr e ''password'' then '' password='' @ fld ''password'' else [])"

definition attr_not_none :: "event \<Rightarrow> string \<Rightarrow> bool" where
  "attr_not_none e n = (case dget (attrs e) n of Some (Some _) \<Rightarrow> True | _ \<Rightarrow> False)"

definition CompactionEvent_msgfmt :: "event \<Rightarrow> string" where
  "CompactionEvent_msgfmt e = ScyllaDatabaseContinuousEvent_msgfmt e @
     (if attr_not_none e ''table'' then '' table='' @ fld ''table'' else []) @
     (if attr_not_none e ''compaction_process_id''
      then '' compaction_process_id='' @ fld ''compaction_process_id'' else [])"

definition PrometheusAlertManagerEvent_msgfmt :: "event \<Rightarrow> string" where
  "PrometheusAlertManagerEvent_msgfmt e =
     ContinuousEvent_msgfmt e @ '': alert_name='' @ fld ''alert_name'' @ '' node='' @ fld ''node'' @
     '' start='' @ fld ''starts_at'' @ '' end='' @ fld ''ends_at'' @ '' description='' @ fld ''description'' @
     '' updated='' @ fld ''updated_at'' @ '' state='' @ fld ''state'' @ '' fingerprint='' @ fld ''fingerprint'' @
     '' labels='' @ fld ''labels''"

definition ClusterHealthValidatorEvent_msgfmt :: "event \<Rightarrow> string" where
  "ClusterHealthValidatorEvent_msgfmt e =
     ContinuousEvent_msgfmt e @
     (if tstr (etype e) then '': type='' @ fld ''type'' else []) @
     (if tattr e ''node'' then '' node='' @ fld ''node'' else []) @
     (if severity e = NORMAL \<or> severity e = WARNING then
        (if tattr e ''message'' then '' message='' @ fld ''message'' else [])
      else if severity e = ERROR \<or> severity e = CRITICAL then
        (if tattr e ''error'' then '' error='' @ fld ''error'' else [])
      else [])"

definition DataValidatorEvent_msgfmt :: "event \<Rightarrow> string" where
  "DataValidatorEvent_msgfmt e =
     (if severity e = NORMAL \<or> severity e = WARNING
      then SctEvent_msgfmt e @ '': type='' @ fld ''type'' @ '' message='' @ fld ''message''
      else if severity e = ERROR \<or> severity e = CRITICAL
      then SctEvent_msgfmt e @ '': type='' @ fld ''type'' @ '' error='' @ fld ''error''
      else SctEvent_msgfmt e)"

definition NodetoolEvent_msgfmt :: "event \<Rightarrow> string" where
  "NodetoolEvent_msgfmt e =
     ContinuousEvent_msgfmt e @ '': nodetool_command='' @ fld ''nodetool_command.cmd'' @
     (if tattr e ''node'' then '' node='' @ fld ''node'' else []) @
     (if tattr e ''nodetool_command.options'' then '' options='' @ fld ''nodetool_command.options'' else []) @
     (if errors_of e \<noteq> [] then '' errors='' @ fld ''errors'' else []) @
     (if tattr e ''full_traceback'' then nl @ fld ''full_traceback'' else [])"

definition TestFrameworkEvent_msgfmt :: "event \<Rightarrow> string" where
  "TestFrameworkEvent_msgfmt e =
     SctEvent_msgfmt e @ '', source='' @ fld ''source'' @
     (if tattr e ''source_method'' then
        ''.'' @ fld ''source_method'' @ ''('' @
        py_join '', '' ((if tattr e ''args'' then [''args='' @ fld ''args''] else []) @
                        (if tattr e ''kwargs'' then [''kwargs='' @ fld ''kwargs''] else [])) @ '')''
      else []) @
     (if tattr e ''message'' then '' message='' @ fld ''message'' else []) @
     (if tattr e ''exception'' then nl @ ''exception='' @ fld ''exception'' else []) @
     (if tattr e ''trace'' then nl @ ''Traceback (most recent call last):'' @ nl @ fld ''trace'' else [])"

definition ElasticsearchEvent_msgfmt :: "event \<Rightarrow> string" where
  "ElasticsearchEvent_msgfmt e =
     SctEvent_msgfmt e @ '': doc_id='' @ fld ''doc_id'' @ '' error='' @ fld ''error''"

definition SpotTerminationEvent_msgfmt :: "event \<Rightarrow> string" where
  "SpotTerminationEvent_msgfmt e =
     SctEvent_msgfmt e @ '': node='' @ fld ''node'' @ '' message='' @ fld ''message''"

definition ScyllaRepoEvent_msgfmt :: "event \<Rightarrow> string" where
  "ScyllaRepoEvent_msgfmt e = SctEvent_msgfmt e @ '': url='' @ fld ''url'' @ '' error='' @ fld ''error''"

definition TestStepEvent_msgfmt :: "event \<Rightarrow> string" where
  "TestStepEvent_msgfmt e =
     ContinuousEvent_msgfmt e @ '': step='' @ fld ''step'' @ '' '' @
     (if errors_of e \<noteq> [] then '' errors='' @ fld ''errors_formatted'' else []) @
     (if tattr e ''full_traceback'' then nl @ fld ''full_traceback'' else [])"

definition PerftuneResultEvent_msgfmt :: "event \<Rightarrow> string" where
  "PerftuneResultEvent_msgfmt e = msg_message e @
     (if tattr e ''trace'' then nl @ ''Traceback (most recent call last):'' @ nl @ fld ''trace'' else [])"

definition ThreadFailedEvent_msgfmt :: "event \<Rightarrow> string" where
  "ThreadFailedEvent_msgfmt e = msg_message e @ nl @ fld ''traceback''"

definition CoreDumpEvent_msgfmt :: "event \<Rightarrow> string" where
  "CoreDumpEvent_msgfmt e =
     SctEvent_msgfmt e @ '' '' @
     (if tattr e ''node'' then ''node='' @ fld ''node'' @ nl else []) @
     (if tattr e ''corefile_url'' then ''corefile_url='' @ fld ''corefile_url'' @ nl else []) @
     (if tattr e ''backtrace'' then ''backtrace='' @ fld ''backtrace'' @ nl @
        ''Info about modules can be found in SCT logs by search for '' @ [SQ] @
        ''Coredump Modules info'' @ [SQ] @ nl else []) @
     (if tattr e ''download_instructions''
      then ''download_instructions:'' @ nl @ fld ''download_instructions'' @ nl else []) @
     (if tattr e ''executable'' then ''executable='' @ fld ''executable'' @
        (if tattr e ''executable_version'' then '' executable_version='' @ fld ''executable_version'' else []) @ nl
      else [])"

definition attr_text :: "event \<Rightarrow> string \<Rightarrow> string" where
  "attr_text e n = (case dget (attrs e) n of None \<Rightarrow> [] | Some v \<Rightarrow> py_str_opt v)"

text \<open>The start time and the duration are put into the template itself.\<close>

definition TestTimeoutEvent_msgfmt :: "event \<Rightarrow> string" where
  "TestTimeoutEvent_msgfmt e = SctEvent_msgfmt e @ '', Test started at '' @ attr_text e ''start_time'' @
     '', reached it'' @ [SQ] @ ''s timeout ('' @ attr_text e ''duration'' @ '' minute)''"

definition WorkloadPrioritisationEvent_msgfmt :: "event \<Rightarrow> string" where
  "WorkloadPrioritisationEvent_msgfmt e =
     SctEvent_msgfmt e @ '': type='' @ fld ''type'' @ '' message='' @ fld ''message''"

definition GceInstanceEvent_msgfmt :: "event \<Rightarrow> string" where
  "GceInstanceEvent_msgfmt e = SctEvent_msgfmt e @ '': '' @ fld ''method'' @ '' on node '' @ fld ''node'' @
     '' at '' @ fld ''date'' @ '': '' @ fld ''message''"

definition TestResultEvent_msgfmt :: "event \<Rightarrow> string" where
  "TestResultEvent_msgfmt e = (if tattr e ''_ok''
     then fld ''_head'' @ nl @ fld ''_ending'' @ nl @ ''SUCCESS :)'' @ nl
     else fld ''_head'' @ nl @ nl @ fld ''events_formatted'' @ nl @ fld ''_ending'' @ nl @
          fld ''test_status'' @ '' :('' @ nl)"

text \<open>
  Method resolution: the template of a class by the base name of its events. A class that is not
  listed inherits the template of its kind.
\<close>

definition msgfmt_table :: "(string, event \<Rightarrow> string) dict" where
  "msgfmt_table = [
     (''DisruptionEvent'', DisruptionEvent_msgfmt),
     (''CassandraStressEvent'', StressEvent_msgfmt), (''ScyllaBenchEvent'', StressEvent_msgfmt),
     (''LatteStressEvent'', StressEvent_msgfmt), (''CqlStressCassandraStressEvent'', StressEvent_msgfmt),
     (''YcsbStressEvent'', StressEvent_msgfmt), (''CDCReaderStressEvent'', StressEvent_msgfmt),
     (''NdBenchStressEvent'', StressEvent_msgfmt), (''KclStressEvent'', StressEvent_msgfmt),
     (''NoSQLBenchStressEvent'', StressEvent_msgfmt),
     (''CassandraHarryEvent'', CassandraHarryEvent_msgfmt), (''GeminiStressEvent'', GeminiStressEvent_msgfmt),
     (''GeminiStressLogEvent'', GeminiStressLogEvent_msgfmt),
     (''SchemaDisagreementErrorEvent'', SchemaDisagreementErrorEvent_msgfmt),
     (''ScyllaHelpErrorEvent'', ScyllaHelpErrorEvent_msgfmt),
     (''ScyllaHousekeepingServiceEvent'', msg_message), (''IndexSpecialColumnErrorEvent'', msg_message),
     (''CommitLogCheckErrorEvent'', msg_message), (''ScyllaYamlUpdateEvent'', msg_message),
     (''ScyllaServerStatusEvent'', ScyllaDatabaseContinuousEvent_msgfmt),
     (''BootstrapEvent'', ScyllaDatabaseContinuousEvent_msgfmt),
     (''RepairEvent'', ScyllaDatabaseContinuousEvent_msgfmt),
     (''JMXServiceEvent'', ScyllaDatabaseContinuousEvent_msgfmt),
     (''ScyllaSysconfigSetupEvent'', ScyllaDatabaseContinuousEvent_msgfmt),
     (''FullScanEvent'', FullScanEvent_msgfmt), (''FullPartitionScanReversedOrderEvent'', msg_scan),
     (''FullPartitionScanEvent'', msg_scan), (''TombstoneGcVerificationEvent'', msg_scan),
     (''FullScanAggregateEvent'', msg_scan), (''CompactionEvent'', CompactionEvent_msgfmt),
     (''PrometheusAlertManagerEvent'', PrometheusAlertManagerEvent_msgfmt),
     (''ClusterHealthValidatorEvent'', ClusterHealthValidatorEvent_msgfmt),
     (''DataValidatorEvent'', DataValidatorEvent_msgfmt), (''PartitionRowsValidationEvent'', msg_message),
     (''NodetoolEvent'', NodetoolEvent_msgfmt), (''TestFrameworkEvent'', TestFrameworkEvent_msgfmt),
     (''SoftTimeoutEvent'', TestFrameworkEvent_msgfmt), (''HWPerforanceEvent'', msg_message),
     (''ElasticsearchEvent'', ElasticsearchEvent_msgfmt), (''SpotTerminationEvent'', SpotTerminationEvent_msgfmt),
     (''ScyllaRepoEvent'', ScyllaRepoEvent_msgfmt), (''CpuNotHighEnoughEvent'', msg_message),
     (''TestStepEvent'', TestStepEvent_msgfmt), (''PerftuneResultEvent'', PerftuneResultEvent_msgfmt),
     (''InfoEvent'', msg_message), (''ThreadFailedEvent'', ThreadFailedEvent_msgfmt),
     (''AwsKmsEvent'', ThreadFailedEvent_msgfmt), (''CoreDumpEvent'', CoreDumpEvent_msgfmt),
     (''FailedResultEvent'', msg_message), (''TestTimeoutEvent'', TestTimeoutEvent_msgfmt),
     (''WorkloadPrioritisationEvent'', WorkloadPrioritisationEvent_msgfmt),
     (''GceInstanceEvent'', GceInstanceEvent_msgfmt), (''ValidatorEvent'', msg_message),
     (''ScrubValidationErrorEvent'', msg_message), (''TestResultEvent'', TestResultEvent_msgfmt)]"

definition msgfmt :: "event \<Rightarrow> string" where
  "msgfmt e = (case dget msgfmt_table (base e) of
     Some f \<Rightarrow> f e
   | None \<Rightarrow> if log e \<noteq> None then LogEvent_msgfmt e
             else if cont e \<noteq> None then ContinuousEvent_msgfmt e else SctEvent_msgfmt e)"

text \<open>\<open>__str__\<close>\<close>

definition str_event :: "env \<Rightarrow> event \<Rightarrow> string res" where
  "str_event w e = py_format (event_attr w e) (msgfmt e)"

subsection \<open>The final report\<close>

definition center :: "nat \<Rightarrow> char \<Rightarrow> string \<Rightarrow> string" where
  "center width c s = (let n = width - length s in replicate (n div 2) c @ s @ replicate (n - n div 2) c)"

definition ljust :: "nat \<Rightarrow> char \<Rightarrow> string \<Rightarrow> string" where
  "ljust width c s = s @ replicate (width - length s) c"

definition events_formatted :: "(string \<times> string list) list \<Rightarrow> string" where
  "events_formatted events =
     py_join nl (concat (map (\<lambda>(grp, evs).
        if evs = [] then [] else ljust 78 (CHR ''-'') (ljust 5 (CHR ''-'') [] @ '' LAST '' @ grp @ '' EVENT '') # evs)
        events))"

definition TestResultEvent_severity :: "string \<Rightarrow> severity" where
  "TestResultEvent_severity test_status = (if test_status = ''SUCCESS'' then NORMAL else ERROR)"

definition TestResultEvent_str :: "string \<Rightarrow> (string \<times> string list) list \<Rightarrow> string" where
  "TestResultEvent_str test_status events =
     (let header = center 80 (CHR ''='') '' TEST RESULTS ''; ending = replicate 80 (CHR ''='') in
      if test_status = ''SUCCESS'' then header @ nl @ ending @ nl @ ''SUCCESS :)'' @ nl
      else header @ nl @ nl @ events_formatted events @ nl @ ending @ nl @ test_status @ '' :('' @ nl)"

section \<open>Printing never raises\<close>

lemma py_format_fld:
  assumes "no_braces n" "attr n = Some v"
  shows "py_format attr (fld n @ t) = rbind (py_format attr t) (\<lambda>r. Inr (v @ r))"
  using py_format_field [of n attr v t] assms by (simp add: fld_def)

text \<open>What a template that prints as \<open>v\<close> contributes in front of any other.\<close>

definition renders :: "env \<Rightarrow> event \<Rightarrow> string \<Rightarrow> string \<Rightarrow> bool" where
  "renders w e f v \<longleftrightarrow> (\<forall>t. py_format (event_attr w e) (f @ t) =
     rbind (py_format (event_attr w e) t) (\<lambda>r. Inr (v @ r)))"

named_theorems render_intro

lemma renders_plain [render_intro]: "no_braces s \<Longrightarrow> renders w e s s"
  by (simp add: renders_def py_format_plain)

lemma renders_fld: "no_braces n \<Longrightarrow> event_attr w e n = Some v \<Longrightarrow> renders w e (fld n) v"
  by (simp add: renders_def py_format_fld)

lemma rbind_assoc_append:
  "rbind (rbind r (\<lambda>x. Inr (b @ x))) (\<lambda>x. Inr (a @ x)) = rbind r (\<lambda>x. Inr ((a @ b) @ x))"
  by (cases r) simp_all

lemma renders_append [render_intro]:
  "renders w e f a \<Longrightarrow> renders w e g b \<Longrightarrow> renders w e (f @ g) (a @ b)"
  by (simp add: renders_def rbind_assoc_append)

lemma renders_Nil [render_intro]: "renders w e [] []"
  by (rule renders_plain) (simp add: no_braces_def)

lemma renders_if [render_intro]:
  "(b \<Longrightarrow> renders w e f x) \<Longrightarrow> (\<not> b \<Longrightarrow> renders w e g y) \<Longrightarrow> renders w e (if b then f else g) (if b then x else y)"
  by simp

lemma renders_str: "renders w e (msgfmt e) v \<Longrightarrow> str_event w e = Inr v"
  unfolding str_event_def renders_def by (drule spec [of _ "[]"]) simp

definition event_header :: "event \<Rightarrow> string" where
  "event_header e =
     ''('' @ base e @ '' Severity.'' @ sev_name (severity e) @ '') period_type='' @ period_value (period_type e) @
     '' event_id='' @ event_id e @
     (let d = concatenate_subcontext e in if d \<noteq> [] then '' during_nemesis='' @ d else [])"

lemma renders_header [render_intro]:
  assumes "no_braces (concatenate_subcontext e)"
  shows "renders w e (SctEvent_msgfmt e) (event_header e)"
proof -
  have "renders w e (SctEvent_msgfmt e)
     (''('' @ base e @ '' '' @ (''Severity.'' @ sev_name (severity e)) @ '') period_type='' @
      period_value (period_type e) @ '' event_id='' @ event_id e @
      (let d = concatenate_subcontext e in if d \<noteq> [] then '' during_nemesis='' @ d else []))"
    unfolding SctEvent_msgfmt_def Let_def
    by (intro render_intro renders_fld)
       (insert assms, auto simp: no_braces_def event_attr_def base_attrs_def)
  then show ?thesis by (simp add: event_header_def)
qed

lemma no_braces_nl [simp]: "no_braces nl"
  by (simp add: no_braces_def nl_def NL_def)

lemma if_not_None:
  "(if x \<noteq> None then f @ py_str_opt x else []) = (case x of None \<Rightarrow> [] | Some t \<Rightarrow> f @ t)"
  by (simp add: py_str_opt_def split: option.splits)

lemma if_tstr: "(if tstr x then f @ py_str_opt x else y) = (if tstr x then f @ the x else y)"
  by (simp add: py_str_opt_def tstr_def split: option.splits)

text \<open>
  Printing a log event never raises and shows its parts in order: for an event class that keeps the
  template of \<open>LogEvent\<close> and nemesis names without braces, \<open>str(event)\<close> is the header, then the type,
  the pattern, the line number, the node and the known issue that are set, the line, and the decoded
  backtrace or else the raw one. Braces in the line or in the pattern are printed as they are.
\<close>

theorem log_event_str:
  assumes "dget msgfmt_table (base e) = None" "log e = Some l" "no_braces (concatenate_subcontext e)"
  shows "str_event w e = Inr (event_header e @ '':'' @
     (case etype e of None \<Rightarrow> [] | Some t \<Rightarrow> '' type='' @ t) @
     (case l_regex l of None \<Rightarrow> [] | Some r \<Rightarrow> '' regex='' @ r) @
     (case l_line_number l of None \<Rightarrow> [] | Some n \<Rightarrow> '' line_number='' @ str_int n) @
     (case l_node l of None \<Rightarrow> [] | Some n \<Rightarrow> '' node='' @ n) @
     (if tstr (l_known_issue l) then '' known_issue='' @ the (l_known_issue l) else []) @
     (case l_line l of None \<Rightarrow> [] | Some n \<Rightarrow> nl @ n) @
     (if tstr (l_backtrace l) then nl @ the (l_backtrace l)
      else if tstr (l_raw_backtrace l) then nl @ the (l_raw_backtrace l) else []))"
proof -
  have m: "msgfmt e = LogEvent_msgfmt e" using assms by (simp add: msgfmt_def)
  have r: "renders w e (LogEvent_msgfmt e) (event_header e @ '':'' @
     (if etype e \<noteq> None then '' type='' @ py_str_opt (etype e) else []) @
     (if l_regex l \<noteq> None then '' regex='' @ py_str_opt (l_regex l) else []) @
     (if l_line_number l \<noteq> None then '' line_number='' @
        (case l_line_number l of None \<Rightarrow> ''None'' | Some n \<Rightarrow> str_int n) else []) @
     (if l_node l \<noteq> None then '' node='' @ py_str_opt (l_node l) else []) @
     (if tstr (l_known_issue l) then '' known_issue='' @ py_str_opt (l_known_issue l) else []) @
     (if l_line l \<noteq> None then nl @ py_str_opt (l_line l) else []) @
     (if tstr (l_backtrace l) then nl @ py_str_opt (l_backtrace l)
      else if tstr (l_raw_backtrace l) then nl @ py_str_opt (l_raw_backtrace l) else []))"
    unfolding LogEvent_msgfmt_def assms(2) option.case
    by (intro render_intro renders_fld)
       (insert assms, simp_all add: no_braces_def event_attr_def base_attrs_def nl_def NL_def)
  show ?thesis
    unfolding renders_str [of w e, unfolded m, OF r] if_not_None if_tstr by (cases "l_line_number l") simp_all
qed

definition sample_log_event :: event where
  "sample_log_event = (sample_event ''DatabaseLogEvent'' (Some ''OOM'') CRITICAL 1)\<lparr>
     log := Some \<lparr>l_regex = Some ''oom'', l_node = Some ''n1'', l_line = Some ''oom-kill: {7}'',
       l_line_number = Some 7, l_backtrace = None, l_raw_backtrace = Some ''0x1'', l_known_issue = None\<rparr>\<rparr>"

theorem log_event_str_witness:
  "str_event sample_env sample_log_event = Inr (
     ''(DatabaseLogEvent Severity.CRITICAL) period_type=not-set event_id=id: type=OOM regex=oom'' @
     '' line_number=7 node=n1'' @ nl @ ''oom-kill: {7}'' @ nl @ ''0x1'')"
proof -
  let ?l = "\<lparr>l_regex = Some ''oom'', l_node = Some ''n1'', l_line = Some ''oom-kill: {7}'',
       l_line_number = Some 7, l_backtrace = None, l_raw_backtrace = Some ''0x1'', l_known_issue = None\<rparr>"
  have b: "base sample_log_event = ''DatabaseLogEvent''" by code_simp
  have t: "dget msgfmt_table (base sample_log_event) = None" unfolding b by (simp add: msgfmt_table_def)
  have l: "log sample_log_event = Some ?l" by (simp add: sample_log_event_def)
  have n: "no_braces (concatenate_subcontext sample_log_event)" by code_simp
  have "event_header sample_log_event =
      ''(DatabaseLogEvent Severity.CRITICAL) period_type=not-set event_id=id''" by code_simp
  moreover have "etype sample_log_event = Some ''OOM''" "str_int 7 = ''7''" by code_simp+
  ultimately show ?thesis by (simp add: log_event_str [OF t l n] tstr_def)
qed

section \<open>Durations can be read back\<close>

definition unit_seconds :: "char \<Rightarrow> nat" where
  "unit_seconds c = (if c = CHR ''d'' then 86400 else if c = CHR ''h'' then 3600
                     else if c = CHR ''m'' then 60 else 1)"

fun read_duration :: "nat \<Rightarrow> string \<Rightarrow> nat" where
  "read_duration cur [] = 0"
| "read_duration cur (c # cs) = (if is_digit c then read_duration (10 * cur + digit_val c) cs
                                 else cur * unit_seconds c + read_duration 0 cs)"

lemma read_duration_digits:
  "list_all is_digit ds \<Longrightarrow>
   read_duration cur (ds @ t) = read_duration (fold (\<lambda>c n. 10 * n + digit_val c) ds cur) t"
  by (induction ds arbitrary: cur) auto

lemma read_duration_part:
  assumes "0 \<le> n" "\<not> is_digit u"
  shows "read_duration 0 (str_int n @ u # t) = nat n * unit_seconds u + read_duration 0 t"
  using assms read_duration_digits [OF str_nat_digits, of 0 "nat n" "u # t"]
    nat_of_digits_str_nat [of "nat n"] by (simp add: str_int_def nat_of_digits_def)

lemmas read_duration_parts =
  read_duration_part [where u = "CHR ''d''"] read_duration_part [where u = "CHR ''h''"]
  read_duration_part [where u = "CHR ''m''"] read_duration_part [where u = "CHR ''s''"]

text \<open>
  A formatted duration can be read back: for any number of seconds, summing the units of the text
  \<open>duration_formatted\<close> makes gives that number again (the omitted units are zero).
\<close>

theorem format_duration_readable:
  assumes "relativedelta_normal w" "0 \<le> n"
  shows "read_duration 0 (format_duration w n) = nat n"
proof -
  obtain d h m s where dec: "relativedelta w n = (d, h, m, s)" by (cases "relativedelta w n") auto
  with assms have b: "0 \<le> d" "0 \<le> h" "0 \<le> m" "0 \<le> s" and n: "n = ((d * 24 + h) * 60 + m) * 60 + s"
    unfolding relativedelta_normal_def by fastforce+
  have "\<not> is_digit (CHR ''d'')" "\<not> is_digit (CHR ''h'')" "\<not> is_digit (CHR ''m'')" "\<not> is_digit (CHR ''s'')"
    by (simp_all add: is_digit_def char_code_def)
  with b have "read_duration 0 (format_duration w n) = nat d * 86400 + (nat h * 3600 + (nat m * 60 + nat s))"
    by (simp add: format_duration_def dec read_duration_parts unit_seconds_def)
  moreover from b n have "n = int (nat d * 86400 + (nat h * 3600 + (nat m * 60 + nat s)))" by simp
  ultimately show ?thesis by (simp only: nat_int)
qed

lemma day_split:
  fixes n :: int
  assumes "d * 86400 + r1 = n" "h * 3600 + r2 = r1" "m * 60 + s = r2" "0 \<le> s" "s < 60"
    "0 \<le> r2" "r2 < 3600" "0 \<le> r1" "r1 < 86400" "0 \<le> d" "0 \<le> h" "0 \<le> m"
  shows "0 \<le> d \<and> 0 \<le> h \<and> h < 24 \<and> 0 \<le> m \<and> m < 60 \<and> 0 \<le> s \<and> s < 60 \<and>
         n = ((d * 24 + h) * 60 + m) * 60 + s"
  using assms by (simp; linarith)

lemma sample_env_normal: "relativedelta_normal sample_env"
  unfolding relativedelta_normal_def
proof (intro allI impI)
  fix n :: int assume "0 \<le> n"
  have c: "n mod 86400 mod 3600 = n mod 3600" "n mod 3600 mod 60 = n mod 60"
    by (simp_all add: mod_mod_cancel)
  have "n div 86400 * 86400 + n mod 86400 = n"
    "n mod 86400 div 3600 * 3600 + n mod 3600 = n mod 86400" "n mod 3600 div 60 * 60 + n mod 60 = n mod 3600"
    using div_mult_mod_eq [of n 86400] div_mult_mod_eq [of "n mod 86400" 3600]
      div_mult_mod_eq [of "n mod 3600" 60] by (simp_all only: c)
  moreover have "0 \<le> n mod 60" "n mod 60 < 60" "0 \<le> n mod 3600" "n mod 3600 < 3600"
    "0 \<le> n mod 86400" "n mod 86400 < 86400" by simp_all
  moreover have "0 \<le> n div 86400" "0 \<le> n mod 86400 div 3600" "0 \<le> n mod 3600 div 60"
    using \<open>0 \<le> n\<close> by (simp_all add: pos_imp_zdiv_nonneg_iff)
  ultimately show "case relativedelta sample_env n of (d, h, m, s) \<Rightarrow>
      0 \<le> d \<and> 0 \<le> h \<and> h < 24 \<and> 0 \<le> m \<and> m < 60 \<and> 0 \<le> s \<and> s < 60 \<and> n = ((d * 24 + h) * 60 + m) * 60 + s"
    unfolding sample_env_def env.simps prod.case by (rule day_split)
qed

theorem format_duration_readable_witness:
  "relativedelta_normal sample_env \<and> read_duration 0 (format_duration sample_env 93784) = 93784 \<and>
   format_duration sample_env 93784 = ''1d2h3m4s''"
proof -
  note sample_env_normal
  moreover from this have "read_duration 0 (format_duration sample_env 93784) = nat 93784"
    by (rule format_duration_readable) simp
  moreover have "format_duration sample_env 93784 = ''1d2h3m4s''" by code_simp
  ultimately show ?thesis by simp
qed

end
