(* ===== verification/Filters.thy ===== *)
theory Filters
  imports Event_Text
begin

text \<open>
  Event filters: \<open>BaseFilter\<close> of \<open>sct_events/base.py\<close> and the classes of \<open>sct_events/filters.py\<close>. A
  filter is itself a system event: entering it publishes it, leaving it publishes it again with its
  expiration time. \<open>eval_filter\<close> may change the severity of the event it looks at, so evaluation
  returns the event. The locale \<open>event_filter\<close> is the contract the events device relies on.
\<close>

section \<open>Filters\<close>

datatype filter_kind = DbEventsFilter | EventsFilter | EventsSeverityChangerFilter severity

record filter_obj =
  f_kind :: filter_kind
  f_uuid :: string
  filter_type :: "string option"
  filter_node :: "string option"
  event_class :: "string option"
  regex :: "string option"
  regex_flags :: re_flags
  extra_time_to_expiration :: time
  expire_time :: "time option"
  clear_filter :: bool
  f_ready :: bool

text \<open>The argument \<open>line\<close> or \<open>regex\<close>: absent, a string, or a compiled pattern with its own flags.\<close>

datatype pattern_arg = NoPattern | PatStr string | PatCompiled string re_flags

fun pattern_of :: "pattern_arg \<Rightarrow> string option" where
  "pattern_of NoPattern = None"
| "pattern_of (PatStr p) = Some p"
| "pattern_of (PatCompiled p fl) = Some p"

definition new_db_filter :: "string option \<Rightarrow> pattern_arg \<Rightarrow> string option \<Rightarrow> time \<Rightarrow> string \<Rightarrow> filter_obj" where
  "new_db_filter ty line node extra uid =
     \<lparr>f_kind = DbEventsFilter, f_uuid = uid, filter_type = ty, filter_node = (if tstr node then node else None),
      event_class = None, regex = pattern_of line,
      regex_flags = (case line of NoPattern \<Rightarrow> no_flags | PatStr _ \<Rightarrow> flag_multiline_dotall
                     | PatCompiled _ fl \<Rightarrow> fl),
      extra_time_to_expiration = extra, expire_time = None, clear_filter = False, f_ready = True\<rparr>"

text \<open>
  \<open>EventsFilter\<close>: the class is given by its name; \<open>DOT\<close> is appended as the sentinel of the prefix
  match. Without a class and without a pattern the assertion fails.
\<close>

definition new_events_filter :: "filter_kind \<Rightarrow> string option \<Rightarrow> pattern_arg \<Rightarrow> time \<Rightarrow> string \<Rightarrow> filter_obj res" where
  "new_events_filter k cls rx extra uid =
     (if cls = None \<and> (case rx of NoPattern \<Rightarrow> True | PatStr p \<Rightarrow> p = [] | PatCompiled _ _ \<Rightarrow> False)
      then Inl AssertionError
      else Inr \<lparr>f_kind = k, f_uuid = uid, filter_type = None, filter_node = None,
        event_class = map_option (\<lambda>c. c @ [DOT]) cls, regex = pattern_of rx,
        regex_flags = (case rx of PatCompiled _ fl \<Rightarrow> fl | _ \<Rightarrow> flag_multiline_dotall),
        extra_time_to_expiration = extra, expire_time = None, clear_filter = False, f_ready = True\<rparr>)"

text \<open>\<open>_regex\<close>: nothing for no or an empty pattern, a \<open>ValueError\<close> for one that does not compile.\<close>

definition compiled :: "filter_obj \<Rightarrow> rx option res" where
  "compiled f = (case regex f of None \<Rightarrow> Inr None | Some p \<Rightarrow>
     if p = [] then Inr None
     else case re_compile p of None \<Rightarrow> Inl ValueError | Some r \<Rightarrow> Inr (Some r))"

definition too_late :: "time option \<Rightarrow> event \<Rightarrow> bool" where
  "too_late x e = (case (x, timestamp e) of
     (Some t, Some ts) \<Rightarrow> t \<noteq> 0 \<and> ts \<noteq> 0 \<and> t < ts | _ \<Rightarrow> False)"

definition event_line :: "event \<Rightarrow> string" where
  "event_line e = (case log e of None \<Rightarrow> [] | Some l \<Rightarrow> (case l_line l of None \<Rightarrow> [] | Some s \<Rightarrow> s))"

definition event_node :: "event \<Rightarrow> string" where
  "event_node e = (case log e of None \<Rightarrow> [] | Some l \<Rightarrow> (case l_node l of None \<Rightarrow> [] | Some s \<Rightarrow> s))"

definition eval_db :: "filter_obj \<Rightarrow> event \<Rightarrow> (bool \<times> event) res" where
  "eval_db f e =
     (if \<not> is_log_event e then Inr (False, e)
      else if too_late (expire_time f) e then Inr (False, e)
      else rbind (compiled f) (\<lambda>r.
        Inr (tstr (filter_type f) \<and> filter_type f = etype e \<and>
             (case r of None \<Rightarrow> True | Some x \<Rightarrow> re_search_b (regex_flags f) x (event_line e)) \<and>
             (case filter_node f of None \<Rightarrow> True
              | Some n \<Rightarrow> n = [] \<or> n \<in> set (py_words (event_node e))), e)))"

definition eval_events :: "env \<Rightarrow> filter_obj \<Rightarrow> event \<Rightarrow> (bool \<times> event) res" where
  "eval_events w f e =
     (if too_late (expire_time f) e then Inr (False, e)
      else let cls = (case event_class f of None \<Rightarrow> True | Some c \<Rightarrow> starts_with (cls_name e @ [DOT]) c)
           in rbind (compiled f) (\<lambda>r. case r of
                None \<Rightarrow> Inr (cls, e)
              | Some x \<Rightarrow> rbind (str_event w e) (\<lambda>s. Inr (cls \<and> re_match_b (regex_flags f) x s, e))))"

definition eval_severity_changer :: "env \<Rightarrow> severity \<Rightarrow> filter_obj \<Rightarrow> event \<Rightarrow> (bool \<times> event) res" where
  "eval_severity_changer w new_severity f e =
     rbind (eval_events w f e) (\<lambda>(b, e1). Inr (False, if b then e1\<lparr>severity := new_severity\<rparr> else e1))"

definition eval_filter :: "env \<Rightarrow> filter_obj \<Rightarrow> event \<Rightarrow> (bool \<times> event) res" where
  "eval_filter w f e = (case f_kind f of
     DbEventsFilter \<Rightarrow> eval_db f e
   | EventsFilter \<Rightarrow> eval_events w f e
   | EventsSeverityChangerFilter s \<Rightarrow> eval_severity_changer w s f e)"

text \<open>
  \<open>cancel_filter\<close> of the filter classes: the extra time is added to the clock; without it the base
  class sets the current time unless a time is set. The filter is then published.
\<close>

definition cancel_filter :: "time \<Rightarrow> filter_obj \<Rightarrow> filter_obj \<times> filter_obj list" where
  "cancel_filter now f =
     (let f1 = (if extra_time_to_expiration f \<noteq> 0
                then f\<lparr>expire_time := Some (now + extra_time_to_expiration f)\<rparr> else f);
          f2 = (if expire_time f1 = None then f1\<lparr>expire_time := Some now\<rparr> else f1);
          f3 = f2\<lparr>clear_filter := True, f_ready := True\<rparr>
      in (f3\<lparr>f_ready := False\<rparr>, [f3]))"

definition enter_filter :: "filter_obj \<Rightarrow> filter_obj \<times> filter_obj list" where
  "enter_filter f = (if f_ready f then (f\<lparr>f_ready := False\<rparr>, [f]) else (f, []))"

definition FILTER_EVENT_DECAY_TIME :: time where "FILTER_EVENT_DECAY_TIME = 600"

definition is_deceased :: "time \<Rightarrow> filter_obj \<Rightarrow> bool" where
  "is_deceased now f = (case expire_time f of None \<Rightarrow> False
     | Some x \<Rightarrow> x \<noteq> 0 \<and> x + FILTER_EVENT_DECAY_TIME \<le> now)"

text \<open>\<open>msgfmt\<close> of the filters, and their \<open>__str__\<close>.\<close>

definition filter_base :: "filter_obj \<Rightarrow> string" where
  "filter_base f = (case f_kind f of DbEventsFilter \<Rightarrow> ''DbEventsFilter'' | EventsFilter \<Rightarrow> ''EventsFilter''
     | EventsSeverityChangerFilter _ \<Rightarrow> ''EventsSeverityChangerFilter'')"

definition filter_attr :: "filter_obj \<Rightarrow> string \<Rightarrow> string option" where
  "filter_attr f n = dget [(''base'', filter_base f), (''filter_type'', py_str_opt (filter_type f)),
     (''filter_node'', py_str_opt (filter_node f)), (''event_class'', py_str_opt (event_class f)),
     (''regex'', py_str_opt (regex f))] n"

definition db_filter_msgfmt :: "filter_obj \<Rightarrow> string res" where
  "db_filter_msgfmt f = rbind (compiled f) (\<lambda>r.
     Inr (''('' @ py_join '' '' ([fld ''base''] @
       (if tstr (filter_type f) then [''type='' @ fld ''filter_type''] else []) @
       (case (r, regex f) of (Some _, Some p) \<Rightarrow> [''line='' @ p] | _ \<Rightarrow> []) @
       (if tstr (filter_node f) then [''node='' @ fld ''filter_node''] else [])) @ '')''))"

definition events_filter_msgfmt :: "filter_obj \<Rightarrow> string" where
  "events_filter_msgfmt f =
     ''('' @ py_join '' '' ([fld ''base''] @
       (if tstr (event_class f) then [''event_class='' @ fld ''event_class''] else []) @
       (if tstr (regex f) then [''regex='' @ fld ''regex''] else [])) @ '')''"

definition str_filter :: "filter_obj \<Rightarrow> string res" where
  "str_filter f = (if f_kind f = DbEventsFilter
     then rbind (db_filter_msgfmt f) (py_format (filter_attr f))
     else py_format (filter_attr f) (events_filter_msgfmt f))"

section \<open>The contract of a filter\<close>

text \<open>\<open>any(f.eval_filter(obj) for f in filters)\<close>: in order, stopping at the first that is true.\<close>

fun any_eval :: "('f \<Rightarrow> event \<Rightarrow> (bool \<times> event) res) \<Rightarrow> 'f list \<Rightarrow> event \<Rightarrow> (bool \<times> event) res" where
  "any_eval ev [] e = Inr (False, e)"
| "any_eval ev (f # fs) e = rbind (ev f e) (\<lambda>(b, e1). if b then Inr (True, e1) else any_eval ev fs e1)"

text \<open>Two events that differ in their severity only.\<close>

definition same_but_severity :: "event \<Rightarrow> event \<Rightarrow> bool" where
  "same_but_severity e e1 \<longleftrightarrow> e1 = e\<lparr>severity := severity e1\<rparr>"

lemma same_but_severity_refl [simp]: "same_but_severity e e"
  by (simp add: same_but_severity_def)

lemma same_but_severity_upd [simp]: "same_but_severity e (e\<lparr>severity := s\<rparr>)"
  by (simp add: same_but_severity_def)

lemma same_but_severity_trans:
  "same_but_severity a b \<Longrightarrow> same_but_severity b c \<Longrightarrow> same_but_severity a c"
  unfolding same_but_severity_def by (metis event.surjective event.update_convs(8))

lemma too_late_same: "same_but_severity e e1 \<Longrightarrow> too_late x e1 = too_late x e"
  unfolding same_but_severity_def by (erule ssubst) (simp add: too_late_def timestamp_def split: option.splits)

lemma is_system_same: "same_but_severity e e1 \<Longrightarrow> is_system e1 = is_system e"
  unfolding same_but_severity_def by (erule ssubst) simp

locale event_filter =
  fixes ev :: "'f \<Rightarrow> event \<Rightarrow> (bool \<times> event) res"
    and expires :: "'f \<Rightarrow> time option"
  assumes ev_late: "too_late (expires f) e \<Longrightarrow> ev f e = Inr (False, e)"
    and ev_frame: "ev f e = Inr (b, e1) \<Longrightarrow> same_but_severity e e1"
    and ev_drop: "ev f e = Inr (True, e1) \<Longrightarrow> e1 = e"
begin

lemma any_frame: "any_eval ev fs e = Inr (b, e1) \<Longrightarrow> same_but_severity e e1"
proof (induction fs arbitrary: e)
  case (Cons f fs)
  then obtain c e2 where "ev f e = Inr (c, e2)"
    and "(if c then Inr (True, e2) else any_eval ev fs e2) = Inr (b, e1)"
    by (auto simp: rbind_Inr_iff)
  then show ?case
    using ev_frame [of f e c e2] Cons.IH [of e2] same_but_severity_trans by (cases c) auto
qed simp

lemma any_drop:
  "any_eval ev fs e = Inr (True, e1) \<Longrightarrow> \<exists>f\<in>set fs. ev f e1 = Inr (True, e1) \<and> \<not> too_late (expires f) e1"
proof (induction fs arbitrary: e)
  case (Cons f fs)
  then obtain c e2 where 1: "ev f e = Inr (c, e2)"
    and 2: "(if c then Inr (True, e2) else any_eval ev fs e2) = Inr (True, e1)"
    by (auto simp: rbind_Inr_iff)
  show ?case
  proof (cases c)
    case True
    with 1 2 ev_drop have "e2 = e" "e1 = e" by auto
    with 1 True ev_late [of f e] show ?thesis by auto
  next
    case False
    with 2 Cons.IH show ?thesis by auto
  qed
qed simp

text \<open>Filters that expired before the event do not matter.\<close>

lemma any_late_irrelevant:
  "\<forall>x\<in>set xs. \<not> keep x \<longrightarrow> too_late (expires (g x)) e \<Longrightarrow>
   any_eval ev (map g (filter keep xs)) e = any_eval ev (map g xs) e"
proof (induction xs arbitrary: e)
  case (Cons x xs)
  show ?case
  proof (cases "keep x")
    case True
    have "any_eval ev (map g (filter keep xs)) e1 = any_eval ev (map g xs) e1" if "ev (g x) e = Inr (b, e1)" for b e1
      using Cons.prems too_late_same [OF ev_frame [OF that]] by (intro Cons.IH) auto
    with True show ?thesis by (cases "ev (g x) e") auto
  next
    case False
    with Cons.prems ev_late [of "g x" e] have "ev (g x) e = Inr (False, e)" by simp
    with False Cons show ?thesis by simp
  qed
qed simp

end

interpretation db_filter: event_filter eval_db expire_time
  by unfold_locales (auto simp: eval_db_def rbind_Inr_iff split: if_splits)

lemma eval_events_same: "eval_events w f e = Inr (b, e1) \<Longrightarrow> e1 = e"
  by (auto simp: eval_events_def Let_def rbind_Inr_iff split: if_splits option.splits)

interpretation events_filter: event_filter "eval_events w" expire_time for w
  by unfold_locales (simp add: eval_events_def, auto dest: eval_events_same)

interpretation severity_changer: event_filter "eval_severity_changer w s" expire_time for w s
  by unfold_locales
    (auto simp: eval_severity_changer_def events_filter.ev_late rbind_Inr_iff dest: eval_events_same split: if_splits)

interpretation any_filter: event_filter "eval_filter w" expire_time for w
proof unfold_locales
  show "too_late (expire_time f) e \<Longrightarrow> eval_filter w f e = Inr (False, e)" for f e
    by (simp add: eval_filter_def db_filter.ev_late events_filter.ev_late severity_changer.ev_late
        split: filter_kind.splits)
  show "eval_filter w f e = Inr (b, e1) \<Longrightarrow> same_but_severity e e1" for f e b e1
    by (auto simp: eval_filter_def split: filter_kind.splits
        intro: db_filter.ev_frame events_filter.ev_frame severity_changer.ev_frame)
  show "eval_filter w f e = Inr (True, e1) \<Longrightarrow> e1 = e" for f e e1
    by (auto simp: eval_filter_def split: filter_kind.splits
        dest: db_filter.ev_drop events_filter.ev_drop severity_changer.ev_drop)
qed

end
