(* ===== verification/Events_Device.thy ===== *)
theory Events_Device
  imports Filters "HOL-Library.Word" "HOL-Library.Sublist"
begin

text \<open>
  The main device of \<open>sct_events/events_device.py\<close>: the queue and the counter of \<open>publish_event\<close>, the
  loop of \<open>run\<close> that sends the queue, and \<open>outbound_events\<close>, the loop every consumer runs over the
  inbound messages: it keeps the filters, drops events that a filter matches, limits severities and
  yields the rest. An exception raised by a filter or by \<open>max_severity\<close> ends the loop.
\<close>

section \<open>Publishing\<close>

datatype msg = MFilter filter_obj | MEvent event

record device =
  dev_queue :: "msg list"
  dev_raw_log :: "msg list"
  dev_counter :: "32 word"
  dev_running :: bool

definition new_device :: device where
  "new_device = \<lparr>dev_queue = [], dev_raw_log = [], dev_counter = 0, dev_running = False\<rparr>"

text \<open>
  \<open>publish_event\<close>: both blocks suppress exceptions, so a message that cannot be written to the raw
  log (\<open>write_ok\<close>) is still queued; the counter grows only when the queue took the message.
\<close>

definition publish_event :: "bool \<Rightarrow> bool \<Rightarrow> msg \<Rightarrow> device \<Rightarrow> device" where
  "publish_event write_ok put_ok m d =
     (let d1 = (if write_ok then d\<lparr>dev_raw_log := dev_raw_log d @ [m]\<rparr> else d)
      in if put_ok then d1\<lparr>dev_queue := dev_queue d1 @ [m], dev_counter := dev_counter d1 + 1\<rparr> else d1)"

text \<open>
  One turn of the loop of \<open>run\<close>: it ends (\<open>None\<close>) when the device was stopped and the queue is empty.
  A message \<open>pub.send\<close> refuses (\<open>sent\<close> is false) is lost; the check of the delivery by the device's own
  subscriber only writes to the log.
\<close>

definition device_turn :: "bool \<Rightarrow> device \<Rightarrow> (device \<times> msg list) option" where
  "device_turn sent d =
     (if dev_running d \<or> dev_queue d \<noteq> [] then
        (case dev_queue d of [] \<Rightarrow> Some (d, [])
         | m # q \<Rightarrow> Some (d\<lparr>dev_queue := q\<rparr>, if sent then [m] else []))
      else None)"

fun device_run :: "bool list \<Rightarrow> device \<Rightarrow> device \<times> msg list" where
  "device_run [] d = (d, [])"
| "device_run (sent # ss) d = (case device_turn sent d of
     None \<Rightarrow> (d, [])
   | Some (d1, ms) \<Rightarrow> (let (d2, ns) = device_run ss d1 in (d2, ms @ ns)))"

definition stop_device :: "device \<Rightarrow> device" where "stop_device d = d\<lparr>dev_running := False\<rparr>"

definition subscribe_address :: "nat \<Rightarrow> device \<Rightarrow> string res" where
  "subscribe_address port d =
     (if dev_running d then Inr (''tcp://localhost:'' @ str_nat port) else Inl RuntimeError)"

section \<open>The outbound loop\<close>

text \<open>The clock readings of one turn: \<open>perf_counter\<close> twice, and \<open>time\<close> for each filter the GC looks at.\<close>

record tick =
  t_perf :: time
  t_gc :: "string \<Rightarrow> time"
  t_perf_after :: time

record outbound =
  filters :: "(string, filter_obj) dict"
  gc_next_hit :: time
  seen :: nat

definition FILTERS_GC_PERIOD :: time where "FILTERS_GC_PERIOD = 60"

definition new_outbound :: "time \<Rightarrow> outbound" where
  "new_outbound perf = \<lparr>filters = [], gc_next_hit = perf + FILTERS_GC_PERIOD, seen = 0\<rparr>"

text \<open>\<open>events_counter.value\<close>, an unsigned 32-bit value that the loop assigns the index to.\<close>

definition events_counter :: "outbound \<Rightarrow> 32 word" where "events_counter s = of_nat (seen s)"

definition gc_filters :: "(string \<Rightarrow> time) \<Rightarrow> (string, filter_obj) dict \<Rightarrow> (string, filter_obj) dict" where
  "gc_filters clk fs = filter (\<lambda>(k, f). \<not> is_deceased (clk k) f) fs"

definition gc_step :: "tick \<Rightarrow> outbound \<Rightarrow> outbound" where
  "gc_step t s = (if gc_next_hit s < t_perf t
     then s\<lparr>filters := gc_filters (t_gc t) (filters s), gc_next_hit := t_perf_after t + FILTERS_GC_PERIOD\<rparr>
     else s)"

definition handle_filter :: "filter_obj \<Rightarrow> (string, filter_obj) dict \<Rightarrow> (string, filter_obj) dict" where
  "handle_filter obj fs =
     (if clear_filter obj \<and> \<not> truthy_time (expire_time obj) then ddel (f_uuid obj) fs
      else case dget fs (f_uuid obj) of
        Some old \<Rightarrow> if clear_filter obj \<and> truthy_time (expire_time obj)
                    then dset (f_uuid obj) (old\<lparr>expire_time := expire_time obj\<rparr>) fs
                    else dset (f_uuid obj) obj fs
      | None \<Rightarrow> dset (f_uuid obj) obj fs)"

definition limit_severity :: "types_registry \<Rightarrow> event \<Rightarrow> event res" where
  "limit_severity reg e = rbind (max_severity reg e) (\<lambda>m.
     Inr (if sev_value m < sev_value (severity e) then e\<lparr>severity := m\<rparr> else e))"

definition handle_event :: "env \<Rightarrow> types_registry \<Rightarrow> (string, filter_obj) dict \<Rightarrow> event \<Rightarrow> event list res" where
  "handle_event w reg fs e =
     (if is_system e then Inr []
      else rbind (any_eval (eval_filter w) (map snd fs) e) (\<lambda>(filtered, e1).
        if filtered then Inr [] else rbind (limit_severity reg e1) (\<lambda>e2. Inr [e2])))"

text \<open>The loop's state is an error once an exception left the generator.\<close>

definition outbound_step ::
  "env \<Rightarrow> types_registry \<Rightarrow> outbound res \<Rightarrow> tick \<times> msg \<Rightarrow> outbound res \<times> (string \<times> event) list" where
  "outbound_step w reg r x = (case (r, x) of
     (Inl er, _) \<Rightarrow> (Inl er, [])
   | (Inr s0, t, m) \<Rightarrow>
       (let s = gc_step t (s0\<lparr>seen := seen s0 + 1\<rparr>) in
        case m of
          MFilter f \<Rightarrow> (Inr (s\<lparr>filters := handle_filter f (filters s)\<rparr>), [])
        | MEvent e \<Rightarrow> (case handle_event w reg (filters s) e of
            Inl er \<Rightarrow> (Inl er, [])
          | Inr es \<Rightarrow> (Inr s, map (\<lambda>e1. (base e1, e1)) es))))"

definition outbound_events ::
  "env \<Rightarrow> types_registry \<Rightarrow> time \<Rightarrow> (tick \<times> msg) list \<Rightarrow> outbound res \<times> (string \<times> event) list" where
  "outbound_events w reg perf inbound = run_gen (outbound_step w reg) (Inr (new_outbound perf)) inbound"

section \<open>What the loop yields\<close>

definition filters_ok :: "outbound res \<Rightarrow> bool" where
  "filters_ok r \<longleftrightarrow> (case r of Inl _ \<Rightarrow> True
     | Inr s \<Rightarrow> distinct (map fst (filters s)) \<and> (\<forall>(k, f)\<in>set (filters s). f_uuid f = k))"

definition within_limit :: "types_registry \<Rightarrow> string \<times> event \<Rightarrow> bool" where
  "within_limit reg y \<longleftrightarrow> fst y = base (snd y) \<and> \<not> is_system (snd y) \<and>
     (\<exists>m. max_severity reg (snd y) = Inr m \<and> severity (snd y) \<le> m)"

lemma max_severity_same: "same_but_severity e e1 \<Longrightarrow> max_severity reg e1 = max_severity reg e"
  unfolding same_but_severity_def by (erule ssubst) (simp add: max_severity_def severity_keys_def)

lemma limit_severity_Inr:
  assumes "limit_severity reg e = Inr e2"
  shows "same_but_severity e e2 \<and> (\<exists>m. max_severity reg e2 = Inr m \<and> severity e2 = min (severity e) m)"
proof -
  from assms obtain m where m: "max_severity reg e = Inr m"
    and e2: "e2 = (if sev_value m < sev_value (severity e) then e\<lparr>severity := m\<rparr> else e)"
    by (auto simp: limit_severity_def rbind_Inr_iff)
  then have s: "same_but_severity e e2" by simp
  with m have "max_severity reg e2 = Inr m" by (simp add: max_severity_same)
  moreover have "severity e2 = min (severity e) m"
    using e2 by (auto simp: min_def less_eq_severity_def)
  ultimately show ?thesis using s by blast
qed

lemma handle_event_Inr:
  assumes "handle_event w reg fs e = Inr es" "y \<in> set es"
  shows "es = [y] \<and> same_but_severity e y \<and> \<not> is_system y \<and> (\<exists>m. max_severity reg y = Inr m \<and> severity y \<le> m)"
proof -
  from assms obtain e1 where n: "\<not> is_system e" and a: "any_eval (eval_filter w) (map snd fs) e = Inr (False, e1)"
    and l: "limit_severity reg e1 = Inr y" and es: "es = [y]"
    by (auto simp: handle_event_def rbind_Inr_iff split: if_splits)
  from any_filter.any_frame [OF a] limit_severity_Inr [OF l]
  have "same_but_severity e y" "\<exists>m. max_severity reg y = Inr m \<and> severity y \<le> m"
    by (auto intro: same_but_severity_trans)
  with n es show ?thesis by (simp add: is_system_same)
qed

lemma filters_ok_gc: "filters_ok (Inr s) \<Longrightarrow> filters_ok (Inr (gc_step t s))"
  by (auto simp: filters_ok_def gc_step_def gc_filters_def distinct_map_filter)

lemma handle_filter_cases:
  "handle_filter f fs = ddel (f_uuid f) fs \<or>
   (\<exists>g. handle_filter f fs = dset (f_uuid f) g fs \<and>
        (g = f \<or> (\<exists>old. dget fs (f_uuid f) = Some old \<and> g = old\<lparr>expire_time := expire_time f\<rparr>)))"
  unfolding handle_filter_def by (cases "dget fs (f_uuid f)") auto

lemma handle_filter_ok:
  assumes "filters_ok (Inr s)"
  shows "filters_ok (Inr (s\<lparr>filters := handle_filter f (filters s)\<rparr>))"
  using handle_filter_cases [of f "filters s"]
proof (elim disjE [of "_ = ddel _ _"] exE conjE)
  assume "handle_filter f (filters s) = ddel (f_uuid f) (filters s)"
  with assms set_ddel_subset [of "f_uuid f" "filters s"] show ?thesis
    by (auto simp: filters_ok_def distinct_delete)
next
  fix g assume h: "handle_filter f (filters s) = dset (f_uuid f) g (filters s)"
    and "g = f \<or> (\<exists>old. dget (filters s) (f_uuid f) = Some old \<and> g = old\<lparr>expire_time := expire_time f\<rparr>)"
  then have "f_uuid g = f_uuid f"
    using assms map_of_SomeD [of "filters s" "f_uuid f"] by (auto simp: filters_ok_def)
  with assms h set_dset_subset [of "f_uuid f" g "filters s"] show ?thesis
    by (auto simp: filters_ok_def distinct_update)
qed

interpretation outbound: gen_loop "outbound_step w reg" filters_ok "within_limit reg" for w reg
proof unfold_locales
  fix s :: "outbound res" and x :: "tick \<times> msg" assume ok: "filters_ok s"
  obtain t m where x: "x = (t, m)" by (cases x)
  show "filters_ok (fst (outbound_step w reg s x))"
  proof (cases s)
    case (Inr s0)
    with ok have "filters_ok (Inr (gc_step t (s0\<lparr>seen := seen s0 + 1\<rparr>)))"
      by (intro filters_ok_gc) (simp add: filters_ok_def)
    then show ?thesis
      using handle_filter_ok x Inr
      by (auto simp: outbound_step_def Let_def filters_ok_def split: msg.splits sum.splits)
  qed (simp add: outbound_step_def filters_ok_def)
  show "within_limit reg y" if "y \<in> set (snd (outbound_step w reg s x))" for y
    using that x handle_event_Inr
    by (fastforce simp: outbound_step_def Let_def within_limit_def split: sum.splits msg.splits)
qed

section \<open>Properties of the device\<close>

text \<open>
  C2. Whatever the inbound messages, the loop of the device yields only events that are not system
  events (so no filter), each with its base name, and with a severity at most the maximal severity
  the registry has for it.
\<close>

theorem outbound_within_limit: "list_all (within_limit reg) (snd (outbound_events w reg perf inbound))"
proof -
  have "filters_ok (Inr (new_outbound perf))" by (simp add: filters_ok_def new_outbound_def)
  then show ?thesis
    unfolding outbound_events_def list_all_iff by (blast intro: outbound.loop_good)
qed

definition erase_severity :: "event \<Rightarrow> event" where "erase_severity e = e\<lparr>severity := NORMAL\<rparr>"

definition plain_events :: "tick \<times> msg \<Rightarrow> event list" where
  "plain_events x = (case snd x of MFilter _ \<Rightarrow> [] | MEvent e \<Rightarrow> if is_system e then [] else [erase_severity e])"

lemma erase_same: "same_but_severity e e1 \<Longrightarrow> erase_severity e1 = erase_severity e"
  unfolding same_but_severity_def erase_severity_def by (erule ssubst) simp

lemma step_subseq:
  "subseq (map (erase_severity \<circ> snd) (snd (outbound_step w reg s x))) (plain_events x)"
proof -
  have "subseq (map erase_severity es) (plain_events (t, MEvent e))"
    if h: "handle_event w reg fs e = Inr es" for fs e es t
  proof (cases es)
    case (Cons y ys)
    with handle_event_Inr [OF h, of y] have "es = [y]" "same_but_severity e y" "\<not> is_system y" by auto
    then show ?thesis by (simp add: plain_events_def erase_same is_system_same)
  qed simp
  then show ?thesis
    by (auto simp: outbound_step_def Let_def comp_def split: sum.splits msg.splits prod.splits)
qed

text \<open>
  C3. Events are never reordered, duplicated, invented or altered but for their severity: what the
  loop yields is, severities aside, a subsequence of the inbound events that are not system events.
\<close>

theorem outbound_keeps_order:
  "subseq (map (erase_severity \<circ> snd) (snd (outbound_events w reg perf inbound)))
          (concat (map plain_events inbound))"
  unfolding outbound_events_def by (rule run_gen_subseq) (rule step_subseq)

text \<open>
  C14. Collecting old filters does not change what happens to an event, provided its timestamp is not
  older than the decay time (ten minutes) when a filter was found deceased.
\<close>

theorem gc_keeps_outcome:
  assumes "\<forall>(k, f)\<in>set fs. is_deceased (clk k) f \<longrightarrow> clk k - FILTER_EVENT_DECAY_TIME < ts"
    and "timestamp e = Some ts" "0 < ts"
  shows "handle_event w reg (gc_filters clk fs) e = handle_event w reg fs e"
proof -
  have "\<forall>x\<in>set fs. \<not> \<not> is_deceased (clk (fst x)) (snd x) \<longrightarrow> too_late (expire_time (snd x)) e"
    using assms by (fastforce simp: is_deceased_def too_late_def split: option.splits)
  then show ?thesis
    unfolding handle_event_def gc_filters_def case_prod_beta
    by (simp only: any_filter.any_late_irrelevant [where g = snd])
qed

definition sample_filter :: filter_obj where
  "sample_filter = new_db_filter (Some ''OOM'') (PatStr ''oom'') (Some ''n1'') 10 ''u1''"

theorem gc_keeps_outcome_witness:
  "\<exists>fs e. gc_filters (\<lambda>_. 1000) fs = [] \<and> fs \<noteq> [] \<and>
     handle_event sample_env sample_registry (gc_filters (\<lambda>_. 1000) fs) e =
     handle_event sample_env sample_registry fs e"
proof -
  let ?fs = "[(''u1'', sample_filter\<lparr>expire_time := Some 1\<rparr>)]"
  let ?e = "sample_log_event\<lparr>event_timestamp := Some 500\<rparr>"
  have "timestamp ?e = Some 500" by (simp add: timestamp_def sample_log_event_def sample_event_def new_event_def)
  then have "handle_event sample_env sample_registry (gc_filters (\<lambda>_. 1000) ?fs) ?e =
      handle_event sample_env sample_registry ?fs ?e"
    by (rule gc_keeps_outcome [where ts = 500, rotated]) (simp_all add: is_deceased_def FILTER_EVENT_DECAY_TIME_def)
  moreover have "gc_filters (\<lambda>_. 1000) ?fs = []"
    by (simp add: gc_filters_def is_deceased_def FILTER_EVENT_DECAY_TIME_def)
  ultimately show ?thesis by blast
qed

lemma cancelled_filter:
  assumes "expire_time g = None"
  shows "snd (cancel_filter now g) =
    [g\<lparr>expire_time := Some (now + extra_time_to_expiration g), clear_filter := True, f_ready := True\<rparr>]"
  using assms by (simp add: cancel_filter_def Let_def)

lemma eval_filter_expires:
  assumes "expire_time f = None" "timestamp e = Some ts" "0 < ts" "0 < x"
  shows "eval_filter w (f\<lparr>expire_time := Some x\<rparr>) e = (if x < ts then Inr (False, e) else eval_filter w f e)"
proof (cases "x < ts")
  case True
  then show ?thesis using assms by (simp add: any_filter.ev_late too_late_def)
next
  case False
  then have "\<not> too_late (Some x) e" "\<not> too_late None e" using assms by (simp_all add: too_late_def)
  then show ?thesis
    using False assms
    by (simp add: eval_filter_def eval_db_def eval_events_def eval_severity_changer_def compiled_def
        split: filter_kind.splits cong: option.case_cong)
qed

text \<open>
  C6. The window of a filter: when a filter the device knows is cancelled at time \<open>now\<close>, it goes on
  to be evaluated as before on the events with a timestamp up to \<open>now\<close> plus the extra time, it never
  matches a later event, and no other filter changes.
\<close>

theorem cancelled_filter_window:
  assumes "dget fs (f_uuid g) = Some f" "expire_time f = None" "expire_time g = None"
    and "0 < now" "0 \<le> extra_time_to_expiration g" "timestamp e = Some ts" "0 < ts"
  shows "\<exists>m f1. snd (cancel_filter now g) = [m] \<and> dget (handle_filter m fs) (f_uuid g) = Some f1 \<and>
    eval_filter w f1 e = (if now + extra_time_to_expiration g < ts then Inr (False, e) else eval_filter w f e) \<and>
    (\<forall>k. k \<noteq> f_uuid g \<longrightarrow> dget (handle_filter m fs) k = dget fs k)"
proof -
  let ?x = "now + extra_time_to_expiration g"
  let ?m = "g\<lparr>expire_time := Some ?x, clear_filter := True, f_ready := True\<rparr>"
  have x: "0 < ?x" using assms by simp
  then have "handle_filter ?m fs = dset (f_uuid g) (f\<lparr>expire_time := Some ?x\<rparr>) fs"
    using assms(1) by (simp add: handle_filter_def)
  then show ?thesis
    using cancelled_filter [OF assms(3)] eval_filter_expires [OF assms(2,6,7) x]
    by (intro exI [of _ ?m] exI [of _ "f\<lparr>expire_time := Some ?x\<rparr>"]) (simp add: dget_dset)
qed

theorem cancelled_filter_window_witness:
  "\<exists>m f1. snd (cancel_filter 100 sample_filter) = [m] \<and>
     dget (handle_filter m [(''u1'', sample_filter)]) ''u1'' = Some f1 \<and>
     eval_filter sample_env f1 (sample_log_event\<lparr>event_timestamp := Some 105\<rparr>) =
       Inr (True, sample_log_event\<lparr>event_timestamp := Some 105\<rparr>)"
proof -
  let ?e = "sample_log_event\<lparr>event_timestamp := Some 105\<rparr>"
  have t: "timestamp ?e = Some 105" by (simp add: timestamp_def sample_log_event_def sample_event_def new_event_def)
  have u: "f_uuid sample_filter = ''u1''" "expire_time sample_filter = None" "extra_time_to_expiration sample_filter = 10"
    by (simp_all add: sample_filter_def new_db_filter_def)
  have d: "dget [(''u1'', sample_filter)] (f_uuid sample_filter) = Some sample_filter" by (simp add: u)
  have "eval_db sample_filter ?e = Inr (True, ?e)"
  proof -
    have "compiled sample_filter = Inr (re_compile ''oom'')" "re_compile ''oom'' \<noteq> None" by code_simp+
    then obtain r where "compiled sample_filter = Inr (Some r)" and r: "re_compile ''oom'' = Some r" by auto
    moreover have "case re_compile ''oom'' of None \<Rightarrow> False | Some r \<Rightarrow>
        re_search_b (regex_flags sample_filter) r (event_line sample_log_event)" by code_simp
    ultimately show ?thesis
      using u by (simp add: eval_db_def r too_late_def is_log_event_def event_line_def event_node_def
          sample_log_event_def sample_filter_def new_db_filter_def tstr_def py_words_def
          is_space_def char_code_def sample_event_def new_event_def)
  qed
  then have e: "eval_filter sample_env sample_filter ?e = Inr (True, ?e)"
    by (simp add: eval_filter_def sample_filter_def new_db_filter_def)
  show ?thesis
    using cancelled_filter_window [OF d u(2) u(2), of 100 ?e 105 sample_env] e
    unfolding t u by auto
qed

text \<open>
  Cancelling a filter never removes it: the message always carries an expiration time, so the
  branch that deletes the filter is not taken, and a filter the device does not know (for instance
  one that was collected) is added again.
\<close>

theorem cancel_never_deletes:
  assumes "expire_time g = None" "0 < now" "0 \<le> extra_time_to_expiration g"
  shows "\<exists>m. snd (cancel_filter now g) = [m] \<and> dmem (handle_filter m fs) (f_uuid g) \<and>
    (\<not> dmem fs (f_uuid g) \<longrightarrow> dget (handle_filter m fs) (f_uuid g) = Some m)"
proof -
  let ?m = "g\<lparr>expire_time := Some (now + extra_time_to_expiration g), clear_filter := True, f_ready := True\<rparr>"
  have "now + extra_time_to_expiration g \<noteq> 0" using assms by simp
  then have "dmem (handle_filter ?m fs) (f_uuid g) \<and>
      (\<not> dmem fs (f_uuid g) \<longrightarrow> dget (handle_filter ?m fs) (f_uuid g) = Some ?m)"
    by (auto simp: handle_filter_def dmem_def dget_dset split: option.splits)
  then show ?thesis using cancelled_filter [OF assms(1)] by blast
qed

theorem cancel_never_deletes_witness:
  "\<exists>m. snd (cancel_filter 100 sample_filter) = [m] \<and> dmem (handle_filter m []) ''u1''"
proof -
  have u: "f_uuid sample_filter = ''u1''" "expire_time sample_filter = None" "extra_time_to_expiration sample_filter = 10"
    by (simp_all add: sample_filter_def new_db_filter_def)
  show ?thesis using cancel_never_deletes [OF u(2), of 100 "[]"] unfolding u by auto
qed

lemma seen_step: "outbound_step w reg (Inr s) x = (Inr s1, ys) \<Longrightarrow> seen s1 = Suc (seen s)"
  by (auto simp: outbound_step_def gc_step_def Let_def split: prod.splits msg.splits sum.splits if_splits)

lemma seen_run: "run_gen (outbound_step w reg) (Inr s) xs = (Inr s1, ys) \<Longrightarrow> seen s1 = seen s + length xs"
proof (induction xs arbitrary: s ys)
  case (Cons x xs)
  obtain r zs where st: "outbound_step w reg (Inr s) x = (r, zs)" by (cases "outbound_step w reg (Inr s) x")
  have dead: "run_gen (outbound_step w reg) (Inl er) xs = (Inl er, [])" for er
    by (induction xs) (simp_all add: outbound_step_def)
  with st Cons.prems obtain s2 where "r = Inr s2" by (cases r) (auto simp: Let_def)
  with st Cons.prems obtain us where "run_gen (outbound_step w reg) (Inr s2) xs = (Inr s1, us)"
    by (auto simp: Let_def split: prod.splits)
  from Cons.IH [OF this] seen_step [OF st [unfolded \<open>r = Inr s2\<close>]] show ?case by simp
qed simp

text \<open>
  The counter of a consumer is the number of messages the loop took, modulo \<open>2 ^ 32\<close>: it wraps
  to zero after 4294967296 messages.
\<close>

theorem events_counter_wraps:
  assumes "outbound_events w reg perf inbound = (Inr s, out)"
  shows "unat (events_counter s) = length inbound mod 2 ^ 32"
  using seen_run [OF assms [unfolded outbound_events_def]]
  by (simp add: events_counter_def new_outbound_def unat_of_nat)

definition sample_tick :: tick where
  "sample_tick = \<lparr>t_perf = 0, t_gc = (\<lambda>_. 0), t_perf_after = 0\<rparr>"

theorem events_counter_wraps_witness:
  "\<exists>s out. outbound_events sample_env sample_registry 0 [(sample_tick, MFilter sample_filter)] = (Inr s, out) \<and>
     unat (events_counter s) = 1"
proof -
  let ?in = "[(sample_tick, MFilter sample_filter)]"
  obtain s out where o: "outbound_events sample_env sample_registry 0 ?in = (Inr s, out)"
    by (auto simp: outbound_events_def outbound_step_def Let_def)
  from events_counter_wraps [OF o] o show ?thesis by auto
qed

lemma drain_run:
  assumes "\<not> dev_running d"
  shows "\<exists>d1. device_run (replicate (length (dev_queue d)) True) d = (d1, dev_queue d) \<and>
              dev_queue d1 = [] \<and> \<not> dev_running d1"
  using assms
proof (induction "dev_queue d" arbitrary: d)
  case (Cons m q)
  from Cons.hyps(1) [of "d\<lparr>dev_queue := q\<rparr>"] Cons.prems obtain d1 where
    "device_run (replicate (length q) True) (d\<lparr>dev_queue := q\<rparr>) = (d1, q)" "dev_queue d1 = []" "\<not> dev_running d1"
    by auto
  then show ?case by (simp add: Cons.hyps(2) [symmetric] device_turn_def)
qed auto


end
