(* ===== verification/Continuous.thy ===== *)
theory Continuous
  imports Filters
begin

text \<open>
  Continuous events: \<open>sct_events/continuous_event.py\<close>. \<open>ContinuousEventsRegistry\<close> keeps the events that
  began and did not end in buckets by their hash; \<open>begin_event\<close>, \<open>end_event\<close>, \<open>event_error\<close> and the
  context manager work on an event and the registry and return what they publish. Python's \<open>hash\<close> of
  the hash tuple is a parameter \<open>hsh\<close>: nothing is assumed of it, so two tuples may collide.
\<close>

section \<open>The registry\<close>

type_synonym creg = "(int, event list) dict"

fun remove_first :: "('a \<Rightarrow> bool) \<Rightarrow> 'a list \<Rightarrow> 'a list" where
  "remove_first p [] = []"
| "remove_first p (x # xs) = (if p x then xs else x # remove_first p xs)"

text \<open>
  \<open>__eq__\<close>: alerts compare a list of attributes; any other event compares its whole state, which has
  the event's UUID.
\<close>

definition alert_eq_attrs :: "string list" where
  "alert_eq_attrs = [''starts_at'', ''ends_at'', ''updated_at'', ''fingerprint'', ''labels'',
     ''description'', ''state'', ''alert_name'']"

definition event_eq :: "event \<Rightarrow> event \<Rightarrow> bool" where
  "event_eq a b = (if base a = ''PrometheusAlertManagerEvent''
     then etype a = etype b \<and> map (dget (attrs a)) alert_eq_attrs = map (dget (attrs b)) alert_eq_attrs
     else event_id a = event_id b)"

definition continuous_hash :: "(string list \<Rightarrow> int) \<Rightarrow> event \<Rightarrow> int" where
  "continuous_hash hsh e = hsh (case cont e of None \<Rightarrow> [] | Some k \<Rightarrow> k_hash k)"

definition find_continuous_events_by_hash :: "creg \<Rightarrow> int \<Rightarrow> event list" where
  "find_continuous_events_by_hash r h = dget_default r h []"

definition add_event :: "(string list \<Rightarrow> int) \<Rightarrow> event \<Rightarrow> creg \<Rightarrow> creg" where
  "add_event hsh e r = (let h = continuous_hash hsh e in
     case dget r h of None \<Rightarrow> dset h [e] r | Some bucket \<Rightarrow> dset h (bucket @ [e]) r)"

definition del_event :: "(string list \<Rightarrow> int) \<Rightarrow> event \<Rightarrow> creg \<Rightarrow> creg" where
  "del_event hsh e r = (let h = continuous_hash hsh e in
     case dget r h of None \<Rightarrow> r | Some bucket \<Rightarrow> dset h (remove_first (event_eq e) bucket) r)"

definition cleanup_registry :: "creg \<Rightarrow> creg" where "cleanup_registry r = []"

definition continuous_events :: "creg \<Rightarrow> event list" where
  "continuous_events r = concat (map snd r)"

definition attr_str :: "event \<Rightarrow> string \<Rightarrow> string" where
  "attr_str e n = (case dget (attrs e) n of Some v \<Rightarrow> py_str_opt v | None \<Rightarrow> [])"

definition nemesis_of :: "event \<Rightarrow> nemesis_ref" where
  "nemesis_of e = \<lparr>n_event_id = event_id e, n_name = attr_str e ''nemesis_name'', n_node = attr_str e ''node''\<rparr>"

definition find_running_disruption_events :: "creg \<Rightarrow> nemesis_ref list" where
  "find_running_disruption_events r =
     map (\<lambda>(h, b). nemesis_of (hd b)) (filter (\<lambda>(h, b). b \<noteq> [] \<and> base (hd b) = ''DisruptionEvent'') r)"

section \<open>Beginning and ending an event\<close>

definition continuous_init :: "bool \<Rightarrow> string list \<Rightarrow> string list \<Rightarrow> event \<Rightarrow> event" where
  "continuous_init publish_event errors tuple e = e\<lparr>
     cont := Some \<lparr>k_errors = errors, k_publish_event = publish_event, k_begin_timestamp = None,
       k_end_timestamp = None, k_is_skipped = False, k_skip_reason = [], k_duration = None, k_hash = tuple\<rparr>,
     ready_to_publish := publish_event\<rparr>"

definition upd_cont :: "(cont_info \<Rightarrow> cont_info) \<Rightarrow> event \<Rightarrow> event" where
  "upd_cont f e = e\<lparr>cont := map_option f (cont e)\<rparr>"

definition publish_if :: "bool \<Rightarrow> event \<Rightarrow> event \<times> event list" where
  "publish_if wanted e = (if wanted \<and> (case cont e of None \<Rightarrow> False | Some k \<Rightarrow> k_publish_event k)
     then publish (e\<lparr>ready_to_publish := True\<rparr>) else (e, []))"

definition begin_event :: "(string list \<Rightarrow> int) \<Rightarrow> time \<Rightarrow> bool \<Rightarrow> event \<Rightarrow> creg \<Rightarrow> event \<times> creg \<times> event list" where
  "begin_event hsh now wanted e r =
     (let e1 = (upd_cont (\<lambda>k. k\<lparr>k_begin_timestamp := Some now\<rparr>) e)\<lparr>event_timestamp := Some now, period_type := BEGIN\<rparr>;
          r1 = add_event hsh e1 r;
          e2 = add_subcontext (find_running_disruption_events r1) e1;
          (e3, out) = publish_if wanted e2
      in (e3, r1, out))"

definition end_event :: "(string list \<Rightarrow> int) \<Rightarrow> time \<Rightarrow> bool \<Rightarrow> event \<Rightarrow> creg \<Rightarrow> event \<times> creg \<times> event list" where
  "end_event hsh now wanted e r =
     (let e1 = (upd_cont (\<lambda>k. k\<lparr>k_end_timestamp := Some now\<rparr>) e)\<lparr>event_timestamp := Some now, period_type := END\<rparr>;
          r1 = del_event hsh e1 r;
          e2 = add_subcontext (find_running_disruption_events r1) (e1\<lparr>subcontext := Some []\<rparr>);
          (e3, out) = publish_if wanted e2
      in (e3, r1, out))"

definition event_error :: "time \<Rightarrow> event \<Rightarrow> event \<times> event list" where
  "event_error now e = publish_if True
     ((upd_cont (\<lambda>k. k\<lparr>k_duration := None\<rparr>) e)\<lparr>event_timestamp := Some now, period_type := INFORMATIONAL\<rparr>)"

definition add_error :: "string list \<Rightarrow> event \<Rightarrow> event" where
  "add_error errors = upd_cont (\<lambda>k. k\<lparr>k_errors := k_errors k @ errors\<rparr>)"

definition skip :: "string \<Rightarrow> event \<Rightarrow> event" where
  "skip reason = upd_cont (\<lambda>k. k\<lparr>k_is_skipped := True, k_skip_reason := reason\<rparr>)"

text \<open>
  \<open>__exit__\<close>: \<open>exc\<close> is the formatted traceback when the body raised an \<open>Exception\<close> (an interrupt, which
  is not one, ends the event as it is).
\<close>

definition note_exception :: "string option \<Rightarrow> event \<Rightarrow> event" where
  "note_exception exc e = (case exc of None \<Rightarrow> e | Some tb \<Rightarrow>
     if is_skipped e then e\<lparr>severity := NORMAL\<rparr>
     else add_error [tb] (e\<lparr>severity := (if sev_value (severity e) \<le> sev_value ERROR then ERROR else severity e)\<rparr>))"

definition exit_event :: "(string list \<Rightarrow> int) \<Rightarrow> time \<Rightarrow> string option \<Rightarrow> event \<Rightarrow> creg \<Rightarrow> event \<times> creg \<times> event list" where
  "exit_event hsh now exc e r = end_event hsh now True (note_exception exc e) r"

section \<open>The contract of the registry\<close>

text \<open>
  A store of items in buckets. Seen through \<open>find\<close>, it refines a flat list of the items in the order
  they were added.
\<close>

datatype 'v store_op = Add 'v | Del 'v

locale bucket_store =
  fixes empty :: 's and add :: "'v \<Rightarrow> 's \<Rightarrow> 's" and del :: "'v \<Rightarrow> 's \<Rightarrow> 's"
    and find :: "'s \<Rightarrow> 'k \<Rightarrow> 'v list" and key :: "'v \<Rightarrow> 'k" and eq :: "'v \<Rightarrow> 'v \<Rightarrow> bool"
  assumes find_empty: "find empty h = []"
    and find_add: "find (add v s) h = (if h = key v then find s h @ [v] else find s h)"
    and find_del: "find (del v s) h = (if h = key v then remove_first (eq v) (find s h) else find s h)"
begin

primrec store_step :: "'s \<Rightarrow> 'v store_op \<Rightarrow> 's" where
  "store_step s (Add v) = add v s"
| "store_step s (Del v) = del v s"

primrec list_step :: "'v list \<Rightarrow> 'v store_op \<Rightarrow> 'v list" where
  "list_step l (Add v) = l @ [v]"
| "list_step l (Del v) = remove_first (\<lambda>x. key x = key v \<and> eq v x) l"

lemma filter_remove_first:
  "filter (\<lambda>x. key x = h) (remove_first (\<lambda>x. key x = key v \<and> eq v x) l) =
   (if h = key v then remove_first (eq v) (filter (\<lambda>x. key x = h) l) else filter (\<lambda>x. key x = h) l)"
  by (induction l) auto

lemma step_refines:
  assumes "\<And>h. find s h = filter (\<lambda>x. key x = h) l"
  shows "find (store_step s op) h = filter (\<lambda>x. key x = h) (list_step l op)"
  using assms by (cases op) (simp_all add: find_add find_del filter_remove_first)

lemma run_refines: "find (foldl store_step empty ops) h = filter (\<lambda>x. key x = h) (foldl list_step [] ops)"
proof -
  have "find (foldl store_step s ops) h = filter (\<lambda>x. key x = h) (foldl list_step l ops)"
    if "\<And>h. find s h = filter (\<lambda>x. key x = h) l" for s l
    using that by (induction ops arbitrary: s l) (simp_all add: step_refines)
  then show ?thesis by (simp add: find_empty)
qed

lemma remove_first_snoc: "\<forall>x\<in>set l. \<not> p x \<Longrightarrow> p v \<Longrightarrow> remove_first p (l @ [v]) = l"
  by (induction l) auto

lemma del_add:
  assumes "\<forall>x\<in>set (find s (key v)). \<not> eq w x" "eq w v" "key w = key v"
  shows "find (del w (add v s)) h = find s h"
  using assms by (simp add: find_add find_del remove_first_snoc)

end

lemma dget_default_dset: "dget_default (dset k v d) k' x = (if k' = k then v else dget_default d k' x)"
  by (simp add: dget_default_def dget_dset)

interpretation cregs: bucket_store "[] :: creg" "add_event hsh" "del_event hsh"
  find_continuous_events_by_hash "continuous_hash hsh" event_eq for hsh
proof unfold_locales
  show "find_continuous_events_by_hash [] h = []" for h
    by (simp add: find_continuous_events_by_hash_def dget_default_def)
  show "find_continuous_events_by_hash (add_event hsh v s) h = (if h = continuous_hash hsh v
      then find_continuous_events_by_hash s h @ [v] else find_continuous_events_by_hash s h)" for v s h
    by (simp add: find_continuous_events_by_hash_def add_event_def Let_def dget_default_def dget_dset
        split: option.splits)
  show "find_continuous_events_by_hash (del_event hsh v s) h = (if h = continuous_hash hsh v
      then remove_first (event_eq v) (find_continuous_events_by_hash s h)
      else find_continuous_events_by_hash s h)" for v s h
    by (simp add: find_continuous_events_by_hash_def del_event_def Let_def dget_default_def dget_dset
        split: option.splits)
qed

section \<open>Properties\<close>

lemma upd_cont_frame [simp]:
  "cont (upd_cont f e) = map_option f (cont e)" "severity (upd_cont f e) = severity e"
  "base (upd_cont f e) = base e" "event_id (upd_cont f e) = event_id e"
  "attrs (upd_cont f e) = attrs e" "etype (upd_cont f e) = etype e"
  by (simp_all add: upd_cont_def)

lemma publish_if_frame:
  "cont (fst (publish_if b e)) = cont e \<and> severity (fst (publish_if b e)) = severity e \<and>
   base (fst (publish_if b e)) = base e \<and> event_id (fst (publish_if b e)) = event_id e \<and>
   attrs (fst (publish_if b e)) = attrs e \<and> etype (fst (publish_if b e)) = etype e \<and>
   period_type (fst (publish_if b e)) = period_type e"
  by (simp add: publish_if_def publish_def)

lemma event_eq_cong:
  "base a = base b \<Longrightarrow> event_id a = event_id b \<Longrightarrow> attrs a = attrs b \<Longrightarrow> etype a = etype b \<Longrightarrow>
   event_eq a x = event_eq b x"
  by (simp add: event_eq_def)

lemma event_eq_refl: "event_eq e e" by (simp add: event_eq_def)

lemma begin_event_facts:
  assumes "begin_event hsh now b e r = (e1, r1, out)" "cont e = Some k"
  shows "cont e1 = Some (k\<lparr>k_begin_timestamp := Some now\<rparr>) \<and> base e1 = base e \<and> event_id e1 = event_id e \<and>
     attrs e1 = attrs e \<and> etype e1 = etype e \<and> period_type e1 = BEGIN \<and>
     out = (if b \<and> k_publish_event k then [e1\<lparr>ready_to_publish := True\<rparr>] else []) \<and>
     (\<exists>e0. r1 = add_event hsh e0 r \<and> continuous_hash hsh e0 = hsh (k_hash k) \<and> event_eq e e0 \<and>
           cont e0 = cont e1 \<and> event_id e0 = event_id e)"
proof -
  let ?e0 = "(upd_cont (\<lambda>k. k\<lparr>k_begin_timestamp := Some now\<rparr>) e)\<lparr>event_timestamp := Some now, period_type := BEGIN\<rparr>"
  let ?e2 = "add_subcontext (find_running_disruption_events (add_event hsh ?e0 r)) ?e0"
  from assms have "e1 = fst (publish_if b ?e2)" "out = snd (publish_if b ?e2)" "r1 = add_event hsh ?e0 r"
    by (auto simp: begin_event_def Let_def split: prod.splits)
  moreover have "continuous_hash hsh ?e0 = hsh (k_hash k)" using assms by (simp add: continuous_hash_def)
  moreover have "event_eq e ?e0" by (simp add: event_eq_def)
  ultimately show ?thesis
    using publish_if_frame [of b ?e2] assms(2)
    by (intro conjI exI [of _ ?e0]) (simp_all add: publish_if_def publish_def)
qed

lemma end_event_facts:
  assumes "end_event hsh now b e r = (e1, r1, out)" "cont e = Some k"
  shows "cont e1 = Some (k\<lparr>k_end_timestamp := Some now\<rparr>) \<and> severity e1 = severity e \<and> period_type e1 = END \<and>
     event_id e1 = event_id e \<and>
     (\<exists>e0. r1 = del_event hsh e0 r \<and> continuous_hash hsh e0 = hsh (k_hash k) \<and> (\<forall>x. event_eq e0 x = event_eq e x)) \<and>
     out = (if b \<and> k_publish_event k then [e1\<lparr>ready_to_publish := True\<rparr>] else [])"
proof -
  let ?e0 = "(upd_cont (\<lambda>k. k\<lparr>k_end_timestamp := Some now\<rparr>) e)\<lparr>event_timestamp := Some now, period_type := END\<rparr>"
  let ?e2 = "add_subcontext (find_running_disruption_events (del_event hsh ?e0 r)) (?e0\<lparr>subcontext := Some []\<rparr>)"
  from assms have "e1 = fst (publish_if b ?e2)" "out = snd (publish_if b ?e2)" "r1 = del_event hsh ?e0 r"
    by (auto simp: end_event_def Let_def split: prod.splits)
  moreover have "continuous_hash hsh ?e0 = hsh (k_hash k)" using assms by (simp add: continuous_hash_def)
  moreover have "\<forall>x. event_eq ?e0 x = event_eq e x" by (intro allI event_eq_cong) simp_all
  ultimately show ?thesis
    using publish_if_frame [of b ?e2] assms(2)
    by (intro conjI exI [of _ ?e0]) (simp_all add: publish_if_def publish_def)
qed

text \<open>
  C8. Beginning and then ending an event that is not in the registry leaves every bucket as it was,
  whatever the hash function, and the duration is the whole seconds between the two.
\<close>

theorem begin_end_restores:
  assumes "cont e = Some k" "k_duration k = None"
    and "\<forall>x\<in>set (find_continuous_events_by_hash r (hsh (k_hash k))). \<not> event_eq e x"
    and "begin_event hsh t1 b1 e r = (e1, r1, out1)" "end_event hsh t2 b2 e1 r1 = (e2, r2, out2)"
  shows "find_continuous_events_by_hash r2 h = find_continuous_events_by_hash r h \<and>
         duration e2 = Some (py_trunc (t2 - t1))"
proof -
  obtain e0 where b: "cont e1 = Some (k\<lparr>k_begin_timestamp := Some t1\<rparr>)" "r1 = add_event hsh e0 r"
      "continuous_hash hsh e0 = hsh (k_hash k)" "event_eq e e0"
    and same: "base e1 = base e" "event_id e1 = event_id e" "attrs e1 = attrs e" "etype e1 = etype e"
    using begin_event_facts [OF assms(4,1)] by blast
  obtain e3 where d: "r2 = del_event hsh e3 r1" "continuous_hash hsh e3 = hsh (k_hash k)"
      "\<forall>x. event_eq e3 x = event_eq e1 x"
      "cont e2 = Some (k\<lparr>k_begin_timestamp := Some t1, k_end_timestamp := Some t2\<rparr>)"
    using end_event_facts [OF assms(5) b(1)] by auto
  have "event_eq e3 x = event_eq e x" for x using d(3) event_eq_cong [OF same] by simp
  then have "find_continuous_events_by_hash (del_event hsh e3 (add_event hsh e0 r)) h =
      find_continuous_events_by_hash r h"
    using assms(3) b(3,4) d(2) by (intro cregs.del_add) auto
  with b(2) d(1,4) assms(2) show ?thesis by (simp add: duration_def)
qed

definition sample_cont_event :: event where
  "sample_cont_event = continuous_init True [] [''CassandraStressEvent'', ''id'']
     (sample_event ''CassandraStressEvent'' None NORMAL 1)"

lemma sample_cont_event_cont:
  "\<exists>k. cont sample_cont_event = Some k \<and> k_duration k = None \<and> \<not> k_is_skipped k \<and> k_publish_event k \<and>
       k_errors k = [] \<and> severity sample_cont_event = NORMAL"
  by (simp add: sample_cont_event_def continuous_init_def sample_event_def new_event_def)

theorem begin_end_restores_witness:
  "\<exists>e1 r1 out1 e2 r2 out2. begin_event (\<lambda>_. 7) 10 True sample_cont_event [] = (e1, r1, out1) \<and>
     end_event (\<lambda>_. 7) 95 True e1 r1 = (e2, r2, out2) \<and> duration e2 = Some 85 \<and>
     find_continuous_events_by_hash r2 7 = []"
proof -
  obtain k where k: "cont sample_cont_event = Some k" "k_duration k = None" using sample_cont_event_cont by blast
  obtain e1 r1 out1 where b: "begin_event (\<lambda>_. 7) 10 True sample_cont_event [] = (e1, r1, out1)"
    by (metis prod_cases3)
  obtain e2 r2 out2 where d: "end_event (\<lambda>_. 7) 95 True e1 r1 = (e2, r2, out2)" by (metis prod_cases3)
  have n: "\<forall>x\<in>set (find_continuous_events_by_hash [] 7). \<not> event_eq sample_cont_event x"
    by (simp add: cregs.find_empty)
  have "find_continuous_events_by_hash r2 7 = find_continuous_events_by_hash [] 7 \<and>
      duration e2 = Some (py_trunc (95 - 10))"
    using begin_end_restores [OF k n b d] .
  with b d show ?thesis by (simp add: cregs.find_empty py_trunc_def)
qed

definition creg_step :: "(string list \<Rightarrow> int) \<Rightarrow> creg \<Rightarrow> event store_op \<Rightarrow> creg" where
  "creg_step hsh r op = (case op of Add e \<Rightarrow> add_event hsh e r | Del e \<Rightarrow> del_event hsh e r)"

text \<open>The abstract registry: the open events in the order they began.\<close>

definition open_step :: "(string list \<Rightarrow> int) \<Rightarrow> event list \<Rightarrow> event store_op \<Rightarrow> event list" where
  "open_step hsh l op = (case op of Add e \<Rightarrow> l @ [e]
     | Del e \<Rightarrow> remove_first (\<lambda>x. continuous_hash hsh x = continuous_hash hsh e \<and> event_eq e x) l)"

text \<open>
  C7. The registry implements its specification: after any sequence of additions and removals, the
  events found by a hash are the open events with that hash, in the order they began.
\<close>

theorem registry_refines_open_events:
  "find_continuous_events_by_hash (foldl (creg_step hsh) [] ops) h =
   filter (\<lambda>e. continuous_hash hsh e = h) (foldl (open_step hsh) [] ops)"
proof -
  have "creg_step hsh = cregs.store_step hsh"
    by (intro ext) (simp add: creg_step_def split: store_op.splits)
  moreover have "open_step hsh = cregs.list_step hsh"
    by (intro ext) (simp add: open_step_def split: store_op.splits)
  ultimately show ?thesis by (simp only: cregs.run_refines)
qed

text \<open>
  Leaving an event's context: an exception raises the severity to \<open>ERROR\<close> at least and its
  traceback is added to the errors, unless the event was skipped, which makes it \<open>NORMAL\<close>; without an
  exception nothing changes. The event ends either way and is published once if it is to be published.
\<close>

theorem exit_event_outcome:
  assumes "cont e = Some k" "exit_event hsh now exc e r = (e1, r1, out)"
  shows "severity e1 = (case exc of None \<Rightarrow> severity e
       | Some _ \<Rightarrow> if k_is_skipped k then NORMAL else max ERROR (severity e)) \<and>
     errors_of e1 = k_errors k @ (case exc of Some tb \<Rightarrow> if k_is_skipped k then [] else [tb] | None \<Rightarrow> []) \<and>
     period_type e1 = END \<and>
     out = (if k_publish_event k then [e1\<lparr>ready_to_publish := True\<rparr>] else [])"
proof -
  let ?e = "note_exception exc e"
  have "\<exists>k2. cont ?e = Some k2 \<and> k_publish_event k2 = k_publish_event k \<and> k_errors k2 =
      k_errors k @ (case exc of Some tb \<Rightarrow> if k_is_skipped k then [] else [tb] | None \<Rightarrow> [])"
    using assms(1) by (simp add: note_exception_def is_skipped_def add_error_def split: option.splits)
  then obtain k2 where k2: "cont ?e = Some k2" "k_publish_event k2 = k_publish_event k" "k_errors k2 =
      k_errors k @ (case exc of Some tb \<Rightarrow> if k_is_skipped k then [] else [tb] | None \<Rightarrow> [])" by blast
  have "severity ?e = (case exc of None \<Rightarrow> severity e
       | Some _ \<Rightarrow> if k_is_skipped k then NORMAL else max ERROR (severity e))"
    using assms(1) by (cases "severity e") (auto simp: note_exception_def is_skipped_def add_error_def max_def
        less_eq_severity_def split: option.splits)
  with end_event_facts [OF assms(2) [unfolded exit_event_def] k2(1)] k2 show ?thesis
    by (auto simp: errors_of_def)
qed

theorem exit_event_outcome_witness:
  "\<exists>e1 r1 out. exit_event (\<lambda>_. 7) 20 (Some ''boom'') sample_cont_event [] = (e1, r1, out) \<and>
     severity e1 = ERROR \<and> errors_of e1 = [''boom''] \<and> length out = 1"
proof -
  obtain k where k: "cont sample_cont_event = Some k" "\<not> k_is_skipped k" "k_publish_event k" "k_errors k = []"
    "severity sample_cont_event = NORMAL" using sample_cont_event_cont by blast
  obtain e1 r1 out where x: "exit_event (\<lambda>_. 7) 20 (Some ''boom'') sample_cont_event [] = (e1, r1, out)"
    by (metis prod_cases3)
  from exit_event_outcome [OF k(1) x] k x show ?thesis by (auto simp: max_def less_eq_severity_def)
qed

end
