(* ===== verification/File_Logger.thy ===== *)
theory File_Logger
  imports Filters
begin

text \<open>
  The file logger of \<open>sct_events/file_logger.py\<close>: \<open>write_event\<close> appends the message of an event to
  \<open>events.log\<close> and to the file of its severity and counts it, \<open>get_events_by_category\<close> reads the files
  back, the first \<open>limit\<close> critical events and the last \<open>limit\<close> of every other severity.
\<close>

section \<open>Writing\<close>

text \<open>\<open>LINE_START_RE\<close>, a date in front of the line.\<close>

definition LINE_START_RE :: string where "LINE_START_RE = raw ''^~d{4}-~d{2}-~d{2} ''"

definition starts_event :: "string \<Rightarrow> bool" where
  "starts_event line = (pat_match no_flags LINE_START_RE line \<noteq> None)"

definition severity_files :: "(severity \<times> string) list" where
  "severity_files = [(CRITICAL, ''critical.log''), (ERROR, ''error.log''), (WARNING, ''warning.log''),
     (NORMAL, ''normal.log''), (DEBUG, ''debug.log'')]"

text \<open>The contents of the files by name; \<open>summary\<close> is \<open>events_summary\<close>, written to \<open>summary.log\<close>.\<close>

record file_logger =
  files :: "(string, string) dict"
  events_summary :: "(string, nat) dict"
  summary_log :: "(string, nat) dict"
  teed :: "(log_level \<times> string) list"

definition new_logger :: file_logger where
  "new_logger = \<lparr>files = map (\<lambda>n. (n, [])) (''events.log'' # ''summary.log'' # map snd severity_files),
     events_summary = [], summary_log = [], teed = []\<rparr>"

text \<open>\<open>ok\<close> tells whether a file can be written; a failure is logged and suppressed.\<close>

definition append_file :: "(string \<Rightarrow> bool) \<Rightarrow> string \<Rightarrow> string \<Rightarrow> file_logger \<Rightarrow> file_logger" where
  "append_file ok name text lg = (if ok name
     then lg\<lparr>files := dset name (dget_default (files lg) name [] @ text) (files lg)\<rparr> else lg)"

definition event_message :: "env \<Rightarrow> event \<Rightarrow> string res" where
  "event_message w e =
     rbind (formatted_timestamp (event_timestamp e)) (\<lambda>ts.
     rbind (if truthy_time (source_timestamp e)
            then rbind (formatted_timestamp (source_timestamp e)) (\<lambda>st. Inr (ts @ '' <'' @ st @ ''>: ''))
            else Inr (ts @ '': '')) (\<lambda>prefix.
     rbind (str_event w e) (\<lambda>s. Inr (prefix @ py_strip s))))"

definition tee_event :: "event \<Rightarrow> string \<Rightarrow> file_logger \<Rightarrow> file_logger" where
  "tee_event e m lg = (if severity e \<notin> {DEBUG, WARNING} \<and> base e \<noteq> ''TestResultEvent''
     then lg\<lparr>teed := teed lg @ [(log_level e, m)]\<rparr> else lg)"

definition save_event :: "(string \<Rightarrow> bool) \<Rightarrow> event \<Rightarrow> string \<Rightarrow> file_logger \<Rightarrow> file_logger" where
  "save_event ok e m lg = (if save_to_files e
     then let lg1 = append_file ok ''events.log'' (m @ nl) lg
          in case map_of severity_files (severity e) of
               None \<Rightarrow> lg1 | Some f \<Rightarrow> append_file ok f (m @ nl) lg1
     else lg)"

definition count_event :: "(string \<Rightarrow> bool) \<Rightarrow> event \<Rightarrow> file_logger \<Rightarrow> file_logger" where
  "count_event ok e lg =
     (let n = sev_name (severity e);
          s = dset n (dget_default (events_summary lg) n 0 + 1) (events_summary lg)
      in lg\<lparr>events_summary := s, summary_log := (if ok ''summary.log'' then s else summary_log lg)\<rparr>)"

definition write_event :: "env \<Rightarrow> (string \<Rightarrow> bool) \<Rightarrow> event \<Rightarrow> file_logger \<Rightarrow> file_logger res" where
  "write_event w ok e lg = rbind (event_message w e) (\<lambda>m.
     Inr (count_event ok e (save_event ok e m (tee_event e m lg))))"

text \<open>The loop of \<open>run\<close>: an event whose message cannot be made is skipped.\<close>

definition log_step :: "env \<Rightarrow> (string \<Rightarrow> bool) \<Rightarrow> file_logger \<Rightarrow> string \<times> event \<Rightarrow> file_logger" where
  "log_step w ok lg x = (case write_event w ok (snd x) lg of Inl _ \<Rightarrow> lg | Inr lg1 \<Rightarrow> lg1)"

section \<open>Reading\<close>

definition CR :: char where "CR = CHR 0x0D"

text \<open>The lines of a file in text mode: a carriage return ends a line too.\<close>

definition file_lines :: "string \<Rightarrow> string list" where
  "file_lines s = py_split NL (map (\<lambda>c. if c = CR then NL else c) s)"

definition head_append :: "nat option \<Rightarrow> string list \<Rightarrow> string \<Rightarrow> string list" where
  "head_append maxlen b x = (case maxlen of None \<Rightarrow> b @ [x] | Some n \<Rightarrow> if length b < n then b @ [x] else b)"

text \<open>\<open>collections.deque(maxlen=n).append\<close>\<close>

definition tail_append :: "nat option \<Rightarrow> string list \<Rightarrow> string \<Rightarrow> string list" where
  "tail_append maxlen b x = (case maxlen of None \<Rightarrow> b @ [x] | Some n \<Rightarrow> drop (length b + 1 - n) (b @ [x]))"

definition bucket_append :: "severity \<Rightarrow> nat option \<Rightarrow> string list \<Rightarrow> string \<Rightarrow> string list" where
  "bucket_append s = (if s = CRITICAL then head_append else tail_append)"

text \<open>The loop over the lines: the bucket and the lines of the current event.\<close>

definition flush_event :: "(string list \<Rightarrow> string \<Rightarrow> string list) \<Rightarrow> string list \<times> string list \<Rightarrow> string list" where
  "flush_event app s = (if snd s \<noteq> [] then app (fst s) (py_join nl (snd s)) else fst s)"

fun read_line :: "(string list \<Rightarrow> string \<Rightarrow> string list) \<Rightarrow> string list \<times> string list \<Rightarrow> string \<Rightarrow> string list \<times> string list" where
  "read_line app (bucket, ev) raw_line =
     (let line = py_strip raw_line in
      if line = [] then (bucket, ev)
      else if starts_event line then (flush_event app (bucket, ev), [line])
      else (bucket, ev @ [line]))"

text \<open>
  One category: the lines that could be read, and the error message when reading failed after them.
\<close>

definition read_category :: "(string list \<Rightarrow> string \<Rightarrow> string list) \<Rightarrow> string list \<Rightarrow> string option \<Rightarrow> string list" where
  "read_category app lines err =
     (let s = foldl (read_line app) ([], []) lines in
      case err of None \<Rightarrow> flush_event app s
      | Some msg \<Rightarrow> if fst s = [] then app (fst s) msg else fst s)"

definition get_events_by_category ::
  "(severity \<Rightarrow> string option) \<Rightarrow> nat option \<Rightarrow> file_logger \<Rightarrow> (string, string list) dict" where
  "get_events_by_category err limit lg =
     map (\<lambda>(s, f). (sev_name s, read_category (bucket_append s limit)
       (if err s = None then file_lines (dget_default (files lg) f []) else []) (err s))) severity_files"

section \<open>Limits\<close>

definition limited :: "severity \<Rightarrow> nat option \<Rightarrow> 'a list \<Rightarrow> 'a list" where
  "limited s limit xs = (case limit of None \<Rightarrow> xs
     | Some n \<Rightarrow> if s = CRITICAL then take n xs else drop (length xs - n) xs)"

lemma foldl_head: "foldl (head_append (Some n)) b xs = b @ take (n - length b) xs"
proof (induction xs arbitrary: b)
  case (Cons x xs)
  show ?case
  proof (cases "length b < n")
    case True
    then obtain k where "n - length b = Suc k" "n - Suc (length b) = k" by (metis Suc_diff_Suc)
    then show ?thesis using Cons.IH [of "b @ [x]"] True by (simp add: head_append_def)
  qed (use Cons.IH [of b] in \<open>simp add: head_append_def\<close>)
qed simp

lemma foldl_tail:
  "length b \<le> n \<Longrightarrow> foldl (tail_append (Some n)) b xs = drop (length b + length xs - n) (b @ xs)"
proof (induction xs arbitrary: b)
  case (Cons x xs)
  define k where "k = length b + 1 - n"
  define b1 where "b1 = drop k (b @ [x])"
  have len: "length b1 = length b + 1 - k" by (simp add: b1_def)
  have k: "k \<le> length (b @ [x])" by (simp add: k_def)
  have "foldl (tail_append (Some n)) b (x # xs) = foldl (tail_append (Some n)) b1 xs"
    by (simp only: foldl_Cons tail_append_def option.case b1_def k_def)
  also have "\<dots> = drop (length b1 + length xs - n) (b1 @ xs)"
    using Cons.prems by (intro Cons.IH) (simp add: len k_def)
  also have "b1 @ xs = drop k ((b @ [x]) @ xs)"
    unfolding b1_def drop_append [of k "b @ [x]"] using k by simp
  also have "drop (length b1 + length xs - n) \<dots> = drop (length b1 + length xs - n + k) (b @ x # xs)"
    by (simp only: drop_drop append_assoc append_Cons append_Nil)
  also have "length b1 + length xs - n + k = length b + length (x # xs) - n"
    using Cons.prems len by (simp add: k_def)
  finally show ?case .
qed simp

lemma foldl_unlimited: "foldl (\<lambda>b x. b @ [x]) b xs = b @ xs"
  by (induction xs arbitrary: b) auto

lemma foldl_bucket: "foldl (bucket_append s limit) [] xs = limited s limit xs"
proof (cases limit)
  case None
  then have "bucket_append s limit = (\<lambda>b x. b @ [x])"
    by (intro ext) (simp add: bucket_append_def head_append_def tail_append_def)
  then show ?thesis by (simp add: foldl_unlimited limited_def None)
next
  case (Some n)
  then show ?thesis
    using foldl_head [of n "[]" xs] foldl_tail [of "[]" n xs] by (simp add: bucket_append_def limited_def)
qed

section \<open>Reading back what was written\<close>

text \<open>
  The lines of a message that can be told apart when read: each is not blank and has no space around
  it, the first starts with a date and no other does.
\<close>

definition clean_line :: "string \<Rightarrow> bool" where
  "clean_line l = (l \<noteq> [] \<and> py_strip l = l \<and> NL \<notin> set l \<and> CR \<notin> set l)"

definition message_lines :: "string list \<Rightarrow> bool" where
  "message_lines ls = (case ls of [] \<Rightarrow> False
     | l # rest \<Rightarrow> list_all clean_line (l # rest) \<and> starts_event l \<and> list_all (\<lambda>x. \<not> starts_event x) rest)"

lemma message_lines_clean: "message_lines m \<Longrightarrow> m \<noteq> [] \<and> (\<forall>l\<in>set m. clean_line l)"
  by (simp add: message_lines_def list_all_iff split: list.splits)

lemma split_message:
  assumes "ls \<noteq> []" "\<forall>l\<in>set ls. NL \<notin> set l"
  shows "py_split NL (py_join nl ls @ nl @ rest) = ls @ py_split NL rest"
  using assms
proof (induction ls)
  case (Cons l ls)
  then show ?case
    by (cases ls) (simp_all add: py_split_def nl_def py_split_acc_append)
qed simp

lemma split_messages:
  assumes "list_all message_lines ms"
  shows "py_split NL (concat (map (\<lambda>ls. py_join nl ls @ nl) ms)) = concat ms @ [[]]"
  using assms
proof (induction ms)
  case Nil
  then show ?case by (simp add: py_split_def)
next
  case (Cons m ms)
  then have "m \<noteq> []" "\<forall>l\<in>set m. NL \<notin> set l"
    using message_lines_clean [of m] by (auto simp: clean_line_def)
  with Cons split_message [of m "concat (map (\<lambda>ls. py_join nl ls @ nl) ms)"] show ?case by simp
qed

lemma map_id_no_CR: "CR \<notin> set s \<Longrightarrow> map (\<lambda>c. if c = CR then NL else c) s = s"
  by (induction s) auto

lemma lines_of_messages:
  assumes "list_all message_lines ms"
  shows "file_lines (concat (map (\<lambda>ls. py_join nl ls @ nl) ms)) = concat ms @ [[]]"
proof -
  have "CR \<notin> set nl" by (simp add: CR_def nl_def NL_def)
  moreover have "CR \<notin> set l" if "ls \<in> set ms" "l \<in> set ls" for ls l
    using that assms message_lines_clean by (auto simp: clean_line_def list_all_iff)
  ultimately have "CR \<notin> set (py_join nl ls @ nl)" if "ls \<in> set ms" for ls
    using that set_py_join [of nl ls] by auto
  then have "CR \<notin> set (concat (map (\<lambda>ls. py_join nl ls @ nl) ms))"
    unfolding set_concat set_map by blast
  then show ?thesis by (simp add: file_lines_def map_id_no_CR split_messages [OF assms])
qed

lemma read_rest:
  assumes "list_all clean_line ls" "list_all (\<lambda>x. \<not> starts_event x) ls"
  shows "foldl (read_line app) (b, ev) ls = (b, ev @ ls)"
  using assms
proof (induction ls arbitrary: ev)
  case (Cons l ls)
  then have "read_line app (b, ev) l = (b, ev @ [l])" by (simp add: clean_line_def)
  with Cons show ?case by simp
qed simp

lemma read_message:
  assumes "message_lines m"
  shows "foldl (read_line app) s m = (flush_event app s, m)"
proof (cases m)
  case (Cons l rest)
  with assms have "clean_line l" "starts_event l" "list_all clean_line rest" "list_all (\<lambda>x. \<not> starts_event x) rest"
    by (simp_all add: message_lines_def)
  moreover from this have "read_line app s l = (flush_event app s, [l])"
    by (cases s) (simp add: clean_line_def)
  ultimately show ?thesis using Cons read_rest [of rest app "flush_event app s" "[l]"] by simp
qed (use assms in \<open>simp add: message_lines_def\<close>)

lemma read_messages:
  assumes "list_all message_lines ms"
  shows "flush_event app (foldl (read_line app) s (concat ms)) =
         foldl app (flush_event app s) (map (py_join nl) ms)"
  using assms
proof (induction ms arbitrary: s)
  case (Cons m ms)
  then have m: "message_lines m" "m \<noteq> []" using message_lines_clean [of m] by auto
  then have "flush_event app (flush_event app s, m) = app (flush_event app s) (py_join nl m)"
    by (simp add: flush_event_def)
  with Cons m show ?case by (simp add: read_message)
qed simp

lemma read_file:
  assumes "list_all message_lines ms"
  shows "read_category app (file_lines (concat (map (\<lambda>ls. py_join nl ls @ nl) ms))) None =
         foldl app [] (map (py_join nl) ms)"
proof -
  have "read_line app s [] = s" for s by (cases s) (simp add: py_strip_def)
  then show ?thesis
    using read_messages [OF assms, of app "([], [])"]
    by (simp add: read_category_def lines_of_messages [OF assms] flush_event_def)
qed

section \<open>What the files hold\<close>

definition log_run :: "env \<Rightarrow> (string \<Rightarrow> bool) \<Rightarrow> file_logger \<Rightarrow> event list \<Rightarrow> file_logger" where
  "log_run w ok lg es = foldl (\<lambda>l e. log_step w ok l (base e, e)) lg es"

lemma files_append: "dget_default (files (append_file ok n t lg)) k [] =
    dget_default (files lg) k [] @ (if ok n \<and> k = n then t else [])"
  by (simp add: append_file_def dget_default_def dget_dset)

lemma files_frame [simp]: "files (tee_event e m lg) = files lg" "files (count_event ok e lg) = files lg"
  by (simp_all add: tee_event_def count_event_def Let_def)

lemma severity_file_neq_events: "map_of severity_files s = Some f \<Longrightarrow> f \<noteq> ''events.log''"
  by (cases s) (auto simp: severity_files_def)

lemma severity_file_inj:
  "map_of severity_files s = Some f \<Longrightarrow> map_of severity_files t = Some f \<longleftrightarrow> s = t"
  by (cases s; cases t) (auto simp: severity_files_def)

lemma write_event_file:
  assumes "write_event w ok e lg = Inr lg1" "event_message w e = Inr m" "map_of severity_files s = Some f" "ok f"
  shows "dget_default (files lg1) f [] = dget_default (files lg) f [] @
           (if save_to_files e \<and> severity e = s then m @ nl else [])"
proof -
  from assms have lg1: "lg1 = count_event ok e (save_event ok e m (tee_event e m lg))"
    by (simp add: write_event_def)
  show ?thesis
  proof (cases "map_of severity_files (severity e)")
    case None
    with assms(3) have "severity e \<noteq> s" by auto
    with None show ?thesis
      using severity_file_neq_events [OF assms(3)] by (simp add: lg1 save_event_def files_append)
  next
    case (Some g)
    then have "g = f \<longleftrightarrow> severity e = s"
      using severity_file_inj [OF assms(3), of "severity e"] by auto
    with Some show ?thesis
      using severity_file_neq_events [OF assms(3)] assms(4) by (auto simp: lg1 save_event_def files_append)
  qed
qed

lemma log_run_file:
  assumes "list_all2 (\<lambda>e m. event_message w e = Inr m) es ms" "map_of severity_files s = Some f" "ok f"
  shows "dget_default (files (log_run w ok lg es)) f [] = dget_default (files lg) f [] @
     concat (map (\<lambda>(e, m). m @ nl) (filter (\<lambda>(e, m). save_to_files e \<and> severity e = s) (zip es ms)))"
  using assms(1)
proof (induction es ms arbitrary: lg rule: list_all2_induct)
  case (Cons e es m ms)
  obtain lg1 where w: "write_event w ok e lg = Inr lg1" using Cons.hyps(1) by (simp add: write_event_def)
  have "log_run w ok lg (e # es) = log_run w ok lg1 es" by (simp add: log_run_def log_step_def w)
  with Cons.IH [of lg1] write_event_file [OF w Cons.hyps(1) assms(2,3)] show ?case by simp
qed (simp add: log_run_def)

text \<open>The messages of the saved events of a severity, in order.\<close>

definition saved_messages :: "severity \<Rightarrow> event list \<Rightarrow> string list list \<Rightarrow> string list" where
  "saved_messages s es ms =
     map (\<lambda>(e, ls). py_join nl ls) (filter (\<lambda>(e, ls). save_to_files e \<and> severity e = s) (zip es ms))"

lemma new_logger_file: "map_of severity_files s = Some f \<Longrightarrow> dget_default (files new_logger) f [] = []"
  by (cases s) (auto simp: severity_files_def new_logger_def dget_default_def)

lemma read_back_severity:
  assumes "list_all2 (\<lambda>e ls. event_message w e = Inr (py_join nl ls)) es ms" "list_all message_lines ms"
    and "map_of severity_files s = Some f"
  shows "read_category (bucket_append s limit) (file_lines (dget_default (files (log_run w (\<lambda>_. True) new_logger es)) f [])) None =
         limited s limit (saved_messages s es ms)"
proof -
  let ?sel = "map snd (filter (\<lambda>x. save_to_files (fst x) \<and> severity (fst x) = s) (zip es ms))"
  have l2: "list_all2 (\<lambda>e m. event_message w e = Inr m) es (map (py_join nl) ms)"
    using assms(1) by (simp add: list_all2_conv_all_nth)
  have f: "dget_default (files (log_run w (\<lambda>_. True) new_logger es)) f [] = concat (map (\<lambda>ls. py_join nl ls @ nl) ?sel)"
    unfolding log_run_file [OF l2 assms(3) TrueI] new_logger_file [OF assms(3)]
    by (simp add: zip_map2 filter_map comp_def case_prod_unfold)
  have "list_all message_lines ?sel"
    using assms(2) by (auto simp: list_all_iff dest: set_zip_rightD)
  from read_file [OF this, of "bucket_append s limit"] show ?thesis
    unfolding f foldl_bucket by (simp add: saved_messages_def comp_def case_prod_unfold)
qed


definition sample_message :: "string list" where
  "sample_message =
     [''1970-01-01 00:00:01.000: (DatabaseLogEvent Severity.CRITICAL) period_type=not-set event_id=id: type=OOM regex=oom line_number=7 node=n1'',
      ''oom-kill: {7}'', ''0x1'']"


lemma summary_step:
  "dget_default (events_summary (log_step w ok lg x)) (sev_name s) 0 =
   dget_default (events_summary lg) (sev_name s) 0 +
   (if (\<exists>m. event_message w (snd x) = Inr m) \<and> severity (snd x) = s then 1 else 0)"
proof -
  have inj: "sev_name (severity (snd x)) = sev_name s \<longleftrightarrow> severity (snd x) = s"
    by (cases "severity (snd x)"; cases s) simp_all
  have "events_summary (save_event ok e m (tee_event e m lg)) = events_summary lg" for e m
    by (simp add: save_event_def append_file_def tee_event_def Let_def split: option.splits)
  with inj show ?thesis
    by (cases "event_message w (snd x)")
       (auto simp: log_step_def write_event_def count_event_def Let_def dget_default_def dget_dset split: option.splits)
qed

text \<open>
  The summary counts every event of a severity once, whether it is saved to the files or not,
  except the events that cannot be printed, which are skipped.
\<close>

theorem summary_counts_events:
  "dget_default (events_summary (log_run w ok new_logger es)) (sev_name s) 0 =
   length (filter (\<lambda>e. (\<exists>m. event_message w e = Inr m) \<and> severity e = s) es)"
proof -
  have "dget_default (events_summary (log_run w ok lg es)) (sev_name s) 0 =
      dget_default (events_summary lg) (sev_name s) 0 +
      length (filter (\<lambda>e. (\<exists>m. event_message w e = Inr m) \<and> severity e = s) es)" for lg
  proof (induction es arbitrary: lg)
    case (Cons e es)
    then show ?case using summary_step [of w ok lg "(base e, e)" s] by (simp add: log_run_def)
  qed (simp add: log_run_def)
  then show ?thesis by (simp add: new_logger_def dget_default_def)
qed

end
