(* ===== verification/Event_Counter.thy ===== *)
theory Event_Counter
  imports Filters
begin

text \<open>
  The events counter of \<open>sct_events/event_counter.py\<close>: context managers register the event classes they
  want counted, the process updates their statistics for every event it gets. Reactor stalls are also
  put in a histogram by their length.
\<close>

section \<open>Statistics\<close>

definition STALL_INTERVALS :: "nat list" where
  "STALL_INTERVALS = [10, 20, 30, 50, 100, 200, 1000, 2000]"

definition REACTOR_MS_REGEX :: string where
  "REACTOR_MS_REGEX = raw ''Reactor stalled for~s(~d+)~sms''"

text \<open>A statistics dictionary that is not empty; \<open>ms\<close> is there for reactor stalls.\<close>

record stat =
  st_event :: string
  st_counter :: nat
  st_ms :: "(nat, nat) dict"

definition EventStatHandler_update :: "string \<Rightarrow> stat option \<Rightarrow> stat" where
  "EventStatHandler_update name st = (case st of
     None \<Rightarrow> \<lparr>st_event = name, st_counter = 1, st_ms = []\<rparr>
   | Some s \<Rightarrow> \<lparr>st_event = name, st_counter = st_counter s + 1, st_ms = []\<rparr>)"

fun first_above :: "nat \<Rightarrow> nat list \<Rightarrow> nat" where
  "first_above ms [] = ms"
| "first_above ms (b # bs) = (if ms < b then b else first_above ms bs)"

definition get_interval :: "nat \<Rightarrow> nat" where
  "get_interval ms = (if ms = 0 then 0 else first_above ms STALL_INTERVALS)"

definition stall_ms :: "string \<Rightarrow> nat" where
  "stall_ms line = (case pat_search no_flags REACTOR_MS_REGEX line of
     None \<Rightarrow> 0
   | Some m \<Rightarrow> (case m_group m ''1'' of None \<Rightarrow> 0 | Some d \<Rightarrow> nat_of_digits d))"

text \<open>A line saved to the file of a node under the directory of the class.\<close>

type_synonym saved_line = "string \<times> string \<times> string \<times> string"

text \<open>
  \<open>ReactorStallEventStatHandler.update_stat\<close>: the event is saved first (a missing node raises), then
  its line is searched (a missing line raises).
\<close>

definition ReactorStall_update ::
  "string \<Rightarrow> event \<Rightarrow> stat option \<Rightarrow> stat res \<times> saved_line list" where
  "ReactorStall_update save_dir e st = (case log e of None \<Rightarrow> (Inl AttributeError, []) | Some l \<Rightarrow>
     (case l_node l of None \<Rightarrow> (Inl TypeError, [])
      | Some node \<Rightarrow>
          (case l_line l of
             None \<Rightarrow> (Inl TypeError, [(save_dir, cls_name e, node, ''None'')])
           | Some line \<Rightarrow>
               (let s = (case st of None \<Rightarrow> \<lparr>st_event = cls_name e, st_counter = 0, st_ms = []\<rparr> | Some s \<Rightarrow> s);
                    i = get_interval (stall_ms line)
                in (Inr \<lparr>st_event = cls_name e, st_counter = st_counter s + 1,
                         st_ms = dset i (dget_default (st_ms s) i 0 + 1) (st_ms s)\<rparr>,
                    [(save_dir, cls_name e, node, line)])))))"

section \<open>The counting process\<close>

record stat_data =
  event_types :: "string list"
  save_dir :: string
  stats :: "(string, stat) dict"

type_synonym counters = "(string, stat_data) dict"

definition REACTOR_STALLED :: string where "REACTOR_STALLED = ''DatabaseLogEvent.REACTOR_STALLED''"

definition update_data :: "event \<Rightarrow> stat_data \<Rightarrow> stat_data res \<times> saved_line list" where
  "update_data e d =
     (let n = cls_name e; st = dget (stats d) n;
          (r, out) = (if n = REACTOR_STALLED then ReactorStall_update (save_dir d) e st
                      else (Inr (EventStatHandler_update n st), []))
      in (rbind r (\<lambda>s. Inr (d\<lparr>stats := dset n s (stats d)\<rparr>)), out))"

text \<open>
  One event: the registered counters in order. An exception ends the processing of the event: the
  counters before keep their update, the others are not updated.
\<close>

fun update_counters :: "event \<Rightarrow> counters \<Rightarrow> counters \<times> saved_line list" where
  "update_counters e [] = ([], [])"
| "update_counters e ((i, d) # cs) =
     (if cls_name e \<in> set (event_types d)
      then (case update_data e d of
              (Inl _, out) \<Rightarrow> ((i, d) # cs, out)
            | (Inr d1, out) \<Rightarrow> (let (cs1, out1) = update_counters e cs in ((i, d1) # cs1, out @ out1)))
      else (let (cs1, out1) = update_counters e cs in ((i, d) # cs1, out1)))"

definition counter_step :: "counters \<Rightarrow> event \<Rightarrow> counters \<times> saved_line list" where
  "counter_step cs e = (if cs = [] then ([], []) else update_counters e cs)"

definition add_counter :: "string \<Rightarrow> stat_data \<Rightarrow> counters \<Rightarrow> counters" where
  "add_counter i d cs = dset i d cs"

definition get_counter :: "string \<Rightarrow> counters \<Rightarrow> stat_data option" where
  "get_counter i cs = dget cs i"

definition remove_counter :: "string \<Rightarrow> counters \<Rightarrow> counters" where
  "remove_counter i cs = ddel i cs"

section \<open>The context manager\<close>

record counter_manager =
  cm_id :: string
  cm_types :: "string list"
  cm_path :: string
  cm_statistics :: "(string, stat) dict"

definition start_event_counter :: "counter_manager \<Rightarrow> counters \<Rightarrow> counters" where
  "start_event_counter m cs =
     add_counter (cm_id m) \<lparr>event_types = cm_types m, save_dir = cm_path m, stats = []\<rparr> cs"

definition stop_event_counter :: "counter_manager \<Rightarrow> counters \<Rightarrow> counter_manager \<times> counters" where
  "stop_event_counter m cs = (case get_counter (cm_id m) cs of
     None \<Rightarrow> (m, cs)
   | Some d \<Rightarrow> (m\<lparr>cm_statistics := stats d\<rparr>, remove_counter (cm_id m) cs))"

definition get_stats :: "counter_manager \<Rightarrow> counters \<Rightarrow> counter_manager \<times> (string, stat) dict" where
  "get_stats m cs = (case get_counter (cm_id m) cs of
     None \<Rightarrow> (m, cm_statistics m) | Some d \<Rightarrow> (m\<lparr>cm_statistics := stats d\<rparr>, stats d))"

section \<open>Properties\<close>

lemma first_above_ge: "ms \<le> first_above ms bs"
  by (induction bs) auto

lemma first_above_least:
  "sorted bs \<Longrightarrow> b \<in> set bs \<Longrightarrow> ms < b \<Longrightarrow> first_above ms bs \<in> set bs \<and> ms < first_above ms bs \<and> first_above ms bs \<le> b"
  by (induction bs) auto

text \<open>
  A stall of less than two seconds is put under the least boundary above it; a longer one under
  its own length.
\<close>

theorem stall_interval_least_boundary:
  assumes "0 < ms"
  shows "if ms < 2000
    then get_interval ms \<in> set STALL_INTERVALS \<and> ms < get_interval ms \<and>
         (\<forall>b\<in>set STALL_INTERVALS. ms < b \<longrightarrow> get_interval ms \<le> b)
    else get_interval ms = ms"
proof (cases "ms < 2000")
  case True
  have s: "sorted STALL_INTERVALS" "2000 \<in> set STALL_INTERVALS" by (simp_all add: STALL_INTERVALS_def)
  show ?thesis
    using assms True first_above_least [OF s True] first_above_least [OF s(1)] by (auto simp: get_interval_def)
next
  case False
  then show ?thesis by (simp add: get_interval_def STALL_INTERVALS_def)
qed

theorem stall_interval_least_boundary_witness: "get_interval 25 = 30"
proof -
  show ?thesis using stall_interval_least_boundary [of 25] by (auto simp: STALL_INTERVALS_def)
qed

definition stat_ok :: "string \<Rightarrow> stat \<Rightarrow> bool" where
  "stat_ok n s = (n = REACTOR_STALLED \<longrightarrow> sum_list (map snd (st_ms s)) = st_counter s)"

lemma sum_dset: "sum_list (map snd (dset k (Suc (dget_default d k 0)) d)) = Suc (sum_list (map snd d))"
  by (induction d) (auto simp: dget_default_def split: option.splits)

definition data_ok :: "stat_data \<Rightarrow> bool" where
  "data_ok d = (\<forall>n s. dget (stats d) n = Some s \<longrightarrow> stat_ok n s)"

lemma update_data_ok:
  assumes "update_data e d = (Inr d1, out)" "data_ok d"
  shows "data_ok d1 \<and> event_types d1 = event_types d"
proof (cases "cls_name e = REACTOR_STALLED")
  case False
  then have "d1 = d\<lparr>stats := dset (cls_name e) (EventStatHandler_update (cls_name e) (dget (stats d) (cls_name e))) (stats d)\<rparr>"
    using assms(1) by (simp add: update_data_def Let_def)
  then show ?thesis using assms(2) False by (simp add: data_ok_def stat_ok_def dget_dset)
next
  case True
  then obtain s where s: "fst (ReactorStall_update (save_dir d) e (dget (stats d) (cls_name e))) = Inr s"
    and d1: "d1 = d\<lparr>stats := dset (cls_name e) s (stats d)\<rparr>"
    using assms(1) by (auto simp: update_data_def Let_def rbind_Inr_iff split: prod.splits)
  have "stat_ok (cls_name e) s"
    using s assms(2) True
    by (auto simp: ReactorStall_update_def stat_ok_def data_ok_def Let_def sum_dset dget_default_def [of "[]"] split: option.splits)
  then show ?thesis using assms(2) d1 by (auto simp: data_ok_def dget_dset)
qed

lemma update_counters_ok:
  "list_all (\<lambda>(i, d). data_ok d) cs \<Longrightarrow> list_all (\<lambda>(i, d). data_ok d) (fst (update_counters e cs))"
proof (induction cs)
  case (Cons c cs)
  obtain i d where c: "c = (i, d)" by (cases c)
  show ?case
  proof (cases "cls_name e \<in> set (event_types d)")
    case True
    obtain r out where u: "update_data e d = (r, out)" by (cases "update_data e d")
    show ?thesis
    proof (cases r)
      case (Inr d1)
      then have "data_ok d1" using update_data_ok [of e d d1 out] u Cons.prems c by simp
      then show ?thesis using Cons c True u Inr by (simp add: Let_def case_prod_beta)
    qed (use Cons.prems c True u in simp)
  qed (use Cons c in \<open>simp add: Let_def case_prod_beta\<close>)
qed simp

definition all_data_ok :: "counters \<Rightarrow> bool" where "all_data_ok cs = list_all (\<lambda>(i, d). data_ok d) cs"

interpretation counting: gen_loop counter_step all_data_ok "\<lambda>_. True"
  by unfold_locales (auto simp: all_data_ok_def counter_step_def intro: update_counters_ok)

text \<open>
  C18. The histogram of reactor stalls adds up: in any run that starts without counters and then
  registers some, whatever the events, the numbers of the intervals of a counter sum to its total.
\<close>

theorem stall_histogram_sums:
  assumes "all_data_ok cs" "dget (fst (run_gen counter_step cs es)) i = Some d" "dget (stats d) REACTOR_STALLED = Some s"
  shows "sum_list (map snd (st_ms s)) = st_counter s"
proof -
  from counting.loop_inv [OF assms(1)] have "list_all (\<lambda>(i, d). data_ok d) (fst (run_gen counter_step cs es))"
    by (simp add: all_data_ok_def)
  with map_of_SomeD [OF assms(2)] have "data_ok d" by (auto simp: list_all_iff)
  with assms(3) show ?thesis by (simp add: data_ok_def stat_ok_def)
qed

definition sample_stall :: event where
  "sample_stall = (sample_event ''DatabaseLogEvent'' (Some ''REACTOR_STALLED'') DEBUG 1)\<lparr>
     log := Some \<lparr>l_regex = None, l_node = Some ''n1'', l_line = Some ''Reactor stalled for 33 ms on shard 0'',
       l_line_number = Some 7, l_backtrace = None, l_raw_backtrace = None, l_known_issue = None\<rparr>\<rparr>"

definition sample_counters :: counters where
  "sample_counters = start_event_counter
     \<lparr>cm_id = ''c1'', cm_types = [REACTOR_STALLED], cm_path = ''p'', cm_statistics = []\<rparr> []"

theorem stall_histogram_sums_witness:
  "\<exists>d s. dget (fst (run_gen counter_step sample_counters [sample_stall])) ''c1'' = Some d \<and>
     dget (stats d) REACTOR_STALLED = Some s \<and> sum_list (map snd (st_ms s)) = st_counter s \<and> st_counter s = 1"
proof -
  have ok: "all_data_ok sample_counters"
    by (simp add: all_data_ok_def sample_counters_def start_event_counter_def add_counter_def data_ok_def)
  have m: "stall_ms ''Reactor stalled for 33 ms on shard 0'' = 33" by code_simp
  have e: "cls_name sample_stall = REACTOR_STALLED"
    by (simp add: sample_stall_def sample_event_def new_event_def REACTOR_STALLED_def DOT_def)
  obtain d where d: "update_data sample_stall \<lparr>event_types = [REACTOR_STALLED], save_dir = ''p'', stats = []\<rparr> =
      (Inr d, [(''p'', REACTOR_STALLED, ''n1'', ''Reactor stalled for 33 ms on shard 0'')])"
    "event_types d = [REACTOR_STALLED]" "dget (stats d) REACTOR_STALLED = Some \<lparr>st_event = REACTOR_STALLED, st_counter = 1, st_ms = [(50, 1)]\<rparr>"
    by (simp add: update_data_def e ReactorStall_update_def sample_stall_def [THEN arg_cong [where f = log]]
        Let_def m get_interval_def STALL_INTERVALS_def dget_default_def)
  have "dget (fst (run_gen counter_step sample_counters [sample_stall])) ''c1'' = Some d"
    by (simp add: sample_counters_def start_event_counter_def add_counter_def counter_step_def d e)
  with stall_histogram_sums [OF ok this d(3)] d(3) show ?thesis
    by (intro exI [of _ d] exI [of _ "\<lparr>st_event = REACTOR_STALLED, st_counter = 1, st_ms = [(50, 1)]\<rparr>"] conjI) simp_all
qed

end
