(* ===== verification/Grafana.thy ===== *)
theory Grafana
  imports Filters
begin

text \<open>
  The Grafana pipeline of \<open>sct_events/grafana.py\<close>: the annotator turns events into annotations, the
  aggregator lets at most five annotations with the same tags through in a time window of ninety
  seconds, the postman posts them to the URLs that were set.
\<close>

section \<open>The annotator\<close>

record annotation =
  a_time :: int
  a_tags :: "string list"
  a_text :: string

text \<open>An event without a timestamp or one that cannot be printed is logged and skipped.\<close>

definition annotate :: "env \<Rightarrow> string \<times> event \<Rightarrow> annotation list" where
  "annotate w x = (case x of (cls, e) \<Rightarrow>
     if \<not> publish_to_grafana e then []
     else (case (timestamp e, str_event w e) of
       (Some ts, Inr s) \<Rightarrow>
         [\<lparr>a_time = py_trunc (ts * 1000),
           a_tags = [cls, sev_name (severity e), ''events''] @
             (if tstr (etype e) then [the (etype e)] else []) @
             (if tstr (esubtype e) then [the (esubtype e)] else []),
           a_text = s\<rparr>]
     | _ \<Rightarrow> []))"

section \<open>The aggregator\<close>

definition time_window :: time where "time_window = 90"

definition max_duplicates :: nat where "max_duplicates = 5"

record aggregator =
  window_counters :: "(string list, nat) dict"
  window_end :: time

definition unique_key :: "annotation \<Rightarrow> string list" where "unique_key a = a_tags a"

text \<open>The start of a new window, with the clock at \<open>now\<close>; several windows may have passed.\<close>

definition roll_window :: "time \<Rightarrow> aggregator \<Rightarrow> aggregator" where
  "roll_window now s =
     (let diff = now - window_end s in
      if 0 < diff
      then \<lparr>window_counters = [], window_end = window_end s + (of_int \<lfloor>diff / time_window\<rfloor> + 1) * time_window\<rparr>
      else s)"

definition aggregate_step :: "aggregator \<Rightarrow> time \<times> annotation \<Rightarrow> aggregator \<times> annotation list" where
  "aggregate_step s0 x = (case x of (now, a) \<Rightarrow>
     (let s = roll_window now s0; k = unique_key a; n = dget_default (window_counters s) k 0 + 1
      in (s\<lparr>window_counters := dset k n (window_counters s)\<rparr>, if max_duplicates < n then [] else [a])))"

section \<open>The postman\<close>

record postman =
  post_urls :: "string list"
  url_set :: bool

definition api_endpoint :: string where "api_endpoint = ''/api/annotations''"

definition set_grafana_url :: "string \<Rightarrow> postman \<Rightarrow> postman" where
  "set_grafana_url url p = (if url = [] then p else p\<lparr>post_urls := post_urls p @ [url @ api_endpoint]\<rparr>)"

definition start_posting :: "postman \<Rightarrow> postman" where "start_posting p = p\<lparr>url_set := True\<rparr>"

definition post_annotation :: "postman \<Rightarrow> annotation \<Rightarrow> (string \<times> annotation) list" where
  "post_annotation p a = (if url_set p then map (\<lambda>u. (u, a)) (post_urls p) else [])"

section \<open>Properties\<close>

lemma floor_window: "of_int \<lfloor>d / time_window\<rfloor> * time_window \<le> d \<and> d < (of_int \<lfloor>d / time_window\<rfloor> + 1) * time_window"
proof -
  have "of_int \<lfloor>d / time_window\<rfloor> \<le> d / time_window" "d / time_window < of_int \<lfloor>d / time_window\<rfloor> + 1"
    by linarith+
  then show ?thesis by (simp add: time_window_def field_simps)
qed

text \<open>
  A new window starts when and only when the current one is over, and however long no annotation
  came, it ends after the current time and at most ninety seconds later, a whole number of windows
  after the old end.
\<close>

theorem window_end_in_future:
  "now \<le> window_end (roll_window now s) \<and>
   (if now \<le> window_end s then roll_window now s = s
    else now < window_end (roll_window now s) \<and> window_end (roll_window now s) \<le> now + time_window \<and>
         (\<exists>n. window_end (roll_window now s) = window_end s + of_int n * time_window) \<and>
         window_counters (roll_window now s) = [])"
proof (cases "now \<le> window_end s")
  case False
  let ?q = "\<lfloor>(now - window_end s) / time_window\<rfloor>"
  have e: "window_end (roll_window now s) = window_end s + (of_int ?q + 1) * time_window"
    using False by (simp add: roll_window_def Let_def)
  have "\<exists>n. window_end (roll_window now s) = window_end s + of_int n * time_window"
    by (intro exI [of _ "?q + 1"]) (simp add: e)
  moreover have "window_counters (roll_window now s) = []"
    using False by (simp add: roll_window_def Let_def)
  ultimately show ?thesis
    using False floor_window [of "now - window_end s"] e by (simp add: algebra_simps)
qed (simp add: roll_window_def Let_def)

lemma step_in_window:
  assumes "now \<le> window_end s"
  shows "aggregate_step s (now, a) =
    (s\<lparr>window_counters := dset (unique_key a) (dget_default (window_counters s) (unique_key a) 0 + 1) (window_counters s)\<rparr>,
     if dget_default (window_counters s) (unique_key a) 0 < max_duplicates then [a] else [])"
  using assms by (simp add: aggregate_step_def roll_window_def Let_def not_less [symmetric])

text \<open>
  C19. In one window, of the annotations with the same tags the first five are passed on and no more:
  the number passed on is the number that came, cut to what is left of five.
\<close>

theorem window_passes_first_five:
  assumes "list_all (\<lambda>x. fst x \<le> window_end s) xs"
  shows "length (filter (\<lambda>a. unique_key a = k) (snd (run_gen aggregate_step s xs))) =
     min (length (filter (\<lambda>x. unique_key (snd x) = k) xs)) (max_duplicates - dget_default (window_counters s) k 0)"
  using assms
proof (induction xs arbitrary: s)
  case (Cons x xs)
  obtain now a where x: "x = (now, a)" by (cases x)
  define c where "c = dget_default (window_counters s) (unique_key a) 0"
  define s1 where "s1 = s\<lparr>window_counters := dset (unique_key a) (c + 1) (window_counters s)\<rparr>"
  have st: "aggregate_step s (now, a) = (s1, if c < max_duplicates then [a] else [])"
    using Cons.prems step_in_window [of now s a] by (simp add: x s1_def c_def)
  have "list_all (\<lambda>x. fst x \<le> window_end s1) xs" using Cons.prems by (simp add: s1_def)
  moreover have "dget_default (window_counters s1) k 0 =
      (if k = unique_key a then c + 1 else dget_default (window_counters s) k 0)"
    by (simp add: s1_def dget_default_def dget_dset)
  ultimately show ?case
    using Cons.IH [of s1] by (auto simp: st x c_def Let_def case_prod_beta min_def)
qed simp

lemma aggregate_subseq: "subseq (snd (run_gen aggregate_step s xs)) (map snd xs)"
proof -
  have "subseq (map id (snd (aggregate_step s x))) [snd x]" for s x
    by (cases x) (simp add: aggregate_step_def Let_def)
  from run_gen_subseq [where h = "\<lambda>x. [snd x]", OF this] show ?thesis by (simp add: map_concat [symmetric])
qed

definition sample_annotation :: annotation where
  "sample_annotation = \<lparr>a_time = 0, a_tags = [''x''], a_text = ''t''\<rparr>"

theorem window_passes_first_five_witness:
  "length (snd (run_gen aggregate_step \<lparr>window_counters = [], window_end = 90\<rparr>
     (replicate 7 (10, sample_annotation)))) = 5"
proof -
  let ?s = "\<lparr>window_counters = [], window_end = 90\<rparr>"
  let ?xs = "replicate 7 (10 :: time, sample_annotation)"
  have "length (filter (\<lambda>a. unique_key a = [''x'']) (snd (run_gen aggregate_step ?s ?xs))) =
      min (length (filter (\<lambda>x. unique_key (snd x) = [''x'']) ?xs)) (max_duplicates - dget_default (window_counters ?s) [''x''] 0)"
    by (rule window_passes_first_five) (simp add: list_all_iff)
  moreover have "unique_key a = [''x'']" if "a \<in> set (snd (run_gen aggregate_step ?s ?xs))" for a
  proof -
    have "a \<in> set (map snd ?xs)" using that aggregate_subseq [of ?s ?xs] by (elim list_emb_set) auto
    then show ?thesis by (simp add: unique_key_def sample_annotation_def)
  qed
  then have "filter (\<lambda>a. unique_key a = [''x'']) (snd (run_gen aggregate_step ?s ?xs)) = snd (run_gen aggregate_step ?s ?xs)"
    by (intro filter_True) blast
  ultimately show ?thesis
    by (simp add: unique_key_def sample_annotation_def max_duplicates_def dget_default_def)
qed

end
