(* ===== verification/Analyzer.thy ===== *)
theory Analyzer
  imports Continuous
begin

text \<open>
  The consumers that act on events: \<open>sct_events/events_analyzer.py\<close>, which kills the test on a critical
  event, and \<open>sct_events/event_handler.py\<close> with \<open>handlers/schema_disagreement.py\<close>, which collects data
  on a schema disagreement at most once per hour.
\<close>

section \<open>The analyzer\<close>

definition LOADERS_EVENTS :: "string list" where
  "LOADERS_EVENTS = [''CassandraStressEvent'', ''ScyllaBenchEvent'', ''YcsbStressEvent'',
     ''NdbenchStressEvent'', ''CDCReaderStressEvent'']"

text \<open>\<open>memo\<close> is the default argument of \<open>kill_test\<close>, which all calls share.\<close>

record analyzer =
  stop_set :: bool
  memo :: bool

definition failure_reason :: "string \<Rightarrow> string \<Rightarrow> string" where
  "failure_reason cls text =
     (if cls \<in> set LOADERS_EVENTS then ''Stress command failed: '' else ''Got critical event: '') @ text"

definition kill_test :: "bool \<Rightarrow> string \<Rightarrow> analyzer \<Rightarrow> analyzer \<times> string list" where
  "kill_test has_tester reason s =
     (let s1 = s\<lparr>stop_set := True\<rparr> in
      if has_tester then (if memo s1 then (s1, []) else (s1\<lparr>memo := True\<rparr>, [reason])) else (s1, []))"

text \<open>
  One event; the text of the failure prints the event, and an exception there is suppressed with the
  whole event.
\<close>

definition analyze_step :: "env \<Rightarrow> bool \<Rightarrow> analyzer \<Rightarrow> string \<times> event \<Rightarrow> analyzer \<times> string list" where
  "analyze_step w has_tester s x = (case x of (cls, e) \<Rightarrow>
     if cls = ''TestResultEvent'' \<or> severity e \<noteq> CRITICAL then (s, [])
     else (case str_event w e of Inl _ \<Rightarrow> (s, [])
           | Inr t \<Rightarrow> kill_test has_tester (failure_reason cls t) s))"

text \<open>The loop ends when the stop event is set.\<close>

definition analyzer_step :: "env \<Rightarrow> bool \<Rightarrow> analyzer \<Rightarrow> string \<times> event \<Rightarrow> analyzer \<times> string list" where
  "analyzer_step w has_tester s x = (if stop_set s then (s, []) else analyze_step w has_tester s x)"

definition kills :: "env \<Rightarrow> string \<times> event \<Rightarrow> string list" where
  "kills w x = (case str_event w (snd x) of Inl _ \<Rightarrow> []
     | Inr t \<Rightarrow> if fst x \<noteq> ''TestResultEvent'' \<and> severity (snd x) = CRITICAL
                then [failure_reason (fst x) t] else [])"

lemma run_memo: "memo s \<Longrightarrow> snd (run_gen (analyze_step w tester) s xs) = []"
proof (induction xs arbitrary: s)
  case (Cons x xs)
  have "snd (analyze_step w tester s x) = []" "memo (fst (analyze_step w tester s x))"
    using Cons.prems by (auto simp: analyze_step_def kill_test_def Let_def split: prod.splits sum.splits)
  then show ?case using Cons.IH by (simp add: Let_def case_prod_beta)
qed simp

text \<open>
  C20. The test is killed at most once, by the first critical event that can be printed and is not the
  test's own result, even when the analyzer keeps getting critical events.
\<close>

theorem kill_test_once:
  "snd (run_gen (analyze_step w True) \<lparr>stop_set = stopped, memo = False\<rparr> xs) = take 1 (concat (map (kills w) xs))"
proof (induction xs arbitrary: stopped)
  case (Cons x xs)
  show ?case
  proof (cases "kills w x")
    case Nil
    then have "analyze_step w True \<lparr>stop_set = stopped, memo = False\<rparr> x = (\<lparr>stop_set = stopped, memo = False\<rparr>, [])"
      by (auto simp: analyze_step_def kills_def split: prod.splits sum.splits if_splits)
    with Nil Cons.IH [of stopped] show ?thesis by simp
  next
    case (Cons r rs)
    then have "analyze_step w True \<lparr>stop_set = stopped, memo = False\<rparr> x = (\<lparr>stop_set = True, memo = True\<rparr>, [r])"
      "rs = []"
      by (auto simp: analyze_step_def kills_def kill_test_def Let_def split: prod.splits sum.splits if_splits)
    with Cons run_memo [of "\<lparr>stop_set = True, memo = True\<rparr>" w True xs] show ?thesis by (simp add: Let_def case_prod_beta)
  qed
qed simp

section \<open>Schema disagreements\<close>

text \<open>What the handler gets from a node: gossip and peers information and the link of the upload.\<close>

record node_data =
  nd_gossip :: string
  nd_peers :: string
  nd_link :: "string option"

record schema_event =
  se_links :: "string list"
  se_gossip :: string
  se_peers :: string

definition should_upload :: "time \<Rightarrow> time \<Rightarrow> bool" where
  "should_upload uploaded now = (uploaded < now - 3600)"

fun collect_nodes :: "node_data list \<Rightarrow> schema_event \<Rightarrow> schema_event" where
  "collect_nodes [] s = s"
| "collect_nodes (n # ns) s = collect_nodes ns
     \<lparr>se_links = se_links s @ (case nd_link n of None \<Rightarrow> [] | Some l \<Rightarrow> [l]),
      se_gossip = (if se_gossip s \<noteq> [] then se_gossip s else nd_gossip n),
      se_peers = (if se_peers s \<noteq> [] then se_peers s else nd_peers n)\<rparr>"

text \<open>
  \<open>handle\<close> with the two readings of the clock; \<open>tester\<close> is the nodes of the test's cluster, or \<open>None\<close>
  when no test is registered: the caller logs that and still calls the handler, which then fails after
  it noted the time.
\<close>

definition handle_schema :: "time \<Rightarrow> time \<Rightarrow> node_data list option \<Rightarrow> time \<Rightarrow> time \<times> schema_event list" where
  "handle_schema now now2 tester uploaded =
     (if should_upload uploaded now
      then (now2, case tester of None \<Rightarrow> []
        | Some nodes \<Rightarrow> [collect_nodes nodes \<lparr>se_links = [], se_gossip = [], se_peers = []\<rparr>])
      else (uploaded, []))"

definition handler_name :: "string \<Rightarrow> event \<Rightarrow> string" where
  "handler_name cls e = (if tstr (etype e) then cls @ [DOT] @ the (etype e) else cls)"

definition handler_step ::
  "time \<Rightarrow> time \<times> time \<times> node_data list option \<times> (string \<times> event) \<Rightarrow> time \<times> (time \<times> schema_event) list" where
  "handler_step uploaded x = (case x of (now, now2, tester, cls, e) \<Rightarrow>
     if handler_name cls e = ''CassandraStressLogEvent.SchemaDisagreement''
     then (let (u, out) = handle_schema now now2 tester uploaded in (u, map (\<lambda>s. (now2, s)) out))
     else (uploaded, []))"

lemma handler_step_cases:
  "(handler_step u (now, now2, tester, c, e) = (u, [])) \<or>
   (\<exists>out. handler_step u (now, now2, tester, c, e) = (now2, out) \<and> u + 3600 < now \<and> length out \<le> 1 \<and>
          (\<forall>y\<in>set out. fst y = now2))"
  by (auto simp: handler_step_def handle_schema_def should_upload_def Let_def split: option.splits)

text \<open>
  Data is collected at most once per hour: with a clock that does not run backwards during an
  event, any two collections are more than 3600 seconds apart.
\<close>

theorem uploads_an_hour_apart:
  assumes "list_all (\<lambda>(now, now2, _). now \<le> now2) xs"
  shows "sorted_wrt (\<lambda>a b. a + 3600 < b) (map fst (snd (run_gen handler_step u xs))) \<and>
         list_all (\<lambda>t. u + 3600 < t) (map fst (snd (run_gen handler_step u xs)))"
  using assms
proof (induction xs arbitrary: u)
  case (Cons x xs)
  obtain now now2 tester c e where x: "x = (now, now2, tester, c, e)" by (metis prod_cases5)
  from handler_step_cases [of u now now2 tester c e] show ?case
  proof
    assume "handler_step u (now, now2, tester, c, e) = (u, [])"
    with Cons.IH [of u] Cons.prems show ?case by (simp add: x)
  next
    assume "\<exists>out. handler_step u (now, now2, tester, c, e) = (now2, out) \<and> u + 3600 < now \<and> length out \<le> 1 \<and>
        (\<forall>y\<in>set out. fst y = now2)"
    then obtain out where o: "handler_step u (now, now2, tester, c, e) = (now2, out)" "u + 3600 < now"
      "length out \<le> 1" "\<forall>y\<in>set out. fst y = now2" by blast
    from Cons.prems have le: "now \<le> now2" by (simp add: x)
    have "map fst out = [] \<or> map fst out = [now2]" using o(3,4) by (cases out) auto
    moreover have ih: "sorted_wrt (\<lambda>a b. a + 3600 < b) (map fst (snd (run_gen handler_step now2 xs)))"
      "\<forall>t\<in>set (map fst (snd (run_gen handler_step now2 xs))). now2 + 3600 < t"
      using Cons.IH [of now2] Cons.prems by (auto simp: x list_all_iff)
    moreover have "\<forall>t\<in>set (map fst (snd (run_gen handler_step now2 xs))). u + 3600 < t"
      using ih(2) o(2) le by force
    ultimately show ?case
      using o(1,2) le by (auto simp: x Let_def case_prod_beta list_all_iff sorted_wrt_append)
  qed
qed simp

definition sample_disagreement :: "string \<times> event" where
  "sample_disagreement = (''CassandraStressLogEvent'',
     sample_event ''CassandraStressLogEvent'' (Some ''SchemaDisagreement'') WARNING 1)"

theorem uploads_an_hour_apart_witness:
  "\<exists>ts. map fst (snd (run_gen handler_step 0 [(4000, 4001, Some [], sample_disagreement),
     (5000, 5001, Some [], sample_disagreement), (7602, 7603, Some [], sample_disagreement)])) = ts \<and>
     ts = [4001, 7603] \<and> sorted_wrt (\<lambda>a b. a + 3600 < b) ts"
proof -
  let ?xs = "[(4000, 4001, Some [], sample_disagreement), (5000, 5001, Some [], sample_disagreement),
     (7602, 7603, Some [], sample_disagreement)]"
  have "handler_name (fst sample_disagreement) (snd sample_disagreement) = ''CassandraStressLogEvent.SchemaDisagreement''"
    by code_simp
  then have "map fst (snd (run_gen handler_step 0 ?xs)) = [4001, 7603]"
    by (simp add: handler_step_def handle_schema_def should_upload_def case_prod_beta)
  then show ?thesis using uploads_an_hour_apart [of ?xs 0] by simp
qed

end
