(* ===== verification/Processes.thy ===== *)
theory Processes
  imports Events_Device
begin

text \<open>
  The processes of the event system: \<open>sct_events/events_processes.py\<close> (the registry of processes, the
  default registry, the queues between the stages of a pipeline), \<open>sct_events/setup.py\<close> (what is
  started and stopped, in which order).
\<close>

section \<open>The registry of processes\<close>

datatype process_kind = MainDevice | FileLogger | GrafanaAnnotator | GrafanaAggregator | GrafanaPostman
  | EventsAnalyzer | EventsHandler | EventsCounter

record process_entry =
  p_kind :: process_kind
  p_started :: bool
  p_stopped :: bool

record processes =
  log_dir :: string
  is_default :: bool
  registry_dict :: "(string, process_entry) dict"

definition new_processes :: "string \<Rightarrow> bool \<Rightarrow> processes" where
  "new_processes dir d = \<lparr>log_dir = dir, is_default = d, registry_dict = []\<rparr>"

definition start_process :: "string \<Rightarrow> process_kind \<Rightarrow> processes \<Rightarrow> processes" where
  "start_process name k r =
     r\<lparr>registry_dict := dset name \<lparr>p_kind = k, p_started = True, p_stopped = False\<rparr> (registry_dict r)\<rparr>"

definition get_process :: "string \<Rightarrow> processes \<Rightarrow> process_entry option" where
  "get_process name r = dget (registry_dict r) name"

text \<open>\<open>_EVENTS_PROCESSES\<close>, the module's default registry.\<close>

definition create_default :: "string \<Rightarrow> processes option \<Rightarrow> processes option \<times> processes res" where
  "create_default dir g = (case g of
     None \<Rightarrow> (let r = new_processes dir True in (Some r, Inr r)) | Some _ \<Rightarrow> (g, Inl RuntimeError))"

definition get_default :: "processes option \<Rightarrow> processes option \<Rightarrow> processes res" where
  "get_default arg g = (case arg of Some r \<Rightarrow> Inr r
     | None \<Rightarrow> (case g of None \<Rightarrow> Inl RuntimeError | Some r \<Rightarrow> Inr r))"

section \<open>Pipes\<close>

text \<open>
  \<open>EventsProcessPipe.outbound_events\<close>: one turn of the loop takes the head of the outbound queue, or
  nothing when the wait timed out. The consumer's counter grows by one for each item.
\<close>

record 'a pipe =
  out_queue :: "'a list"
  out_counter :: "32 word"
  out_stop :: bool

definition pipe_put :: "'a \<Rightarrow> 'a pipe \<Rightarrow> 'a pipe" where
  "pipe_put x p = p\<lparr>out_queue := out_queue p @ [x]\<rparr>"

definition pipe_turn :: "'a pipe \<Rightarrow> 'a pipe \<times> 'a list" where
  "pipe_turn p = (if out_stop p then (p, [])
     else (case out_queue p of [] \<Rightarrow> (p, [])
       | x # q \<Rightarrow> (p\<lparr>out_queue := q, out_counter := out_counter p + 1\<rparr>, [x])))"

definition pipe_terminate :: "'a pipe \<Rightarrow> 'a pipe" where "pipe_terminate p = p\<lparr>out_stop := True\<rparr>"

datatype 'a pipe_op = Put 'a | Turn

definition pipe_step :: "'a pipe \<Rightarrow> 'a pipe_op \<Rightarrow> 'a pipe \<times> 'a list" where
  "pipe_step p op = (case op of Put x \<Rightarrow> (pipe_put x p, []) | Turn \<Rightarrow> pipe_turn p)"

definition puts :: "'a pipe_op list \<Rightarrow> 'a list" where
  "puts ops = concat (map (\<lambda>op. case op of Put x \<Rightarrow> [x] | Turn \<Rightarrow> []) ops)"

section \<open>Starting and stopping\<close>

definition start_order :: "(string \<times> process_kind) list" where
  "start_order = [(''MainDevice'', MainDevice), (''EVENTS_FILE_LOGGER'', FileLogger),
     (''EVENTS_GRAFANA_ANNOTATOR'', GrafanaAnnotator), (''EVENTS_GRAFANA_AGGREGATOR'', GrafanaAggregator),
     (''EVENTS_GRAFANA_POSTMAN'', GrafanaPostman), (''EVENTS_ANALYZER'', EventsAnalyzer),
     (''EVENTS_HANDLER'', EventsHandler), (''EVENTS_COUNTER_ID'', EventsCounter)]"

definition start_all :: "processes \<Rightarrow> processes" where
  "start_all r = foldl (\<lambda>r (n, k). start_process n k r) r start_order"

text \<open>\<open>start_events_device\<close> on an explicit registry or on the default one, which it creates.\<close>

definition start_events_device ::
  "string option \<Rightarrow> processes option \<Rightarrow> processes option \<Rightarrow> processes option \<times> processes res" where
  "start_events_device dir arg g = (case arg of
     Some r \<Rightarrow> (g, Inr (start_all r))
   | None \<Rightarrow> (case dir of None \<Rightarrow> (g, Inl RuntimeError)
      | Some d \<Rightarrow> (case create_default d g of
           (g1, Inl er) \<Rightarrow> (g1, Inl er)
         | (_, Inr r) \<Rightarrow> (Some (start_all r), Inr (start_all r)))))"

definition stop_order :: "string list" where
  "stop_order = [''EVENTS_FILE_LOGGER'', ''EVENTS_GRAFANA_ANNOTATOR'', ''EVENTS_GRAFANA_AGGREGATOR'',
     ''EVENTS_GRAFANA_POSTMAN'', ''EVENTS_COUNTER_ID'', ''EVENTS_HANDLER'', ''EVENTS_ANALYZER'', ''MainDevice'']"

text \<open>
  \<open>stop\<close> of a process: every process but the main device asserts that it died in time (\<open>dies\<close>). The
  assertion ends \<open>stop_events_device\<close>.
\<close>

fun stop_processes :: "(string \<Rightarrow> bool) \<Rightarrow> string list \<Rightarrow> processes \<Rightarrow> processes \<times> string list \<times> unit res" where
  "stop_processes dies [] r = (r, [], Inr ())"
| "stop_processes dies (n # ns) r = (case get_process n r of
     None \<Rightarrow> stop_processes dies ns r
   | Some p \<Rightarrow> if p_started p \<and> \<not> p_stopped p then
       (let r1 = r\<lparr>registry_dict := dset n (p\<lparr>p_stopped := True\<rparr>) (registry_dict r)\<rparr> in
        if p_kind p = MainDevice \<or> dies n
        then (let (r2, out, x) = stop_processes dies ns r1 in (r2, n # out, x))
        else (r, [n], Inl AssertionError))
     else stop_processes dies ns r)"

definition stop_events_device :: "(string \<Rightarrow> bool) \<Rightarrow> processes \<Rightarrow> processes \<times> string list \<times> unit res" where
  "stop_events_device dies r = stop_processes dies stop_order r"

section \<open>Properties\<close>

text \<open>
  The default registry is created once: creating it again fails and leaves the first one in place,
  and before it exists only an explicit registry can be used.
\<close>

theorem default_registry_once:
  "let (g, r) = create_default dir None in
     (\<exists>p. g = Some p \<and> r = Inr p \<and> is_default p \<and> get_default None g = Inr p \<and>
          create_default dir2 g = (g, Inl RuntimeError)) \<and>
     get_default None None = Inl RuntimeError \<and> get_default (Some q) g = Inr q"
  by (simp add: create_default_def get_default_def new_processes_def Let_def)

lemma pipe_run:
  "out_queue p @ puts ops = snd (run_gen pipe_step p ops) @ out_queue (fst (run_gen pipe_step p ops)) \<and>
   out_counter (fst (run_gen pipe_step p ops)) = out_counter p + of_nat (length (snd (run_gen pipe_step p ops)))"
proof (induction ops arbitrary: p)
  case (Cons op ops)
  obtain p1 ys where st: "pipe_step p op = (p1, ys)" by (cases "pipe_step p op")
  have "out_queue p @ puts [op] = ys @ out_queue p1 \<and> out_counter p1 = out_counter p + of_nat (length ys)"
    using st by (auto simp: pipe_step_def pipe_put_def pipe_turn_def puts_def split: pipe_op.splits if_splits list.splits)
  moreover have "puts (op # ops) = puts [op] @ puts ops" by (simp add: puts_def)
  ultimately show ?case
    using Cons.IH [of p1] by (simp add: st case_prod_beta algebra_simps) (metis append_assoc)
qed (simp add: puts_def)

text \<open>
  A pipe is a queue: over any interleaving of puts and turns of the consumer, what was delivered
  followed by what is still queued is what was put, in order; the consumer's counter is the number
  delivered modulo \<open>2 ^ 32\<close>.
\<close>

theorem pipe_is_fifo:
  "let (p, out) = run_gen pipe_step \<lparr>out_queue = [], out_counter = 0, out_stop = False\<rparr> ops in
     out @ out_queue p = puts ops \<and> unat (out_counter p) = length out mod 2 ^ 32"
  using pipe_run [of "\<lparr>out_queue = [], out_counter = 0, out_stop = False\<rparr>" ops]
  by (auto simp: Let_def case_prod_beta unat_of_nat)

lemma start_all_dict:
  "registry_dict (start_all (new_processes d b)) = map (\<lambda>(n, k). (n, \<lparr>p_kind = k, p_started = True, p_stopped = False\<rparr>)) start_order"
  by (simp add: start_all_def start_order_def start_process_def new_processes_def)



end
