(* ===== verification/Db_Events.thy ===== *)
theory Db_Events
  imports Continuous
begin

text \<open>
  The tables of log events: the sub-event types and patterns of \<open>sct_events/database.py\<close>,
  \<open>loaders.py\<close> and \<open>system.py\<close>, in the order in which a line is compared with them, the severity of
  reactor stalls, and the continuous events that begin and end with a line of the log.
\<close>

section \<open>Tables\<close>

type_synonym log_type = "string \<times> severity \<times> string"

definition DatabaseLogEvent_types :: "log_type list" where
  "DatabaseLogEvent_types = [
    (''WARNING'', WARNING, raw ''(^WARNING|!~s*?WARNING).*~[shard.*~]''),
    (''NO_SPACE_ERROR'', ERROR, ''No space left on device''),
    (''UNKNOWN_VERB'', WARNING, ''(unknown verb exception|unknown_verb_error)''),
    (''CLIENT_DISCONNECT'', WARNING, ''cql_server - exception while processing connection:''),
    (''SEMAPHORE_TIME_OUT'', WARNING, ''semaphore_timed_out''),
    (''LDAP_CONNECTION_RESET'', WARNING,
       raw ''.*ldap_connection - Seastar read failed: std::system_error ~(error system:104, recv: Connection reset by peer~).*''),
    (''SYSTEM_PAXOS_TIMEOUT'', WARNING,
       ''(mutation_write_|Operation timed out for system.paxos|Operation failed for system.paxos)''),
    (''SERVICE_LEVEL_CONTROLLER'', WARNING, ''Operation timed out for system_distributed.service_levels''),
    (''GATE_CLOSED'', WARNING, ''exception '' @ [DQ] @ ''gate closed'' @ [DQ] @ '' in no_wait handler ignored''),
    (''RESTARTED_DUE_TO_TIME_OUT'', WARNING,
       ''scylla-server.service.*State '' @ [SQ] @ ''stop-sigterm'' @ [SQ] @ '' timed out''),
    (''EMPTY_NESTED_EXCEPTION'', WARNING,
       raw ''cql_server - exception while processing connection: seastar::nested_exception ~(seastar::nested_exception~)$''),
    (''COMPACTION_STOPPED'', NORMAL, ''compaction_stopped_exception''),
    (''BAD_ALLOC'', ERROR, ''std::bad_alloc''),
    (''SCHEMA_FAILURE'', ERROR, ''(.*ERROR|!ERR).*Failed to load schema version''),
    (''RUNTIME_ERROR'', ERROR, ''std::runtime_error''),
    (''DIRECTORY_NOT_EMPTY'', NORMAL, ''remove failed: Directory not empty''),
    (''FILESYSTEM_ERROR'', ERROR, ''filesystem_error''),
    (''DISK_ERROR'', ERROR, raw ''storage_service - .*due to I~/O errors.*Disk error: std::system_error''),
    (''STACKTRACE'', ERROR, ''^(?!.*libabsl).*stacktrace''),
    (''RAFT_TRANSFER_SNAPSHOT_ERROR'', WARNING,
       raw ''raft - ~[[~w-]*~] Transferring snapshot to [~w-]* failed with: seastar::rpc::remote_verb_error ~(connection is closed~)''),
    (''REACTOR_STALLED'', DEBUG, ''Reactor stalled''),
    (''KERNEL_CALLSTACK'', DEBUG, ''kernel callstack: 0x.{16}''),
    (''ABORTING_ON_SHARD'', ERROR, ''Aborting on shard''),
    (''SEGMENTATION'', ERROR, ''segmentation''),
    (''CORRUPTED_SSTABLE'', CRITICAL, ''sstables::malformed_sstable_exception|invalid_mutation_fragment_stream''),
    (''INTEGRITY_CHECK'', ERROR, ''integrity check failed''),
    (''SUPPRESSED_MESSAGES'', WARNING, ''journal: Suppressed''),
    (''stream_exception'', ERROR, ''stream_exception''),
    (''RPC_CONNECTION'', WARNING, ''(^ERROR|!ERR).*rpc - client .*(connection dropped|fail to connect)''),
    (''DATABASE_ERROR'', ERROR, raw ''(^ERROR|!~s*?ERR).*~[shard.*~]''),
    (''BACKTRACE'', ERROR, ''^(?!.*audit:).*backtrace'')]"

definition SYSTEM_ERROR_EVENTS :: "string list" where
  "SYSTEM_ERROR_EVENTS = [''WARNING'', ''NO_SPACE_ERROR'', ''UNKNOWN_VERB'', ''CLIENT_DISCONNECT'',
    ''SEMAPHORE_TIME_OUT'', ''LDAP_CONNECTION_RESET'', ''SYSTEM_PAXOS_TIMEOUT'', ''SERVICE_LEVEL_CONTROLLER'',
    ''GATE_CLOSED'', ''RESTARTED_DUE_TO_TIME_OUT'', ''EMPTY_NESTED_EXCEPTION'', ''COMPACTION_STOPPED'',
    ''BAD_ALLOC'', ''SCHEMA_FAILURE'', ''RUNTIME_ERROR'', ''DIRECTORY_NOT_EMPTY'', ''FILESYSTEM_ERROR'',
    ''DISK_ERROR'', ''STACKTRACE'', ''RAFT_TRANSFER_SNAPSHOT_ERROR'', ''REACTOR_STALLED'', ''KERNEL_CALLSTACK'',
    ''ABORTING_ON_SHARD'', ''SEGMENTATION'', ''CORRUPTED_SSTABLE'', ''INTEGRITY_CHECK'', ''SUPPRESSED_MESSAGES'',
    ''stream_exception'', ''RPC_CONNECTION'', ''DATABASE_ERROR'', ''BACKTRACE'']"

text \<open>A compiled pattern with its flags and the event of its type.\<close>

record log_pattern =
  lp_base :: string
  lp_type :: string
  lp_severity :: severity
  lp_regex :: string
  lp_flags :: re_flags

definition patterns_of :: "string \<Rightarrow> re_flags \<Rightarrow> log_type list \<Rightarrow> string list \<Rightarrow> log_pattern list" where
  "patterns_of b fl types names = map (\<lambda>n. (case map_of types n of
     Some (s, r) \<Rightarrow> \<lparr>lp_base = b, lp_type = n, lp_severity = s, lp_regex = r, lp_flags = fl\<rparr>
   | None \<Rightarrow> \<lparr>lp_base = b, lp_type = n, lp_severity = UNKNOWN, lp_regex = [], lp_flags = fl\<rparr>)) names"

definition SYSTEM_ERROR_EVENTS_PATTERNS :: "log_pattern list" where
  "SYSTEM_ERROR_EVENTS_PATTERNS =
     patterns_of ''DatabaseLogEvent'' flag_ignorecase DatabaseLogEvent_types SYSTEM_ERROR_EVENTS"

definition BACKTRACE_RE :: string where
  "BACKTRACE_RE = raw ''(?P<other_bt>/lib.*?~+0x[0-9a-f]*$)|(?P<scylla_bt>0x[0-9a-f]*$)''"

subsection \<open>Loaders\<close>

definition NdBenchErrorEvent_types :: "log_type list" where
  "NdBenchErrorEvent_types = [(''Error'', ERROR, ''ERROR''), (''Failure'', CRITICAL, ''FAILURE|FAILED'')]"

definition NDBENCH_ERROR_EVENTS_PATTERNS :: "log_pattern list" where
  "NDBENCH_ERROR_EVENTS_PATTERNS =
     patterns_of ''NdBenchErrorEvent'' no_flags NdBenchErrorEvent_types [''Failure'', ''Error'']"

definition CassandraStressLogEvent_types :: "log_type list" where
  "CassandraStressLogEvent_types = [
    (''OperationOnKey'', CRITICAL, raw ''Operation x10 on key~(s~) ~[''),
    (''TooManyHintsInFlight'', ERROR, ''Too many hints in flight|Too many in flight hints''),
    (''IOException'', ERROR, raw ''java~.io~.IOException''),
    (''ConsistencyError'', ERROR, ''Cannot achieve consistency level''),
    (''ShardAwareDriver'', NORMAL, ''Using optimized driver''),
    (''SchemaDisagreement'', WARNING, ''No schema agreement''),
    (''RackAwarePolicy'', NORMAL,
       ''Using provided rack name '' @ [SQ] @ ''.+'' @ [SQ] @ '' for RackAwareRoundRobinPolicy'')]"

definition CS_ERROR_EVENTS_PATTERNS :: "log_pattern list" where
  "CS_ERROR_EVENTS_PATTERNS = patterns_of ''CassandraStressLogEvent'' no_flags CassandraStressLogEvent_types
     [''TooManyHintsInFlight'', ''OperationOnKey'', ''IOException'', ''ConsistencyError'', ''SchemaDisagreement'']"

definition CS_NORMAL_EVENTS_PATTERNS :: "log_pattern list" where
  "CS_NORMAL_EVENTS_PATTERNS = patterns_of ''CassandraStressLogEvent'' no_flags CassandraStressLogEvent_types
     [''ShardAwareDriver'', ''RackAwarePolicy'']"

definition CQL_STRESS_CS_ERROR_EVENTS_PATTERNS :: "log_pattern list" where
  "CQL_STRESS_CS_ERROR_EVENTS_PATTERNS = patterns_of ''CqlStressCassandraStressLogEvent'' no_flags
     [(''ReadValidationError'', CRITICAL, ''read validation error'')] [''ReadValidationError'']"

definition ScyllaBenchLogEvent_types :: "log_type list" where
  "ScyllaBenchLogEvent_types = [
    (''ConsistencyError'', ERROR, ''received only''),
    (''DataValidationError'', CRITICAL,
       ''doesn'' @ [SQ] @ ''t match |failed to validate data|failed to verify checksum|corrupt checksum or data|data corruption''),
    (''ParseDistributionError'', CRITICAL,
       ''missing parameter|unexpected parameter|unsupported|invalid input value|distribution is invalid|distribution has invalid format'')]"

definition SCYLLA_BENCH_ERROR_EVENTS_PATTERNS :: "log_pattern list" where
  "SCYLLA_BENCH_ERROR_EVENTS_PATTERNS = patterns_of ''ScyllaBenchLogEvent'' no_flags ScyllaBenchLogEvent_types
     [''ConsistencyError'', ''DataValidationError'', ''ParseDistributionError'']"

definition NoSQLBenchStressLogEvents_types :: "log_type list" where
  "NoSQLBenchStressLogEvents_types = [
    (''ProgressIndicatorStoppedEvent'', CRITICAL,
       raw ''~d*~s+INFO~s+~[ProgressIndicator/logonly:~ds~]~s+PROGRESS~s+~w+:~s+~d{2}.~d{2}%/Stopped.*''),
    (''ProgressIndicatorRunningEvent'', DEBUG,
       raw ''~d*~s+INFO~s+~[ProgressIndicator/logonly:~ds~]~s+PROGRESS~s+~w+:~s+~d{2}.~d{2}%/Running.*''),
    (''ProgressIndicatorFinishedEvent'', NORMAL,
       raw ''~d*~s+INFO~s+~[ProgressIndicator/logonly:~ds~]~s+PROGRESS~s+~w+:~s+100.0%/Stopped~s+.*'')]"

definition NOSQLBENCH_EVENT_PATTERNS :: "log_pattern list" where
  "NOSQLBENCH_EVENT_PATTERNS = patterns_of ''NoSQLBenchStressLogEvents'' no_flags NoSQLBenchStressLogEvents_types
     [''ProgressIndicatorStoppedEvent'', ''ProgressIndicatorFinishedEvent'', ''ProgressIndicatorRunningEvent'']"

definition InstanceStatusEvent_types :: "log_type list" where
  "InstanceStatusEvent_types = [
    (''STARTUP'', WARNING, ''kernel: Linux version''),
    (''REBOOT'', WARNING, ''Stopped target Host and Network Name Lookups''),
    (''POWER_OFF'', WARNING, ''Reached target Power-Off'')]"

definition INSTANCE_STATUS_EVENTS_PATTERNS :: "log_pattern list" where
  "INSTANCE_STATUS_EVENTS_PATTERNS =
     patterns_of ''InstanceStatusEvent'' flag_ignorecase InstanceStatusEvent_types [''STARTUP'', ''REBOOT'', ''POWER_OFF'']"

section \<open>Classifying a line\<close>

definition pattern_hits :: "log_pattern \<Rightarrow> string \<Rightarrow> bool" where
  "pattern_hits p line = (pat_search (lp_flags p) (lp_regex p) line \<noteq> None)"

text \<open>The first pattern that is found in the line.\<close>

fun classify :: "log_pattern list \<Rightarrow> string \<Rightarrow> log_pattern option" where
  "classify [] line = None"
| "classify (p # ps) line = (if pattern_hits p line then Some p else classify ps line)"

text \<open>The event that is cloned for a pattern, before \<open>add_info\<close>.\<close>

definition pattern_event :: "log_pattern \<Rightarrow> time \<Rightarrow> string \<Rightarrow> event res" where
  "pattern_event p now uid = rbind
     (new_event \<lparr>c_name = lp_base p @ [DOT] @ lp_type p, c_base = lp_base p, c_abstract = False,
        c_type = Some (lp_type p), c_subtype = None, c_mro = [lp_base p, ''LogEvent''], c_attrs = []\<rparr>
        (lp_severity p) now uid)
     (log_event_init [] (Some (lp_regex p)))"

definition MILLI_RE :: string where "MILLI_RE = raw ''(~d+) ms''"

definition TOLERABLE_REACTOR_STALL :: nat where "TOLERABLE_REACTOR_STALL = 500"

text \<open>\<open>MILLI_RE.findall(line)[0]\<close>; no match is the \<open>IndexError\<close> that is caught.\<close>

definition first_milli :: "string \<Rightarrow> nat option" where
  "first_milli line = (case pat_search no_flags MILLI_RE line of None \<Rightarrow> None
     | Some m \<Rightarrow> map_option nat_of_digits (m_group m ''1''))"

definition reactor_stalled_severity :: "string \<Rightarrow> event \<Rightarrow> event" where
  "reactor_stalled_severity line e = (case first_milli line of None \<Rightarrow> e
     | Some n \<Rightarrow> if TOLERABLE_REACTOR_STALL \<le> n then e\<lparr>severity := ERROR\<rparr> else e)"

section \<open>Continuous events of the log\<close>

record cont_pattern =
  cp_class :: string
  cp_regex :: string
  cp_begins :: bool

text \<open>The class, its \<open>begin_pattern\<close> and its \<open>end_pattern\<close>.\<close>

definition ScyllaServerStatusEvent_patterns :: "string \<times> string \<times> string" where
  "ScyllaServerStatusEvent_patterns = (''ScyllaServerStatusEvent'', ''Starting Scylla Server'',
     ''Stopping Scylla Server|Failed to start Scylla Server'')"

definition BootstrapEvent_patterns :: "string \<times> string \<times> string" where
  "BootstrapEvent_patterns = (''BootstrapEvent'', ''Starting to bootstrap'', ''Bootstrap succeeded'')"

definition JMXServiceEvent_patterns :: "string \<times> string \<times> string" where
  "JMXServiceEvent_patterns = (''JMXServiceEvent'', ''Starting the JMX server'', ''Stopped Scylla JMX'')"

definition ScyllaSysconfigSetupEvent_patterns :: "string \<times> string \<times> string" where
  "ScyllaSysconfigSetupEvent_patterns = (''ScyllaSysconfigSetupEvent'',
     ''Move current config files before running scylla_sysconfig setup'', ''Finished running scylla_sysconfig_setup'')"

definition SCYLLA_DATABASE_CONTINUOUS_EVENTS :: "(string \<times> string \<times> string) list" where
  "SCYLLA_DATABASE_CONTINUOUS_EVENTS = [ScyllaServerStatusEvent_patterns, BootstrapEvent_patterns,
     JMXServiceEvent_patterns, ScyllaSysconfigSetupEvent_patterns]"

definition get_pattern_to_event_to_func_mapping :: "cont_pattern list" where
  "get_pattern_to_event_to_func_mapping = concat (map (\<lambda>(c, b, f).
     [\<lparr>cp_class = c, cp_regex = b, cp_begins = True\<rparr>, \<lparr>cp_class = c, cp_regex = f, cp_begins = False\<rparr>])
     SCYLLA_DATABASE_CONTINUOUS_EVENTS)"

text \<open>The hash tuple of these classes: the class, the node and the shard, which is \<open>None\<close>.\<close>

definition db_continuous_tuple :: "string \<Rightarrow> string \<Rightarrow> string list" where
  "db_continuous_tuple cls node = [cls, node, ''None'']"

definition new_db_continuous :: "string \<Rightarrow> string \<Rightarrow> time \<Rightarrow> string \<Rightarrow> event" where
  "new_db_continuous cls node now uid =
     continuous_init True [] (db_continuous_tuple cls node)
       \<lparr>cls_name = cls, base = cls, etype = None, esubtype = None, is_system = False, publish_to_grafana = True,
        save_to_files = True, severity = NORMAL, event_timestamp = Some now, source_timestamp = None,
        event_id = uid, period_type = NOT_DEFINED, log_level = LOG_LEVEL_MAPPING NORMAL, ready_to_publish = True,
        subcontext = Some [], log = None, cont = None, attrs = [(''node'', Some node), (''shard'', None)]\<rparr>"

text \<open>
  \<open>_add_event\<close> and \<open>_end_event\<close>: the latter ends the last event of its hash; without one, it publishes
  a framework event of severity \<open>DEBUG\<close> (\<open>missing\<close>).
\<close>

definition db_add_event :: "(string list \<Rightarrow> int) \<Rightarrow> time \<Rightarrow> string \<Rightarrow> string \<Rightarrow> string \<Rightarrow> creg \<Rightarrow> creg \<times> event list" where
  "db_add_event hsh now uid cls node r =
     (let (e, r1, out) = begin_event hsh now True (new_db_continuous cls node now uid) r in (r1, out))"

definition db_end_event :: "(string list \<Rightarrow> int) \<Rightarrow> time \<Rightarrow> event \<Rightarrow> string \<Rightarrow> string \<Rightarrow> creg \<Rightarrow> creg \<times> event list" where
  "db_end_event hsh now missing cls node r =
     (let found = find_continuous_events_by_hash r (hsh (db_continuous_tuple cls node)) in
      if found = [] then (r, [missing])
      else (let (e, r1, out) = end_event hsh now True (last found) r in (r1, out)))"

section \<open>Properties\<close>

definition all_log_patterns :: "log_pattern list" where
  "all_log_patterns = SYSTEM_ERROR_EVENTS_PATTERNS @ NDBENCH_ERROR_EVENTS_PATTERNS @ CS_ERROR_EVENTS_PATTERNS @
     CS_NORMAL_EVENTS_PATTERNS @ CQL_STRESS_CS_ERROR_EVENTS_PATTERNS @ SCYLLA_BENCH_ERROR_EVENTS_PATTERNS @
     NOSQLBENCH_EVENT_PATTERNS @ INSTANCE_STATUS_EVENTS_PATTERNS"

text \<open>
  The tables are well-formed: every listed event type is declared with a severity and a pattern
  that compiles, and no type is listed twice in the table of database errors.
\<close>

theorem log_patterns_compile:
  "list_all (\<lambda>p. lp_regex p \<noteq> [] \<and> lp_severity p \<noteq> UNKNOWN \<and> re_compile (lp_regex p) \<noteq> None) all_log_patterns \<and>
   distinct (map lp_type SYSTEM_ERROR_EVENTS_PATTERNS) \<and>
   list_all (\<lambda>p. re_compile (cp_regex p) \<noteq> None) get_pattern_to_event_to_func_mapping \<and>
   re_compile BACKTRACE_RE \<noteq> None"
  by code_simp

lemma classify_nth:
  "classify ps line = Some p \<Longrightarrow>
   \<exists>i<length ps. p = ps ! i \<and> pattern_hits (ps ! i) line \<and> (\<forall>j<i. \<not> pattern_hits (ps ! j) line)"
proof (induction ps)
  case (Cons q ps)
  show ?case
  proof (cases "pattern_hits q line")
    case True
    with Cons.prems show ?thesis by (intro exI [of _ 0]) simp
  next
    case False
    with Cons obtain i where i: "i < length ps" "p = ps ! i" "pattern_hits (ps ! i) line"
      "\<forall>j<i. \<not> pattern_hits (ps ! j) line" by auto
    then have "\<not> pattern_hits ((q # ps) ! j) line" if "j < Suc i" for j
      using that False by (cases j) auto
    with i show ?thesis by (intro exI [of _ "Suc i"]) simp
  qed
qed simp

text \<open>A pattern that begins with the items of an earlier one is never the first to be found.\<close>

lemma classify_shadowed:
  assumes "classify ps line = Some p" "j < i"
    and "\<And>k. k < length ps \<Longrightarrow> lp_type (ps ! k) = lp_type p \<Longrightarrow> k = i"
    and "re_compile (lp_regex (ps ! j)) = Some r1" "re_compile (lp_regex (ps ! i)) = Some r2"
    and "prefix (rx_flat r1) (rx_flat r2)" "lp_flags (ps ! i) = lp_flags (ps ! j)"
  shows False
proof -
  from classify_nth [OF assms(1)] obtain k where k: "k < length ps" "p = ps ! k" "pattern_hits (ps ! k) line"
    "\<forall>j<k. \<not> pattern_hits (ps ! j) line" by blast
  with assms(3) [of k] have "k = i" by simp
  with k assms(5,7) have "re_search_b (lp_flags (ps ! j)) r2 line"
    by (simp add: pattern_hits_def pat_search_def re_search_b_def)
  from re_search_b_prefix [OF assms(6) this] assms(4) have "pattern_hits (ps ! j) line"
    by (simp add: pattern_hits_def pat_search_def re_search_b_def)
  with k(4) assms(2) \<open>k = i\<close> show False by blast
qed

text \<open>
  No line is ever reported as \<open>EMPTY_NESTED_EXCEPTION\<close>: its pattern begins with the pattern of
  \<open>CLIENT_DISCONNECT\<close>, which is compared first.
\<close>

theorem empty_nested_exception_unreachable:
  "map_option lp_type (classify SYSTEM_ERROR_EVENTS_PATTERNS line) \<noteq> Some ''EMPTY_NESTED_EXCEPTION''"
proof
  let ?ps = SYSTEM_ERROR_EVENTS_PATTERNS
  assume "map_option lp_type (classify ?ps line) = Some ''EMPTY_NESTED_EXCEPTION''"
  then obtain p where p: "classify ?ps line = Some p" "lp_type p = ''EMPTY_NESTED_EXCEPTION''" by auto
  have "list_all (\<lambda>k. lp_type (?ps ! k) = ''EMPTY_NESTED_EXCEPTION'' \<longrightarrow> k = 10) [0..<31] \<and> length ?ps = 31"
    by code_simp
  then have u: "\<And>k. k < length ?ps \<Longrightarrow> lp_type (?ps ! k) = lp_type p \<Longrightarrow> k = 10"
    by (simp add: list_all_iff p(2))
  have "case (re_compile (lp_regex (?ps ! 3)), re_compile (lp_regex (?ps ! 10))) of
      (Some r1, Some r2) \<Rightarrow> prefix (rx_flat r1) (rx_flat r2) \<and> lp_flags (?ps ! 10) = lp_flags (?ps ! 3)
    | _ \<Rightarrow> False" by code_simp
  from case_Some2 [OF this] obtain r1 r2 where r: "re_compile (lp_regex (?ps ! 3)) = Some r1"
      "re_compile (lp_regex (?ps ! 10)) = Some r2"
    and x: "prefix (rx_flat r1) (rx_flat r2)" "lp_flags (?ps ! 10) = lp_flags (?ps ! 3)" by blast
  show False by (rule classify_shadowed [OF p(1) _ u r x]) simp
qed

text \<open>
  The severity of a reactor stall: a stall of at least 500 ms is an error, a shorter one and a
  line without a number of milliseconds keep the severity \<open>DEBUG\<close> of the type; nothing else of the
  event changes.
\<close>

theorem reactor_stall_severity:
  assumes "pattern_event p now uid = Inr e" "lp_severity p = DEBUG"
  shows "severity (reactor_stalled_severity line e) =
      (if \<exists>n. first_milli line = Some n \<and> 500 \<le> n then ERROR else DEBUG) \<and>
    same_but_severity e (reactor_stalled_severity line e)"
proof -
  have "severity e = DEBUG"
    using assms by (auto simp: pattern_event_def new_event_def log_event_init_def informational_event_def
        add_subcontext_def Let_def split: if_splits option.splits)
  then show ?thesis
    by (simp add: reactor_stalled_severity_def TOLERABLE_REACTOR_STALL_def split: option.splits)
qed

theorem reactor_stall_severity_witness:
  "\<exists>e. pattern_event (SYSTEM_ERROR_EVENTS_PATTERNS ! 20) 1 ''id'' = Inr e \<and>
     severity (reactor_stalled_severity ''Reactor stalled for 33 ms on shard 0'' e) = DEBUG"
proof -
  let ?p = "SYSTEM_ERROR_EVENTS_PATTERNS ! 20"
  have s: "lp_severity ?p = DEBUG" by code_simp
  have "case pattern_event ?p 1 ''id'' of Inl _ \<Rightarrow> False | Inr _ \<Rightarrow> True" by code_simp
  from case_Inr [OF this] obtain e where e: "pattern_event ?p 1 ''id'' = Inr e" by blast
  have "first_milli ''Reactor stalled for 33 ms on shard 0'' = Some 33" by code_simp
  with reactor_stall_severity [OF e s, of "''Reactor stalled for 33 ms on shard 0''"] e show ?thesis
    by (intro exI [of _ e]) simp
qed

text \<open>
  The continuous events of the log match up: when no event of the class and the node is open, the
  end line closes exactly the event that the begin line opened, and publishes both.
\<close>

theorem db_continuous_begin_end:
  assumes "find_continuous_events_by_hash r (hsh (db_continuous_tuple cls node)) = []"
    and "db_add_event hsh t1 uid cls node r = (r1, out1)" "db_end_event hsh t2 missing cls node r1 = (r2, out2)"
  shows "find_continuous_events_by_hash r2 h = find_continuous_events_by_hash r h \<and>
     (\<exists>b e. out1 = [b] \<and> out2 = [e] \<and> event_id b = uid \<and> event_id e = uid \<and>
            period_type b = BEGIN \<and> period_type e = END)"
proof -
  let ?e = "new_db_continuous cls node t1 uid"
  let ?h = "hsh (db_continuous_tuple cls node)"
  obtain k where k: "cont ?e = Some k" "k_hash k = db_continuous_tuple cls node" "k_publish_event k"
    by (simp add: new_db_continuous_def continuous_init_def)
  obtain e1 where b: "begin_event hsh t1 True ?e r = (e1, r1, out1)"
    using assms(2) by (auto simp: db_add_event_def split: prod.splits)
  from begin_event_facts [OF b k(1)] obtain e0 where e0: "r1 = add_event hsh e0 r" "continuous_hash hsh e0 = ?h"
    "cont e0 = cont e1" "event_id e0 = event_id ?e" and e1: "cont e1 = Some (k\<lparr>k_begin_timestamp := Some t1\<rparr>)"
      "out1 = [e1\<lparr>ready_to_publish := True\<rparr>]" "period_type e1 = BEGIN" "event_id e1 = event_id ?e"
    by (auto simp: k(2,3))
  have found: "find_continuous_events_by_hash r1 ?h = [e0]" using assms(1) e0 by (simp add: cregs.find_add)
  then obtain e2 where d: "end_event hsh t2 True e0 r1 = (e2, r2, out2)"
    using assms(3) by (auto simp: db_end_event_def split: prod.splits)
  from end_event_facts [OF d, unfolded e0(3), OF e1(1)] obtain e3 where e3: "r2 = del_event hsh e3 r1"
      "continuous_hash hsh e3 = ?h" "event_eq e3 e0" and e2: "period_type e2 = END" "event_id e2 = event_id e0"
      "out2 = [e2\<lparr>ready_to_publish := True\<rparr>]"
    by (auto simp: k(2,3) event_eq_refl)
  have "find_continuous_events_by_hash (del_event hsh e3 (add_event hsh e0 r)) h = find_continuous_events_by_hash r h"
    using assms(1) e0(2) e3(2,3) by (intro cregs.del_add) auto
  moreover have "event_id ?e = uid" by (simp add: new_db_continuous_def continuous_init_def)
  ultimately show ?thesis using e0 e1 e2 e3(1) by simp
qed

theorem db_continuous_begin_end_witness:
  "\<exists>r1 out1 r2 out2. db_add_event (\<lambda>_. 3) 1 ''u'' ''BootstrapEvent'' ''n1'' [] = (r1, out1) \<and>
     db_end_event (\<lambda>_. 3) 9 sample_cont_event ''BootstrapEvent'' ''n1'' r1 = (r2, out2) \<and>
     find_continuous_events_by_hash r2 3 = [] \<and> length out2 = 1"
proof -
  obtain r1 out1 where b: "db_add_event (\<lambda>_. 3) 1 ''u'' ''BootstrapEvent'' ''n1'' [] = (r1, out1)" by (metis surj_pair)
  obtain r2 out2 where d: "db_end_event (\<lambda>_. 3) 9 sample_cont_event ''BootstrapEvent'' ''n1'' r1 = (r2, out2)" by (metis surj_pair)
  have n: "find_continuous_events_by_hash [] ((\<lambda>_. 3) (db_continuous_tuple ''BootstrapEvent'' ''n1'')) = []"
    by (simp add: cregs.find_empty)
  from db_continuous_begin_end [OF n b d, of 3] b d show ?thesis by (auto simp: cregs.find_empty)
qed

end
