(* ===== verification/Db_Log_Reader.thy ===== *)
theory Db_Log_Reader
  imports Db_Events
begin

text \<open>
  The reader of the database log, \<open>sdcm/db_log_reader.py\<close>. One poll reads the lines that were appended
  since the last one, classifies each, collects backtraces, attaches backtraces to the error before
  them, and publishes the events or queues them for decoding.
\<close>

section \<open>State\<close>

text \<open>An event found in this poll with the lines of its backtrace.\<close>

record bt =
  bt_event :: event
  bt_lines :: "string list"

record reader =
  last_line_no :: int
  last_log_position :: nat
  skipped_end_line :: nat
  build_id :: "string option"
  open_events :: creg

definition new_reader :: reader where
  "new_reader = \<lparr>last_line_no = -1, last_log_position = 0, skipped_end_line = 0, build_id = None, open_events = []\<rparr>"

text \<open>
  The configuration of a reader and what it gets from outside: \<open>json_log\<close> tells whether \<open>json.loads\<close>
  gives a value that is true, \<open>clock\<close> and \<open>uid\<close> are what an event created for a line number gets.
\<close>

record reader_cfg =
  node_name :: string
  log_lines :: bool
  json_log :: "string \<Rightarrow> bool"
  clock :: "int \<Rightarrow> time"
  uid :: "int \<Rightarrow> string"
  hash_of :: "string list \<Rightarrow> int"
  missing_begin :: "string \<Rightarrow> event"

section \<open>One line\<close>

definition LOG_LINE_MAX_PROCESSING_SIZE :: nat where "LOG_LINE_MAX_PROCESSING_SIZE = 5120"

definition trim_line :: "string \<Rightarrow> string" where
  "trim_line line = (if LOG_LINE_MAX_PROCESSING_SIZE < length line
     then take LOG_LINE_MAX_PROCESSING_SIZE line else line)"

definition EXCLUDE_FROM_LOGGING :: "string list" where
  "EXCLUDE_FROM_LOGGING = ['' | sshd['', '' | systemd:'', '' | systemd-logind:'', '' | sudo:'', '' | dhclient['',
     ''] compaction - [Compact'', ''] table - Done with off-strategy compaction for'',
     ''] table - Starting off-strategy compaction for'', ''] repair - Repair'', ''repair id [id='',
     ''] stream_session - [Stream '', ''] storage_proxy - Exception when communicating with'']"

definition is_logged :: "string \<Rightarrow> bool" where
  "is_logged line = (\<not> list_ex (contains line) EXCLUDE_FROM_LOGGING)"

definition BUILD_ID_REGEX :: string where
  "BUILD_ID_REGEX = raw ''build-id~s(.*?)~sstarting~s~.~.~.''"

definition read_build_id :: "string \<Rightarrow> string option \<Rightarrow> string option" where
  "read_build_id line old = (case pat_search no_flags BUILD_ID_REGEX line of
     None \<Rightarrow> old | Some m \<Rightarrow> m_group m ''1'')"

definition upd_last :: "('a \<Rightarrow> 'a) \<Rightarrow> 'a list \<Rightarrow> 'a list" where
  "upd_last f xs = (if xs = [] then [] else butlast xs @ [f (last xs)])"

definition group_lines :: "re_match \<Rightarrow> string list" where
  "group_lines m =
     (case m_group m ''other_bt'' of Some s \<Rightarrow> if s \<noteq> [] then [py_strip s] else [] | None \<Rightarrow> []) @
     (case m_group m ''scylla_bt'' of Some s \<Rightarrow> if s \<noteq> [] then [py_strip s] else [] | None \<Rightarrow> [])"

text \<open>\<open>re.split("backtrace:", line, flags=re.IGNORECASE)[1]\<close>\<close>

fun after_marker :: "string \<Rightarrow> string" where
  "after_marker [] = []"
| "after_marker (c # s) = (if starts_with (py_lower (c # s)) ''backtrace:'' then drop 10 (c # s) else after_marker s)"

fun until_marker :: "string \<Rightarrow> string" where
  "until_marker [] = []"
| "until_marker (c # s) = (if starts_with (py_lower (c # s)) ''backtrace:'' then [] else c # until_marker s)"

definition one_line_backtrace :: "string \<Rightarrow> string list" where
  "one_line_backtrace line = filter (\<lambda>t. starts_with t ''0x'' \<or> contains t ''scylladb/lib'')
     (py_words (until_marker (after_marker line)))"

definition collect_backtrace :: "string \<Rightarrow> bt list \<Rightarrow> bt list \<times> string list" where
  "collect_backtrace line bts =
     (case pat_search flag_ignorecase BACKTRACE_RE line of
        Some m \<Rightarrow> if bts \<noteq> [] then (upd_last (\<lambda>b. b\<lparr>bt_lines := bt_lines b @ group_lines m\<rparr>) bts, [])
                  else if contains (py_lower line) ''backtrace:'' \<and> contains line ''0x''
                  then (bts, one_line_backtrace line) else (bts, [])
      | None \<Rightarrow> if contains (py_lower line) ''backtrace:'' \<and> contains line ''0x''
                then (bts, one_line_backtrace line) else (bts, []))"

text \<open>The first continuous pattern that is found in the line begins or ends its event.\<close>

fun continuous_line :: "reader_cfg \<Rightarrow> int \<Rightarrow> string \<Rightarrow> cont_pattern list \<Rightarrow> creg \<Rightarrow> creg \<times> event list" where
  "continuous_line c i line [] r = (r, [])"
| "continuous_line c i line (p # ps) r =
     (if pat_search no_flags (cp_regex p) line \<noteq> None
      then (if cp_begins p then db_add_event (hash_of c) (clock c i) (uid c i) (cp_class p) (node_name c) r
            else db_end_event (hash_of c) (clock c i) (missing_begin c (cp_class p)) (cp_class p) (node_name c) r)
      else continuous_line c i line ps r)"

text \<open>The event of a line: the clone of the first pattern's event with the line's information.\<close>

definition line_event :: "env \<Rightarrow> reader_cfg \<Rightarrow> int \<Rightarrow> string \<Rightarrow> log_pattern \<Rightarrow> event res" where
  "line_event w c i line p =
     rbind (pattern_event p (clock c i) (uid c i)) (\<lambda>e0.
       add_info (parse_date w) [] (clock c i) (node_name c) line i
         (if lp_type p = ''REACTOR_STALLED'' then reactor_stalled_severity line e0 else e0))"

record line_state =
  ls_bts :: "bt list"
  ls_build_id :: "string option"
  ls_open :: creg
  ls_out :: "event list"

text \<open>
  The body of the loop for a line that is not postponed. An exception of \<open>add_info\<close> is logged: the
  event is lost and the one-line backtrace is not attached.
\<close>

definition process_line :: "env \<Rightarrow> reader_cfg \<Rightarrow> log_pattern list \<Rightarrow> int \<Rightarrow> string \<Rightarrow> line_state \<Rightarrow> line_state" where
  "process_line w c pats i line0 s =
     (let is_json = starts_with line0 ''{'' \<and> json_log c line0;
          line = (if log_lines c then py_strip line0 else line0)
      in if is_json then s
         else
           (let (bts1, one) = collect_backtrace line (ls_bts s);
                (r1, out1) = continuous_line c i line get_pattern_to_event_to_func_mapping (ls_open s);
                s1 = s\<lparr>ls_bts := bts1, ls_build_id := read_build_id line (ls_build_id s), ls_open := r1,
                       ls_out := ls_out s @ out1\<rparr>;
                attach = (\<lambda>bts. if one \<noteq> [] \<and> bts \<noteq> [] then upd_last (\<lambda>b. b\<lparr>bt_lines := one\<rparr>) bts else bts)
            in case classify pats line of
                 None \<Rightarrow> s1\<lparr>ls_bts := attach bts1\<rparr>
               | Some p \<Rightarrow> (case line_event w c i line p of
                     Inl _ \<Rightarrow> s1
                   | Inr e \<Rightarrow> s1\<lparr>ls_bts := attach (bts1 @ [\<lparr>bt_event = e, bt_lines = []\<rparr>])\<rparr>)))"

section \<open>The lines of a poll\<close>

text \<open>The lines of the rest of the file, each with its newline but possibly the last.\<close>

fun keep_lines_acc :: "string \<Rightarrow> string \<Rightarrow> string list" where
  "keep_lines_acc w [] = (if w = [] then [] else [rev w])"
| "keep_lines_acc w (c # s) = (if c = NL then rev (c # w) # keep_lines_acc [] s else keep_lines_acc (c # w) s)"

definition keep_lines :: "string \<Rightarrow> string list" where "keep_lines s = keep_lines_acc [] s"

text \<open>
  A line without a newline at its end may be half written: it is postponed, unless more than twenty
  such lines were.
\<close>

fun read_lines :: "env \<Rightarrow> reader_cfg \<Rightarrow> log_pattern list \<Rightarrow> int \<Rightarrow> string list \<Rightarrow> nat \<times> line_state \<Rightarrow> nat \<times> line_state" where
  "read_lines w c pats i [] s = s"
| "read_lines w c pats i (l # ls) (skipped, s) =
     (let line = trim_line l in
      if (line \<noteq> [] \<and> last line = NL) \<or> 20 < skipped
      then read_lines w c pats (i + 1) ls (0, process_line w c pats i line s)
      else read_lines w c pats (i + 1) ls (skipped + 1, s))"

section \<open>Attaching backtraces\<close>

definition is_backtrace :: "event \<Rightarrow> bool" where "is_backtrace e = (etype e = Some ''BACKTRACE'')"

definition line_no :: "event \<Rightarrow> int" where
  "line_no e = (case log e of Some l \<Rightarrow> (case l_line_number l of Some n \<Rightarrow> n | None \<Rightarrow> 0) | None \<Rightarrow> 0)"

definition set_raw_backtrace :: "string \<Rightarrow> event \<Rightarrow> event" where
  "set_raw_backtrace t e = e\<lparr>log := map_option (\<lambda>l. l\<lparr>l_raw_backtrace := Some t\<rparr>) (log e)\<rparr>"

definition raw_backtrace :: "event \<Rightarrow> string" where
  "raw_backtrace e = (case log e of Some l \<Rightarrow> (case l_raw_backtrace l of Some t \<Rightarrow> t | None \<Rightarrow> []) | None \<Rightarrow> [])"

text \<open>\<open>filter_backtraces\<close>: whether the backtrace \<open>b\<close> belongs to the event looked at just before.\<close>

definition belongs_to :: "bt \<Rightarrow> bt \<Rightarrow> bool" where
  "belongs_to b prev = (line_no (bt_event b) \<le> line_no (bt_event prev) + 20 \<and>
     \<not> is_backtrace (bt_event prev) \<and> is_backtrace (bt_event b))"

definition take_backtrace :: "bt \<Rightarrow> bt \<Rightarrow> bt" where
  "take_backtrace b prev = prev\<lparr>bt_event := set_raw_backtrace (py_join nl (bt_lines b)) (bt_event prev)\<rparr>"

text \<open>
  One pass of \<open>filter\<close>: \<open>prev\<close> is the event looked at before. An event that took a backtrace is the
  last that was kept.
\<close>

fun filter_pass :: "bt option \<Rightarrow> bt list \<Rightarrow> bt list \<Rightarrow> bt list" where
  "filter_pass prev kept [] = kept"
| "filter_pass prev kept (b # bs) = (case prev of
     None \<Rightarrow> filter_pass (Some b) (kept @ [b]) bs
   | Some p \<Rightarrow> if belongs_to b p then filter_pass (Some b) (upd_last (take_backtrace b) kept) bs
               else filter_pass (Some b) (kept @ [b]) bs)"

definition traces_count :: "bt list \<Rightarrow> nat" where
  "traces_count bts = length (filter (\<lambda>b. is_backtrace (bt_event b)) bts)"

definition attach_backtraces :: "bt list \<Rightarrow> bt list" where
  "attach_backtraces bts =
     (let bts1 = map (\<lambda>b. b\<lparr>bt_event := set_raw_backtrace (py_join nl (bt_lines b)) (bt_event b)\<rparr>) bts
      in (filter_pass None [] ^^ traces_count bts1) bts1)"

section \<open>Publishing\<close>

datatype sink = Published event | Queued event string

text \<open>
  \<open>get_scylla_debuginfo_file\<close>: the answers of the node to the three commands.
\<close>

record debug_answers =
  default_ok :: bool
  reloc_stdout :: string
  build_id_ok :: bool

definition get_scylla_debuginfo_file :: "debug_answers \<Rightarrow> string option \<Rightarrow> string res" where
  "get_scylla_debuginfo_file a bid =
     (if default_ok a then Inr ''/usr/lib/debug/bin/scylla.debug''
      else if py_strip (reloc_stdout a) \<noteq> [] then Inr (py_strip (reloc_stdout a))
      else (case bid of
          Some b \<Rightarrow> if b \<noteq> [] \<and> build_id_ok a
            then Inr (''/usr/lib/debug/.build-id/'' @ take 2 b @ ''/'' @ drop 2 b @ ''.debug'')
            else Inl (UnknownException ''Exception'')
        | None \<Rightarrow> Inl (UnknownException ''Exception'')))"

text \<open>
  The last loop: without a queue or a backtrace the event is published, else it is queued with the
  debug information; when that cannot be found the event is published and the exception is raised.
\<close>

fun send_all :: "bool \<Rightarrow> string res \<Rightarrow> bt list \<Rightarrow> sink list \<times> unit res" where
  "send_all has_queue info [] = ([], Inr ())"
| "send_all has_queue info (b # bs) =
     (if \<not> (has_queue \<and> raw_backtrace (bt_event b) \<noteq> [])
      then (let (out, r) = send_all has_queue info bs in (Published (bt_event b) # out, r))
      else (case info of
          Inl er \<Rightarrow> ([Published (bt_event b)], Inl er)
        | Inr f \<Rightarrow> (let (out, r) = send_all has_queue info bs in (Queued (bt_event b) f # out, r))))"

section \<open>A poll\<close>

definition poll ::
  "env \<Rightarrow> reader_cfg \<Rightarrow> log_pattern list \<Rightarrow> bool \<Rightarrow> debug_answers \<Rightarrow> string option \<Rightarrow> reader \<Rightarrow>
   reader \<times> event list \<times> sink list \<times> unit res" where
  "poll w c pats has_queue a file rd = (case file of None \<Rightarrow> (rd, [], [], Inr ())
   | Some content \<Rightarrow>
     (let ls = keep_lines (drop (last_log_position rd) content);
          (skipped, s) = read_lines w c pats (last_line_no rd + 1) ls
             (skipped_end_line rd, \<lparr>ls_bts = [], ls_build_id = build_id rd, ls_open = open_events rd, ls_out = []\<rparr>);
          index = (if ls = [] then 0 else last_line_no rd + int (length ls));
          rd1 = rd\<lparr>skipped_end_line := skipped, build_id := ls_build_id s, open_events := ls_open s\<rparr>;
          rd2 = (if index \<noteq> 0 then rd1\<lparr>last_line_no := index, last_log_position := length content\<rparr> else rd1);
          (out, r) = send_all has_queue (get_scylla_debuginfo_file a (build_id rd2)) (attach_backtraces (ls_bts s))
      in (rd2, ls_out s, out, r)))"

section \<open>Backtraces find their error\<close>

text \<open>A backtrace that directly follows the error it belongs to.\<close>

fun attachable :: "bt list \<Rightarrow> bool" where
  "attachable (a # b # bs) = (belongs_to b a \<or> attachable (b # bs))"
| "attachable _ = False"

lemma belongs_kind: "belongs_to b a \<Longrightarrow> is_backtrace (bt_event b) \<and> \<not> is_backtrace (bt_event a)"
  by (simp add: belongs_to_def)

lemma raw_backtrace_frame [simp]:
  "etype (set_raw_backtrace t e) = etype e" "line_no (set_raw_backtrace t e) = line_no e"
  by (simp_all add: set_raw_backtrace_def line_no_def split: option.splits)

lemma is_backtrace_take [simp]:
  "is_backtrace (bt_event (take_backtrace b a)) = is_backtrace (bt_event a)"
  by (simp add: take_backtrace_def is_backtrace_def)

lemma traces_count_simps [simp]:
  "traces_count [] = 0"
  "traces_count (b # bs) = (if is_backtrace (bt_event b) then Suc (traces_count bs) else traces_count bs)"
  "traces_count (xs @ ys) = traces_count xs + traces_count ys"
  by (simp_all add: traces_count_def)

lemma traces_count_upd_last: "traces_count (upd_last (take_backtrace b) xs) = traces_count xs"
  by (cases xs rule: rev_cases) (simp_all add: upd_last_def)

lemma pass_count:
  "traces_count (filter_pass prev kept bs) \<le> traces_count kept + traces_count bs"
proof (induction prev kept bs rule: filter_pass.induct)
  case (2 prev kept b bs)
  then show ?case
    by (auto simp: traces_count_upd_last dest: belongs_kind split: option.splits if_splits)
qed simp

text \<open>A pass with nothing to attach keeps the list; otherwise it removes a backtrace.\<close>

lemma pass_fixpoint: "\<not> attachable (p # bs) \<Longrightarrow> filter_pass (Some p) kept bs = kept @ bs"
  by (induction bs arbitrary: p kept) auto

lemma pass_removes:
  "attachable (p # bs) \<Longrightarrow> traces_count (filter_pass (Some p) kept bs) < traces_count kept + traces_count bs"
proof (induction bs arbitrary: p kept)
  case (Cons b bs)
  show ?case
  proof (cases "belongs_to b p")
    case True
    then show ?thesis
      using pass_count [of "Some b" "upd_last (take_backtrace b) kept" bs] belongs_kind [OF True]
      by (simp add: traces_count_upd_last)
  next
    case False
    with Cons.prems have "attachable (b # bs)" by simp
    from Cons.IH [OF this, of "kept @ [b]"] False show ?thesis by (auto split: if_splits)
  qed
qed simp

lemma pass_None: "filter_pass None [] (b # bs) = filter_pass (Some b) [b] bs"
  by simp

lemma pass_step:
  "(\<not> attachable bs \<longrightarrow> filter_pass None [] bs = bs) \<and>
   (attachable bs \<longrightarrow> traces_count (filter_pass None [] bs) < traces_count bs)"
proof (cases bs)
  case (Cons b cs)
  then show ?thesis using pass_fixpoint [of b cs "[b]"] pass_removes [of b cs "[b]"]
    by (auto simp: pass_None split: if_splits)
qed simp

lemma passes_end: "traces_count bs \<le> n \<Longrightarrow> \<not> attachable ((filter_pass None [] ^^ n) bs)"
proof (induction n arbitrary: bs)
  case 0
  have "\<not> attachable xs" if "traces_count xs = 0" for xs
    using that by (induction xs rule: attachable.induct) (auto dest: belongs_kind split: if_splits)
  with 0 show ?case by simp
next
  case (Suc n)
  show ?case
  proof (cases "attachable bs")
    case True
    with Suc.prems pass_step [of bs] have "traces_count (filter_pass None [] bs) \<le> n" by linarith
    from Suc.IH [OF this] show ?thesis by (simp add: funpow_swap1)
  next
    case False
    then have "(filter_pass None [] ^^ m) bs = bs" for m
      using pass_step [of bs] by (induction m) simp_all
    with False show ?thesis by metis
  qed
qed

text \<open>
  C5. After the passes every backtrace that could be attached is: no backtrace is left directly after
  an error of the last twenty lines. As many passes as there are backtraces are enough, also when
  several errors are reported before their backtraces.
\<close>

theorem backtraces_attached: "\<not> attachable (attach_backtraces bts)"
  by (simp add: attach_backtraces_def Let_def passes_end)

section \<open>What is sent\<close>

fun sink_event :: "sink \<Rightarrow> event" where
  "sink_event (Published e) = e"
| "sink_event (Queued e f) = e"


section \<open>Which lines are read\<close>

lemma keep_lines_acc_append:
  "keep_lines_acc w (a @ NL # b) = keep_lines_acc w (a @ [NL]) @ keep_lines_acc [] b"
  by (induction a arbitrary: w) auto

lemma keep_lines_append: "keep_lines (a @ [NL] @ b) = keep_lines (a @ [NL]) @ keep_lines b"
  using keep_lines_acc_append [of "[]" a b] by (simp add: keep_lines_def)

lemma concat_keep_lines_acc: "concat (keep_lines_acc w s) = rev w @ s"
  by (induction s arbitrary: w) auto

lemma poll_position:
  assumes "poll w c pats q a (Some content) rd = (rd1, ev, out, r)"
    and "keep_lines (drop (last_log_position rd) content) = ls"
  shows "if ls = [] \<or> last_line_no rd + int (length ls) = 0
         then last_log_position rd1 = last_log_position rd \<and> last_line_no rd1 = last_line_no rd
         else last_log_position rd1 = length content \<and> last_line_no rd1 = last_line_no rd + int (length ls)"
  using assms by (auto simp: poll_def Let_def split: prod.splits if_splits)

definition sample_cfg :: reader_cfg where
  "sample_cfg = \<lparr>node_name = ''node-1'', log_lines = False, json_log = (\<lambda>_. False), clock = (\<lambda>i. of_int i),
     uid = (\<lambda>_. ''id''), hash_of = (\<lambda>ss. int (length ss)), missing_begin = (\<lambda>n. sample_event n None CRITICAL 0)\<rparr>"

definition sample_answers :: debug_answers where
  "sample_answers = \<lparr>default_ok = False, reloc_stdout = [], build_id_ok = False\<rparr>"

abbreviation sample_poll :: "string \<Rightarrow> reader \<times> event list \<times> sink list \<times> unit res" where
  "sample_poll content \<equiv> poll sample_env sample_cfg [] True sample_answers (Some content) new_reader"

lemma poll_parts: "poll w c pats q a file rd =
    (fst (poll w c pats q a file rd), fst (snd (poll w c pats q a file rd)),
     fst (snd (snd (poll w c pats q a file rd))), snd (snd (snd (poll w c pats q a file rd))))"
  by simp



text \<open>
  A log that has exactly one line is read again by the next poll: the index of the first line is
  zero, which the reader takes for no line, so its position does not move.
\<close>

theorem single_line_read_again:
  assumes "poll w c pats q a (Some content) new_reader = (rd1, ev, out, r)" "keep_lines content = [l]"
  shows "last_log_position rd1 = 0 \<and> last_line_no rd1 = -1 \<and>
         keep_lines (drop (last_log_position rd1) content) = [l]"
  using poll_position [OF assms(1), of "[l]"] assms(2) by (simp add: new_reader_def)

theorem single_line_read_again_witness:
  "last_log_position (fst (sample_poll (''a'' @ [NL]))) = 0 \<and>
   keep_lines (drop (last_log_position (fst (sample_poll (''a'' @ [NL])))) (''a'' @ [NL])) = [''a'' @ [NL]]"
  using single_line_read_again [OF poll_parts [of sample_env sample_cfg "[]" True sample_answers
      "Some (''a'' @ [NL])" new_reader], of "''a'' @ [NL]"]
  by (simp add: keep_lines_def NL_def)

text \<open>
  The beginning of a half-written line is lost: after a poll of at least two lines whose last has
  no newline yet, the next poll starts behind the half line and reads the rest as a line of its own.
\<close>

theorem half_line_lost:
  assumes "poll w c pats q a (Some content) new_reader = (rd1, ev, out, r)" "2 \<le> length (keep_lines content)"
  shows "keep_lines (drop (last_log_position rd1) (content @ rest)) = keep_lines rest"
  using poll_position [OF assms(1) refl] assms(2) by (auto simp: new_reader_def split: if_splits)

theorem half_line_lost_witness:
  "keep_lines (drop (last_log_position (fst (sample_poll (''a'' @ [NL] @ ''WARN  seastar - Exce''))))
     ((''a'' @ [NL] @ ''WARN  seastar - Exce'') @ ''ptional future'' @ [NL])) = [''ptional future'' @ [NL]]"
  using half_line_lost [OF poll_parts [of sample_env sample_cfg "[]" True sample_answers
      "Some (''a'' @ [NL] @ ''WARN  seastar - Exce'')" new_reader], of "''ptional future'' @ [NL]"]
  by (simp add: keep_lines_def NL_def)

end
