(* ===== verification/Group_Filters.thy ===== *)
theory Group_Filters
  imports Events_Device Db_Events
begin

text \<open>
  The context managers of \<open>sct_events/group_common_events.py\<close>, each of which enters a group of filters,
  the decorators that run a function inside such contexts, and the default filters that \<open>setup.py\<close>
  publishes at the start of a test.
\<close>

section \<open>Groups of filters\<close>

text \<open>
  One filter of a group as its constructor is called: \<open>Change\<close> is an \<open>EventsSeverityChangerFilter\<close>,
  \<open>Hide\<close> an \<open>EventsFilter\<close> and \<open>HideDb\<close> a \<open>DbEventsFilter\<close>. Classes are given by their names; zero is
  no extra time.
\<close>

datatype filter_call =
    Change severity string string time
  | Hide string string time
  | HideDb string pattern_arg "string option" time

fun make_filter :: "filter_call \<Rightarrow> string \<Rightarrow> filter_obj res" where
  "make_filter (Change s cls rx extra) uid = new_events_filter (EventsSeverityChangerFilter s) (Some cls) (PatStr rx) extra uid"
| "make_filter (Hide cls rx extra) uid = new_events_filter EventsFilter (Some cls) (PatStr rx) extra uid"
| "make_filter (HideDb ty line node extra) uid = Inr (new_db_filter (Some ty) line node extra uid)"

definition ignore_alternator_client_errors :: "filter_call list" where
  "ignore_alternator_client_errors =
    [Change WARNING ''PrometheusAlertManagerEvent'' ''.*YCSBTooManyErrors.*'' 60,
     Change WARNING ''PrometheusAlertManagerEvent'' ''.*YCSBTooManyVerifyErrors.*'' 60,
     Change WARNING ''YcsbStressEvent'' ''.*Cannot achieve consistency level.*'' 30,
     Change WARNING ''YcsbStressEvent'' ''.*Operation timed out.*'' 30]"

definition ignore_operation_errors :: "filter_call list" where
  "ignore_operation_errors =
    [Change WARNING ''DatabaseLogEvent'' ''.*Operation timed out.*'' 30,
     Change WARNING ''DatabaseLogEvent'' ''.*Operation failed for system.paxos.*'' 30]"

definition ignore_topology_change_coordinator_errors :: "(string list \<Rightarrow> bool) \<Rightarrow> filter_call list" where
  "ignore_topology_change_coordinator_errors issues_open =
    (if issues_open [''https://github.com/scylladb/scylladb/issues/20754'',
       ''https://github.com/scylladb/scylladb/issues/20950'']
     then [HideDb ''DATABASE_ERROR'' (PatStr (raw ''.*raft_topology - topology change coordinator fiber got error exceptions::unavailable_exception ~(Cannot achieve consistency level for cl ALL~.'')) None 0,
     HideDb ''RUNTIME_ERROR'' (PatStr (raw ''.*raft_topology - topology change coordinator fiber got error std::runtime_error ~(raft topology: exec_global_command~(barrier~) failed with seastar::rpc::closed_error ~(connection is closed~)~)'')) None 0,
     HideDb ''RUNTIME_ERROR'' (PatStr ''.*raft_topology - drain rpc failed, proceed to fence old writes:.*connection is closed'') None 0]
     else [])"

definition ignore_upgrade_schema_errors :: "(string list \<Rightarrow> bool) \<Rightarrow> filter_call list" where
  "ignore_upgrade_schema_errors issues_open =
    [HideDb ''DATABASE_ERROR'' (PatStr ''Failed to load schema'') None 0,
     HideDb ''SCHEMA_FAILURE'' (PatStr ''Failed to load schema'') None 0,
     HideDb ''DATABASE_ERROR'' (PatStr ''Failed to pull schema'') None 0,
     HideDb ''RUNTIME_ERROR'' (PatStr ''Failed to load schema'') None 0,
     HideDb ''DATABASE_ERROR'' (PatStr ''cql_server - exception while processing connection: seastar::nested_exception (seastar::nested_exception)'') None 0] @ ignore_topology_change_coordinator_errors issues_open"

definition ignore_no_space_errors :: "string option \<Rightarrow> filter_call list" where
  "ignore_no_space_errors node =
    [HideDb ''NO_SPACE_ERROR'' NoPattern node 1800,
     HideDb ''BACKTRACE'' (PatStr ''No space left on device'') node 1800,
     HideDb ''DATABASE_ERROR'' (PatStr ''No space left on device'') node 1800,
     HideDb ''FILESYSTEM_ERROR'' (PatStr ''No space left on device'') node 1800,
     HideDb ''DATABASE_ERROR'' (PatStr ''No such file or directory'') node 1800,
     HideDb ''FILESYSTEM_ERROR'' (PatStr ''No such file or directory'') node 1800]"

definition ignore_disk_quota_exceeded_errors :: "string option \<Rightarrow> filter_call list" where
  "ignore_disk_quota_exceeded_errors node =
    [HideDb ''BACKTRACE'' (PatStr ''Disk quota exceeded'') node 3600,
     HideDb ''FILESYSTEM_ERROR'' (PatStr ''Disk quota exceeded'') node 3600,
     HideDb ''DATABASE_ERROR'' (PatStr ''Disk quota exceeded'') node 3600,
     HideDb ''DISK_ERROR'' (PatStr ''Disk quota exceeded'') node 3600]"

definition ignore_mutation_write_errors :: "filter_call list" where
  "ignore_mutation_write_errors =
    [Change WARNING ''DatabaseLogEvent'' ''.*mutation_write_'' 30,
     Change WARNING ''DatabaseLogEvent'' ''.*Operation timed out for system.paxos.*'' 30,
     Change WARNING ''DatabaseLogEvent'' ''.*Operation failed for system.paxos.*'' 30]"

definition ignore_reactor_stall_errors :: "filter_call list" where
  "ignore_reactor_stall_errors =
    [Change WARNING ''DatabaseLogEvent'' ''.*Reactor stalled for'' 0]"

definition ignore_ycsb_connection_refused :: "filter_call list" where
  "ignore_ycsb_connection_refused =
    [Hide ''YcsbStressEvent'' ''.*Unable to execute HTTP request: .*Connection refused'' 0]"

definition ignore_abort_requested_errors :: "filter_call list" where
  "ignore_abort_requested_errors =
    [HideDb ''RUNTIME_ERROR'' (PatStr ''abort requested'') None 0]"

definition ignore_scrub_invalid_errors :: "filter_call list" where
  "ignore_scrub_invalid_errors =
    [HideDb ''DATABASE_ERROR'' (PatStr ''Skipping invalid clustering row fragment'') None 0,
     HideDb ''DATABASE_ERROR'' (PatStr ''Skipping invalid partition'') None 0]"

definition ignore_compaction_stopped_exceptions :: "filter_call list" where
  "ignore_compaction_stopped_exceptions =
    [HideDb ''DATABASE_ERROR'' (PatStr ''was stopped due to: user request'') None 0]"

definition ignore_large_collection_warning :: "filter_call list" where
  "ignore_large_collection_warning =
    [HideDb ''WARNING'' (PatStr ''Writing large collection'') None 0]"

definition ignore_max_memory_for_unlimited_query_soft_limit :: "filter_call list" where
  "ignore_max_memory_for_unlimited_query_soft_limit =
    [HideDb ''WARNING'' (PatStr ''mutation_partition - Memory usage of unpaged query exceeds soft limit'') None 0]"

definition ignore_stream_mutation_fragments_errors :: "filter_call list" where
  "ignore_stream_mutation_fragments_errors =
    [Change WARNING ''DatabaseLogEvent'' ''.*Failed to handle STREAM_MUTATION_FRAGMENTS.*'' 30,
     Change WARNING ''DatabaseLogEvent'' (raw ''.*storage_proxy ~- exception during mutation write.*gate_closed_exception'') 30,
     Change WARNING ''DatabaseLogEvent'' (raw ''.*storage_service ~- .*Operation failed'') 30,
     Change WARNING ''DatabaseLogEvent'' (raw ''.*node_ops - decommission.*Operation failed.*std::runtime_error.*aborted_by_user=true, failed_because=N~/A'') 30,
     Change WARNING ''DatabaseLogEvent'' ''.*node_ops - decommission.*Operation failed.*std::runtime_error.*failed_because=seastar::rpc::closed_error'' 30,
     Change WARNING ''DatabaseLogEvent'' ''.*node_ops - decommission.*Operation failed.*seastar::abort_requested_exception'' 30]"

definition ignore_raft_topology_cmd_failing :: "filter_call list" where
  "ignore_raft_topology_cmd_failing =
    [Change WARNING ''DatabaseLogEvent'' (raw ''.*raft_topology - raft_topology_cmd.* failed with: seastar::abort_requested_exception ~(abort requested~)'') 30,
     Change WARNING ''DatabaseLogEvent'' (raw ''.*raft_topology - raft_topology_cmd failed with: raft::request_aborted ~(Request is aborted by a caller~)'') 30,
     Change WARNING ''DatabaseLogEvent'' (raw ''.*raft_topology - send_raft_topology_cmd~(stream_ranges~) failed with exception ~(node state is decommissioning~)'') 30,
     Change WARNING ''DatabaseLogEvent'' (raw ''.*raft_topology - send_raft_topology_cmd~(stream_ranges~) failed with exception ~(node state is rebuilding~)'') 30,
     Change WARNING ''DatabaseLogEvent'' (raw ''.*raft_topology - send_raft_topology_cmd~(stream_ranges~) failed with exception ~(node state is replacing~)'') 30,
     Change WARNING ''DatabaseLogEvent'' (raw ''.*raft_topology - send_raft_topology_cmd~(stream_ranges~) failed with exception ~(node state is bootstrapping~)'') 30,
     Change WARNING ''DatabaseLogEvent'' ''.*raft_topology - topology change coordinator fiber got error.*connection is closed'' 30,
     Change WARNING ''DatabaseLogEvent'' ''.*raft_topology - topology change coordinator fiber got error.*failed status returned from'' 30,
     Change WARNING ''DatabaseLogEvent'' ''.*raft_topology - raft_topology_cmd.*failed with: service::raft_group_not_found'' 30,
     Change WARNING ''DatabaseLogEvent'' ''.*raft_topology - raft_topology_cmd.*failed with: service::wait_for_ip_timeout'' 30,
     Change WARNING ''DatabaseLogEvent'' ''.*raft_topology - raft_topology_cmd.*failed with:.*abort requested'' 30,
     Change WARNING ''DatabaseLogEvent'' ''.*raft_topology - drain rpc failed, proceed to fence old writes:.*connection is closed'' 30,
     Change WARNING ''DatabaseLogEvent'' ''.*raft_topology - drain rpc failed, proceed to fence old writes:.*failed status returned from'' 30,
     Change WARNING ''DatabaseLogEvent'' ''.*raft_topology - drain rpc failed, proceed to fence old writes.*connection is closed'' 30,
     Change WARNING ''DatabaseLogEvent'' ''.*raft_topology - topology change coordinator fiber got error std::runtime_error.*connection is closed'' 30,
     Change WARNING ''DatabaseLogEvent'' ''.*raft_topology - transition_state::write_both_read_new, global_token_metadata_barrier failed.*connection is closed'' 30]"

definition ignore_raft_transport_failing :: "filter_call list" where
  "ignore_raft_transport_failing =
    [Change WARNING ''DatabaseLogEvent'' (raw ''.*raft::transport_error ~(.*rpc::closed_error ~(connection is closed~)'') 30,
     Change WARNING ''DatabaseLogEvent'' ''.*raft - .* Transferring snapshot.*not found'' 30]"

definition ignore_take_snapshot_failing :: "filter_call list" where
  "ignore_take_snapshot_failing =
    [Change WARNING ''DatabaseLogEvent'' ''.*api - take_snapshot failed: std::filesystem::__cxx11::filesystem_error.*No such file or directory'' 60,
     Change WARNING ''DatabaseLogEvent'' (raw ''.*api - take_snapshot failed: std::runtime_error ~(Keyspace.*snapshot.*already exists'') 60]"

definition ignore_ipv6_failure_to_assign :: "filter_call list" where
  "ignore_ipv6_failure_to_assign =
    [Change WARNING ''DatabaseLogEvent'' ''.*init - Startup failed:.*Cannot assign requested address'' 60,
     Change WARNING ''DatabaseLogEvent'' ''.*init - Could not start Prometheus API server.*Cannot assign requested address'' 60]"

section \<open>Running inside a group\<close>

text \<open>
  \<open>ExitStack\<close>: the filters are created and entered in order, each is published; when the body is
  over, also by an exception, they are cancelled in the reverse order and published again. The filter
  with number \<open>i\<close> has the identity \<open>uid i\<close> and is cancelled at time \<open>clk i\<close>. A body is the messages
  it publishes and its result.
\<close>

fun with_group ::
  "(nat \<Rightarrow> string) \<Rightarrow> (nat \<Rightarrow> time) \<Rightarrow> nat \<Rightarrow> filter_call list \<Rightarrow> msg list \<times> 'a res \<Rightarrow> msg list \<times> 'a res" where
  "with_group uid clk i [] body = body"
| "with_group uid clk i (c # cs) body = (case make_filter c (uid i) of
     Inl er \<Rightarrow> ([], Inl er)
   | Inr f \<Rightarrow>
      (let (f1, m1) = enter_filter f;
           (ms, r) = with_group uid clk (i + 1) cs body;
           (f2, m2) = cancel_filter (clk i) f1
       in (map MFilter m1 @ ms @ map MFilter m2, r)))"

text \<open>
  What may be given to \<open>decorate_with_context\<close>: a function that makes a group, a filter object, a
  context manager that is also a decorator (usable once), or something else.
\<close>

datatype context_arg = Factory "filter_call list" | FilterObject filter_obj | OneShot | NoContext

definition context_ok :: "context_arg \<Rightarrow> bool" where
  "context_ok c = (case c of Factory _ \<Rightarrow> True | FilterObject _ \<Rightarrow> True | _ \<Rightarrow> False)"

text \<open>A call of the decorated function; a filter object given as context keeps its state.\<close>

fun with_contexts ::
  "(nat \<Rightarrow> string) \<Rightarrow> (nat \<Rightarrow> time) \<Rightarrow> nat \<Rightarrow> context_arg list \<Rightarrow> msg list \<times> 'a res \<Rightarrow>
   context_arg list \<times> msg list \<times> 'a res" where
  "with_contexts uid clk i [] body = ([], body)"
| "with_contexts uid clk i (Factory calls # cs) body =
     (let (cs1, inner) = with_contexts uid clk (i + length calls) cs body
      in (Factory calls # cs1, with_group uid clk i calls inner))"
| "with_contexts uid clk i (FilterObject f # cs) body =
     (let (f1, m1) = enter_filter f;
          (cs1, ms, r) = with_contexts uid clk (i + 1) cs body;
          (f2, m2) = cancel_filter (clk i) f1
      in (FilterObject f2 # cs1, map MFilter m1 @ ms @ map MFilter m2, r))"
| "with_contexts uid clk i (c # cs) body = (c # cs, [], Inl AssertionError)"

definition decorate_with_context ::
  "context_arg list \<Rightarrow> ((nat \<Rightarrow> string) \<Rightarrow> (nat \<Rightarrow> time) \<Rightarrow> msg list \<times> 'a res \<Rightarrow> context_arg list \<times> msg list \<times> 'a res) res" where
  "decorate_with_context cs =
     (if list_all context_ok cs then Inr (\<lambda>uid clk body. with_contexts uid clk 0 cs body) else Inl AssertionError)"

definition decorate_with_context_if_issues_open ::
  "(string list \<Rightarrow> bool) \<Rightarrow> context_arg list \<Rightarrow> string list \<Rightarrow> (nat \<Rightarrow> string) \<Rightarrow> (nat \<Rightarrow> time) \<Rightarrow>
   msg list \<times> 'a res \<Rightarrow> msg list \<times> 'a res" where
  "decorate_with_context_if_issues_open issues_open cs refs uid clk body =
     (if issues_open refs
      then (case decorate_with_context cs of Inl er \<Rightarrow> ([], Inl er) | Inr run \<Rightarrow> snd (run uid clk body))
      else body)"

section \<open>The default filters\<close>

text \<open>\<open>enable_default_filters\<close>: the options of the configuration that are read, and what is published.\<close>

record filter_config =
  cluster_backend :: string
  new_scylla_repo :: "string option"
  new_version :: "string option"

definition default_filters :: "(string list \<Rightarrow> bool) \<Rightarrow> filter_config \<Rightarrow> filter_call list" where
  "default_filters issues_open cfg =
     (if issues_open [''scylladb/scylla-enterprise#1272'']
      then [Change WARNING ''DatabaseLogEvent.DATABASE_ERROR''
        ''.*workload prioritization - update_service_levels_from_distributed_data: an error occurred while retrieving configuration'' 0]
      else []) @
     (if issues_open [''scylladb/scylla-enterprise#2710'']
      then [Change WARNING ''DatabaseLogEvent.DATABASE_ERROR''
        ''ldap_connection - Seastar read failed: std::system_error (error system:104, read: Connection reset by peer)'' 0]
      else []) @
     (if starts_with (cluster_backend cfg) ''k8s''
      then [Change WARNING ''DatabaseLogEvent.RUNTIME_ERROR''
        (raw ''.*sidecar/controller.go.*std::runtime_error ~(Operation decommission is in progress, try again~)'') 0]
      else []) @
     (if issues_open [''scylladb/scylladb#16206'', ''scylladb/scylladb#16259'', ''scylladb/scylladb#15598'']
      then [Change WARNING ''DatabaseLogEvent'' ''.*view - Error applying view update.*'' 0] else []) @
     (if issues_open [''scylladb/scylla-enterprise#3148'']
      then [Change WARNING ''CassandraStressLogEvent.ConsistencyError''
        ''.*Authentication error on host.*Cannot achieve consistency level for cl ONE'' 0]
      else []) @
     (if tstr (new_scylla_repo cfg) \<or> tstr (new_version cfg)
      then [Change WARNING ''DatabaseLogEvent.DATABASE_ERROR''
        ''.*audit - Unexpected exception when writing login.*Cannot achieve consistency level for cl ONE'' 0]
      else []) @
     [HideDb ''BACKTRACE'' (PatStr ''Rate-limit: supressed'') None 0,
      HideDb ''BACKTRACE'' (PatStr ''Rate-limit: suppressed'') None 0,
      HideDb ''WARNING'' (PatStr ''abort_requested_exception'') None 0,
      Change WARNING ''DatabaseLogEvent.ABORTING_ON_SHARD'' (raw ''.*Parent connection [~d]+ is aborting on shard'') 0]"

text \<open>Each is created and published at once.\<close>

fun publish_filters :: "(nat \<Rightarrow> string) \<Rightarrow> nat \<Rightarrow> filter_call list \<Rightarrow> msg list res" where
  "publish_filters uid i [] = Inr []"
| "publish_filters uid i (c # cs) = rbind (make_filter c (uid i)) (\<lambda>f.
     rbind (publish_filters uid (i + 1) cs) (\<lambda>ms. Inr (map MFilter (snd (enter_filter f)) @ ms)))"

definition enable_default_filters ::
  "(string list \<Rightarrow> bool) \<Rightarrow> filter_config \<Rightarrow> (nat \<Rightarrow> string) \<Rightarrow> msg list res" where
  "enable_default_filters issues_open cfg uid = publish_filters uid 0 (default_filters issues_open cfg)"

section \<open>A group and the device\<close>

definition apply_msgs :: "msg list \<Rightarrow> (string, filter_obj) dict \<Rightarrow> (string, filter_obj) dict" where
  "apply_msgs ms fs = foldl (\<lambda>fs m. case m of MFilter f \<Rightarrow> handle_filter f fs | MEvent _ \<Rightarrow> fs) fs ms"

lemma apply_msgs_simps [simp]:
  "apply_msgs [] fs = fs"
  "apply_msgs (MFilter f # ms) fs = apply_msgs ms (handle_filter f fs)"
  "apply_msgs (MEvent e # ms) fs = apply_msgs ms fs"
  "apply_msgs (ms @ ns) fs = apply_msgs ns (apply_msgs ms fs)"
  by (simp_all add: apply_msgs_def)

lemma apply_events [simp]: "apply_msgs (map MEvent es) fs = fs"
  by (induction es) simp_all

text \<open>A filter of a group as it is created, and the time at which it expires once it is cancelled.\<close>

fun extra_time :: "filter_call \<Rightarrow> time" where
  "extra_time (Change _ _ _ x) = x"
| "extra_time (Hide _ _ x) = x"
| "extra_time (HideDb _ _ _ x) = x"

lemma make_filter_new:
  "\<exists>f. make_filter c u = Inr f \<and> f_uuid f = u \<and> expire_time f = None \<and> \<not> clear_filter f \<and> f_ready f \<and>
       extra_time_to_expiration f = extra_time c"
  by (cases c) (simp_all add: new_events_filter_def new_db_filter_def)

definition created :: "filter_call \<Rightarrow> string \<Rightarrow> filter_obj" where
  "created c u = (case make_filter c u of Inr f \<Rightarrow> f)"

lemma created_simps [simp]:
  "make_filter c u = Inr (created c u)" "f_uuid (created c u) = u" "expire_time (created c u) = None"
  "\<not> clear_filter (created c u)" "f_ready (created c u)" "extra_time_to_expiration (created c u) = extra_time c"
  using make_filter_new [of c u] by (auto simp: created_def)

definition expired :: "time \<Rightarrow> filter_call \<Rightarrow> string \<Rightarrow> filter_obj" where
  "expired now c u = (created c u)\<lparr>expire_time := Some (now + extra_time c)\<rparr>"

lemma enter_created: "enter_filter (created c u) = ((created c u)\<lparr>f_ready := False\<rparr>, [created c u])"
  by (simp add: enter_filter_def)

lemma handle_created: "dget fs u = None \<Longrightarrow> handle_filter (created c u) fs = fs @ [(u, created c u)]"
  by (simp add: handle_filter_def dset_absent)

lemma dset_middle: "dget fs k = None \<Longrightarrow> dset k v (fs @ (k, w) # gs) = fs @ (k, v) # gs"
  by (induction fs) (auto split: if_splits)

lemma handle_cancelled:
  assumes "dget fs u = None" "0 < now" "0 \<le> extra_time c"
  shows "\<exists>m. snd (cancel_filter now ((created c u)\<lparr>f_ready := False\<rparr>)) = [m] \<and>
    (\<forall>gs. handle_filter m (fs @ (u, created c u) # gs) = fs @ (u, expired now c u) # gs)"
proof -
  let ?m = "(created c u)\<lparr>f_ready := True, expire_time := Some (now + extra_time c), clear_filter := True\<rparr>"
  have "snd (cancel_filter now ((created c u)\<lparr>f_ready := False\<rparr>)) = [?m]"
    by (simp add: cancel_filter_def Let_def)
  moreover have "now + extra_time c \<noteq> 0" using assms(2,3) by linarith
  ultimately show ?thesis
    using assms(1) by (auto simp: handle_filter_def truthy_time_def expired_def dset_middle map_add_def)
qed

text \<open>The filters of a group in the device, while the body runs and after it.\<close>

fun active :: "(nat \<Rightarrow> string) \<Rightarrow> nat \<Rightarrow> filter_call list \<Rightarrow> (string, filter_obj) dict" where
  "active uid i [] = []"
| "active uid i (c # cs) = (uid i, created c (uid i)) # active uid (i + 1) cs"

fun left_over :: "(nat \<Rightarrow> string) \<Rightarrow> (nat \<Rightarrow> time) \<Rightarrow> nat \<Rightarrow> filter_call list \<Rightarrow> (string, filter_obj) dict" where
  "left_over uid clk i [] = []"
| "left_over uid clk i (c # cs) = (uid i, expired (clk i) c (uid i)) # left_over uid clk (i + 1) cs"

lemma group_on_device:
  assumes "inj uid" "\<forall>i. 0 < clk i" "list_all (\<lambda>c. 0 \<le> extra_time c) cs" "\<forall>j\<ge>i. dget fs (uid j) = None"
  shows "\<exists>before after. with_group uid clk i cs (map MEvent es, r) = (before @ map MEvent es @ after, r) \<and>
    apply_msgs before fs = fs @ active uid i cs \<and>
    apply_msgs (before @ map MEvent es @ after) fs = fs @ left_over uid clk i cs"
  using assms(3,4)
proof (induction cs arbitrary: i fs)
  case Nil
  then show ?case by (intro exI [of _ "[]"]) simp
next
  case (Cons c cs)
  let ?fs = "fs @ [(uid i, created c (uid i))]"
  have "\<forall>j\<ge>i + 1. dget ?fs (uid j) = None"
    using Cons.prems(2) assms(1) by (auto simp: map_add_def inj_eq split: option.splits)
  from Cons.IH [OF _ this] Cons.prems(1) obtain b a where ih: "with_group uid clk (i + 1) cs (map MEvent es, r) = (b @ map MEvent es @ a, r)"
    "apply_msgs b ?fs = ?fs @ active uid (i + 1) cs"
    "apply_msgs (b @ map MEvent es @ a) ?fs = ?fs @ left_over uid clk (i + 1) cs" by auto
  have none: "dget fs (uid i) = None" using Cons.prems by simp
  obtain m where m: "snd (cancel_filter (clk i) ((created c (uid i))\<lparr>f_ready := False\<rparr>)) = [m]"
    "\<And>gs. handle_filter m (fs @ (uid i, created c (uid i)) # gs) = fs @ (uid i, expired (clk i) c (uid i)) # gs"
    using handle_cancelled [OF none, of "clk i" c] assms(2) Cons.prems(1) by auto
  show ?case
    using ih m none
    by (intro exI [of _ "MFilter (created c (uid i)) # b"] exI [of _ "a @ [MFilter m]"])
       (auto simp: enter_created case_prod_beta Let_def handle_created)
qed

text \<open>A filter that has expired before the event does not change what happens to it.\<close>

lemma too_late_eval: "too_late (expire_time f) e \<Longrightarrow> eval_filter w f e = Inr (False, e)"
  by (simp add: eval_filter_def eval_db_def eval_events_def eval_severity_changer_def split: filter_kind.splits)

lemma too_late_frame: "same_but_severity e e1 \<Longrightarrow> too_late x e1 = too_late x e"
proof -
  assume "same_but_severity e e1"
  then have "timestamp e1 = timestamp (e\<lparr>severity := severity e1\<rparr>)"
    unfolding same_but_severity_def by (rule arg_cong)
  also have "\<dots> = timestamp e" by (simp add: timestamp_def cong: if_cong)
  finally show ?thesis by (simp add: too_late_def)
qed

lemma any_eval_too_late:
  assumes "\<forall>f\<in>set gs. too_late (expire_time f) e"
  shows "any_eval (eval_filter w) gs e = Inr (False, e)"
  using assms by (induction gs) (simp_all add: too_late_eval)

lemma left_over_too_late:
  assumes "timestamp e = Some ts" "\<forall>j. 0 < clk j" "list_all (\<lambda>c. 0 \<le> extra_time c) cs"
    and "\<forall>j<length cs. clk (i + j) + extra_time (cs ! j) < ts"
  shows "\<forall>f\<in>set (map snd (left_over uid clk i cs)). too_late (expire_time f) e"
  using assms(3,4)
proof (induction cs arbitrary: i)
  case (Cons c cs)
  have "\<forall>j<length cs. clk (i + 1 + j) + extra_time (cs ! j) < ts"
    using Cons.prems(2) by (auto simp: All_less_Suc2 add.assoc)
  with Cons.IH [of "i + 1"] Cons.prems(1)
  have "\<forall>f\<in>set (map snd (left_over uid clk (i + 1) cs)). too_late (expire_time f) e" by simp
  moreover have "0 \<le> extra_time c" using Cons.prems(1) by simp
  moreover have "clk i + extra_time c < ts" using Cons.prems(2) by (auto simp: All_less_Suc2)
  moreover have "0 < clk i" using assms(2) by simp
  ultimately show ?case using assms(1) by (auto simp: too_late_def expired_def)
qed simp

lemma any_eval_append:
  "any_eval ev (fs @ gs) e = rbind (any_eval ev fs e) (\<lambda>(b, e1). if b then Inr (True, e1) else any_eval ev gs e1)"
proof (induction fs arbitrary: e)
  case (Cons f fs)
  then show ?case by (cases "ev f e") (auto simp: case_prod_beta)
qed simp

text \<open>
  C23. A group of filters acts on its own time only: after the body, whatever its result, an event with
  a timestamp later than the extra times of the filters is handled as if the group had never been
  entered; the body's result is passed on.
\<close>

theorem group_effect_ends:
  assumes "inj uid" "\<forall>i. 0 < clk i" "list_all (\<lambda>c. 0 \<le> extra_time c) cs" "\<forall>j. dget fs (uid j) = None"
    and "timestamp e = Some ts" "\<forall>j<length cs. clk j + extra_time (cs ! j) < ts"
  shows "snd (with_group uid clk 0 cs (map MEvent es, r)) = r \<and>
    handle_event w reg (apply_msgs (fst (with_group uid clk 0 cs (map MEvent es, r))) fs) e = handle_event w reg fs e"
proof -
  obtain b a where g: "with_group uid clk 0 cs (map MEvent es, r) = (b @ map MEvent es @ a, r)"
    "apply_msgs (b @ map MEvent es @ a) fs = fs @ left_over uid clk 0 cs"
    using group_on_device [OF assms(1-3), of 0 fs es r] assms(4) by blast
  have late: "\<forall>f\<in>set (map snd (left_over uid clk 0 cs)). too_late (expire_time f) e"
    using left_over_too_late [OF assms(5,2,3), of 0] assms(6) by simp
  have "any_eval (eval_filter w) (map snd (fs @ left_over uid clk 0 cs)) e = any_eval (eval_filter w) (map snd fs) e"
  proof (cases "any_eval (eval_filter w) (map snd fs) e")
    case (Inr x)
    obtain c e1 where x: "x = (c, e1)" by (cases x)
    have "same_but_severity e e1" using Inr x by (auto intro: any_filter.any_frame)
    with late have "any_eval (eval_filter w) (map snd (left_over uid clk 0 cs)) e1 = Inr (False, e1)"
      by (intro any_eval_too_late) (simp add: too_late_frame)
    with Inr x show ?thesis by (simp add: any_eval_append)
  qed (simp add: any_eval_append)
  then show ?thesis unfolding g(1) fst_conv snd_conv g(2) handle_event_def by simp
qed

theorem group_effect_ends_witness:
  "handle_event sample_env sample_registry
     (apply_msgs (fst (with_group (\<lambda>i. replicate i (CHR ''u'')) (\<lambda>i. 10) 0 ignore_operation_errors ([], Inr ()))) [])
     (sample_log_event\<lparr>event_timestamp := Some 50\<rparr>) =
   handle_event sample_env sample_registry [] (sample_log_event\<lparr>event_timestamp := Some 50\<rparr>)"
proof -
  have inj: "inj (\<lambda>i. replicate i (CHR ''u''))" by (rule injI) (metis length_replicate)
  have t: "timestamp (sample_log_event\<lparr>event_timestamp := Some 50\<rparr>) = Some 50"
    by (simp add: timestamp_def sample_log_event_def sample_event_def new_event_def)
  show ?thesis
    using group_effect_ends [OF inj, of "\<lambda>i. 10" ignore_operation_errors "[]" _ 50 "[]" "Inr ()" sample_env sample_registry, OF _ _ _ t]
    by (simp add: ignore_operation_errors_def less_Suc_eq)
qed

section \<open>What the groups hide\<close>

lemma created_db: "created (HideDb ty line node x) u = new_db_filter (Some ty) line node x u"
  by (simp add: created_def del: created_simps)

lemma created_change:
  "f_kind (created (Change s cls rx x) u) = EventsSeverityChangerFilter s"
  "regex (created (Change s cls rx x) u) = Some rx" "regex_flags (created (Change s cls rx x) u) = flag_multiline_dotall"
  "event_class (created (Change s cls rx x) u) = Some (cls @ [DOT])"
  by (simp_all add: created_def new_events_filter_def del: created_simps)

lemma literal_filter:
  assumes "re_compile p = Some r" "rx_flat r = map lit_rx p" "p \<noteq> []"
  shows "eval_filter w (created (HideDb ty (PatStr p) node x) u) e =
    Inr (is_log_event e \<and> ty \<noteq> [] \<and> etype e = Some ty \<and> contains (event_line e) p \<and>
         (tstr node \<longrightarrow> the node \<in> set (py_words (event_node e))), e)"
  using assms search_literal [OF assms(2), of flag_multiline_dotall]
  by (auto simp: created_db no_flags_def new_db_filter_def eval_filter_def eval_db_def compiled_def too_late_def
      tstr_def flag_multiline_dotall_def split: option.splits)

lemma typed_filter:
  "eval_filter w (created (HideDb ty NoPattern node x) u) e =
    Inr (is_log_event e \<and> ty \<noteq> [] \<and> etype e = Some ty \<and>
         (tstr node \<longrightarrow> the node \<in> set (py_words (event_node e))), e)"
  by (auto simp: created_db new_db_filter_def eval_filter_def eval_db_def compiled_def too_late_def
      tstr_def split: option.splits)

definition is_literal :: "string \<Rightarrow> bool" where
  "is_literal p = (p \<noteq> [] \<and> map_option rx_flat (re_compile p) = Some (map lit_rx p))"

lemma literal_filters:
  "is_literal p \<Longrightarrow> eval_filter w (created (HideDb ty (PatStr p) node x) u) e =
    Inr (is_log_event e \<and> ty \<noteq> [] \<and> etype e = Some ty \<and> contains (event_line e) p \<and>
         (tstr node \<longrightarrow> the node \<in> set (py_words (event_node e))), e)"
  by (cases "re_compile p") (simp_all add: is_literal_def literal_filter)

lemma no_space_literals: "is_literal ''No space left on device'' \<and> is_literal ''No such file or directory''"
  by code_simp

text \<open>
  \<open>ignore_no_space_errors\<close> while it is active: of the log events, it drops exactly those of its
  node that report no space left, or a missing file of the database or the file system; every other
  event is handled as without it.
\<close>

theorem no_space_errors_hidden:
  assumes "is_log_event e" "\<not> is_system e" "n \<noteq> []"
  shows "handle_event w reg (active uid 0 (ignore_no_space_errors (Some n))) e =
    (if n \<in> set (py_words (event_node e)) \<and>
        (etype e = Some ''NO_SPACE_ERROR'' \<or>
         etype e \<in> {Some ''BACKTRACE'', Some ''DATABASE_ERROR'', Some ''FILESYSTEM_ERROR''} \<and>
           contains (event_line e) ''No space left on device'' \<or>
         etype e \<in> {Some ''DATABASE_ERROR'', Some ''FILESYSTEM_ERROR''} \<and>
           contains (event_line e) ''No such file or directory'')
     then Inr [] else handle_event w reg [] e)"
proof -
  note lit = literal_filters [OF conjunct1 [OF no_space_literals]] literal_filters [OF conjunct2 [OF no_space_literals]]
  show ?thesis
    using assms by (auto simp: handle_event_def ignore_no_space_errors_def typed_filter lit tstr_def simp del: contains.simps)
qed

theorem no_space_errors_hidden_witness:
  "\<exists>e. handle_event sample_env sample_registry (active (\<lambda>i. replicate i (CHR ''u'')) 0 (ignore_no_space_errors (Some ''n1''))) e = Inr []"
proof -
  let ?e = "sample_log_event\<lparr>etype := Some ''NO_SPACE_ERROR''\<rparr>"
  have "is_log_event ?e" "\<not> is_system ?e" "''n1'' \<in> set (py_words (event_node ?e))" by code_simp+
  with no_space_errors_hidden [of ?e "''n1''" sample_env sample_registry "\<lambda>i. replicate i (CHR ''u'')"]
  show ?thesis by auto
qed

section \<open>The default filter for LDAP errors\<close>

definition ldap_filter :: "string \<Rightarrow> filter_obj" where
  "ldap_filter u = created (Change WARNING ''DatabaseLogEvent.DATABASE_ERROR''
     ''ldap_connection - Seastar read failed: std::system_error (error system:104, read: Connection reset by peer)'' 0) u"

lemma database_event_text:
  assumes "base e = ''DatabaseLogEvent''" "str_event w e = Inr s"
  shows "\<exists>t. s = CHR ''('' # t"
proof -
  have "dget msgfmt_table ''DatabaseLogEvent'' = None" by (simp add: msgfmt_table_def)
  then have "\<exists>t. msgfmt e = ''('' @ t"
    using assms(1) by (auto simp: msgfmt_def LogEvent_msgfmt_def SctEvent_msgfmt_def ContinuousEvent_msgfmt_def split: option.splits)
  with assms(2) show ?thesis
    using py_format_plain [of "''(''"] by (auto simp: str_event_def no_braces_def rbind_Inr_iff)
qed

text \<open>
  The default filter for LDAP errors never takes effect: its pattern is matched at the beginning of
  the printed event, which is an opening parenthesis, so the severity stays what it was.
\<close>

theorem ldap_filter_never_matches:
  assumes "base e = ''DatabaseLogEvent''" "str_event w e = Inr s"
  shows "eval_filter w (ldap_filter u) e = Inr (False, e)"
proof -
  obtain t where s: "s = CHR ''('' # t" using database_event_text [OF assms] by blast
  let ?p = "''ldap_connection - Seastar read failed: std::system_error (error system:104, read: Connection reset by peer)''"
  have "\<exists>r rs. re_compile ?p = Some r \<and> rx_flat r = RSet False [CRange (CHR ''l'') (CHR ''l'')] # rs"
  proof -
    have "case re_compile ?p of None \<Rightarrow> False | Some r \<Rightarrow> hd (rx_flat r) = RSet False [CRange (CHR ''l'') (CHR ''l'')] \<and> rx_flat r \<noteq> []"
      by code_simp
    then show ?thesis by (auto split: option.splits) (metis list.collapse)
  qed
  then obtain r rs where r: "re_compile ?p = Some r" "rx_flat r = RSet False [CRange (CHR ''l'') (CHR ''l'')] # rs" by blast
  have "\<not> re_match_b flag_multiline_dotall r s"
    unfolding s by (rule re_match_b_first [OF r(2)]) code_simp
  moreover have "f_kind (ldap_filter u) = EventsSeverityChangerFilter WARNING" "regex (ldap_filter u) = Some ?p"
    "regex_flags (ldap_filter u) = flag_multiline_dotall" "expire_time (ldap_filter u) = None"
    by (simp_all add: ldap_filter_def created_change)
  ultimately show ?thesis
    using r(1) assms(2) by (simp add: eval_filter_def eval_severity_changer_def eval_events_def compiled_def too_late_def Let_def)
qed

theorem ldap_filter_never_matches_witness:
  "\<exists>e s. str_event sample_env e = Inr s \<and> eval_filter sample_env (ldap_filter ''u'') e = Inr (False, e)"
proof -
  have b: "base sample_log_event = ''DatabaseLogEvent''" by code_simp
  have "case str_event sample_env sample_log_event of Inl _ \<Rightarrow> False | Inr _ \<Rightarrow> True" by code_simp
  then obtain s where "str_event sample_env sample_log_event = Inr s" by (auto split: sum.splits)
  with ldap_filter_never_matches [OF b this] show ?thesis by blast
qed

end
