(* ===== verification/Event_Init.thy ===== *)
theory Event_Init
  imports Db_Events
begin

text \<open>
  The constructors of the event classes of \<open>sct_events\<close>, the parts of events that are filled in later
  (results of a stress command, lines of the Gemini and of the operator log).
\<close>

section \<open>Making an event\<close>

text \<open>What a constructor gets from outside: the clock, a fresh identity, the running disruptions.\<close>

record maker =
  mk_now :: time
  mk_uid :: string
  mk_running :: "nemesis_ref list"

text \<open>An event of class \<open>b\<close>, or of its sub-event type \<open>t\<close>.\<close>

definition class_name :: "string \<Rightarrow> string option \<Rightarrow> string" where
  "class_name b t = (case t of None \<Rightarrow> b | Some n \<Rightarrow> b @ [DOT] @ n)"

definition made :: "maker \<Rightarrow> string \<Rightarrow> string option \<Rightarrow> string list \<Rightarrow> severity \<Rightarrow> event" where
  "made k b t mro sev = (case new_event \<lparr>c_name = class_name b t, c_base = b, c_abstract = False, c_type = t,
     c_subtype = None, c_mro = class_name b t # mro, c_attrs = []\<rparr> sev (mk_now k) (mk_uid k) of Inr e \<Rightarrow> e)"

definition sct :: "maker \<Rightarrow> string \<Rightarrow> string option \<Rightarrow> severity \<Rightarrow> (string, string option) dict \<Rightarrow> event" where
  "sct k b t sev as = (made k b t [''SctEvent''] sev)\<lparr>attrs := as\<rparr>"

definition info :: "maker \<Rightarrow> string \<Rightarrow> string option \<Rightarrow> severity \<Rightarrow> (string, string option) dict \<Rightarrow> event" where
  "info k b t sev as =
     (informational_event (mk_running k) (made k b t [''InformationalEvent'', ''SctEvent''] sev))\<lparr>attrs := as\<rparr>"

text \<open>A continuous event with its hash fields; most classes have the identity of the event.\<close>

definition contin ::
  "maker \<Rightarrow> string \<Rightarrow> string option \<Rightarrow> severity \<Rightarrow> bool \<Rightarrow> string list \<Rightarrow> string list \<Rightarrow>
   (string, string option) dict \<Rightarrow> event" where
  "contin k b t sev publish_event errors hfields as =
     (continuous_init publish_event errors (class_name b t # hfields)
        (made k b t [''ContinuousEvent'', ''SctEvent''] sev))\<lparr>attrs := as\<rparr>"

text \<open>\<open>str(x) if x else None\<close> and \<open>x if x else ""\<close>\<close>

definition str_or_none :: "string option \<Rightarrow> string option" where
  "str_or_none x = (if tstr x then x else None)"

definition str_or_empty :: "string option \<Rightarrow> string option" where
  "str_or_empty x = (if tstr x then x else Some [])"

section \<open>System events\<close>

definition new_StartupTestEvent :: "maker \<Rightarrow> event" where
  "new_StartupTestEvent k = made k ''StartupTestEvent'' None [''SystemEvent'', ''SctEvent''] NORMAL"

text \<open>\<open>start\<close> is the start time as \<open>strftime\<close> prints it in the local time zone.\<close>

definition new_TestTimeoutEvent :: "maker \<Rightarrow> string \<Rightarrow> int \<Rightarrow> event" where
  "new_TestTimeoutEvent k start minutes = sct k ''TestTimeoutEvent'' None CRITICAL
     [(''start_time'', Some start), (''duration'', Some (str_int minutes))]"

definition new_HWPerforanceEvent :: "maker \<Rightarrow> string \<Rightarrow> severity \<Rightarrow> event" where
  "new_HWPerforanceEvent k message sev = sct k ''HWPerforanceEvent'' None sev [(''message'', Some message)]"

definition test_framework_event ::
  "maker \<Rightarrow> string \<Rightarrow> string option \<Rightarrow> string option \<Rightarrow> string option \<Rightarrow> string option \<Rightarrow> string option \<Rightarrow>
   string option \<Rightarrow> string option \<Rightarrow> severity option \<Rightarrow> event" where
  "test_framework_event k cls source source_method args kwargs message exc trace sev =
     info k cls None (case sev of None \<Rightarrow> ERROR | Some s \<Rightarrow> s)
       [(''source'', str_or_none source), (''source_method'', str_or_none source_method),
        (''exception'', str_or_none exc), (''message'', str_or_none message), (''trace'', str_or_none trace),
        (''args'', args), (''kwargs'', kwargs)]"

definition new_TestFrameworkEvent ::
  "maker \<Rightarrow> string option \<Rightarrow> string option \<Rightarrow> string option \<Rightarrow> string option \<Rightarrow> string option \<Rightarrow> string option \<Rightarrow>
   string option \<Rightarrow> severity option \<Rightarrow> event" where
  "new_TestFrameworkEvent k = test_framework_event k ''TestFrameworkEvent''"

definition new_SoftTimeoutEvent :: "maker \<Rightarrow> string \<Rightarrow> string \<Rightarrow> string \<Rightarrow> string option \<Rightarrow> event" where
  "new_SoftTimeoutEvent k operation dur soft_timeout trace =
     (let message = ''operation '' @ [SQ] @ operation @ [SQ] @ '' took '' @ dur @ ''s and soft-timeout was set to '' @
            soft_timeout @ ''s''
      in test_framework_event k ''SoftTimeoutEvent'' (Some ''SoftTimeout'') None None None (Some message) None trace (Some ERROR))"

definition new_ElasticsearchEvent :: "maker \<Rightarrow> string \<Rightarrow> string \<Rightarrow> event" where
  "new_ElasticsearchEvent k doc_id err =
     info k ''ElasticsearchEvent'' None ERROR [(''doc_id'', Some doc_id), (''error'', Some err)]"

definition new_SpotTerminationEvent :: "maker \<Rightarrow> string \<Rightarrow> string \<Rightarrow> event" where
  "new_SpotTerminationEvent k node message =
     info k ''SpotTerminationEvent'' None CRITICAL [(''node'', Some node), (''message'', Some message)]"

definition new_ScyllaRepoEvent :: "maker \<Rightarrow> string \<Rightarrow> string \<Rightarrow> event" where
  "new_ScyllaRepoEvent k url err = info k ''ScyllaRepoEvent'' None WARNING [(''url'', Some url), (''error'', Some err)]"

definition new_CpuNotHighEnoughEvent :: "maker \<Rightarrow> string \<Rightarrow> severity \<Rightarrow> event" where
  "new_CpuNotHighEnoughEvent k message sev = info k ''CpuNotHighEnoughEvent'' None sev [(''message'', Some message)]"

definition new_TestStepEvent :: "maker \<Rightarrow> string \<Rightarrow> severity \<Rightarrow> bool \<Rightarrow> event" where
  "new_TestStepEvent k step sev publish_event = contin k ''TestStepEvent'' None sev publish_event [] [mk_uid k]
     [(''step'', Some step), (''full_traceback'', Some [])]"

definition new_PerftuneResultEvent :: "maker \<Rightarrow> string \<Rightarrow> severity \<Rightarrow> string option \<Rightarrow> event" where
  "new_PerftuneResultEvent k message sev trace =
     info k ''PerftuneResultEvent'' None sev [(''message'', Some message), (''trace'', str_or_none trace)]"

definition new_InfoEvent :: "maker \<Rightarrow> string \<Rightarrow> severity \<Rightarrow> event" where
  "new_InfoEvent k message sev = sct k ''InfoEvent'' None sev [(''message'', Some message)]"

definition thread_failed_event :: "maker \<Rightarrow> string \<Rightarrow> string \<Rightarrow> string \<Rightarrow> event" where
  "thread_failed_event k cls message trace =
     info k cls None ERROR [(''message'', Some message), (''traceback'', Some trace)]"

definition new_ThreadFailedEvent :: "maker \<Rightarrow> string \<Rightarrow> string \<Rightarrow> event" where
  "new_ThreadFailedEvent k = thread_failed_event k ''ThreadFailedEvent''"

definition new_AwsKmsEvent :: "maker \<Rightarrow> string \<Rightarrow> string \<Rightarrow> event" where
  "new_AwsKmsEvent k = thread_failed_event k ''AwsKmsEvent''"

text \<open>\<open>raise_event_on_failure\<close>: an exception of the thread's function becomes an event.\<close>

definition raise_event_on_failure :: "maker \<Rightarrow> (string \<times> string) + 'a \<Rightarrow> event list \<times> 'a option" where
  "raise_event_on_failure k r = (case r of
     Inr v \<Rightarrow> ([], Some v)
   | Inl (message, trace) \<Rightarrow> (snd (publish (new_ThreadFailedEvent k message trace)), None))"

definition new_CoreDumpEvent ::
  "maker \<Rightarrow> string \<Rightarrow> string option \<Rightarrow> string option \<Rightarrow> string option \<Rightarrow> time option \<Rightarrow> string option \<Rightarrow>
   string option \<Rightarrow> event" where
  "new_CoreDumpEvent k node corefile_url backtrace download_instructions ts executable version =
     (let e = info k ''CoreDumpEvent'' None ERROR
            [(''node'', Some node), (''corefile_url'', corefile_url), (''backtrace'', backtrace),
             (''download_instructions'', download_instructions), (''executable'', executable),
             (''executable_version'', version)]
      in case ts of None \<Rightarrow> e | Some t \<Rightarrow> e\<lparr>source_timestamp := Some t\<rparr>)"

definition new_TestResultEvent ::
  "maker \<Rightarrow> string \<Rightarrow> (string \<times> string list) list \<Rightarrow> time option \<Rightarrow> event" where
  "new_TestResultEvent k test_status events ts =
     (let e = (info k ''TestResultEvent'' None (TestResultEvent_severity test_status)
            [(''_ok'', Some (if test_status = ''SUCCESS'' then ''True'' else [])),
             (''_head'', Some (center 80 (CHR ''='') '' TEST RESULTS '')),
             (''_ending'', Some (replicate 80 (CHR ''=''))), (''test_status'', Some test_status),
             (''events_formatted'', Some (events_formatted events))])\<lparr>ready_to_publish := False\<rparr>
      in case ts of None \<Rightarrow> e | Some t \<Rightarrow> e\<lparr>event_timestamp := Some t\<rparr>)"

definition new_FailedResultEvent :: "maker \<Rightarrow> string \<Rightarrow> severity \<Rightarrow> event" where
  "new_FailedResultEvent k message sev = info k ''FailedResultEvent'' None sev [(''message'', Some message)]"

section \<open>Database events\<close>

text \<open>The sub-event types are \<open>duplicate\<close> and \<open>filtered\<close>; a message that is not given is no attribute.\<close>

definition new_ScyllaHelpErrorEvent :: "maker \<Rightarrow> string \<Rightarrow> string option \<Rightarrow> severity \<Rightarrow> event" where
  "new_ScyllaHelpErrorEvent k t message sev = sct k ''ScyllaHelpErrorEvent'' (Some t) sev
     (case message of None \<Rightarrow> [] | Some m \<Rightarrow> [(''message'', Some m)])"

definition new_ScyllaHousekeepingServiceEvent :: "maker \<Rightarrow> string \<Rightarrow> severity \<Rightarrow> event" where
  "new_ScyllaHousekeepingServiceEvent k message sev =
     info k ''ScyllaHousekeepingServiceEvent'' None sev [(''message'', Some message)]"

definition new_IndexSpecialColumnErrorEvent :: "maker \<Rightarrow> string \<Rightarrow> severity \<Rightarrow> event" where
  "new_IndexSpecialColumnErrorEvent k message sev =
     info k ''IndexSpecialColumnErrorEvent'' None sev [(''message'', Some message)]"

definition new_CommitLogCheckErrorEvent :: "maker \<Rightarrow> string \<Rightarrow> severity \<Rightarrow> event" where
  "new_CommitLogCheckErrorEvent k message sev =
     info k ''CommitLogCheckErrorEvent'' None sev [(''message'', Some message)]"

text \<open>The base class of the continuous events of the database; \<open>hfields\<close> are further hash fields.\<close>

definition db_continuous ::
  "maker \<Rightarrow> string \<Rightarrow> string \<Rightarrow> int option \<Rightarrow> severity \<Rightarrow> string list \<Rightarrow> (string, string option) dict \<Rightarrow> event" where
  "db_continuous k cls node shard sev hfields as =
     contin k cls None sev True [] ([node, py_str_opt (map_option str_int shard)] @ hfields)
       ([(''node'', Some node), (''shard'', map_option str_int shard)] @ as)"

definition new_ScyllaServerStatusEvent :: "maker \<Rightarrow> string \<Rightarrow> severity \<Rightarrow> event" where
  "new_ScyllaServerStatusEvent k node sev = db_continuous k ''ScyllaServerStatusEvent'' node None sev [] []"

definition new_BootstrapEvent :: "maker \<Rightarrow> string \<Rightarrow> severity \<Rightarrow> event" where
  "new_BootstrapEvent k node sev = db_continuous k ''BootstrapEvent'' node None sev [] []"

definition new_FullScanEvent ::
  "maker \<Rightarrow> string \<Rightarrow> string \<Rightarrow> string option \<Rightarrow> severity \<Rightarrow> string option \<Rightarrow> string option \<Rightarrow> event" where
  "new_FullScanEvent k node ks_cf message sev user password =
     db_continuous k ''FullScanEvent'' node None sev []
       [(''ks_cf'', Some ks_cf), (''message'', message), (''user'', user), (''password'', password)]"

definition new_FullPartitionScanReversedOrderEvent :: "maker \<Rightarrow> string \<Rightarrow> string \<Rightarrow> string option \<Rightarrow> severity \<Rightarrow> event" where
  "new_FullPartitionScanReversedOrderEvent k node ks_cf message sev =
     db_continuous k ''FullPartitionScanReversedOrderEvent'' node None sev [] [(''ks_cf'', Some ks_cf), (''message'', message)]"

definition new_FullPartitionScanEvent :: "maker \<Rightarrow> string \<Rightarrow> string \<Rightarrow> string option \<Rightarrow> severity \<Rightarrow> event" where
  "new_FullPartitionScanEvent k node ks_cf message sev =
     db_continuous k ''FullPartitionScanEvent'' node None sev [] [(''ks_cf'', Some ks_cf), (''message'', message)]"

definition new_TombstoneGcVerificationEvent :: "maker \<Rightarrow> string \<Rightarrow> string \<Rightarrow> string option \<Rightarrow> severity \<Rightarrow> event" where
  "new_TombstoneGcVerificationEvent k node ks_cf message sev =
     db_continuous k ''TombstoneGcVerificationEvent'' node None sev [] [(''ks_cf'', Some ks_cf), (''message'', message)]"

definition new_FullScanAggregateEvent :: "maker \<Rightarrow> string \<Rightarrow> string \<Rightarrow> string option \<Rightarrow> severity \<Rightarrow> event" where
  "new_FullScanAggregateEvent k node ks_cf message sev =
     db_continuous k ''FullScanAggregateEvent'' node None sev [] [(''ks_cf'', Some ks_cf), (''message'', message)]"

definition new_RepairEvent :: "maker \<Rightarrow> string \<Rightarrow> int \<Rightarrow> string \<Rightarrow> severity \<Rightarrow> event" where
  "new_RepairEvent k node shard uuid sev =
     (db_continuous k ''RepairEvent'' node (Some shard) sev [uuid] [(''uuid'', Some uuid)])\<lparr>
       publish_to_grafana := False, save_to_files := False, log_level := L_DEBUG\<rparr>"

definition new_CompactionEvent :: "maker \<Rightarrow> string \<Rightarrow> int \<Rightarrow> string \<Rightarrow> string \<Rightarrow> severity \<Rightarrow> event" where
  "new_CompactionEvent k node shard table pid sev =
     (db_continuous k ''CompactionEvent'' node (Some shard) sev [table, pid]
        [(''table'', Some table), (''compaction_process_id'', Some pid)])\<lparr>
       publish_to_grafana := False, save_to_files := False, log_level := L_DEBUG\<rparr>"

definition new_JMXServiceEvent :: "maker \<Rightarrow> string \<Rightarrow> severity \<Rightarrow> event" where
  "new_JMXServiceEvent k node sev = db_continuous k ''JMXServiceEvent'' node None sev [] []"

definition new_ScyllaSysconfigSetupEvent :: "maker \<Rightarrow> string \<Rightarrow> severity \<Rightarrow> event" where
  "new_ScyllaSysconfigSetupEvent k node sev = db_continuous k ''ScyllaSysconfigSetupEvent'' node None sev [] []"

text \<open>\<open>diff\<close> is the printed difference, \<open>None\<close> when there is none.\<close>

definition new_ScyllaYamlUpdateEvent :: "maker \<Rightarrow> string \<Rightarrow> string option \<Rightarrow> string \<Rightarrow> severity \<Rightarrow> event" where
  "new_ScyllaYamlUpdateEvent k node message diff sev = info k ''ScyllaYamlUpdateEvent'' None sev
     [(''message'', if tstr message then message
       else Some (''Updating scylla.yaml contents on node: '' @ node @ ''. Diff: '' @ diff))]"

section \<open>Stress events\<close>

text \<open>\<open>add_stress_subevents\<close>: the sub-event types in the order they are added, with their severities.\<close>

definition add_stress_subevents ::
  "severity option \<Rightarrow> severity option \<Rightarrow> severity option \<Rightarrow> severity option \<Rightarrow> severity option \<Rightarrow> severity option \<Rightarrow>
   (string \<times> severity) list" where
  "add_stress_subevents failure err timeout start finish warn =
     concat (map (\<lambda>(n, s). case s of None \<Rightarrow> [] | Some v \<Rightarrow> [(n, v)])
       [(''failure'', failure), (''error'', err), (''warning'', warn), (''timeout'', timeout),
        (''start'', start), (''finish'', finish)])"

definition CassandraHarryEvent_subevents :: "(string \<times> severity) list" where
  "CassandraHarryEvent_subevents =
     add_stress_subevents (Some CRITICAL) (Some ERROR) (Some ERROR) (Some NORMAL) (Some NORMAL) None"

definition YcsbStressEvent_subevents :: "(string \<times> severity) list" where
  "YcsbStressEvent_subevents = add_stress_subevents (Some CRITICAL) (Some ERROR) None (Some NORMAL) (Some NORMAL) None"

definition CDCReaderStressEvent_subevents :: "(string \<times> severity) list" where
  "CDCReaderStressEvent_subevents = add_stress_subevents (Some CRITICAL) (Some ERROR) None (Some NORMAL) (Some NORMAL) None"

definition NdBenchStressEvent_subevents :: "(string \<times> severity) list" where
  "NdBenchStressEvent_subevents = add_stress_subevents (Some CRITICAL) (Some ERROR) None (Some NORMAL) (Some NORMAL) None"

definition KclStressEvent_subevents :: "(string \<times> severity) list" where
  "KclStressEvent_subevents = add_stress_subevents (Some ERROR) None None (Some NORMAL) (Some NORMAL) None"

text \<open>The stress event classes: those that are concrete, and the sub-event types of the abstract ones.\<close>

definition concrete_stress_classes :: "string list" where
  "concrete_stress_classes = [''CassandraStressEvent'', ''ScyllaBenchEvent'', ''LatteStressEvent'',
     ''CqlStressCassandraStressEvent'', ''NoSQLBenchStressEvent'']"

definition abstract_stress_classes :: "(string \<times> (string \<times> severity) list) list" where
  "abstract_stress_classes = [(''CassandraHarryEvent'', CassandraHarryEvent_subevents),
     (''YcsbStressEvent'', YcsbStressEvent_subevents), (''CDCReaderStressEvent'', CDCReaderStressEvent_subevents),
     (''NdBenchStressEvent'', NdBenchStressEvent_subevents), (''KclStressEvent'', KclStressEvent_subevents)]"

text \<open>
  A stress event of a class: an abstract class alone is a \<open>TypeError\<close>, a sub-event type it does not
  have an \<open>AttributeError\<close>. The severity of a sub-event type is its default.
\<close>

definition new_StressEvent ::
  "maker \<Rightarrow> string \<Rightarrow> string option \<Rightarrow> string \<Rightarrow> string option \<Rightarrow> string option \<Rightarrow> string list \<Rightarrow> severity option \<Rightarrow>
   bool \<Rightarrow> event res" where
  "new_StressEvent k cls t node stress_cmd log_file errors sev publish_event =
     (let as = [(''node'', Some node), (''stress_cmd'', stress_cmd), (''log_file_name'', log_file)];
          mk = (\<lambda>s. contin k cls t s publish_event errors [mk_uid k] as)
      in case t of
           None \<Rightarrow> if cls \<in> set concrete_stress_classes
                   then Inr (mk (case sev of None \<Rightarrow> NORMAL | Some s \<Rightarrow> s)) else Inl TypeError
         | Some n \<Rightarrow> (case dget abstract_stress_classes cls of
               None \<Rightarrow> Inl AttributeError
             | Some subs \<Rightarrow> (case dget subs n of
                   None \<Rightarrow> Inl AttributeError
                 | Some s0 \<Rightarrow> Inr (mk (case sev of None \<Rightarrow> s0 | Some s \<Rightarrow> s)))))"

definition new_HDRFileMissed :: "maker \<Rightarrow> string \<Rightarrow> severity \<Rightarrow> event" where
  "new_HDRFileMissed k message sev = sct k ''HDRFileMissed'' None sev [(''message'', Some message)]"

definition new_GeminiStressEvent :: "maker \<Rightarrow> string \<Rightarrow> string \<Rightarrow> string option \<Rightarrow> severity \<Rightarrow> bool \<Rightarrow> event" where
  "new_GeminiStressEvent k node cmd log_file sev publish_event =
     contin k ''GeminiStressEvent'' None sev publish_event [] [mk_uid k]
       [(''node'', Some node), (''cmd'', Some cmd), (''log_file_name'', log_file), (''result'', Some [])]"

text \<open>\<open>str.splitlines\<close>\<close>

definition is_line_break :: "char \<Rightarrow> bool" where
  "is_line_break c = (char_code c \<in> {10, 11, 12, 13, 28, 29, 30, 133})"

fun splitlines_acc :: "string \<Rightarrow> string \<Rightarrow> string list" where
  "splitlines_acc w [] = (if w = [] then [] else [rev w])"
| "splitlines_acc w [c] = (if is_line_break c then [rev w] else [rev (c # w)])"
| "splitlines_acc w (c # d # s) =
     (if char_code c = 13 \<and> char_code d = 10 then rev w # splitlines_acc [] s
      else if is_line_break c then rev w # splitlines_acc [] (d # s)
      else splitlines_acc (c # w) (d # s))"

definition py_splitlines :: "string \<Rightarrow> string list" where "py_splitlines s = splitlines_acc [] s"

text \<open>\<open>add_result\<close>: the result of the command, absent when it is the empty string.\<close>

record cmd_result =
  exited :: int
  stdout :: string
  stderr :: string

definition last2 :: "'a list \<Rightarrow> 'a list" where "last2 xs = drop (length xs - 2) xs"

definition gemini_add_result :: "cmd_result option \<Rightarrow> event \<Rightarrow> event" where
  "gemini_add_result r e = (case r of None \<Rightarrow> e
   | Some res \<Rightarrow>
      (let text = attr_text e ''result'' @ ''Exit code: '' @ str_int (exited res) @ nl @
             (if stdout res \<noteq> []
              then ''Command output: '' @ py_repr_list (last2 (py_splitlines (py_strip (stdout res)))) @ nl else []);
           e1 = e\<lparr>attrs := dset ''result'' (Some text) (attrs e)\<rparr>
       in if stderr res \<noteq> [] then add_error [''Command error: '' @ stderr res @ nl] e1 else e1))"

text \<open>
  \<open>GeminiStressLogEvent\<close>: \<open>data\<close> is the line's JSON object as its keys with the printed values, \<open>None\<close>
  when the line is not JSON. A missing key or level is the \<open>KeyError\<close> that is not caught.
\<close>

definition SEVERITY_MAPPING :: "(string, string) dict" where
  "SEVERITY_MAPPING = [(''INFO'', ''NORMAL''), (''DEBUG'', ''NORMAL''), (''WARN'', ''WARNING''),
     (''ERROR'', ''ERROR''), (''FATAL'', ''CRITICAL'')]"

definition new_GeminiEvent :: "maker \<Rightarrow> event res" where
  "new_GeminiEvent k = log_event_init (mk_running k) (Some [])
     (made k ''GeminiStressLogEvent'' (Some ''GeminiEvent'') [''GeminiStressLogEvent'', ''LogEvent''] CRITICAL)"

definition gemini_add_info ::
  "env \<Rightarrow> time \<Rightarrow> (string, string) dict option \<Rightarrow> string \<Rightarrow> int \<Rightarrow> event \<Rightarrow> event res" where
  "gemini_add_info w now json node line_number e = (case json of
     None \<Rightarrow> Inr (e\<lparr>ready_to_publish := False\<rparr>)
   | Some data \<Rightarrow>
      rbind (dindex data ''T'') (\<lambda>t.
        let e1 = (case parse_date w t of None \<Rightarrow> e | Some ts \<Rightarrow> e\<lparr>source_timestamp := Some ts\<rparr>);
            e2 = e1\<lparr>event_timestamp := Some now\<rparr>
        in rbind (dindex data ''L'') (\<lambda>l.
           rbind (dindex SEVERITY_MAPPING l) (\<lambda>name.
           rbind (sev_of_name name) (\<lambda>sev.
           rbind (dindex data ''M'') (\<lambda>m.
             let others = filter (\<lambda>(n, _). n \<notin> {''T'', ''L'', ''M''}) data;
                 line = (if others = [] then m
                         else m @ '' ('' @ py_join '' '' (map (\<lambda>(n, v). n @ ''='' @ [DQ] @ v @ [DQ]) others) @ '')'')
             in Inr (e2\<lparr>severity := sev, ready_to_publish := True,
                  log := map_option (\<lambda>i. i\<lparr>l_line := Some line, l_line_number := Some line_number,
                    l_node := Some node\<rparr>) (log e2)\<rparr>)))))))"

section \<open>Health, alerts, commands and disruptions\<close>

definition new_ClusterHealthValidatorEvent ::
  "maker \<Rightarrow> string option \<Rightarrow> string option \<Rightarrow> string option \<Rightarrow> severity \<Rightarrow> event" where
  "new_ClusterHealthValidatorEvent k node message err sev =
     contin k ''ClusterHealthValidatorEvent'' None sev True [] [mk_uid k]
       [(''node'', str_or_empty node), (''error'', str_or_empty err), (''message'', str_or_empty message)]"

definition ClusterHealthValidatorEvent_subevents :: "string list" where
  "ClusterHealthValidatorEvent_subevents = [''NodeStatus'', ''NodePeersNulls'', ''NodeSchemaVersion'', ''NodesNemesis'',
     ''MonitoringStatus'', ''ScyllaCloudClusterServerDiagnostic'', ''Group0TokenRingInconsistency'']"

text \<open>
  A sub-event type has the constructor of its mixin, which is an \<open>InformationalEvent\<close>: by the method
  resolution order the constructor of \<open>ClusterHealthValidatorEvent\<close> runs first, with the severity
  alone, then the period and the subcontext are those of an informational event, and the mixin sets
  the attributes.
\<close>

definition health_sub_event ::
  "maker \<Rightarrow> string \<Rightarrow> string option \<Rightarrow> string option \<Rightarrow> string option \<Rightarrow> severity \<Rightarrow> event" where
  "health_sub_event k t node message err sev =
     (informational_event (mk_running k)
        (contin k ''ClusterHealthValidatorEvent'' (Some t) sev True [] [mk_uid k] []))\<lparr>
       attrs := [(''node'', str_or_empty node), (''message'', str_or_empty message), (''error'', str_or_empty err)]\<rparr>"

definition DataValidatorEvent_subevents :: "string list" where
  "DataValidatorEvent_subevents = [''DataValidator'', ''ImmutableRowsValidator'', ''UpdatedRowsValidator'', ''DeletedRowsValidator'']"

definition new_DataValidatorEvent :: "maker \<Rightarrow> string \<Rightarrow> string option \<Rightarrow> string option \<Rightarrow> severity \<Rightarrow> event" where
  "new_DataValidatorEvent k t message err sev = info k ''DataValidatorEvent'' (Some t) sev
     [(''error'', str_or_empty err), (''message'', str_or_empty message)]"

definition new_PartitionRowsValidationEvent :: "maker \<Rightarrow> string \<Rightarrow> severity \<Rightarrow> event" where
  "new_PartitionRowsValidationEvent k message sev =
     info k ''PartitionRowsValidationEvent'' None sev [(''message'', Some message)]"

text \<open>\<open>NodetoolCommand.__post_init__\<close>: words after the first are options.\<close>

record nodetool_command =
  nt_cmd :: string
  nt_options :: "string option"

definition NodetoolCommand :: "string \<Rightarrow> string option \<Rightarrow> nodetool_command" where
  "NodetoolCommand cmd options =
     (case py_words cmd of
        w # v # ws \<Rightarrow> \<lparr>nt_cmd = w, nt_options = Some (py_join '' '' ((v # ws) @ (if tstr options then [the options] else [])))\<rparr>
      | _ \<Rightarrow> \<lparr>nt_cmd = cmd, nt_options = options\<rparr>)"

definition new_NodetoolEvent :: "maker \<Rightarrow> string \<Rightarrow> severity \<Rightarrow> string option \<Rightarrow> string option \<Rightarrow> bool \<Rightarrow> event" where
  "new_NodetoolEvent k command sev node options publish_event =
     (let c = NodetoolCommand command options in
      contin k ''NodetoolEvent'' None sev publish_event [] [mk_uid k]
        [(''nodetool_command.cmd'', Some (nt_cmd c)), (''nodetool_command.options'', nt_options c),
         (''node'', Some (py_str_opt node)), (''full_traceback'', None)])"

text \<open>An alert as Prometheus reports it; an absent or empty dictionary is \<open>{}\<close>.\<close>

record raw_alert =
  al_annotations :: "(string, string) dict"
  al_starts_at :: "string option"
  al_ends_at :: "string option"
  al_updated_at :: "string option"
  al_fingerprint :: "string option"
  al_status :: "(string, string) dict"
  al_labels :: "(string, string) dict"

definition py_repr_dict :: "(string, string) dict \<Rightarrow> string" where
  "py_repr_dict d = ''{'' @ py_join '', '' (map (\<lambda>(n, v). py_repr n @ '': '' @ py_repr v) d) @ ''}''"

text \<open>A missing label and a label that names no severity are both the \<open>KeyError\<close> that is caught.\<close>

definition alert_severity :: "raw_alert \<Rightarrow> severity \<Rightarrow> severity" where
  "alert_severity a sev = (case rbind (dindex (al_labels a) ''sct_severity'') sev_of_name of
     Inl _ \<Rightarrow> sev | Inr s \<Rightarrow> s)"

definition new_PrometheusAlertManagerEvent :: "maker \<Rightarrow> raw_alert \<Rightarrow> severity \<Rightarrow> event" where
  "new_PrometheusAlertManagerEvent k a sev =
     (let node = dget_default (al_labels a) ''instance'' ''N/A'';
          name = dget_default (al_labels a) ''alertname'' []
      in contin k ''PrometheusAlertManagerEvent'' None (alert_severity a sev) True []
           [node, py_str_opt (al_starts_at a), name]
           [(''annotations'', Some (py_repr_dict (al_annotations a))), (''starts_at'', al_starts_at a),
            (''ends_at'', al_ends_at a), (''updated_at'', al_updated_at a), (''fingerprint'', al_fingerprint a),
            (''status'', Some (py_repr_dict (al_status a))), (''labels'', Some (py_repr_dict (al_labels a))),
            (''node'', Some node),
            (''description'', Some (dget_default (al_annotations a) ''description''
               (dget_default (al_annotations a) ''summary'' []))),
            (''state'', Some (dget_default (al_status a) ''state'' [])), (''alert_name'', Some name)])"

definition new_DisruptionEvent :: "maker \<Rightarrow> string \<Rightarrow> string \<Rightarrow> severity \<Rightarrow> bool \<Rightarrow> event" where
  "new_DisruptionEvent k nemesis_name node sev publish_event =
     contin k ''DisruptionEvent'' None sev publish_event [] [mk_uid k]
       [(''nemesis_name'', Some nemesis_name), (''node'', Some node), (''full_traceback'', Some [])]"

definition WorkloadPrioritisationEvent_subevents :: "string list" where
  "WorkloadPrioritisationEvent_subevents = [''CpuNotHighEnough'', ''RatioValidationEvent'', ''SlaTestResult'', ''EmptyPrometheusData'']"

definition new_WorkloadPrioritisationEvent :: "maker \<Rightarrow> string \<Rightarrow> string option \<Rightarrow> severity \<Rightarrow> event" where
  "new_WorkloadPrioritisationEvent k t message sev =
     info k ''WorkloadPrioritisationEvent'' (Some t) sev [(''message'', str_or_empty message)]"

text \<open>\<open>date\<close> is the entry's timestamp as \<open>dateutil\<close> parses it, in local time.\<close>

record gce_entry =
  gce_date :: string
  gce_resource :: string
  gce_method :: string
  gce_message :: string

definition new_GceInstanceEvent :: "maker \<Rightarrow> gce_entry \<Rightarrow> severity \<Rightarrow> event" where
  "new_GceInstanceEvent k g sev = (sct k ''GceInstanceEvent'' None sev
     [(''date'', Some (gce_date g)), (''node'', Some (last (py_split (CHR ''/'') (gce_resource g)))),
      (''method'', Some (gce_method g)), (''message'', Some (gce_message g))])\<lparr>period_type := INFORMATIONAL\<rparr>"

definition new_ValidatorEvent :: "maker \<Rightarrow> string \<Rightarrow> severity \<Rightarrow> event" where
  "new_ValidatorEvent k message sev = info k ''ValidatorEvent'' None sev [(''message'', Some message)]"

definition new_ScrubValidationErrorEvent :: "maker \<Rightarrow> string \<Rightarrow> string \<Rightarrow> severity \<Rightarrow> event" where
  "new_ScrubValidationErrorEvent k node link sev = info k ''ScrubValidationErrorEvent'' None sev
     [(''message'', Some (''Nodetool scrub in validation mode found invalid sstables on node '' @ node @ ''.'' @
        ''See more details in db logs and quarantined sstables link: '' @ link))]"

section \<open>The operator's log\<close>

definition ScyllaOperatorLogEvent_types :: "log_type list" where
  "ScyllaOperatorLogEvent_types = [
    (''REAPPLY'', WARNING, ''please apply your changes to the latest version and try again''),
    (''TLS_HANDSHAKE_ERROR'', WARNING, ''TLS handshake error from .*''),
    (''OPERATOR_STARTED_INFO'', NORMAL, [DQ] @ ''Starting controller'' @ [DQ] @ '' controller='' @ [DQ] @ ''ScyllaCluster'' @ [DQ]),
    (''WRONG_SCHEDULED_PODS'', WARNING, ''Not allowed pods are scheduled on Scylla node found'')]"

definition SCYLLA_OPERATOR_EVENT_PATTERNS :: "log_pattern list" where
  "SCYLLA_OPERATOR_EVENT_PATTERNS = patterns_of ''ScyllaOperatorLogEvent'' flag_ignorecase ScyllaOperatorLogEvent_types
     [''REAPPLY'', ''TLS_HANDSHAKE_ERROR'', ''OPERATOR_STARTED_INFO'', ''WRONG_SCHEDULED_PODS'']"

text \<open>The days from 1970-01-01 to a date, the inverse of \<open>civil_from_days\<close>.\<close>

definition days_from_civil :: "int \<Rightarrow> int \<Rightarrow> int \<Rightarrow> int" where
  "days_from_civil y0 m d =
     (let y = (if m \<le> 2 then y0 - 1 else y0); era = y div 400; yoe = y mod 400;
          mp = (if 2 < m then m - 3 else m + 9); doy = (153 * mp + 2) div 5 + d - 1;
          doe = yoe * 365 + yoe div 4 - yoe div 100 + doy
      in era * 146097 + doe - 719468)"

definition leap_year :: "int \<Rightarrow> bool" where
  "leap_year y = (4 dvd y \<and> (\<not> 100 dvd y \<or> 400 dvd y))"

definition days_in_month :: "int \<Rightarrow> int \<Rightarrow> int" where
  "days_in_month y m = (if m = 2 then (if leap_year y then 29 else 28)
     else if m \<in> {4, 6, 9, 11} then 30 else 31)"

text \<open>\<open>datetime(year, ..., tzinfo=utc).timestamp()\<close>\<close>

definition utc_timestamp :: "int \<Rightarrow> int \<Rightarrow> int \<Rightarrow> int \<Rightarrow> int \<Rightarrow> int \<Rightarrow> int \<Rightarrow> time res" where
  "utc_timestamp y m d h mi s us =
     (if 1 \<le> y \<and> y \<le> 9999 \<and> 1 \<le> m \<and> m \<le> 12 \<and> 1 \<le> d \<and> d \<le> days_in_month y m \<and> 0 \<le> h \<and> h < 24 \<and>
         0 \<le> mi \<and> mi < 60 \<and> 0 \<le> s \<and> s < 60 \<and> 0 \<le> us \<and> us < 1000000
      then Inr (of_int (days_from_civil y m d * 86400 + h * 3600 + mi * 60 + s) + of_int us / 1000000)
      else Inl ValueError)"

text \<open>\<open>line.split(maxsplit=4)\<close>: at most four words, then the rest of the line.\<close>

fun py_split_max :: "nat \<Rightarrow> string \<Rightarrow> string list" where
  "py_split_max 0 s = (let r = dropWhile is_space s in
     if r = [] then [] else [rev (dropWhile is_space (rev r))])"
| "py_split_max (Suc n) s = (let r = dropWhile is_space s in
     if r = [] then []
     else takeWhile (\<lambda>c. \<not> is_space c) r # py_split_max n (dropWhile (\<lambda>c. \<not> is_space c) r))"

text \<open>\<open>int(s)\<close>: surrounding space, a sign, and single underscores between digits are allowed.\<close>

definition py_int :: "string \<Rightarrow> int res" where
  "py_int s0 = (let s = py_strip s0; neg = starts_with s ''-''; t = (if neg \<or> starts_with s ''+'' then drop 1 s else s);
       parts = py_split (CHR ''_'') t
     in if list_all (\<lambda>p. p \<noteq> [] \<and> list_all is_digit p) parts
        then Inr ((if neg then uminus else id) (int (nat_of_digits (concat parts)))) else Inl ValueError)"

definition operator_timestamp :: "int \<Rightarrow> string \<Rightarrow> string \<Rightarrow> time res" where
  "operator_timestamp year type_month_date time_string =
     (case py_split (CHR ''.'') time_string of
        [hms, micro] \<Rightarrow> (case py_split (CHR '':'') hms of
            [h, m, s] \<Rightarrow>
              rbind (py_int (take 2 (drop 1 type_month_date))) (\<lambda>mo.
              rbind (py_int (take 2 (drop 3 type_month_date))) (\<lambda>d.
              rbind (py_int h) (\<lambda>hh. rbind (py_int m) (\<lambda>mm. rbind (py_int s) (\<lambda>ss. rbind (py_int micro) (\<lambda>us.
                utc_timestamp year mo d hh mm ss us))))))
          | _ \<Rightarrow> Inl ValueError)
      | _ \<Rightarrow> Inl ValueError)"

text \<open>\<open>ScyllaOperatorLogEvent.add_info\<close>: every exception of the parsing is ignored.\<close>

definition operator_add_info :: "time \<Rightarrow> int \<Rightarrow> string \<Rightarrow> string \<Rightarrow> event \<Rightarrow> event" where
  "operator_add_info now year node line e =
     (case py_split_max 4 line of
        [w0, w1, _, _, _] \<Rightarrow>
          if length w0 \<noteq> 5 then e
          else (let e1 = (case operator_timestamp year w0 w1 of Inl _ \<Rightarrow> e | Inr t \<Rightarrow> e\<lparr>source_timestamp := Some t\<rparr>)
                in e1\<lparr>event_timestamp := Some now, ready_to_publish := True,
                      log := map_option (\<lambda>l. l\<lparr>l_node := Some node, l_line := Some line\<rparr>) (log e1)\<rparr>)
      | _ \<Rightarrow> e)"

end
