(* ===== verification/Event_Printing.thy ===== *)
theory Event_Printing
  imports Event_Init
begin

text \<open>
  Which attributes the template of each event class reads, and that an event which has them can be
  printed: \<open>str(event)\<close> never raises.
\<close>

section \<open>Every event can be printed\<close>

text \<open>The attributes the template of a class reads, apart from those of its kind.\<close>

definition scan_attrs :: "string list" where "scan_attrs = [''ks_cf'']"

definition needed_table :: "(string, string list) dict" where
  "needed_table = [
     (''DisruptionEvent'', [''nemesis_name'', ''node'']),
     (''CassandraHarryEvent'', [''node'', ''stress_cmd'']), (''GeminiStressEvent'', [''node'', ''cmd'']),
     (''SchemaDisagreementErrorEvent'', [''sstable_links_formatted'', ''gossip_info'', ''peers_info'']),
     (''ScyllaHousekeepingServiceEvent'', [''message'']), (''IndexSpecialColumnErrorEvent'', [''message'']),
     (''CommitLogCheckErrorEvent'', [''message'']), (''ScyllaYamlUpdateEvent'', [''message'']),
     (''FullScanEvent'', scan_attrs), (''FullPartitionScanReversedOrderEvent'', scan_attrs),
     (''FullPartitionScanEvent'', scan_attrs), (''TombstoneGcVerificationEvent'', scan_attrs),
     (''FullScanAggregateEvent'', scan_attrs),
     (''PrometheusAlertManagerEvent'', [''alert_name'', ''node'', ''starts_at'', ''ends_at'', ''description'',
        ''updated_at'', ''state'', ''fingerprint'', ''labels'']),
     (''DataValidatorEvent'', [''message'', ''error'']), (''PartitionRowsValidationEvent'', [''message'']),
     (''NodetoolEvent'', [''nodetool_command.cmd'']), (''TestFrameworkEvent'', [''source'']),
     (''SoftTimeoutEvent'', [''source'']), (''HWPerforanceEvent'', [''message'']),
     (''ElasticsearchEvent'', [''doc_id'', ''error'']), (''SpotTerminationEvent'', [''node'', ''message'']),
     (''ScyllaRepoEvent'', [''url'', ''error'']), (''CpuNotHighEnoughEvent'', [''message'']),
     (''TestStepEvent'', [''step'']), (''PerftuneResultEvent'', [''message'']), (''InfoEvent'', [''message'']),
     (''ThreadFailedEvent'', [''message'', ''traceback'']), (''AwsKmsEvent'', [''message'', ''traceback'']),
     (''FailedResultEvent'', [''message'']), (''WorkloadPrioritisationEvent'', [''message'']),
     (''GceInstanceEvent'', [''method'', ''node'', ''date'', ''message'']), (''ValidatorEvent'', [''message'']),
     (''ScrubValidationErrorEvent'', [''message'']),
     (''TestResultEvent'', [''_head'', ''_ending'', ''events_formatted'', ''test_status''])]"

text \<open>
  An event that has what its template reads: the attributes; the state of a continuous event or of a
  log event where the template shows it; and no braces in what is put into the template itself.
\<close>

definition well_formed :: "event \<Rightarrow> bool" where
  "well_formed e \<longleftrightarrow>
     list_all (dmem (attrs e)) (dget_default needed_table (base e) []) \<and>
     (base e = ''GeminiStressLogEvent'' \<longrightarrow> log e \<noteq> None) \<and>
     no_braces (attr_text e ''start_time'') \<and> no_braces (attr_text e ''duration'') \<and>
     no_braces (concatenate_subcontext e)"

text \<open>A template that can be printed, whatever follows it.\<close>

definition printable :: "env \<Rightarrow> event \<Rightarrow> string \<Rightarrow> bool" where
  "printable w e f \<longleftrightarrow> (\<exists>v. renders w e f v)"

definition has_attr :: "env \<Rightarrow> event \<Rightarrow> string \<Rightarrow> bool" where
  "has_attr w e n = (case event_attr w e n of None \<Rightarrow> False | Some _ \<Rightarrow> True)"

named_theorems printing

lemma renders_printable: "renders w e f v \<Longrightarrow> printable w e f"
  by (auto simp: printable_def)

lemma printable_plain: "no_braces s \<Longrightarrow> printable w e s"
  by (rule renders_printable, rule renders_plain)

text \<open>Behind a part that can be printed, what is left decides.\<close>

lemma renders_append_cancel:
  assumes f: "renders w e f a" and fg: "renders w e (f @ g) c"
  shows "\<exists>b. renders w e g b"
proof -
  let ?fmt = "py_format (event_attr w e)"
  have eq: "rbind (?fmt (g @ t)) (\<lambda>r. Inr (a @ r)) = rbind (?fmt t) (\<lambda>r. Inr (c @ r))" for t
    using f fg by (simp add: renders_def)
  from eq [of "[]"] obtain b where b: "?fmt g = Inr b" "a @ b = c"
    by (cases "?fmt g") auto
  have "?fmt (g @ t) = rbind (?fmt t) (\<lambda>r. Inr (b @ r))" for t
    using eq [of t] b(2) by (cases "?fmt t"; cases "?fmt (g @ t)") auto
  then show ?thesis by (auto simp: renders_def)
qed

lemma printable_append [printing]: "printable w e f \<Longrightarrow> printable w e (f @ g) = printable w e g"
  unfolding printable_def using renders_append renders_append_cancel by metis

lemma printable_fld [printing]: "no_braces n \<Longrightarrow> has_attr w e n \<Longrightarrow> printable w e (fld n)"
  by (auto simp: has_attr_def intro: renders_printable renders_fld split: option.splits)

lemma printable_header [printing]: "no_braces (concatenate_subcontext e) \<Longrightarrow> printable w e (SctEvent_msgfmt e)"
  by (rule renders_printable, rule renders_header)

lemma printable_if [printing]:
  "printable w e (if b then f else g) = (if b then printable w e f else printable w e g)"
  by simp

lemma printable_Nil [printing]: "printable w e []"
  by (rule printable_plain) (simp add: no_braces_def)

lemma printable_Cons [printing]: "c \<noteq> CHR ''{'' \<Longrightarrow> c \<noteq> CHR ''}'' \<Longrightarrow> printable w e (c # s) = printable w e s"
  using printable_append [OF printable_plain [of "[c]"], of w e s] by (simp add: no_braces_def)

lemma printable_nl [printing]: "printable w e nl"
  by (rule printable_plain) simp

lemma printable_SQ [printing]: "printable w e (SQ # s) = printable w e s"
  by (rule printable_Cons) (simp_all add: SQ_def)

lemma str_printable: "printable w e (msgfmt e) \<Longrightarrow> \<exists>s. str_event w e = Inr s"
  by (auto simp: printable_def dest: renders_str)

lemma attr_present [printing]: "dmem (attrs e) n \<Longrightarrow> has_attr w e n"
  by (auto simp: has_attr_def event_attr_def dmem_def split: option.splits)

lemma attr_in_base: "n \<in> fst ` set (base_attrs w e) \<Longrightarrow> has_attr w e n"
proof -
  assume "n \<in> fst ` set (base_attrs w e)"
  then have "dget (base_attrs w e) n \<noteq> None" by (simp add: map_of_eq_None_iff)
  then show ?thesis by (auto simp: has_attr_def event_attr_def)
qed

lemma attr_base [printing]: "has_attr w e ''type''"
  by (rule attr_in_base) (simp add: base_attrs_def)

lemma attr_true [printing]: "tattr e n \<Longrightarrow> has_attr w e n"
  by (auto simp: has_attr_def tattr_def event_attr_def split: option.splits)

lemma attr_set [printing]: "attr_not_none e n \<Longrightarrow> has_attr w e n"
  by (auto simp: has_attr_def attr_not_none_def event_attr_def split: option.splits)

lemma attr_cont:
  assumes "cont e = Some k" "n \<in> {''duration_formatted'', ''errors'', ''errors_formatted'', ''skip_reason''}"
  shows "has_attr w e n"
  using assms by (intro attr_in_base) (auto simp: base_attrs_def image_Un)

lemma attr_cont_shown [printing]:
  "duration e = Some d \<Longrightarrow> has_attr w e ''duration_formatted''"
  "errors_of e \<noteq> [] \<Longrightarrow> has_attr w e ''errors''"
  "errors_of e \<noteq> [] \<Longrightarrow> has_attr w e ''errors_formatted''"
  "has_skip_reason e \<Longrightarrow> has_attr w e ''skip_reason''"
  by (cases "cont e"; simp add: duration_def errors_of_def has_skip_reason_def attr_cont)+

lemma attr_log [printing]:
  "log e = Some l \<Longrightarrow> has_attr w e ''line_number''" "log e = Some l \<Longrightarrow> has_attr w e ''node''"
  "log e = Some l \<Longrightarrow> has_attr w e ''line''" "log e = Some l \<Longrightarrow> has_attr w e ''regex''"
  "log e = Some l \<Longrightarrow> has_attr w e ''known_issue''" "log e = Some l \<Longrightarrow> has_attr w e ''backtrace''"
  "log e = Some l \<Longrightarrow> has_attr w e ''raw_backtrace''"
  by (auto intro!: attr_in_base simp: base_attrs_def image_Un)

text \<open>Names without braces and the strings of the templates.\<close>

lemma no_braces_Cons [printing]: "c \<noteq> CHR ''{'' \<Longrightarrow> c \<noteq> CHR ''}'' \<Longrightarrow> no_braces (c # s) = no_braces s"
  by (simp add: no_braces_def)

lemma no_braces_empty [printing]: "no_braces []"
  by (simp add: no_braces_def)

lemmas template_defs =
  DisruptionEvent_msgfmt_def StressEvent_msgfmt_def CassandraHarryEvent_msgfmt_def GeminiStressEvent_msgfmt_def
  SchemaDisagreementErrorEvent_msgfmt_def ScyllaHelpErrorEvent_msgfmt_def
  ScyllaDatabaseContinuousEvent_msgfmt_def FullScanEvent_msgfmt_def msg_scan_def CompactionEvent_msgfmt_def
  PrometheusAlertManagerEvent_msgfmt_def ClusterHealthValidatorEvent_msgfmt_def DataValidatorEvent_msgfmt_def
  NodetoolEvent_msgfmt_def ElasticsearchEvent_msgfmt_def
  SpotTerminationEvent_msgfmt_def ScyllaRepoEvent_msgfmt_def TestStepEvent_msgfmt_def PerftuneResultEvent_msgfmt_def
  ThreadFailedEvent_msgfmt_def msg_message_def CoreDumpEvent_msgfmt_def
  WorkloadPrioritisationEvent_msgfmt_def GceInstanceEvent_msgfmt_def TestResultEvent_msgfmt_def
  attr_not_none_def [symmetric]

lemma printable_continuous [printing]:
  "no_braces (concatenate_subcontext e) \<Longrightarrow> printable w e (ContinuousEvent_msgfmt e)"
  by (cases "duration e") (simp_all add: ContinuousEvent_msgfmt_def printing)

lemma printable_log [printing]:
  assumes "no_braces (concatenate_subcontext e)"
  shows "printable w e (LogEvent_msgfmt e)"
  using assms by (cases "log e") (simp_all add: LogEvent_msgfmt_def printing)

lemma printable_framework [printing]:
  assumes "no_braces (concatenate_subcontext e)" "dmem (attrs e) ''source''"
  shows "printable w e (TestFrameworkEvent_msgfmt e)"
  using assms by (cases "tattr e ''args''"; cases "tattr e ''kwargs''") (simp_all add: TestFrameworkEvent_msgfmt_def printing)

lemma printable_timeout [printing]:
  assumes "no_braces (concatenate_subcontext e)" "no_braces (attr_text e ''start_time'')" "no_braces (attr_text e ''duration'')"
  shows "printable w e (TestTimeoutEvent_msgfmt e)"
  using assms by (simp add: TestTimeoutEvent_msgfmt_def printing printable_plain)

lemma printable_gemini [printing]:
  assumes "no_braces (concatenate_subcontext e)" "\<exists>l. log e = Some l"
  shows "printable w e (GeminiStressLogEvent_msgfmt e)"
  using assms by (auto simp: GeminiStressLogEvent_msgfmt_def printing)

lemma table_printable:
  assumes "well_formed e" "dget msgfmt_table (base e) = Some f"
  shows "printable w e (f e)"
proof -
  have nb: "no_braces (concatenate_subcontext e)" using assms(1) by (simp add: well_formed_def)
  have "(base e, f) \<in> set msgfmt_table" using assms(2) by (rule map_of_SomeD)
  then show ?thesis
    using assms(1) nb unfolding well_formed_def msgfmt_table_def
    by (simp only: list.set insert_iff empty_iff, elim disjE)
       (simp_all add: needed_table_def dget_default_def scan_attrs_def template_defs printing)
qed

lemma well_formed_prints:
  assumes "well_formed e"
  shows "\<exists>s. str_event w e = Inr s"
proof (rule str_printable, cases "dget msgfmt_table (base e)")
  case None
  have "no_braces (concatenate_subcontext e)" using assms by (simp add: well_formed_def)
  then show "printable w e (msgfmt e)" using None by (simp add: msgfmt_def printing)
next
  case (Some f)
  then show "printable w e (msgfmt e)" using table_printable [OF assms Some] by (simp add: msgfmt_def)
qed

end
