(* ===== verification/Made_Events.thy ===== *)
theory Made_Events
  imports Event_Printing
begin

text \<open>
  The events a program makes, by a constructor and then by the operations on events, as an inductive
  predicate; that each has what its template reads, and so can be printed.
\<close>

section \<open>Events of a run\<close>

text \<open>
  The events that a program makes: by a constructor, and then by the operations on events. The running
  disruptions that an event may list have names without braces.
\<close>

definition plain_names :: "nemesis_ref list \<Rightarrow> bool" where
  "plain_names ns = list_all (\<lambda>n. no_braces (n_name n)) ns"

inductive made_event :: "event \<Rightarrow> bool" where
  startup: "made_event (new_StartupTestEvent k)"
| timeout: "no_braces start \<Longrightarrow> made_event (new_TestTimeoutEvent k start minutes)"
| hw: "made_event (new_HWPerforanceEvent k message sev)"
| framework: "plain_names (mk_running k) \<Longrightarrow> made_event (new_TestFrameworkEvent k so sm as ks me ex tr sv)"
| soft_timeout: "plain_names (mk_running k) \<Longrightarrow> made_event (new_SoftTimeoutEvent k operation dur soft tr)"
| elastic: "plain_names (mk_running k) \<Longrightarrow> made_event (new_ElasticsearchEvent k doc err)"
| spot: "plain_names (mk_running k) \<Longrightarrow> made_event (new_SpotTerminationEvent k node message)"
| repo: "plain_names (mk_running k) \<Longrightarrow> made_event (new_ScyllaRepoEvent k url err)"
| cpu: "plain_names (mk_running k) \<Longrightarrow> made_event (new_CpuNotHighEnoughEvent k message sev)"
| step: "made_event (new_TestStepEvent k stp sev pub)"
| perftune: "plain_names (mk_running k) \<Longrightarrow> made_event (new_PerftuneResultEvent k message sev tr)"
| information: "made_event (new_InfoEvent k message sev)"
| thread_failed: "plain_names (mk_running k) \<Longrightarrow> made_event (new_ThreadFailedEvent k message tb)"
| aws_kms: "plain_names (mk_running k) \<Longrightarrow> made_event (new_AwsKmsEvent k message tb)"
| core_dump: "plain_names (mk_running k) \<Longrightarrow> made_event (new_CoreDumpEvent k node url bt di ts ex ver)"
| test_result: "plain_names (mk_running k) \<Longrightarrow> made_event (new_TestResultEvent k status events ts)"
| failed_result: "plain_names (mk_running k) \<Longrightarrow> made_event (new_FailedResultEvent k message sev)"
| help_error: "made_event (new_ScyllaHelpErrorEvent k t message_opt sev)"
| housekeeping: "plain_names (mk_running k) \<Longrightarrow> made_event (new_ScyllaHousekeepingServiceEvent k message sev)"
| index_column: "plain_names (mk_running k) \<Longrightarrow> made_event (new_IndexSpecialColumnErrorEvent k message sev)"
| commitlog: "plain_names (mk_running k) \<Longrightarrow> made_event (new_CommitLogCheckErrorEvent k message sev)"
| server_status: "made_event (new_ScyllaServerStatusEvent k node sev)"
| bootstrap: "made_event (new_BootstrapEvent k node sev)"
| full_scan: "made_event (new_FullScanEvent k node ks message_opt sev user password)"
| reversed_scan: "made_event (new_FullPartitionScanReversedOrderEvent k node ks message_opt sev)"
| partition_scan: "made_event (new_FullPartitionScanEvent k node ks message_opt sev)"
| tombstone: "made_event (new_TombstoneGcVerificationEvent k node ks message_opt sev)"
| aggregate: "made_event (new_FullScanAggregateEvent k node ks message_opt sev)"
| repair: "made_event (new_RepairEvent k node shard uuid sev)"
| compaction: "made_event (new_CompactionEvent k node shard table pid sev)"
| jmx: "made_event (new_JMXServiceEvent k node sev)"
| sysconfig: "made_event (new_ScyllaSysconfigSetupEvent k node sev)"
| yaml: "plain_names (mk_running k) \<Longrightarrow> made_event (new_ScyllaYamlUpdateEvent k node message_opt diff sev)"
| stress: "new_StressEvent k cls t node cmd lf errs sv pub = Inr e \<Longrightarrow> made_event e"
| hdr: "made_event (new_HDRFileMissed k message sev)"
| gemini: "made_event (new_GeminiStressEvent k node command lf sev pub)"
| gemini_log: "new_GeminiEvent k = Inr e \<Longrightarrow> made_event e"
| health: "made_event (new_ClusterHealthValidatorEvent k node_opt message_opt err_opt sev)"
| health_sub: "plain_names (mk_running k) \<Longrightarrow> made_event (health_sub_event k t node_opt message_opt err_opt sev)"
| validator: "plain_names (mk_running k) \<Longrightarrow> made_event (new_DataValidatorEvent k t message_opt err_opt sev)"
| rows: "plain_names (mk_running k) \<Longrightarrow> made_event (new_PartitionRowsValidationEvent k message sev)"
| nodetool: "made_event (new_NodetoolEvent k command sev node_opt options pub)"
| alert: "made_event (new_PrometheusAlertManagerEvent k a sev)"
| disruption: "made_event (new_DisruptionEvent k name node sev pub)"
| workload: "plain_names (mk_running k) \<Longrightarrow> made_event (new_WorkloadPrioritisationEvent k t message_opt sev)"
| gce: "made_event (new_GceInstanceEvent k g sev)"
| teardown: "plain_names (mk_running k) \<Longrightarrow> made_event (new_ValidatorEvent k message sev)"
| scrub: "plain_names (mk_running k) \<Longrightarrow> made_event (new_ScrubValidationErrorEvent k node link sev)"
| log_pattern: "p \<in> set all_log_patterns \<union> set SCYLLA_OPERATOR_EVENT_PATTERNS \<Longrightarrow> pattern_event p now u = Inr e \<Longrightarrow> made_event e"
| add_result: "made_event e \<Longrightarrow> made_event (gemini_add_result r e)"
| gemini_line: "made_event e \<Longrightarrow> gemini_add_info w now json node line_number e = Inr e1 \<Longrightarrow> made_event e1"
| operator_line: "made_event e \<Longrightarrow> made_event (operator_add_info now year node line e)"
| log_line: "made_event e \<Longrightarrow> plain_names running \<Longrightarrow> add_info parse running now node line line_number e = Inr e1 \<Longrightarrow>
    made_event e1"
| reactor_stall: "made_event e \<Longrightarrow> made_event (reactor_stalled_severity line e)"
| subcontext: "made_event e \<Longrightarrow> plain_names running \<Longrightarrow> made_event (add_subcontext running e)"
| error: "made_event e \<Longrightarrow> made_event (add_error errs e)"
| skipped: "made_event e \<Longrightarrow> made_event (skip reason e)"
| severity: "made_event e \<Longrightarrow> made_event (e\<lparr>severity := sev\<rparr>)"
| published: "made_event e \<Longrightarrow> made_event (fst (publish e))"
| received: "made_event e \<Longrightarrow> made_event (unpickle e)"

subsection \<open>They are well-formed\<close>

lemma made_simps [simp]:
  "base (made k b t mro sev) = b" "log (made k b t mro sev) = None" "cont (made k b t mro sev) = None"
  "subcontext (made k b t mro sev) = Some []" "attrs (made k b t mro sev) = []"
  by (simp_all add: made_def new_event_def)

lemma no_braces_append [simp]: "no_braces (a @ b) \<longleftrightarrow> no_braces a \<and> no_braces b"
  by (auto simp: no_braces_def)

lemma no_braces_join: "list_all no_braces xs \<Longrightarrow> no_braces d \<Longrightarrow> no_braces (py_join d xs)"
  by (induction d xs rule: py_join.induct) (auto simp: no_braces_def)

definition plain_context :: "event \<Rightarrow> bool" where
  "plain_context e = (case subcontext e of None \<Rightarrow> True | Some c \<Rightarrow> plain_names c)"

lemma plain_context_text: "plain_context e \<Longrightarrow> no_braces (concatenate_subcontext e)"
  unfolding plain_context_def concatenate_subcontext_def plain_names_def
  by (rule no_braces_join) (auto simp: list_all_iff no_braces_def split: option.splits)

lemma plain_add_nemeses: "plain_names ctx \<Longrightarrow> plain_names ns \<Longrightarrow> plain_names (add_nemeses ctx ns)"
  by (induction ctx ns rule: add_nemeses.induct) (auto simp: plain_names_def)

lemma plain_add_subcontext: "plain_context e \<Longrightarrow> plain_names running \<Longrightarrow> plain_context (add_subcontext running e)"
  by (auto simp: plain_context_def add_subcontext_def Let_def plain_names_def [of "[]"]
      intro!: plain_add_nemeses split: option.splits)

text \<open>Well-formed, with a subcontext of plain names: what every operation keeps.\<close>

definition event_ok :: "event \<Rightarrow> bool" where
  "event_ok e \<longleftrightarrow> plain_context e \<and> list_all (dmem (attrs e)) (dget_default needed_table (base e) []) \<and>
     (base e = ''GeminiStressLogEvent'' \<longrightarrow> log e \<noteq> None) \<and>
     no_braces (attr_text e ''start_time'') \<and> no_braces (attr_text e ''duration'')"

lemma event_ok_well_formed: "event_ok e \<Longrightarrow> well_formed e"
  by (simp add: event_ok_def well_formed_def plain_context_text)

lemma event_ok_cong:
  assumes "event_ok e" "base e1 = base e" "attrs e1 = attrs e" "log e \<noteq> None \<Longrightarrow> log e1 \<noteq> None" "plain_context e1"
  shows "event_ok e1"
  using assms by (simp add: event_ok_def attr_text_def)

lemma event_ok_sct:
  assumes "list_all (dmem as) (dget_default needed_table b [])" "b \<noteq> ''GeminiStressLogEvent''"
    and "no_braces (case dget as ''start_time'' of None \<Rightarrow> [] | Some v \<Rightarrow> py_str_opt v)"
    and "no_braces (case dget as ''duration'' of None \<Rightarrow> [] | Some v \<Rightarrow> py_str_opt v)"
  shows "event_ok (sct k b t sev as)" "event_ok (contin k b t sev pub errs hf as)"
    "plain_names (mk_running k) \<Longrightarrow> event_ok (info k b t sev as)"
  using assms plain_add_subcontext [of "(made k b t [''InformationalEvent'', ''SctEvent''] sev)\<lparr>period_type := INFORMATIONAL\<rparr>" "mk_running k"]
  by (simp_all add: event_ok_def sct_def contin_def continuous_init_def info_def informational_event_def
      attr_text_def plain_context_def plain_names_def)

lemma event_ok_upd [simp]:
  "event_ok (e\<lparr>severity := s\<rparr>) = event_ok e" "event_ok (e\<lparr>event_timestamp := ts\<rparr>) = event_ok e"
  "event_ok (e\<lparr>source_timestamp := ts\<rparr>) = event_ok e" "event_ok (e\<lparr>ready_to_publish := b\<rparr>) = event_ok e"
  "event_ok (e\<lparr>publish_to_grafana := b\<rparr>) = event_ok e" "event_ok (e\<lparr>save_to_files := b\<rparr>) = event_ok e"
  "event_ok (e\<lparr>log_level := l\<rparr>) = event_ok e" "event_ok (e\<lparr>period_type := p\<rparr>) = event_ok e"
  "event_ok (e\<lparr>cont := c\<rparr>) = event_ok e"
  by (simp_all add: event_ok_def attr_text_def plain_context_def)

lemma event_ok_log: "event_ok e \<Longrightarrow> event_ok (e\<lparr>log := map_option f (log e)\<rparr>)"
  by (auto simp: event_ok_def attr_text_def plain_context_def)

lemma no_braces_str_int: "no_braces (str_int n)"
proof -
  have "no_braces (str_nat m)" for m
    using str_nat_digits [of m] by (auto simp: no_braces_def list_all_iff is_digit_def char_code_def)
  then show ?thesis by (simp add: str_int_def no_braces_def)
qed

lemmas constructor_defs =
  new_StartupTestEvent_def new_TestTimeoutEvent_def new_HWPerforanceEvent_def new_TestFrameworkEvent_def
  test_framework_event_def new_SoftTimeoutEvent_def new_ElasticsearchEvent_def new_SpotTerminationEvent_def
  new_ScyllaRepoEvent_def new_CpuNotHighEnoughEvent_def new_TestStepEvent_def new_PerftuneResultEvent_def
  new_InfoEvent_def thread_failed_event_def new_ThreadFailedEvent_def new_AwsKmsEvent_def new_CoreDumpEvent_def
  new_TestResultEvent_def new_FailedResultEvent_def new_ScyllaHelpErrorEvent_def new_ScyllaHousekeepingServiceEvent_def
  new_IndexSpecialColumnErrorEvent_def new_CommitLogCheckErrorEvent_def db_continuous_def new_ScyllaServerStatusEvent_def
  new_BootstrapEvent_def new_FullScanEvent_def new_FullPartitionScanReversedOrderEvent_def new_FullPartitionScanEvent_def
  new_TombstoneGcVerificationEvent_def new_FullScanAggregateEvent_def new_RepairEvent_def new_CompactionEvent_def
  new_JMXServiceEvent_def new_ScyllaSysconfigSetupEvent_def new_ScyllaYamlUpdateEvent_def new_HDRFileMissed_def
  new_GeminiStressEvent_def new_ClusterHealthValidatorEvent_def new_DataValidatorEvent_def
  new_PartitionRowsValidationEvent_def new_NodetoolEvent_def new_PrometheusAlertManagerEvent_def
  new_DisruptionEvent_def new_WorkloadPrioritisationEvent_def new_GceInstanceEvent_def new_ValidatorEvent_def
  new_ScrubValidationErrorEvent_def

lemmas needs = needed_table_def dget_default_def scan_attrs_def dmem_def py_str_opt_def no_braces_empty no_braces_str_int

lemma event_ok_informational:
  assumes "event_ok e" "plain_names running"
  shows "event_ok (informational_event running e)"
proof -
  have "plain_context (e\<lparr>period_type := INFORMATIONAL\<rparr>)" using assms(1) by (simp add: event_ok_def plain_context_def)
  then have "plain_context (informational_event running e)"
    unfolding informational_event_def by (rule plain_add_subcontext) (rule assms(2))
  then show ?thesis by (intro event_ok_cong [OF assms(1)]) (simp_all add: informational_event_def)
qed

lemma event_ok_add_subcontext:
  assumes "event_ok e" "plain_names running"
  shows "event_ok (add_subcontext running e)"
  using assms plain_add_subcontext [of e running]
  by (intro event_ok_cong [OF assms(1)]) (simp_all add: event_ok_def)


lemma event_ok_cont_upd [simp]: "event_ok (upd_cont f e) = event_ok e"
  by (simp add: upd_cont_def)

lemma event_ok_attrs:
  assumes "event_ok e" "dget needed_table (base e) = None" "dget as ''start_time'' = None" "dget as ''duration'' = None"
  shows "event_ok (e\<lparr>attrs := as\<rparr>)"
  using assms by (simp add: event_ok_def dget_default_def attr_text_def plain_context_def no_braces_empty)

lemma event_ok_dset:
  assumes "event_ok e" "n \<noteq> ''start_time''" "n \<noteq> ''duration''"
  shows "event_ok (e\<lparr>attrs := dset n v (attrs e)\<rparr>)"
  using assms by (simp add: event_ok_def attr_text_def plain_context_def dget_dset dmem_def list_all_iff)

lemma event_ok_add_result: "event_ok e \<Longrightarrow> event_ok (gemini_add_result r e)"
  by (cases r) (simp_all add: gemini_add_result_def Let_def add_error_def event_ok_dset)

text \<open>Operations that keep the class, the attributes, the subcontext, and whether there is a log part.\<close>

definition same_frame :: "event \<Rightarrow> event \<Rightarrow> bool" where
  "same_frame e e1 \<longleftrightarrow> base e1 = base e \<and> attrs e1 = attrs e \<and> subcontext e1 = subcontext e \<and> (log e1 = None) = (log e = None)"

lemma event_ok_frame: "event_ok e \<Longrightarrow> same_frame e e1 \<Longrightarrow> event_ok e1"
  by (auto simp: same_frame_def event_ok_def attr_text_def plain_context_def)

lemma operator_frame: "same_frame e (operator_add_info now year node line e)"
  by (auto simp: same_frame_def operator_add_info_def Let_def split: list.splits sum.splits)

lemma gemini_frame: "gemini_add_info w now json node line_number e = Inr e1 \<Longrightarrow> same_frame e e1"
  by (auto simp: same_frame_def gemini_add_info_def rbind_Inr_iff Let_def split: option.splits)

lemma event_ok_add_info:
  assumes "event_ok e" "plain_names running" "add_info parse running now node line line_number e = Inr e1"
  shows "event_ok e1"
proof -
  from assms(3) obtain t where "e1 = (add_subcontext running
      ((case parse t of None \<Rightarrow> e | Some ts \<Rightarrow> e\<lparr>source_timestamp := Some ts\<rparr>)\<lparr>event_timestamp := Some now,
        log := map_option (\<lambda>l. l\<lparr>l_node := Some node, l_line := Some line, l_line_number := Some line_number\<rparr>)
          (log (case parse t of None \<Rightarrow> e | Some ts \<Rightarrow> e\<lparr>source_timestamp := Some ts\<rparr>))\<rparr>))\<lparr>ready_to_publish := True\<rparr>"
    (is "_ = (add_subcontext running ?e2)\<lparr>ready_to_publish := True\<rparr>")
    by (auto simp: add_info_def rbind_Inr_iff Let_def)
  moreover have "same_frame e ?e2" by (simp add: same_frame_def split: option.splits)
  ultimately show ?thesis using event_ok_add_subcontext [OF event_ok_frame [OF assms(1)] assms(2)] by simp
qed

lemma log_event_init_frame:
  "log_event_init running rx e = Inr e1 \<Longrightarrow>
   base e1 = base e \<and> attrs e1 = attrs e \<and> log e1 \<noteq> None \<and> subcontext e1 = Some []"
  by (auto simp: log_event_init_def Let_def informational_event_def simp del: py_count.simps split: if_splits)

lemma event_ok_log_init:
  assumes "log_event_init running rx e = Inr e1" "attrs e = []" "dget needed_table (base e) = None"
  shows "event_ok e1"
  using log_event_init_frame [OF assms(1)] assms(2,3)
  by (simp add: event_ok_def dget_default_def plain_context_def plain_names_def attr_text_def no_braces_empty)


lemma made_event_ok: "made_event e \<Longrightarrow> event_ok e"
proof (induction rule: made_event.induct)
  case (startup k)
  then show ?case by (simp add: constructor_defs event_ok_def needs plain_context_def plain_names_def attr_text_def)
next
  case (stress k cls t node cmd lf errs sv pub e)
  have "list_all (\<lambda>c. case dget needed_table c of None \<Rightarrow> True | Some ns \<Rightarrow> ns = [''node'', ''stress_cmd''])
      (concrete_stress_classes @ map fst abstract_stress_classes) \<and>
      ''GeminiStressLogEvent'' \<notin> set (concrete_stress_classes @ map fst abstract_stress_classes)" by code_simp
  moreover from stress have "cls \<in> set (concrete_stress_classes @ map fst abstract_stress_classes)"
    by (auto simp: new_StressEvent_def Let_def image_iff dest!: map_of_SomeD split: option.splits if_splits) force+
  ultimately have "case dget needed_table cls of None \<Rightarrow> True | Some ns \<Rightarrow> ns = [''node'', ''stress_cmd'']"
    "cls \<noteq> ''GeminiStressLogEvent''" by (auto simp: list_all_iff)
  with stress show ?case
    by (auto simp: new_StressEvent_def Let_def dget_default_def dmem_def no_braces_empty intro!: event_ok_sct split: option.splits if_splits)
next
  case (gemini_log k e)
  then show ?case unfolding new_GeminiEvent_def by (rule event_ok_log_init) (simp_all add: needed_table_def)
next
  case (log_pattern p now u e)
  have "list_all (\<lambda>p. dget needed_table (lp_base p) = None) (all_log_patterns @ SCYLLA_OPERATOR_EVENT_PATTERNS)" by code_simp
  with log_pattern have "dget needed_table (lp_base p) = None" by (auto simp: list_all_iff)
  with log_pattern(2) show ?case
    by (auto simp: pattern_event_def new_event_def rbind_Inr_iff intro: event_ok_log_init)
next
  case (gemini_line e w now json node line_number e1)
  then show ?case by (blast intro: event_ok_frame gemini_frame)
next
  case (operator_line e now year node line)
  then show ?case by (blast intro: event_ok_frame operator_frame)
next
  case (log_line e running parse now node line line_number e1)
  then show ?case by (blast intro: event_ok_add_info)
next
  case (health_sub k t node_opt message_opt err_opt sev)
  have "event_ok (contin k ''ClusterHealthValidatorEvent'' (Some t) sev True [] [mk_uid k] [])"
    by (rule event_ok_sct) (simp_all add: needs)
  then show ?case
    unfolding health_sub_event_def using health_sub
    by (intro event_ok_attrs event_ok_informational) (simp_all add: informational_event_def contin_def continuous_init_def needs)
next
  case (received e)
  then show ?case by (intro event_ok_frame [OF received.IH]) (simp add: same_frame_def unpickle_def)
qed (simp_all add: constructor_defs Let_def needs reactor_stalled_severity_def add_error_def skip_def publish_def
      event_ok_sct event_ok_add_subcontext event_ok_informational event_ok_add_result
      split: option.splits)



section \<open>Nodetool commands\<close>

lemma py_words_acc_word: "list_all (\<lambda>c. \<not> is_space c) a \<Longrightarrow> py_words_acc w (a @ b) = py_words_acc (rev a @ w) b"
  by (induction a arbitrary: w) simp_all

lemma py_words_word:
  assumes "a \<noteq> []" "list_all (\<lambda>c. \<not> is_space c) a"
  shows "py_words a = [a]" "py_words (a @ '' '' @ b) = a # py_words b"
  using assms py_words_acc_word [OF assms(2), of "[]"] py_words_acc_word [OF assms(2), of "[]" "[]"]
  by (simp_all add: py_words_def is_space_def char_code_def)

lemma py_words_are_words: "x \<in> set (py_words s) \<Longrightarrow> x \<noteq> [] \<and> list_all (\<lambda>c. \<not> is_space c) x"
proof -
  have "list_all (\<lambda>c. \<not> is_space c) w \<Longrightarrow> x \<in> set (py_words_acc w s) \<Longrightarrow> x \<noteq> [] \<and> list_all (\<lambda>c. \<not> is_space c) x" for w
    by (induction w s rule: py_words_acc.induct) (auto split: if_splits)
  from this [of "[]"] show "x \<in> set (py_words s) \<Longrightarrow> ?thesis" by (simp add: py_words_def)
qed

lemma py_words_join:
  assumes "list_all (\<lambda>x. x \<noteq> [] \<and> list_all (\<lambda>c. \<not> is_space c) x) ws"
  shows "py_words (py_join '' '' ws) = ws" "py_words (py_join '' '' (ws @ [s])) = ws @ py_words s"
  using assms
proof (induction ws)
  case (Cons a ws)
  { case 1
    then show ?case using Cons py_words_word [of a] by (cases ws) simp_all }
  { case 2
    then show ?case using Cons py_words_word [of a] by (cases ws) simp_all }
qed (simp_all add: py_words_def)

definition opt_words :: "string option \<Rightarrow> string list" where
  "opt_words x = (case x of None \<Rightarrow> [] | Some s \<Rightarrow> py_words s)"

text \<open>
  Normalising a nodetool command loses and reorders nothing: the words of the command followed by
  those of the options are the same before and after, the command is left with at most one word, and
  normalising again changes nothing.
\<close>

theorem nodetool_command_words:
  "let c = NodetoolCommand cmd options in
     py_words (nt_cmd c) @ opt_words (nt_options c) = py_words cmd @ opt_words options \<and>
     length (py_words (nt_cmd c)) \<le> 1 \<and> NodetoolCommand (nt_cmd c) (nt_options c) = c"
proof (cases "py_words cmd" rule: remdups_adj.cases)
  case (3 a b ws)
  have w: "list_all (\<lambda>x. x \<noteq> [] \<and> list_all (\<lambda>c. \<not> is_space c) x) (a # b # ws)"
    using py_words_are_words [of _ cmd] 3 by (auto simp: list_all_iff)
  then have "py_words a = [a]" using py_words_word [of a] by simp
  moreover have "opt_words (Some (py_join '' '' ((b # ws) @ (if tstr options then [the options] else [])))) =
      (b # ws) @ opt_words options"
    using py_words_join [of "b # ws"] w
    by (cases options) (auto simp: opt_words_def tstr_def py_words_def)
  ultimately show ?thesis by (simp add: NodetoolCommand_def 3 Let_def)
qed (simp_all add: NodetoolCommand_def)

end
