(* ===== verification/Node_Status.thy ===== *)
theory Node_Status
  imports Event_Init
begin

text \<open>
  What a node says of the cluster, in \<open>sdcm/cluster.py\<close>: the output of \<open>nodetool status\<close> and
  \<open>nodetool gossipinfo\<close> and the rows of \<open>system.peers\<close>, turned into dictionaries by node; and the
  methods of the cluster that look at them. The addresses are those of Python's module \<open>ipaddress\<close>.
\<close>

section \<open>Addresses\<close>

text \<open>\<open>ipaddress.ip_address(s).exploded\<close>: an IPv4 address is kept, an IPv6 address is written in full.\<close>

definition octet_ok :: "string \<Rightarrow> bool" where
  "octet_ok s \<longleftrightarrow> s \<noteq> [] \<and> list_all is_digit s \<and> length s \<le> 3 \<and> (length s = 1 \<or> hd s \<noteq> CHR ''0'') \<and> nat_of_digits s \<le> 255"

definition is_ipv4 :: "string \<Rightarrow> bool" where
  "is_ipv4 s \<longleftrightarrow> length (py_split (CHR ''.'') s) = 4 \<and> list_all octet_ok (py_split (CHR ''.'') s)"

definition hex_value :: "char \<Rightarrow> nat option" where
  "hex_value c = (let n = char_code c in
     if is_digit c then Some (n - 48)
     else if 97 \<le> n \<and> n \<le> 102 then Some (n - 87)
     else if 65 \<le> n \<and> n \<le> 70 then Some (n - 55) else None)"

fun hextet_from :: "nat \<Rightarrow> string \<Rightarrow> nat option" where
  "hextet_from a [] = Some a"
| "hextet_from a (c # s) = (case hex_value c of None \<Rightarrow> None | Some d \<Rightarrow> hextet_from (16 * a + d) s)"

definition hextet :: "string \<Rightarrow> nat option" where
  "hextet s = (if s = [] \<or> 4 < length s then None else hextet_from 0 s)"

definition hex_char :: "nat \<Rightarrow> char" where
  "hex_char d = (if d < 10 then char_of (48 + d) else char_of (87 + d))"

definition hex4 :: "nat \<Rightarrow> string" where
  "hex4 n = [hex_char (n div 4096 mod 16), hex_char (n div 256 mod 16), hex_char (n div 16 mod 16), hex_char (n mod 16)]"

fun sequence :: "'a option list \<Rightarrow> 'a list option" where
  "sequence [] = Some []"
| "sequence (x # xs) = (case x of None \<Rightarrow> None | Some y \<Rightarrow> map_option ((#) y) (sequence xs))"

text \<open>The hextets of an IPv4 address at the end of an IPv6 address.\<close>

definition v4_tail :: "string list \<Rightarrow> string list option" where
  "v4_tail parts = (if CHR ''.'' \<notin> set (last parts) then Some parts
     else if \<not> is_ipv4 (last parts) then None
     else (case map nat_of_digits (py_split (CHR ''.'') (last parts)) of
         [a, b, c, d] \<Rightarrow> Some (butlast parts @ [hex4 (256 * a + b), hex4 (256 * c + d)])
       | _ \<Rightarrow> None))"

text \<open>The eight hextets; an empty part inside stands for as many zeros as are missing.\<close>

definition v6_groups :: "string list \<Rightarrow> nat list option" where
  "v6_groups parts = (if 9 < length parts then None else
     (case filter (\<lambda>i. parts ! i = []) [1..<length parts - 1] of
        [] \<Rightarrow> if length parts = 8 then sequence (map hextet parts) else None
      | [i] \<Rightarrow>
          (let hi = take i parts; lo = drop (i + 1) parts;
               hi' = (if hd parts = [] then tl hi else hi);
               lo' = (if last parts = [] then butlast lo else lo) in
           if (hd parts = [] \<and> hi' \<noteq> []) \<or> (last parts = [] \<and> lo' \<noteq> []) \<or> 7 < length hi' + length lo' then None
           else sequence (map hextet hi' @ replicate (8 - (length hi' + length lo')) (Some 0) @ map hextet lo'))
      | _ \<Rightarrow> None))"

definition exploded :: "string \<Rightarrow> string res" where
  "exploded s = (if is_ipv4 s then Inr s
     else if CHR ''/'' \<in> set s \<or> CHR ''%'' \<in> set s then Inl ValueError
     else (let parts = py_split (CHR '':'') s in
       if length parts < 3 then Inl ValueError
       else (case Option.bind (v4_tail parts) v6_groups of
           None \<Rightarrow> Inl ValueError
         | Some gs \<Rightarrow> Inr (py_join '':'' (map hex4 gs)))))"

section \<open>Nodes\<close>

record hnode =
  hn_name :: string
  hn_ip :: string
  hn_all_ips :: "string list"
  hn_text :: string          \<comment> \<open>\<open>str(node)\<close>\<close>
  hn_nemesis :: "string option"
  hn_seed :: bool

definition get_ip_to_node_map :: "hnode list \<Rightarrow> (string, hnode) dict" where
  "get_ip_to_node_map nodes = fold (\<lambda>(ip, n) d. dset ip n d) (concat (map (\<lambda>n. map (\<lambda>ip. (ip, n)) (hn_all_ips n)) nodes)) []"

text \<open>\<open>get_node_by_ip\<close> without a data center.\<close>

definition get_node_by_ip :: "hnode list \<Rightarrow> string \<Rightarrow> hnode option" where
  "get_node_by_ip nodes ip = find (\<lambda>n. hn_ip n = ip) nodes"

definition print_node_running_nemesis :: "hnode list \<Rightarrow> string \<Rightarrow> string" where
  "print_node_running_nemesis nodes ip = (case get_node_by_ip nodes ip of
     None \<Rightarrow> []
   | Some n \<Rightarrow> if tstr (hn_nemesis n) then '' ('' @ the (hn_nemesis n) @ '' nemesis target node)'' else '' (not target node)'')"

section \<open>nodetool status\<close>

record status_info =
  si_state :: string
  si_load :: string
  si_tokens :: string
  si_owns :: string
  si_host_id :: string
  si_rack :: string

type_synonym cluster_status = "(string, (string, status_info) dict) dict"

definition status_pattern :: string where
  "status_pattern = raw ''(?P<state>~w{2})~s+(?P<ip>[~w:.]+)~s+(?P<load>[~d.]+ [~w]+|~?)~s+(?P<tokens>[~d]+)~s+(?P<owns>[~w?]+)~s+(?P<host_id>[~w-]+)~s+(?P<rack>[~w]+|$)''"

definition group_text :: "re_match \<Rightarrow> string \<Rightarrow> string" where
  "group_text m n = (case m_group m n of None \<Rightarrow> [] | Some s \<Rightarrow> s)"

text \<open>On Kubernetes an address of a node other than its own address is replaced by that one.\<close>

definition k8s_ip :: "bool \<Rightarrow> hnode list \<Rightarrow> string \<Rightarrow> string" where
  "k8s_ip k8s nodes ip = (if k8s
     then fold (\<lambda>n i. if i \<in> set (hn_all_ips n) \<and> i \<noteq> hn_ip n then hn_ip n else i) nodes ip else ip)"

definition status_line :: "bool \<Rightarrow> hnode list \<Rightarrow> string \<Rightarrow> (string \<times> status_info) option res" where
  "status_line k8s nodes line = (case pat_match no_flags status_pattern line of
     None \<Rightarrow> Inr None
   | Some m \<Rightarrow> rbind (exploded (group_text m ''ip'')) (\<lambda>ip. Inr (Some (k8s_ip k8s nodes ip,
       \<lparr>si_state = group_text m ''state'', si_load = filter (\<lambda>c. c \<noteq> CHR '' '') (group_text m ''load''),
        si_tokens = group_text m ''tokens'', si_owns = group_text m ''owns'',
        si_host_id = group_text m ''host_id'', si_rack = group_text m ''rack''\<rparr>))))"

fun status_lines :: "bool \<Rightarrow> hnode list \<Rightarrow> string list \<Rightarrow> (string, status_info) dict \<Rightarrow> (string, status_info) dict res" where
  "status_lines k8s nodes [] d = Inr d"
| "status_lines k8s nodes (l # ls) d = rbind (status_line k8s nodes l) (\<lambda>x.
     status_lines k8s nodes ls (case x of None \<Rightarrow> d | Some (ip, si) \<Rightarrow> dset ip si d))"

fun status_dcs :: "bool \<Rightarrow> hnode list \<Rightarrow> string list \<Rightarrow> cluster_status \<Rightarrow> cluster_status res" where
  "status_dcs k8s nodes [] st = Inr st"
| "status_dcs k8s nodes (dc # dcs) st = (if dc = [] then status_dcs k8s nodes dcs st
     else (case py_splitlines dc of
         [] \<Rightarrow> Inl IndexError
       | dc_name # ls \<Rightarrow> rbind (status_lines k8s nodes ls []) (\<lambda>d. status_dcs k8s nodes dcs (dset dc_name d st))))"

text \<open>One try of \<open>get_nodetool_status\<close> on the output of the command.\<close>

definition get_nodetool_status :: "bool \<Rightarrow> hnode list \<Rightarrow> string \<Rightarrow> cluster_status res" where
  "get_nodetool_status k8s nodes out = status_dcs k8s nodes (py_split_on ''Datacenter: '' [] out) []"

record node_status =
  ns_status :: string
  ns_dc :: string
  ns_rack :: string

type_synonym nodes_status = "(hnode, node_status) dict"

definition add_dc_status :: "(string, hnode) dict \<Rightarrow> string \<times> (string, status_info) dict \<Rightarrow> nodes_status \<Rightarrow> nodes_status" where
  "add_dc_status m x d = (case x of (dc, sts) \<Rightarrow> fold (\<lambda>(ip, si) d. case dget m ip of
       None \<Rightarrow> d
     | Some n \<Rightarrow> dset n \<lparr>ns_status = si_state si, ns_dc = dc, ns_rack = si_rack si\<rparr> d) sts d)"

text \<open>\<open>BaseNode.get_nodes_status\<close>: an exception gives the empty dictionary and a warning event.\<close>

definition get_nodes_status :: "maker \<Rightarrow> hnode list \<Rightarrow> hnode \<Rightarrow> cluster_status res \<Rightarrow> (py_error \<Rightarrow> string) \<Rightarrow> nodes_status \<times> event list" where
  "get_nodes_status k nodes cur statuses err_text = (case statuses of
     Inl e \<Rightarrow> ([], snd (publish (health_sub_event k ''NodeStatus'' (Some (hn_name cur))
       (Some (''Unable to get nodetool status from `'' @ hn_name cur @ [SQ] @ '': error='' @ err_text e)) None WARNING)))
   | Inr st \<Rightarrow> (fold (add_dc_status (get_ip_to_node_map nodes)) st [], []))"

text \<open>The first data center with an entry for the address, and what the cluster makes of it.\<close>

definition find_status :: "cluster_status \<Rightarrow> string \<Rightarrow> status_info option" where
  "find_status st ip = (case filter (\<lambda>x. x \<noteq> None) (map (\<lambda>(dc, d). dget d ip) st) of [] \<Rightarrow> None | x # _ \<Rightarrow> x)"

definition check_nodes_up_and_normal :: "cluster_status \<Rightarrow> hnode list \<Rightarrow> hnode list \<Rightarrow> unit res" where
  "check_nodes_up_and_normal st all_nodes nodes =
     (let nodes' = (if nodes = [] then all_nodes else nodes);
          ups = map (\<lambda>n. case find_status st (hn_ip n) of None \<Rightarrow> False | Some si \<Rightarrow> si_state si = ''UN'') nodes' in
      if list_all (\<lambda>b. b) ups then Inr () else Inl (UnknownException ''ClusterNodesNotReady''))"

definition get_nodes_up_and_normal :: "cluster_status \<Rightarrow> hnode list \<Rightarrow> hnode list" where
  "get_nodes_up_and_normal st nodes = concat (map (\<lambda>n. concat (map (\<lambda>(dc, d).
     case dget d (hn_ip n) of None \<Rightarrow> [] | Some si \<Rightarrow> if si_state si = ''UN'' then [n] else []) st)) nodes)"

definition get_node_status_dictionary :: "cluster_status \<Rightarrow> string option \<Rightarrow> status_info option" where
  "get_node_status_dictionary st ip = (case ip of None \<Rightarrow> None | Some i \<Rightarrow> find_status st i)"

section \<open>Gossip\<close>

record gossip_entry =
  g_schema :: string
  g_status :: string
  g_dc :: string

type_synonym gossip_info = "(hnode, gossip_entry) dict"

record gossip_scan =
  gs_schema :: string
  gs_ip :: string
  gs_status :: string
  gs_dc :: string
  gs_found :: gossip_info

definition empty_scan :: "gossip_info \<Rightarrow> gossip_scan" where
  "empty_scan d = \<lparr>gs_schema = [], gs_ip = [], gs_status = [], gs_dc = [], gs_found = d\<rparr>"

definition first_field :: "string \<Rightarrow> string" where
  "first_field s = hd (py_split (CHR '','') s)"

definition gossip_word :: "gossip_scan \<Rightarrow> string \<Rightarrow> gossip_scan res" where
  "gossip_word s w =
     (if starts_with w ''SCHEMA:'' then Inr (s\<lparr>gs_schema := py_remove ''SCHEMA:'' w\<rparr>)
      else if starts_with w ''RPC_ADDRESS:'' then rbind (exploded (py_remove ''RPC_ADDRESS:'' w)) (\<lambda>ip. Inr (s\<lparr>gs_ip := ip\<rparr>))
      else if starts_with w ''STATUS:'' then Inr (s\<lparr>gs_status := first_field (py_remove ''STATUS:'' w)\<rparr>)
      else if starts_with w ''DC:'' then Inr (s\<lparr>gs_dc := first_field (py_remove ''DC:'' w)\<rparr>)
      else Inr s)"

definition gossip_store :: "(string, hnode) dict \<Rightarrow> gossip_scan \<Rightarrow> gossip_scan" where
  "gossip_store m s = (if gs_schema s \<noteq> [] \<and> gs_ip s \<noteq> [] \<and> gs_status s \<noteq> []
     then empty_scan (case dget m (gs_ip s) of
         None \<Rightarrow> gs_found s
       | Some n \<Rightarrow> dset n \<lparr>g_schema = gs_schema s, g_status = gs_status s, g_dc = gs_dc s\<rparr> (gs_found s))
     else s)"

fun gossip_words :: "(string, hnode) dict \<Rightarrow> gossip_scan \<Rightarrow> string list \<Rightarrow> gossip_scan res" where
  "gossip_words m s [] = Inr s"
| "gossip_words m s (w # ws) = rbind (gossip_word s w) (\<lambda>s1. gossip_words m (gossip_store m s1) ws)"

text \<open>One try of \<open>get_gossip_info\<close> on the output of the command.\<close>

definition get_gossip_info :: "hnode list \<Rightarrow> string \<Rightarrow> gossip_info res" where
  "get_gossip_info nodes out =
     rbind (gossip_words (get_ip_to_node_map nodes) (empty_scan []) (py_words out)) (\<lambda>s. Inr (gs_found s))"

section \<open>Peers\<close>

text \<open>A row of \<open>system.peers\<close> as the driver gives it: a column that is null is \<open>None\<close>.\<close>

record peer_row =
  p_peer :: string
  p_data_center :: "string option"
  p_host_id :: "string option"
  p_rack :: "string option"
  p_release_version :: "string option"
  p_rpc_address :: "string option"
  p_schema_version :: "string option"
  p_supported_features :: "string option"

type_synonym peers_info = "(hnode, peer_row) dict"

definition row_values :: "peer_row \<Rightarrow> string option list" where
  "row_values r = [Some (p_peer r), p_data_center r, p_host_id r, p_rack r, p_release_version r, p_rpc_address r,
     p_schema_version r, p_supported_features r]"

definition schema_version :: "peer_row \<Rightarrow> string" where
  "schema_version r = (case p_schema_version r of None \<Rightarrow> ''None'' | Some s \<Rightarrow> s)"

definition get_peers_info :: "hnode list \<Rightarrow> peer_row list \<Rightarrow> peers_info" where
  "get_peers_info nodes rows = fold (\<lambda>r d. case exploded (p_peer r) of
       Inl _ \<Rightarrow> d
     | Inr ip \<Rightarrow> (case dget (get_ip_to_node_map nodes) ip of None \<Rightarrow> d | Some n \<Rightarrow> dset n r d)) rows []"


section \<open>The long format of an address\<close>

lemma hex_digit_facts:
  assumes "d < 16"
  shows "hex_value (hex_char d) = Some d" and "hex_char d \<notin> {CHR '':'', CHR ''.'', CHR ''/'', CHR ''%''}"
proof -
  have code: "char_code (hex_char d) = (if d < 10 then 48 + d else 87 + d)"
    using assms by (simp add: hex_char_def char_code_def)
  then show "hex_value (hex_char d) = Some d" using assms by (auto simp: hex_value_def is_digit_def)
  show "hex_char d \<notin> {CHR '':'', CHR ''.'', CHR ''/'', CHR ''%''}"
  proof
    assume "hex_char d \<in> {CHR '':'', CHR ''.'', CHR ''/'', CHR ''%''}"
    then have "char_code (hex_char d) \<in> {58, 46, 47, 37}" by (auto simp: char_code_def)
    with code assms show False by (simp split: if_splits)
  qed
qed

lemma hextet_digits:
  assumes "a < 16" and "b < 16" and "c < 16" and "d < 16"
  shows "hextet [hex_char a, hex_char b, hex_char c, hex_char d] = Some (16 * (16 * (16 * a + b) + c) + d)"
  by (simp add: hextet_def hex_digit_facts(1) assms)

lemma base16: "16 * (n div (16 * m)) + n div m mod 16 = n div (m :: nat)"
  by (metis div_mult2_eq mult.commute mult_div_mod_eq)

lemma hextet_hex4:
  assumes "n < 65536"
  shows "hextet (hex4 n) = Some n"
proof -
  have "n div 4096 mod 16 = n div 4096" using assms by (simp add: div_less_iff_less_mult)
  with base16[of n 256] base16[of n 16] base16[of n 1]
  have "16 * (16 * (16 * (n div 4096 mod 16) + n div 256 mod 16) + n div 16 mod 16) + n mod 16 = n" by simp
  moreover have "hextet (hex4 n) = Some (16 * (16 * (16 * (n div 4096 mod 16) + n div 256 mod 16) + n div 16 mod 16) + n mod 16)"
    unfolding hex4_def by (rule hextet_digits) (rule mod_less_divisor, rule zero_less_numeral)+
  ultimately show ?thesis by (simp only:)
qed

lemma hex4_not_Nil [simp]: "hex4 n \<noteq> []"
  by (simp add: hex4_def)

lemma hex_char_mod: "hex_char (m mod 16) \<notin> {CHR '':'', CHR ''.'', CHR ''/'', CHR ''%''}"
  by (rule hex_digit_facts(2)) simp

lemma hex4_chars: "c \<in> set (hex4 n) \<Longrightarrow> c \<notin> {CHR '':'', CHR ''.'', CHR ''/'', CHR ''%''}"
  using hex_char_mod[of "n div 4096"] hex_char_mod[of "n div 256"] hex_char_mod[of "n div 16"] hex_char_mod[of n]
  unfolding hex4_def list.set by (elim insertE emptyE) (simp_all only: not_False_eq_True)

lemma sequence_Some: "sequence (map Some xs) = Some xs"
  by (induction xs) auto

lemma sequence_length: "sequence xs = Some ys \<Longrightarrow> length ys = length xs \<and> (\<forall>y\<in>set ys. Some y \<in> set xs)"
  by (induction xs arbitrary: ys) (auto split: option.splits)

lemma hextet_bound:
  assumes "hextet s = Some n"
  shows "n < 65536"
proof -
  have digit: "hex_value c = Some d \<Longrightarrow> d < 16" for c d
    by (auto simp: hex_value_def Let_def is_digit_def split: if_splits)
  have grow: "hextet_from a s = Some n \<Longrightarrow> n < (a + 1) * 16 ^ length s" for a s n
  proof (induction s arbitrary: a)
    case (Cons c s)
    then obtain d where d: "d < 16" and "hextet_from (16 * a + d) s = Some n" by (auto split: option.splits dest: digit)
    with Cons.IH have "n < (16 * a + d + 1) * 16 ^ length s" by blast
    also have "\<dots> \<le> ((a + 1) * 16) * 16 ^ length s" using d by (intro mult_le_mono1) simp
    finally show ?case by (simp add: algebra_simps)
  qed simp
  have "n < 16 ^ length s" and "length s \<le> 4" using assms grow[of 0 s n] by (auto simp: hextet_def split: if_splits)
  then show ?thesis using power_increasing[of "length s" 4 "16 :: nat"] by simp
qed

lemma v6_groups_range:
  assumes "v6_groups parts = Some gs"
  shows "length gs = 8 \<and> (\<forall>g\<in>set gs. g < 65536)"
  using assms hextet_bound
  by (auto simp: v6_groups_def Let_def split: if_splits list.splits dest!: sequence_length) (auto dest: sym)

text \<open>The eight groups written out are read as the same groups.\<close>

lemma v6_groups_hex4:
  assumes "length gs = 8" and "\<forall>g\<in>set gs. g < 65536"
  shows "v6_groups (map hex4 gs) = Some gs"
proof -
  have "map hextet (map hex4 gs) = map Some gs" using assms(2) by (simp add: hextet_hex4)
  moreover have "filter (\<lambda>i. map hex4 gs ! i = []) [1..<length (map hex4 gs) - 1] = []"
    by (auto simp: filter_empty_conv)
  ultimately show ?thesis using assms(1) by (simp add: v6_groups_def sequence_Some del: map_map)
qed

lemma long_format_chars:
  assumes "c \<in> {CHR ''.'', CHR ''/'', CHR ''%''}"
  shows "c \<notin> set (py_join '':'' (map hex4 gs))"
proof
  assume "c \<in> set (py_join '':'' (map hex4 gs))"
  then have "c \<in> set '':'' \<union> \<Union> (set ` set (map hex4 gs))" using set_py_join by (rule rev_subsetD)
  with assms show False using hex4_chars[of c] by auto
qed

lemma exploded_v6:
  assumes "length gs = 8" and "\<forall>g\<in>set gs. g < 65536"
  shows "exploded (py_join '':'' (map hex4 gs)) = Inr (py_join '':'' (map hex4 gs))"
proof -
  let ?t = "py_join '':'' (map hex4 gs)"
  have gs: "gs \<noteq> []" using assms(1) by auto
  have chars: "CHR ''.'' \<notin> set ?t" "CHR ''/'' \<notin> set ?t" "CHR ''%'' \<notin> set ?t" by (simp_all add: long_format_chars)
  have v4: "\<not> is_ipv4 ?t" using chars(1) by (simp add: is_ipv4_def py_split_def py_split_acc_no_sep)
  have colon: "CHR '':'' \<notin> set (hex4 g)" and dot: "CHR ''.'' \<notin> set (hex4 g)" for g using hex4_chars[of _ g] by blast+
  have parts: "py_split (CHR '':'') ?t = map hex4 gs" using gs colon by (simp add: py_split_join)
  have tail: "v4_tail (map hex4 gs) = Some (map hex4 gs)" using gs dot by (simp add: v4_tail_def last_map)
  show ?thesis unfolding exploded_def Let_def parts tail using chars v4 assms v6_groups_hex4[OF assms] by simp
qed

text \<open>
  The long format of an address is a normal form: writing it in full again changes nothing. So two
  tools that abbreviate an IPv6 address differently give the same key of the dictionaries by node.
\<close>

theorem exploded_idempotent:
  assumes "exploded s = Inr t"
  shows "exploded t = Inr t"
proof (cases "is_ipv4 s")
  case True
  with assms show ?thesis by (auto simp: exploded_def)
next
  case False
  with assms obtain parts gs where "v6_groups parts = Some gs" and "t = py_join '':'' (map hex4 gs)"
    by (auto simp: exploded_def Let_def bind_eq_Some_conv split: if_splits option.splits)
  with v6_groups_range show ?thesis by (auto intro: exploded_v6)
qed

lemma sample_groups: "v6_groups [''fe80'', '''', ''1'', ''2''] = Some [65152, 0, 0, 0, 0, 0, 1, 2]"
proof -
  have "filter (\<lambda>i. [''fe80'', '''', ''1'', ''2''] ! i = []) [1..<length [''fe80'', '''', ''1'', ''2''] - 1] = [1]"
    by (simp add: upt_rec)
  moreover have "replicate (8 - Suc (Suc (Suc 0))) (Some 0) = [Some 0, Some 0, Some 0, Some 0, Some (0 :: nat)]"
    by (simp add: numeral_eq_Suc)
  moreover have "hextet ''fe80'' = Some 65152" "hextet ''1'' = Some 1" "hextet ''2'' = Some 2"
    by (simp_all add: hextet_def hex_value_def is_digit_def char_code_def)
  ultimately show ?thesis by (simp add: v6_groups_def Let_def)
qed

lemma sample_exploded: "exploded ''fe80::1:2'' = Inr (py_join '':'' (map hex4 [65152, 0, 0, 0, 0, 0, 1, 2]))"
proof -
  have "py_split (CHR '':'') ''fe80::1:2'' = [''fe80'', '''', ''1'', ''2'']" by (simp add: py_split_def)
  moreover have "v4_tail [''fe80'', '''', ''1'', ''2''] = Some [''fe80'', '''', ''1'', ''2'']" by (simp add: v4_tail_def)
  moreover have "\<not> is_ipv4 ''fe80::1:2''" by (simp add: is_ipv4_def py_split_def)
  ultimately show ?thesis unfolding exploded_def Let_def by (simp add: sample_groups del: list.map)
qed

theorem exploded_idempotent_witness:
  "exploded ''fe80::1:2'' = Inr (py_join '':'' (map hex4 [65152, 0, 0, 0, 0, 0, 1, 2])) \<and>
   exploded (py_join '':'' (map hex4 [65152, 0, 0, 0, 0, 0, 1, 2])) = Inr (py_join '':'' (map hex4 [65152, 0, 0, 0, 0, 0, 1, 2]))"
  using exploded_idempotent[OF sample_exploded] sample_exploded by (rule conjI[rotated])

section \<open>Reading the gossip\<close>

text \<open>
  The words \<open>nodetool gossipinfo\<close> prints for one node, as far as the scan looks at them, in the order it
  prints them; \<open>noise1\<close>, \<open>noise2\<close> and \<open>noise3\<close> are the other words.
\<close>

record gossip_print =
  gp_ip :: string
  gp_node :: hnode
  gp_schema :: string
  gp_status :: string
  gp_tokens :: string
  gp_dc :: string
  noise1 :: "string list"
  noise2 :: "string list"
  noise3 :: "string list"

definition gossip_block :: "gossip_print \<Rightarrow> string list" where
  "gossip_block b = noise1 b @ [''STATUS:'' @ gp_status b @ '','' @ gp_tokens b] @ noise2 b @ [''SCHEMA:'' @ gp_schema b, ''DC:'' @ gp_dc b] @
     noise3 b @ [''RPC_ADDRESS:'' @ gp_ip b]"

definition is_noise :: "string \<Rightarrow> bool" where
  "is_noise w \<longleftrightarrow> \<not> starts_with w ''SCHEMA:'' \<and> \<not> starts_with w ''RPC_ADDRESS:'' \<and> \<not> starts_with w ''STATUS:'' \<and> \<not> starts_with w ''DC:''"

definition print_ok :: "(string, hnode) dict \<Rightarrow> gossip_print \<Rightarrow> bool" where
  "print_ok m b \<longleftrightarrow> list_all is_noise (noise1 b @ noise2 b @ noise3 b) \<and>
     gp_schema b \<noteq> [] \<and> \<not> contains (gp_schema b) ''SCHEMA:'' \<and>
     gp_status b \<noteq> [] \<and> CHR '','' \<notin> set (gp_status b) \<and> \<not> contains (gp_status b @ '','' @ gp_tokens b) ''STATUS:'' \<and>
     CHR '','' \<notin> set (gp_dc b) \<and> \<not> contains (gp_dc b) ''DC:'' \<and> \<not> contains (gp_ip b) ''RPC_ADDRESS:'' \<and>
     (\<exists>ip. exploded (gp_ip b) = Inr ip \<and> ip \<noteq> [] \<and> dget m ip = Some (gp_node b))"

definition entry_of :: "gossip_print \<Rightarrow> gossip_entry" where
  "entry_of b = \<lparr>g_schema = gp_schema b, g_status = gp_status b, g_dc = gp_dc b\<rparr>"

lemma gossip_words_append:
  "gossip_words m s (xs @ ys) = rbind (gossip_words m s xs) (\<lambda>s1. gossip_words m s1 ys)"
  by (induction xs arbitrary: s) (auto simp: rbind_def split: sum.splits)

text \<open>Words of no interest change nothing while an entry is not complete.\<close>

lemma gossip_noise:
  "list_all is_noise ws \<Longrightarrow> gs_ip s = [] \<Longrightarrow> gossip_words m s ws = Inr s"
  by (induction ws) (simp_all add: is_noise_def gossip_word_def gossip_store_def rbind_def)

lemma prefix_tests [simp]:
  "starts_with (''SCHEMA:'' @ x) ''SCHEMA:''" "\<not> starts_with (''RPC_ADDRESS:'' @ x) ''SCHEMA:''"
  "starts_with (''RPC_ADDRESS:'' @ x) ''RPC_ADDRESS:''" "\<not> starts_with (''STATUS:'' @ x) ''SCHEMA:''"
  "\<not> starts_with (''STATUS:'' @ x) ''RPC_ADDRESS:''" "\<not> starts_with (''DC:'' @ x) ''SCHEMA:''"
  "\<not> starts_with (''DC:'' @ x) ''RPC_ADDRESS:''" "\<not> starts_with (''DC:'' @ x) ''STATUS:''"
  by (simp_all add: starts_with_def)

lemma first_field_cut: "CHR '','' \<notin> set s \<Longrightarrow> first_field (s @ '','' @ t) = s" "CHR '','' \<notin> set s \<Longrightarrow> first_field s = s"
  by (induction s) (auto simp: first_field_def hd_py_split)

lemma gossip_words_Cons:
  "gossip_word s w = Inr s1 \<Longrightarrow> gossip_words m s (w # ws) = gossip_words m (gossip_store m s1) ws"
  by (simp add: rbind_def)

lemma gossip_marked_words:
  "\<not> contains x ''SCHEMA:'' \<Longrightarrow> gossip_word s (''SCHEMA:'' @ x) = Inr (s\<lparr>gs_schema := x\<rparr>)"
  "\<not> contains (x @ '','' @ y) ''STATUS:'' \<Longrightarrow> CHR '','' \<notin> set x \<Longrightarrow> gossip_word s (''STATUS:'' @ x @ '','' @ y) = Inr (s\<lparr>gs_status := x\<rparr>)"
  "\<not> contains x ''DC:'' \<Longrightarrow> CHR '','' \<notin> set x \<Longrightarrow> gossip_word s (''DC:'' @ x) = Inr (s\<lparr>gs_dc := x\<rparr>)"
  "\<not> contains x ''RPC_ADDRESS:'' \<Longrightarrow> exploded x = Inr ip \<Longrightarrow> gossip_word s (''RPC_ADDRESS:'' @ x) = Inr (s\<lparr>gs_ip := ip\<rparr>)"
  unfolding gossip_word_def by (simp_all only: prefix_tests starts_with_append py_remove_prefix first_field_cut rbind_def list.distinct sum.case if_True if_False simp_thms not_False_eq_True)

text \<open>The words of one node store its entry and leave the scan as it was before them.\<close>

lemma gossip_scan_words:
  assumes "list_all is_noise n1" and "list_all is_noise n2" and "list_all is_noise n3"
    and "\<And>s. gossip_word s w1 = Inr (s\<lparr>gs_status := st\<rparr>)" and "\<And>s. gossip_word s w2 = Inr (s\<lparr>gs_schema := sc\<rparr>)"
    and "\<And>s. gossip_word s w3 = Inr (s\<lparr>gs_dc := dc\<rparr>)" and "\<And>s. gossip_word s w4 = Inr (s\<lparr>gs_ip := ip\<rparr>)"
    and "st \<noteq> []" and "sc \<noteq> []" and "ip \<noteq> []" and "dget m ip = Some n"
  shows "gossip_words m (empty_scan d) (n1 @ [w1] @ n2 @ [w2, w3] @ n3 @ [w4]) =
    Inr (empty_scan (dset n \<lparr>g_schema = sc, g_status = st, g_dc = dc\<rparr> d))"
  using assms by (simp add: gossip_words_append gossip_noise gossip_store_def empty_scan_def)

lemma gossip_block_read:
  assumes "print_ok m b"
  shows "gossip_words m (empty_scan d) (gossip_block b) = Inr (empty_scan (dset (gp_node b) (entry_of b) d))"
proof -
  note ok = assms[unfolded print_ok_def]
  obtain ip where ip: "exploded (gp_ip b) = Inr ip" "ip \<noteq> []" "dget m ip = Some (gp_node b)" using ok by blast
  show ?thesis
    unfolding gossip_block_def entry_of_def
  proof (rule gossip_scan_words[OF _ _ _ gossip_marked_words(2) gossip_marked_words(1) gossip_marked_words(3)
        gossip_marked_words(4)[OF _ ip(1)] _ _ ip(2,3)])
  qed (use ok in \<open>simp_all only: list_all_append not_False_eq_True\<close>)
qed


definition sample_node :: "string \<Rightarrow> string \<Rightarrow> hnode" where
  "sample_node name ip = \<lparr>hn_name = name, hn_ip = ip, hn_all_ips = [ip], hn_text = name, hn_nemesis = None, hn_seed = False\<rparr>"

definition sample_print :: gossip_print where
  "sample_print = \<lparr>gp_ip = ''10.0.0.1'', gp_node = sample_node ''n1'' ''10.0.0.1'', gp_schema = ''s1'', gp_status = ''NORMAL'',
     gp_tokens = ''42'', gp_dc = ''dc1'', noise1 = [''/10.0.0.1''], noise2 = [], noise3 = [''RACK:r1'']\<rparr>"

lemma sample_print_ok: "print_ok (get_ip_to_node_map [sample_node ''n1'' ''10.0.0.1'']) sample_print"
  by (simp add: print_ok_def sample_print_def sample_node_def get_ip_to_node_map_def is_noise_def starts_with_def exploded_def
      is_ipv4_def octet_ok_def py_split_def is_digit_def char_code_def nat_of_digits_def digit_val_def)


section \<open>Nodes that are up\<close>

lemma find_status_in: "find_status st ip = Some si \<Longrightarrow> \<exists>x\<in>set st. dget (snd x) ip = Some si"
  unfolding find_status_def by (induction st) (auto split: list.splits if_splits)

lemma in_up_and_normal:
  "n \<in> set (get_nodes_up_and_normal st nodes) \<longleftrightarrow>
     n \<in> set nodes \<and> (\<exists>x\<in>set st. \<exists>si. dget (snd x) (hn_ip n) = Some si \<and> si_state si = ''UN'')"
proof -
  have one: "n \<in> set (case o' of None \<Rightarrow> [] | Some si \<Rightarrow> if si_state si = ''UN'' then [n'] else []) \<longleftrightarrow>
      n = n' \<and> (\<exists>si. o' = Some si \<and> si_state si = ''UN'')" for n' and o' :: "status_info option"
    by (cases o') auto
  show ?thesis unfolding get_nodes_up_and_normal_def set_concat set_map case_prod_unfold UN_iff image_image one by blast
qed

text \<open>
  When \<open>check_nodes_up_and_normal\<close> does not raise, \<open>get_nodes_up_and_normal\<close> on the same output gives
  every node of the cluster.
\<close>

lemma nodes_up_checked:
  assumes "check_nodes_up_and_normal st nodes [] = Inr ()"
  shows "set (get_nodes_up_and_normal st nodes) = set nodes"
proof -
  have "\<exists>si. find_status st (hn_ip n) = Some si \<and> si_state si = ''UN''" if "n \<in> set nodes" for n
    using assms that by (auto simp: check_nodes_up_and_normal_def list_all_iff split: if_splits option.splits)
  then show ?thesis by (auto simp: in_up_and_normal) (blast dest: find_status_in)
qed

end
