(* ===== verification/Retrying.thy ===== *)
theory Retrying
  imports Pystd
begin

text \<open>
  Trying again: the decorator \<open>retrying\<close> of \<open>sdcm/utils/decorators.py\<close> and the waiting functions of
  \<open>sdcm/wait.py\<close>. The decorated function is a function on the state of the world, which gives a value
  or raises; \<open>time.time()\<close> and \<open>time.sleep()\<close> are two more functions on that state. The library
  \<open>tenacity\<close> is not part of the repository: \<open>wait_for\<close> gets how its call ended.
\<close>

section \<open>The decorator\<close>

record 's world_ops =
  time_time :: "'s \<Rightarrow> time"
  time_sleep :: "time \<Rightarrow> 's \<Rightarrow> 's"

record retry_cfg =
  rc_n :: nat
  rc_sleep_time :: time
  rc_allowed :: "py_error \<Rightarrow> bool"
  rc_timeout :: time
  rc_raise_on_exceeded :: bool

definition py_maxsize :: nat where "py_maxsize = 2 ^ 63 - 1"

definition new_retrying :: "nat \<Rightarrow> time \<Rightarrow> (py_error \<Rightarrow> bool) \<Rightarrow> time \<Rightarrow> bool \<Rightarrow> retry_cfg" where
  "new_retrying n sleep allowed tmout raise_exc =
     \<lparr>rc_n = (if n \<noteq> 0 then n else py_maxsize * 2 + 1), rc_sleep_time = sleep, rc_allowed = allowed,
      rc_timeout = tmout, rc_raise_on_exceeded = raise_exc\<rparr>"

text \<open>The loop with \<open>left\<close> tries still to come; \<open>end_time\<close> is \<open>0\<close> when there is no timeout.\<close>

fun retry_loop ::
  "'s world_ops \<Rightarrow> retry_cfg \<Rightarrow> ('s \<Rightarrow> 'a res \<times> 's) \<Rightarrow> time \<Rightarrow> nat \<Rightarrow> 's \<Rightarrow> 'a option res \<times> 's" where
  "retry_loop w c f end_time 0 s = (Inr None, s)"
| "retry_loop w c f end_time (Suc left) s = (case f s of
     (Inr v, s1) \<Rightarrow> (Inr (Some v), s1)
   | (Inl e, s1) \<Rightarrow>
       if \<not> rc_allowed c e then (Inl e, s1)
       else let s2 = time_sleep w (rc_sleep_time c) s1 in
         if (left = 0 \<or> end_time \<noteq> 0 \<and> end_time < time_time w s2) \<and> rc_raise_on_exceeded c
         then (Inl e, s2)
         else retry_loop w c f end_time left s2)"

definition retrying :: "'s world_ops \<Rightarrow> retry_cfg \<Rightarrow> ('s \<Rightarrow> 'a res \<times> 's) \<Rightarrow> 's \<Rightarrow> 'a option res \<times> 's" where
  "retrying w c f s =
     (let end_time = (if rc_timeout c \<noteq> 0 then time_time w s + rc_timeout c else 0) in
      if rc_n c = 1 then (case f s of (Inr v, s1) \<Rightarrow> (Inr (Some v), s1) | (Inl e, s1) \<Rightarrow> (Inl e, s1))
      else retry_loop w c f end_time (rc_n c) s)"

text \<open>\<open>timeout = partial(retrying, n=0)\<close>\<close>

definition timeout_decorator :: "time \<Rightarrow> (py_error \<Rightarrow> bool) \<Rightarrow> time \<Rightarrow> bool \<Rightarrow> retry_cfg" where
  "timeout_decorator = new_retrying 0"

text \<open>The state before the call number \<open>k\<close> when all calls before it failed.\<close>

fun before_try :: "'s world_ops \<Rightarrow> retry_cfg \<Rightarrow> ('s \<Rightarrow> 'a res \<times> 's) \<Rightarrow> nat \<Rightarrow> 's \<Rightarrow> 's" where
  "before_try w c f 0 s = s"
| "before_try w c f (Suc k) s = before_try w c f k (time_sleep w (rc_sleep_time c) (snd (f s)))"

definition fails_at :: "'s world_ops \<Rightarrow> retry_cfg \<Rightarrow> ('s \<Rightarrow> 'a res \<times> 's) \<Rightarrow> 's \<Rightarrow> nat \<Rightarrow> bool" where
  "fails_at w c f s k = (case fst (f (before_try w c f k s)) of Inr _ \<Rightarrow> False | Inl e \<Rightarrow> rc_allowed c e)"

lemma fails_at_0: "fails_at w c f s 0 \<longleftrightarrow> (\<exists>e s1. f s = (Inl e, s1) \<and> rc_allowed c e)"
  by (cases "f s") (auto simp: fails_at_def split: sum.splits)

lemma fails_at_Suc: "fails_at w c f s (Suc k) = fails_at w c f (time_sleep w (rc_sleep_time c) (snd (f s))) k"
  by (simp add: fails_at_def)

text \<open>The end time passed by after a try.\<close>

definition late_at :: "'s world_ops \<Rightarrow> retry_cfg \<Rightarrow> ('s \<Rightarrow> 'a res \<times> 's) \<Rightarrow> time \<Rightarrow> 's \<Rightarrow> nat \<Rightarrow> bool" where
  "late_at w c f end_time s k \<longleftrightarrow> end_time \<noteq> 0 \<and> end_time < time_time w (before_try w c f (Suc k) s)"

lemma late_at_Suc: "late_at w c f en s (Suc k) = late_at w c f en (time_sleep w (rc_sleep_time c) (snd (f s))) k"
  by (simp add: late_at_def)

text \<open>After failing tries that do not end the loop, the loop goes on as if it started there.\<close>

lemma retry_loop_skip:
  assumes "\<And>j. j < k \<Longrightarrow> fails_at w c f s j"
    and "\<And>j. j < k \<Longrightarrow> \<not> rc_raise_on_exceeded c \<or> \<not> late_at w c f en s j"
    and "k < n \<or> k \<le> n \<and> \<not> rc_raise_on_exceeded c"
  shows "retry_loop w c f en n s = retry_loop w c f en (n - k) (before_try w c f k s)"
  using assms
proof (induction k arbitrary: n s)
  case (Suc k)
  obtain e s1 where fs: "f s = (Inl e, s1)" and al: "rc_allowed c e"
    using Suc.prems(1)[of 0] by (auto simp: fails_at_0)
  obtain m where n: "n = Suc m" using Suc.prems(3) by (cases n) auto
  let ?s = "time_sleep w (rc_sleep_time c) s1"
  have go: "\<not> ((m = 0 \<or> en \<noteq> 0 \<and> en < time_time w ?s) \<and> rc_raise_on_exceeded c)"
    using Suc.prems(2)[of 0] Suc.prems(3) fs n by (auto simp: late_at_def)
  have "retry_loop w c f en m ?s = retry_loop w c f en (m - k) (before_try w c f k ?s)"
  proof (rule Suc.IH)
    fix j assume "j < k"
    then show "fails_at w c f ?s j" and "\<not> rc_raise_on_exceeded c \<or> \<not> late_at w c f en ?s j"
      using Suc.prems(1)[of "Suc j"] Suc.prems(2)[of "Suc j"] fs by (auto simp: fails_at_Suc late_at_Suc)
  qed (use Suc.prems(3) n in auto)
  then show ?case using fs al go n by (auto simp: Let_def)
qed simp

definition retry_end :: "'s world_ops \<Rightarrow> retry_cfg \<Rightarrow> 's \<Rightarrow> time" where
  "retry_end w c s = (if rc_timeout c \<noteq> 0 then time_time w s + rc_timeout c else 0)"

lemma retrying_many: "rc_n c \<noteq> 1 \<Longrightarrow> retrying w c f s = retry_loop w c f (retry_end w c s) (rc_n c) s"
  by (simp add: retrying_def retry_end_def)

text \<open>A value that is returned is the value of a call; with \<open>raise_on_exceeded\<close> there is always one.\<close>

lemma retry_loop_value: "retry_loop w c f en n s = (Inr (Some v), s1) \<Longrightarrow> \<exists>s0. f s0 = (Inr v, s1)"
  by (induction w c f en n s rule: retry_loop.induct) (auto simp: Let_def split: prod.splits sum.splits if_splits)

lemma retry_loop_some: "rc_raise_on_exceeded c \<Longrightarrow> 0 < n \<Longrightarrow> fst (retry_loop w c f en n s) \<noteq> Inr None"
proof (induction w c f en n s rule: retry_loop.induct)
  case (2 w c f en left s)
  then show ?case by (cases left) (auto simp: Let_def split: prod.splits sum.splits)
qed simp

lemma retrying_value:
  assumes "retrying w c f s = (Inr x, s1)" and "rc_raise_on_exceeded c" and "1 < rc_n c"
  obtains v s0 where "x = Some v" and "f s0 = (Inr v, s1)"
proof (cases x)
  case None
  with assms retry_loop_some[of c "rc_n c" w f "retry_end w c s" s] show thesis by (simp add: retrying_many)
next
  case (Some v)
  with assms that retry_loop_value[of w c f "retry_end w c s" "rc_n c" s v s1] show thesis by (auto simp: retrying_many)
qed

text \<open>
  C28. A retried function gives the value of its first call that succeeds, when the calls before it
  failed with allowed exceptions, fewer than the number of tries, and before the end time.
\<close>

theorem retrying_first_success:
  assumes "k < rc_n c"
    and "\<And>j. j < k \<Longrightarrow> fails_at w c f s j \<and> \<not> late_at w c f (retry_end w c s) s j"
    and "f (before_try w c f k s) = (Inr v, s1)"
  shows "retrying w c f s = (Inr (Some v), s1)"
proof (cases "rc_n c = 1")
  case True
  with assms show ?thesis by (simp add: retrying_def)
next
  case False
  have "retrying w c f s = retry_loop w c f (retry_end w c s) (rc_n c - k) (before_try w c f k s)"
    using retry_loop_skip[of k w c f s "retry_end w c s" "rc_n c"] assms(1,2) False by (simp add: retrying_many)
  moreover obtain m where "rc_n c - k = Suc m" using assms(1) by (metis Suc_diff_Suc)
  ultimately show ?thesis using assms(3) by simp
qed

definition sample_ops :: "(time \<times> nat) world_ops" where
  "sample_ops = \<lparr>time_time = fst, time_sleep = (\<lambda>d (t, n). (t + d, n))\<rparr>"

text \<open>A function that succeeds at its third call, with the number of that call.\<close>

definition third_time :: "time \<times> nat \<Rightarrow> nat res \<times> (time \<times> nat)" where
  "third_time s = (if snd s < 2 then Inl RuntimeError else Inr (snd s), (fst s, snd s + 1))"

lemma less_2_cases': "j < (2 :: nat) \<Longrightarrow> j = 0 \<or> j = 1"
  by auto

lemma sample_fails:
  assumes "c = new_retrying 3 1 (\<lambda>_. True) 60 True" and "j < (2 :: nat)"
  shows "fails_at sample_ops c third_time (100, 0) j \<and>
    \<not> late_at sample_ops c third_time (retry_end sample_ops c (100, 0)) (100, 0) j"
  using less_2_cases'[OF assms(2)]
  by (elim disjE) (simp_all add: assms(1) fails_at_def late_at_def retry_end_def new_retrying_def sample_ops_def third_time_def)

theorem retrying_first_success_witness:
  "retrying sample_ops (new_retrying 3 1 (\<lambda>_. True) 60 True) third_time (100, 0) = (Inr (Some 2), (102, 3))"
  by (rule retrying_first_success[where k = 2, OF _ sample_fails[OF refl]])
    (simp_all add: new_retrying_def sample_ops_def third_time_def numeral_2_eq_2)

text \<open>
  With \<open>raise_on_exceeded=False\<close> the timeout never ends the tries: a function that always fails is
  called the whole number of times, however late it is, and the result is \<open>None\<close>.
\<close>

theorem retrying_ignores_timeout:
  assumes "rc_n c \<noteq> 1" and "\<not> rc_raise_on_exceeded c" and "\<And>j. j < rc_n c \<Longrightarrow> fails_at w c f s j"
  shows "retrying w c f s = (Inr None, before_try w c f (rc_n c) s)"
  using retry_loop_skip[of "rc_n c" w c f s "retry_end w c s" "rc_n c"] assms by (simp add: retrying_many)

lemma sample_always_fails:
  assumes "j < (2 :: nat)" and "c = new_retrying 2 1 (\<lambda>_. True) (1 / 2) False"
  shows "fails_at sample_ops c third_time (100, 0) j"
  using less_2_cases'[OF assms(1)]
  by (elim disjE) (simp_all add: assms(2) fails_at_def new_retrying_def sample_ops_def third_time_def)

theorem retrying_ignores_timeout_witness:
  "retrying sample_ops (new_retrying 2 1 (\<lambda>_. True) (1 / 2) False) third_time (100, 0) = (Inr None, (102, 2))"
  using retrying_ignores_timeout[of "new_retrying 2 1 (\<lambda>_. True) (1 / 2) False" sample_ops third_time "(100, 0)"]
    sample_always_fails[OF _ refl]
  by (simp add: new_retrying_def sample_ops_def third_time_def numeral_2_eq_2)

section \<open>Waiting\<close>

text \<open>\<open>forever_wait_for\<close>: it may not return; an exception of the function ends it.\<close>

partial_function (option) forever_wait_for ::
  "'s world_ops \<Rightarrow> time \<Rightarrow> ('s \<Rightarrow> 'a option res \<times> 's) \<Rightarrow> 's \<Rightarrow> ('a res \<times> 's) option" where
  [code]: "forever_wait_for w step f s = (case f s of
     (Inl e, s1) \<Rightarrow> Some (Inl e, s1)
   | (Inr (Some v), s1) \<Rightarrow> Some (Inr v, time_sleep w step s1)
   | (Inr None, s1) \<Rightarrow> forever_wait_for w step f (time_sleep w step s1))"

text \<open>The state before the call number \<open>k\<close> of the loop.\<close>

fun before_poll :: "'s world_ops \<Rightarrow> time \<Rightarrow> ('s \<Rightarrow> 'b \<times> 's) \<Rightarrow> nat \<Rightarrow> 's \<Rightarrow> 's" where
  "before_poll w step f 0 s = s"
| "before_poll w step f (Suc k) s = before_poll w step f k (time_sleep w step (snd (f s)))"

text \<open>
  \<open>forever_wait_for\<close> returns as soon as its function gives a true value: after \<open>k\<close> false answers it
  has slept \<open>k + 1\<close> times and gives that value.
\<close>

theorem forever_wait_for_returns:
  assumes "\<And>j. j < k \<Longrightarrow> fst (f (before_poll w step f j s)) = Inr None"
    and "f (before_poll w step f k s) = (Inr (Some v), s1)"
  shows "forever_wait_for w step f s = Some (Inr v, time_sleep w step s1)"
  using assms
proof (induction k arbitrary: s)
  case 0
  then show ?case by (subst forever_wait_for.simps) simp
next
  case (Suc k)
  obtain s2 where fs: "f s = (Inr None, s2)" using Suc.prems(1)[of 0] by (cases "f s") auto
  have "forever_wait_for w step f (time_sleep w step s2) = Some (Inr v, time_sleep w step s1)"
    using Suc.IH[of "time_sleep w step s2"] Suc.prems(1)[of "Suc _"] Suc.prems(2) fs by simp
  then show ?case by (subst forever_wait_for.simps) (simp add: fs)
qed

definition true_at_two :: "time \<times> nat \<Rightarrow> nat option res \<times> (time \<times> nat)" where
  "true_at_two s = (Inr (if snd s < 2 then None else Some (snd s)), (fst s, snd s + 1))"

lemma sample_false:
  assumes "j < (2 :: nat)"
  shows "fst (true_at_two (before_poll sample_ops 1 true_at_two j (100, 0))) = Inr None"
  using less_2_cases'[OF assms] by (elim disjE) (simp_all add: sample_ops_def true_at_two_def)

theorem forever_wait_for_returns_witness:
  "forever_wait_for sample_ops 1 true_at_two (100, 0) = Some (Inr 2, (103, 3))"
  using forever_wait_for_returns[of 2 true_at_two sample_ops 1 "(100, 0)" 2 "(102, 3)", OF sample_false]
  by (simp add: sample_ops_def true_at_two_def numeral_2_eq_2)

text \<open>
  How a call of \<open>tenacity.Retrying\<close> ends: with a value, with its \<open>RetryError\<close> after a last attempt that
  gave a false value or raised, or (\<open>reraise=True\<close>) with the exception of the last attempt.
\<close>

datatype 'a tenacity_outcome = Returned 'a | RetryError "py_error option" | Reraised py_error

text \<open>
  \<open>wait_for\<close> with a timeout. The last attempt of a \<open>RetryError\<close> has no true \<open>_result\<close>, so it is turned
  into the exception of the wait; \<open>stopped\<close> says that the stop event is given and set.
\<close>

definition wait_for :: "bool \<Rightarrow> bool \<Rightarrow> 'a tenacity_outcome \<Rightarrow> 'a option res" where
  "wait_for throw_exc stopped out = (case out of
     Returned v \<Rightarrow> Inr (Some v)
   | RetryError attempt \<Rightarrow> if throw_exc
       then Inl (UnknownException (if stopped then ''ExitByEventError'' else ''WaitForTimeoutError'')) else Inr None
   | Reraised e \<Rightarrow> if throw_exc then Inl e else Inr None)"

end
