(* ===== verification/Raft.thy ===== *)
theory Raft
  imports Group_Filters Event_Init Retrying "HOL-Library.Multiset"
begin

text \<open>
  The operations on the Raft group 0 of a node, \<open>sdcm/utils/raft/__init__.py\<close>: \<open>RaftFeature\<close> when the
  consistent cluster management is on and \<open>NoRaft\<close> when it is not. What the CQL queries and the REST
  interface answer are parameters.
\<close>

section \<open>Log messages and timeouts\<close>

datatype log_position = LBEGIN | LEND

datatype topology_operation = DECOMMISSION | BOOTSTRAP

type_synonym message_position = "string \<times> log_position"
type_synonym message_timeout = "string \<times> nat"

definition BACKEND_TIMEOUTS :: "(string, (log_position, nat) dict) dict" where
  "BACKEND_TIMEOUTS =
     [(''aws'', [(LBEGIN, 300), (LEND, 3600)]),
      (''gce'', [(LBEGIN, 300), (LEND, 3600)]),
      (''azure'', [(LBEGIN, 1200), (LEND, 7200)])]"

definition ABORT_DECOMMISSION_LOG_PATTERNS :: "message_position list" where
  "ABORT_DECOMMISSION_LOG_PATTERNS =
     [(''api - decommission'', LBEGIN),
      (''DECOMMISSIONING: unbootstrap starts'', LBEGIN),
      (''DECOMMISSIONING: unbootstrap done'', LEND),
      (''becoming a group 0 non-voter'', LEND),
      (''became a group 0 non-voter'', LEND),
      (''leaving token ring'', LEND),
      (''left token ring'', LEND),
      (''raft_topology - decommission: waiting for completion'', LBEGIN),
      (''repair - decommission_with_repair'', LEND)]"

definition ABORT_BOOTSTRAP_LOG_PATTERNS :: "message_position list" where
  "ABORT_BOOTSTRAP_LOG_PATTERNS =
     [(''Starting to bootstrap'', LBEGIN),
      (''setup_group0: joining group 0'', LBEGIN),
      (''setup_group0: successfully joined group 0'', LBEGIN),
      (''setup_group0: the cluster is ready to use Raft. Finishing'', LBEGIN),
      (''entering BOOTSTRAP mode'', LBEGIN),
      (''storage_service - Bootstrap completed'', LEND),
      (''finish_setup_after_join: becoming a voter in the group 0 configuration'', LEND),
      (''raft_group0 - finish_setup_after_join: group 0 ID present, loading server info'', LEND),
      (''became a group 0 voter'', LEND)]"

datatype raft_mode = RaftFeature | NoRaft

text \<open>\<open>get_raft_mode\<close>; the feature's state comes from a query.\<close>

definition get_raft_mode :: "bool \<Rightarrow> raft_mode" where
  "get_raft_mode enabled = (if enabled then RaftFeature else NoRaft)"

fun TOPOLOGY_OPERATION_LOG_PATTERNS :: "raft_mode \<Rightarrow> topology_operation \<Rightarrow> message_position list" where
  "TOPOLOGY_OPERATION_LOG_PATTERNS RaftFeature DECOMMISSION = ABORT_DECOMMISSION_LOG_PATTERNS"
| "TOPOLOGY_OPERATION_LOG_PATTERNS RaftFeature BOOTSTRAP = ABORT_BOOTSTRAP_LOG_PATTERNS"
| "TOPOLOGY_OPERATION_LOG_PATTERNS NoRaft DECOMMISSION = [(''DECOMMISSIONING: unbootstrap starts'', LBEGIN)]"
| "TOPOLOGY_OPERATION_LOG_PATTERNS NoRaft BOOTSTRAP = [(''entering BOOTSTRAP mode'', LBEGIN)]"

definition get_message_waiting_timeout :: "string \<Rightarrow> message_position \<Rightarrow> message_timeout res" where
  "get_message_waiting_timeout backend m =
     (let b = (if dmem BACKEND_TIMEOUTS backend then backend else ''aws'') in
      rbind (dindex BACKEND_TIMEOUTS b) (\<lambda>d. rbind (dindex d (snd m)) (\<lambda>t. Inr (fst m, t))))"

text \<open>\<open>random.choice\<close> picks the element at \<open>pick\<close>, a number below the length it is given.\<close>

definition get_random_log_message :: "raft_mode \<Rightarrow> string \<Rightarrow> (nat \<Rightarrow> nat) \<Rightarrow> topology_operation \<Rightarrow> message_timeout res" where
  "get_random_log_message mode backend pick opn =
     (let ps = TOPOLOGY_OPERATION_LOG_PATTERNS mode opn in get_message_waiting_timeout backend (ps ! pick (length ps)))"

fun rmap :: "('a \<Rightarrow> 'b res) \<Rightarrow> 'a list \<Rightarrow> 'b list res" where
  "rmap f [] = Inr []"
| "rmap f (x # xs) = rbind (f x) (\<lambda>y. rbind (rmap f xs) (\<lambda>ys. Inr (y # ys)))"

definition get_all_messages_timeouts :: "raft_mode \<Rightarrow> string \<Rightarrow> topology_operation \<Rightarrow> message_timeout list res" where
  "get_all_messages_timeouts mode backend opn =
     rmap (get_message_waiting_timeout backend) (TOPOLOGY_OPERATION_LOG_PATTERNS mode opn)"

text \<open>The filters around a start that is expected to fail; \<open>tmout\<close> is zero for no extra time.\<close>

definition get_severity_change_filters_scylla_start_failed :: "raft_mode \<Rightarrow> time \<Rightarrow> filter_call list" where
  "get_severity_change_filters_scylla_start_failed mode tmout = (case mode of NoRaft \<Rightarrow> [] | RaftFeature \<Rightarrow>
    [Change WARNING ''DatabaseLogEvent.DATABASE_ERROR'' ''.*storage_service - decommission.*Operation failed'' tmout,
     Change WARNING ''DatabaseLogEvent.DATABASE_ERROR'' ''.*node_ops - decommission.*seastar::sleep_aborted'' tmout,
     Change WARNING ''DatabaseLogEvent.DATABASE_ERROR'' ''.*This node was decommissioned and will not rejoin the ring'' tmout,
     Change WARNING ''DatabaseLogEvent.RUNTIME_ERROR'' ''.*This node was decommissioned and will not rejoin the ring'' tmout,
     Change WARNING ''DatabaseLogEvent.RUNTIME_ERROR''
       (raw ''.*Startup failed: std::runtime_error ~(the topology coordinator rejected request to join the cluster'') tmout,
     Change WARNING ''DatabaseLogEvent.DATABASE_ERROR'' ''.*gossip - is_safe_for_restart.*status=LEFT'' tmout,
     Change WARNING ''DatabaseLogEvent'' ''.*init - Startup failed.*'' 0,
     Change WARNING ''DatabaseLogEvent.DATABASE_ERROR'' ''.*node_ops - bootstrap.*Operation failed.*seastar::abort_requested_exception'' tmout,
     Change WARNING ''DatabaseLogEvent.DATABASE_ERROR'' ''.*raft - .* failed with: raft::transport_error .* connection is closed'' tmout,
     Change WARNING ''DatabaseLogEvent.DATABASE_ERROR'' ''.*raft - .*Transferring snapshot to.*Request is aborted by a caller'' tmout,
     Change WARNING ''DatabaseLogEvent.DATABASE_ERROR'' ''.*raft.*applier fiber stopped because of the error.*abort requested'' tmout])"

section \<open>Members of the group 0 and of the token ring\<close>

record g0_member =
  g0_host_id :: string
  voter :: bool

text \<open>A member of the token ring; a missing key of the JSON object gives \<open>None\<close>.\<close>

record ring_member =
  r_host_id :: "string option"
  r_ip_address :: "string option"

text \<open>What one reading of the group 0 and of the token ring gives.\<close>

record raft_view =
  group0 :: "g0_member list"
  ring :: "ring_member list"

text \<open>
  \<open>RaftFeature.get_group0_members\<close>: \<open>gid\<close> is the answer to the query for the group's id, \<open>state_rows\<close>
  the one for its servers. Any exception gives the empty list.
\<close>

definition get_group0_members :: "raft_mode \<Rightarrow> string option res \<Rightarrow> (string \<Rightarrow> (string \<times> bool) list res) \<Rightarrow> g0_member list" where
  "get_group0_members mode gid state_rows = (case mode of NoRaft \<Rightarrow> [] | RaftFeature \<Rightarrow>
     (case gid of Inr (Some g) \<Rightarrow>
        (case state_rows g of
           Inr rows \<Rightarrow> map (\<lambda>(server_id, can_vote). \<lparr>g0_host_id = server_id, voter = can_vote\<rparr>) rows
         | Inl _ \<Rightarrow> [])
      | _ \<Rightarrow> []))"

text \<open>
  \<open>BaseNode.get_token_ring_members\<close>: \<open>out\<close> is the output of the REST call and \<open>parse\<close> is
  \<open>json.loads\<close> on it, as a list of objects.
\<close>

definition get_token_ring_members :: "(string \<Rightarrow> (string, string) dict list res) \<Rightarrow> string \<Rightarrow> ring_member list" where
  "get_token_ring_members parse out = (if out = [] then [] else
     (case parse out of
        Inl _ \<Rightarrow> []
      | Inr ms \<Rightarrow> map (\<lambda>m. \<lparr>r_host_id = dget m ''value'', r_ip_address = dget m ''key''\<rparr>) ms))"

definition get_group0_non_voters :: "raft_mode \<Rightarrow> raft_view \<Rightarrow> string list" where
  "get_group0_non_voters mode v = (case mode of NoRaft \<Rightarrow> [] | RaftFeature \<Rightarrow>
     map g0_host_id (filter (\<lambda>m. \<not> voter m) (group0 v)))"

text \<open>The ids in the group 0 and not in the token ring, in the order \<open>ord\<close> of a Python set.\<close>

definition get_diff_group0_token_ring_members :: "raft_mode \<Rightarrow> (string list \<Rightarrow> string list) \<Rightarrow> raft_view \<Rightarrow> string list" where
  "get_diff_group0_token_ring_members mode ord v = (case mode of NoRaft \<Rightarrow> [] | RaftFeature \<Rightarrow>
     ord (remdups (filter (\<lambda>i. Some i \<notin> r_host_id ` set (ring v)) (map g0_host_id (group0 v)))))"

definition is_cluster_topology_consistent :: "raft_mode \<Rightarrow> nat \<Rightarrow> raft_view \<Rightarrow> bool" where
  "is_cluster_topology_consistent mode num_of_nodes v = (case mode of
     NoRaft \<Rightarrow> length (ring v) = num_of_nodes
   | RaftFeature \<Rightarrow>
       (let group0_ids = map (Some \<circ> g0_host_id) (group0 v); token_ring_ids = map r_host_id (ring v);
            one = set group0_ids - set token_ring_ids;
            diff = (if one \<noteq> {} then one else set token_ring_ids - set group0_ids) in
        diff = {} \<and> get_group0_non_voters RaftFeature v = [] \<and>
        length group0_ids = length token_ring_ids \<and> length token_ring_ids = num_of_nodes))"

definition repr_bool :: "bool \<Rightarrow> string" where "repr_bool b = (if b then ''True'' else ''False'')"

text \<open>\<open>repr\<close> of a string without quotes and backslashes, such as an id or an address.\<close>

definition repr_id :: "string \<Rightarrow> string" where "repr_id s = [SQ] @ s @ [SQ]"

definition repr_id_opt :: "string option \<Rightarrow> string" where
  "repr_id_opt x = (case x of None \<Rightarrow> ''None'' | Some s \<Rightarrow> repr_id s)"

definition repr_group0 :: "g0_member list \<Rightarrow> string" where
  "repr_group0 ms = ''['' @ py_join '', '' (map (\<lambda>m. ''{'' @ repr_id ''host_id'' @ '': '' @ repr_id (g0_host_id m) @ '', '' @
     repr_id ''voter'' @ '': '' @ repr_bool (voter m) @ ''}'') ms) @ '']''"

definition repr_ring :: "ring_member list \<Rightarrow> string" where
  "repr_ring ms = ''['' @ py_join '', '' (map (\<lambda>m. ''{'' @ repr_id ''host_id'' @ '': '' @ repr_id_opt (r_host_id m) @ '', '' @
     repr_id ''ip_address'' @ '': '' @ repr_id_opt (r_ip_address m) @ ''}'') ms) @ '']''"

text \<open>
  \<open>check_group0_tokenring_consistency\<close> gives the errors of the events it yields. \<open>NoRaft\<close> yields one
  \<open>None\<close>, which is not an event.
\<close>

definition check_group0_tokenring_consistency :: "raft_mode \<Rightarrow> string \<Rightarrow> raft_view \<Rightarrow> string option list" where
  "check_group0_tokenring_consistency mode node v = (case mode of NoRaft \<Rightarrow> [None] | RaftFeature \<Rightarrow>
     (let ids = map r_host_id (ring v) in
      map (\<lambda>m. Some (''Node '' @ node @ '' has group0 member with host_id '' @ g0_host_id m @ '' with can_vote '' @
             repr_bool (voter m) @ '' and presents in token ring '' @ repr_bool (Some (g0_host_id m) \<in> set ids) @
             ''. Inconsistency between group0: '' @ repr_group0 (group0 v) @ '' and tokenring: '' @ repr_ring (ring v)))
        (filter (\<lambda>m. \<not> (voter m \<and> Some (g0_host_id m) \<in> set ids)) (group0 v))))"

section \<open>Cleaning the group 0\<close>

text \<open>
  The loop of \<open>clean_group0_garbage\<close>: \<open>ok i h\<close> says whether the \<open>removenode\<close> number \<open>i\<close>, of the host
  \<open>h\<close>, succeeds. It gives the commands in order and the ids left. The two waits before a command never
  raise (\<open>throw_exc=False\<close>). A failed host goes back to the end of the pool and costs an attempt.
\<close>

definition removenode_command :: "string \<Rightarrow> string list \<Rightarrow> string" where
  "removenode_command h others = ''removenode '' @ h @ '' '' @
     (if others \<noteq> [] then ''--ignore-dead-nodes '' @ py_join '','' others else [])"

function clean_loop :: "(nat \<Rightarrow> string \<Rightarrow> bool) \<Rightarrow> nat \<Rightarrow> string list \<Rightarrow> nat \<Rightarrow> (string \<times> string \<times> bool) list \<times> string list" where
  "clean_loop ok i [] attempt = ([], [])"
| "clean_loop ok i (h # hs) attempt =
     (let good = ok i h;
          cmd = (h, removenode_command h hs, good);
          pool = (if good then hs else hs @ [h]);
          attempt' = (if good then attempt else attempt - 1)
      in if pool = [] \<or> attempt' < 1 then ([cmd], pool)
         else (let (cs, left) = clean_loop ok (i + 1) pool attempt' in (cmd # cs, left)))"
  by pat_completeness auto
termination
  by (relation "measure (\<lambda>(ok, i, hs, attempt). length hs + attempt)") (auto split: if_splits)

text \<open>
  The whole operation; \<open>views i\<close> is what the reading number \<open>i\<close> of the group 0 and the token ring gives.
  It gives the commands that ran and how it ended.
\<close>

definition group0_exception :: py_error where
  "group0_exception = UnknownException ''Group0MembersNotConsistentWithTokenRingMembersException''"

definition clean_group0_garbage ::
  "raft_mode \<Rightarrow> (string list \<Rightarrow> string list) \<Rightarrow> (nat \<Rightarrow> raft_view) \<Rightarrow> (nat \<Rightarrow> string \<Rightarrow> bool) \<Rightarrow> bool \<Rightarrow>
     (string \<times> string \<times> bool) list \<times> unit res" where
  "clean_group0_garbage mode ord views ok raise_exception = (case mode of NoRaft \<Rightarrow> ([], Inr ()) | RaftFeature \<Rightarrow>
     (let diff = get_diff_group0_token_ring_members mode ord (views 0);
          host_ids = (if diff \<noteq> [] then diff else get_group0_non_voters mode (views 1));
          (cmds, left) = clean_loop ok 0 host_ids 3;
          diff' = get_diff_group0_token_ring_members mode ord (views 2);
          missing = (if diff' \<noteq> [] then diff' else get_group0_non_voters mode (views 3))
      in (cmds, if missing \<noteq> [] \<and> raise_exception then Inl group0_exception else Inr ())))"

text \<open>\<open>get_node_status_from_system_by\<close>: the query, and the row turned into a dictionary.\<close>

definition node_status_query :: "string \<Rightarrow> string \<Rightarrow> string option" where
  "node_status_query ip_address host_id =
     (let q = ''select peer, host_id, status, up from system.cluster_status'' in
      if ip_address \<noteq> [] then Some (q @ '' where peer = '' @ [SQ] @ ip_address @ [SQ])
      else if host_id \<noteq> [] then Some (q @ '' where host_id='' @ host_id @ '' ALLOW FILTERING'')
      else None)"

datatype status_value = SText string | SBool bool

definition get_node_status_from_system_by ::
  "(string \<Rightarrow> (string \<times> string \<times> string \<times> bool) option) \<Rightarrow> string \<Rightarrow> string \<Rightarrow> (string, status_value) dict" where
  "get_node_status_from_system_by query ip_address host_id = (case node_status_query ip_address host_id of
     None \<Rightarrow> []
   | Some q \<Rightarrow> (case query q of None \<Rightarrow> []
       | Some (peer, hid, st, up) \<Rightarrow>
           [(''ip_address'', SText peer), (''host_id'', SText hid), (''state'', SText st), (''up'', SBool up)]))"

definition is_node_down :: "(string \<Rightarrow> (string \<times> string \<times> string \<times> bool) option) \<Rightarrow> string \<Rightarrow> bool" where
  "is_node_down query h = (dget_default (get_node_status_from_system_by query [] h) ''up'' (SBool False) \<noteq> SBool True)"

definition is_node_in_bootstrapping_status :: "(string \<Rightarrow> (string \<times> string \<times> string \<times> bool) option) \<Rightarrow> string \<Rightarrow> bool" where
  "is_node_in_bootstrapping_status query h =
     (dget_default (get_node_status_from_system_by query [] h) ''status'' (SText []) = SText ''BOOTSTRAPPING'')"

section \<open>What the operations do\<close>

text \<open>Every host of the pool is either removed by a successful command, once, or left.\<close>

definition removed_hosts :: "(string \<times> string \<times> bool) list \<Rightarrow> string list" where
  "removed_hosts cs = map fst (filter (\<lambda>(h, c, good). good) cs)"

definition failures :: "(string \<times> string \<times> bool) list \<Rightarrow> nat" where
  "failures cs = length (filter (\<lambda>(h, c, good). \<not> good) cs)"

lemma command_counts [simp]:
  "removed_hosts [] = []" "failures [] = 0"
  "removed_hosts ((h, c, good) # cs) = (if good then h # removed_hosts cs else removed_hosts cs)"
  "failures ((h, c, good) # cs) = (if good then failures cs else Suc (failures cs))"
  by (simp_all add: removed_hosts_def failures_def)

text \<open>One round: the last one, or one before the rounds on the pool it leaves.\<close>

lemma clean_loop_round:
  assumes "clean_loop ok i (h # hs) a = (cs, left)"
  obtains (stop) "left = (if ok i h then hs else hs @ [h])" "left = [] \<or> (if ok i h then a else a - 1) < 1"
      "cs = [(h, removenode_command h hs, ok i h)]"
  | (more) cs1 where "\<not> ((if ok i h then hs else hs @ [h]) = [] \<or> (if ok i h then a else a - 1) < 1)"
      "clean_loop ok (i + 1) (if ok i h then hs else hs @ [h]) (if ok i h then a else a - 1) = (cs1, left)"
      "cs = (h, removenode_command h hs, ok i h) # cs1"
  using assms by (auto simp: Let_def split: prod.splits if_splits)

lemma clean_loop_hosts:
  "clean_loop ok i hs a = (cs, left) \<Longrightarrow> mset (removed_hosts cs) + mset left = mset hs"
proof (induction ok i hs a arbitrary: cs left rule: clean_loop.induct)
  case (2 ok i h hs a)
  from "2.prems" show ?case
  proof (cases rule: clean_loop_round)
    case (more cs1)
    from "2.IH"[OF refl refl refl refl more(1,2)] more(3) show ?thesis by (auto split: if_splits)
  qed auto
qed simp

text \<open>Three failures end the loop with hosts left; with fewer the pool gets empty.\<close>

lemma clean_loop_outcome:
  "clean_loop ok i hs a = (cs, left) \<Longrightarrow> 0 < a \<Longrightarrow> left = [] \<and> failures cs < a \<or> left \<noteq> [] \<and> failures cs = a"
proof (induction ok i hs a arbitrary: cs left rule: clean_loop.induct)
  case (2 ok i h hs a)
  from "2.prems"(1) show ?case
  proof (cases rule: clean_loop_round)
    case stop
    with "2.prems"(2) show ?thesis by (cases "ok i h") auto
  next
    case (more cs1)
    from "2.IH"[OF refl refl refl refl more(1,2)] more(1,3) show ?thesis by (cases "ok i h") auto
  qed
qed simp

lemma commands_length: "length cs = length (removed_hosts cs) + failures cs"
  using sum_length_filter_compl[of "\<lambda>(h, c, good). good" cs]
  by (simp add: removed_hosts_def failures_def case_prod_unfold)

text \<open>
  C27. Cleaning the group 0 ends. Each host of the pool is removed by exactly one successful command or is
  left in the pool; hosts are left only after three failed commands; there are at most two more commands
  than hosts.
\<close>

theorem clean_loop_bounded:
  assumes "clean_loop ok 0 hs 3 = (cs, left)" and "hs \<noteq> []"
  shows "mset (removed_hosts cs) + mset left = mset hs \<and> (left = [] \<or> failures cs = 3) \<and> length cs \<le> length hs + 2"
proof -
  have hosts: "mset (removed_hosts cs) + mset left = mset hs" using clean_loop_hosts[OF assms(1)] .
  have out: "left = [] \<and> failures cs < 3 \<or> left \<noteq> [] \<and> failures cs = 3" using clean_loop_outcome[OF assms(1)] by simp
  have "length (removed_hosts cs) + length left = length hs" using arg_cong[OF hosts, of size] by simp
  with out have "length cs \<le> length hs + 2" using commands_length[of cs] by (cases left) auto
  with hosts out show ?thesis by auto
qed

definition sample_ok :: "nat \<Rightarrow> string \<Rightarrow> bool" where "sample_ok i h = (h \<noteq> ''b'' \<or> 2 < i)"

lemma sample_clean:
  "clean_loop sample_ok 0 [''a'', ''b''] 3 =
     ([(''a'', ''removenode a --ignore-dead-nodes b'', True), (''b'', ''removenode b '', False),
       (''b'', ''removenode b '', False), (''b'', ''removenode b '', True)], [])"
  by (simp add: sample_ok_def removenode_command_def)

theorem clean_loop_bounded_witness:
  "length (fst (clean_loop sample_ok 0 [''a'', ''b''] 3)) \<le> 2 + 2 \<and> snd (clean_loop sample_ok 0 [''a'', ''b''] 3) = []"
  using clean_loop_bounded[OF sample_clean] unfolding sample_clean by simp

text \<open>
  When \<open>clean_group0_garbage(raise_exception=True)\<close> returns, the last readings showed every member of
  the group 0 in the token ring and with a vote.
\<close>

theorem clean_group0_checked:
  assumes "clean_group0_garbage RaftFeature ord views ok True = (cs, Inr ())" and "\<And>xs. set (ord xs) = set xs"
  shows "Some ` g0_host_id ` set (group0 (views 2)) \<subseteq> r_host_id ` set (ring (views 2)) \<and>
    list_all voter (group0 (views 3))"
proof -
  have "get_diff_group0_token_ring_members RaftFeature ord (views 2) = []" and
    "get_group0_non_voters RaftFeature (views 3) = []"
    using assms(1) by (auto simp: clean_group0_garbage_def Let_def split: prod.splits if_splits)
  then show ?thesis
    using assms(2)[of "remdups (filter (\<lambda>i. Some i \<notin> r_host_id ` set (ring (views 2))) (map g0_host_id (group0 (views 2))))"]
    by (auto simp: get_diff_group0_token_ring_members_def get_group0_non_voters_def list_all_iff filter_empty_conv)
qed

definition sample_view :: raft_view where
  "sample_view = \<lparr>group0 = [\<lparr>g0_host_id = ''a'', voter = True\<rparr>],
     ring = [\<lparr>r_host_id = Some ''a'', r_ip_address = Some ''10.0.0.1''\<rparr>]\<rparr>"

definition sample_garbage :: raft_view where
  "sample_garbage = sample_view\<lparr>group0 := group0 sample_view @ [\<lparr>g0_host_id = ''b'', voter = False\<rparr>]\<rparr>"

definition sample_views :: "nat \<Rightarrow> raft_view" where
  "sample_views i = (if i = 0 then sample_garbage else sample_view)"

theorem clean_group0_checked_witness:
  "clean_group0_garbage RaftFeature id sample_views (\<lambda>_ _. True) True = ([(''b'', ''removenode b '', True)], Inr ()) \<and>
   list_all voter (group0 (sample_views 3))"
proof -
  have run: "clean_group0_garbage RaftFeature id sample_views (\<lambda>_ _. True) True = ([(''b'', ''removenode b '', True)], Inr ())"
    by (simp add: clean_group0_garbage_def get_diff_group0_token_ring_members_def get_group0_non_voters_def
        sample_views_def sample_garbage_def sample_view_def removenode_command_def)
  show ?thesis using clean_group0_checked[OF run] run by simp
qed

lemma group0_check_Nil:
  "check_group0_tokenring_consistency RaftFeature node v = [] \<longleftrightarrow>
     (\<forall>m\<in>set (group0 v). voter m \<and> Some (g0_host_id m) \<in> r_host_id ` set (ring v))"
  by (auto simp: check_group0_tokenring_consistency_def Let_def filter_empty_conv)

text \<open>
  The check of the health checker finds nothing exactly when every member of the group 0 has a vote and
  is in the token ring, so it finds nothing in a topology that \<open>is_cluster_topology_consistent\<close> accepts.
\<close>

theorem consistent_topology_is_healthy:
  assumes "is_cluster_topology_consistent RaftFeature n v"
  shows "check_group0_tokenring_consistency RaftFeature node v = []"
  using assms
  by (auto simp: group0_check_Nil is_cluster_topology_consistent_def Let_def get_group0_non_voters_def
      filter_empty_conv split: if_splits)

theorem consistent_topology_is_healthy_witness:
  "check_group0_tokenring_consistency RaftFeature ''node-1'' sample_view = [] \<and>
   check_group0_tokenring_consistency RaftFeature ''node-1'' sample_garbage \<noteq> []"
proof -
  have "is_cluster_topology_consistent RaftFeature 1 sample_view"
    by (simp add: is_cluster_topology_consistent_def get_group0_non_voters_def sample_view_def)
  from consistent_topology_is_healthy[OF this] show ?thesis
    by (simp add: group0_check_Nil sample_garbage_def sample_view_def)
qed

text \<open>
  The status of a node is stored under \<open>state\<close> and looked up under \<open>status\<close>: no node is ever seen
  bootstrapping.
\<close>

lemma never_bootstrapping: "\<not> is_node_in_bootstrapping_status query h"
  by (auto simp: is_node_in_bootstrapping_status_def get_node_status_from_system_by_def dget_default_def
      split: option.splits)

text \<open>Every message of a topology operation has a timeout, whatever the backend.\<close>

lemma message_timeout_defined: "\<exists>t. get_message_waiting_timeout backend m = Inr (fst m, t)"
  by (cases "snd m")
    (auto simp: get_message_waiting_timeout_def BACKEND_TIMEOUTS_def dmem_def dindex_def rbind_def Let_def split: if_splits)

end
