(* ===== verification/Health.thy ===== *)
theory Health
  imports Node_Status Raft
begin

text \<open>
  The health checks of a node, \<open>sdcm/utils/health_checker.py\<close>, and the methods of the node and of the
  cluster in \<open>sdcm/cluster.py\<close> that run them with retries. The checks compare what \<open>nodetool status\<close>,
  the gossip and the table \<open>system.peers\<close> say of the nodes, each as a dictionary by node.
\<close>

section \<open>What the checks look at\<close>

definition GOSSIP_STATUSES_FILTER_OUT :: "string list" where
  "GOSSIP_STATUSES_FILTER_OUT = [''LEFT'', ''removed'', ''BOOT'', ''shutdown'']"

text \<open>A health event before it is made: the sub-event type, the severity and its text.\<close>

record finding =
  hf_type :: string
  hf_severity :: severity
  hf_message :: "string option"
  hf_error :: "string option"

definition err :: "string \<Rightarrow> severity \<Rightarrow> string \<Rightarrow> finding" where
  "err t sev e = \<lparr>hf_type = t, hf_severity = sev, hf_message = None, hf_error = Some e\<rparr>"

definition warn :: "string \<Rightarrow> string \<Rightarrow> finding" where
  "warn t m = \<lparr>hf_type = t, hf_severity = WARNING, hf_message = Some m, hf_error = None\<rparr>"

definition health_event :: "maker \<Rightarrow> hnode \<Rightarrow> finding \<Rightarrow> event" where
  "health_event k cur f = health_sub_event k (hf_type f) (Some (hn_name cur)) (hf_message f) (hf_error f) (hf_severity f)"

section \<open>The checks\<close>

definition check_nodes_status :: "hnode list \<Rightarrow> hnode \<Rightarrow> nodes_status \<Rightarrow> finding list" where
  "check_nodes_status nodes cur ns = concat (map (\<lambda>(n, p).
     if ns_status p \<noteq> ''UN''
     then [err ''NodeStatus'' CRITICAL (''Current node '' @ hn_text cur @ ''. Node '' @ hn_text n @
             print_node_running_nemesis nodes (hn_ip n) @ '' status is '' @ ns_status p)]
     else []) ns)"

definition check_nulls_in_peers :: "(peer_row \<Rightarrow> string) \<Rightarrow> hnode list \<Rightarrow> hnode \<Rightarrow> gossip_info \<Rightarrow> peers_info \<Rightarrow> finding list" where
  "check_nulls_in_peers row_text nodes cur g ps = (if g = [] then [] else concat (map (\<lambda>(n, row).
     if list_all (\<lambda>v. v \<noteq> Some ''null'') (row_values row) then []
     else (case dget g n of
         Some gi \<Rightarrow> if g_status gi \<notin> set GOSSIP_STATUSES_FILTER_OUT
           then [err ''NodePeersNulls'' ERROR (''Current node '' @ hn_text cur @ ''. Found nulls in system.peers for node '' @
                   hn_text n @ print_node_running_nemesis nodes (hn_ip n) @ '' with status '' @ g_status gi @ '' : '' @ row_text row)]
           else []
       | None \<Rightarrow> [])) ps))"

text \<open>
  The first loop gives \<open>print_node_running_nemesis\<close> the node instead of its address, which equals no
  address: the text about the target is always empty. The nodes missing in the gossip come in the
  order of a Python set, \<open>perm\<close>.
\<close>

definition check_node_status_in_gossip_and_nodetool_status ::
  "(hnode list \<Rightarrow> hnode list) \<Rightarrow> hnode list \<Rightarrow> hnode \<Rightarrow> gossip_info \<Rightarrow> nodes_status \<Rightarrow> finding list" where
  "check_node_status_in_gossip_and_nodetool_status perm nodes cur g ns = (if ns = [] then [] else
     concat (map (\<lambda>(n, gi). case dget ns n of
         None \<Rightarrow> if g_status gi \<notin> set GOSSIP_STATUSES_FILTER_OUT
           then [err ''NodeStatus'' ERROR (''Current node '' @ hn_text cur @ ''. The node '' @ hn_text n @
                   '' exists in the gossip but doesn'' @ [SQ] @ ''t exist in the nodetool.status'')]
           else []
       | Some p \<Rightarrow> if g_status gi = ''NORMAL'' \<and> ns_status p \<noteq> ''UN'' \<or> g_status gi \<noteq> ''NORMAL'' \<and> ns_status p = ''UN''
           then [err ''NodeStatus'' ERROR (''Current node '' @ hn_text cur @ ''. Wrong node status. Node '' @ hn_text n @
                   '' status in nodetool.status is '' @ ns_status p @ '', but status in gossip '' @ g_status gi)]
           else []) g) @
     concat (map (\<lambda>n. if map_option ns_status (dget ns n) = Some ''UN''
         then [err ''NodeSchemaVersion'' ERROR (''Current node '' @ hn_text cur @ ''. Node '' @ hn_text n @
                 print_node_running_nemesis nodes (hn_ip n) @ '' exists in the nodetool.status but missed in gossip.'')]
         else []) (perm (filter (\<lambda>n. \<not> dmem g n) (map fst ns)))))"

definition schema_of_node :: "hnode list \<Rightarrow> hnode \<Rightarrow> peers_info \<Rightarrow> hnode \<times> gossip_entry \<Rightarrow> finding list" where
  "schema_of_node nodes cur ps x = (case x of (n, gi) \<Rightarrow>
     if cur = n \<or> g_status gi \<noteq> ''NORMAL'' then []
     else (case dget ps n of
         None \<Rightarrow> [err ''NodeSchemaVersion'' ERROR (''Current node '' @ hn_text cur @ ''. Node '' @ hn_text n @
           print_node_running_nemesis nodes (hn_ip n) @ '' exists in the gossip but missed in SYSTEM.PEERS.'')]
       | Some row \<Rightarrow> if g_schema gi \<noteq> schema_version row
           then [err ''NodeSchemaVersion'' ERROR (''Current node '' @ hn_text cur @ ''. Wrong Schema version. Node '' @ hn_text n @
             print_node_running_nemesis nodes (hn_ip n) @ '' schema version in SYSTEM.PEERS is '' @ schema_version row @
             '', but schema version in gossip '' @ g_schema gi)]
           else []))"

definition gossip_schemas :: "gossip_info \<Rightarrow> string list" where
  "gossip_schemas g = map (g_schema \<circ> snd) (filter (\<lambda>(n, gi). g_status gi \<notin> set GOSSIP_STATUSES_FILTER_OUT) g)"

definition peer_schemas :: "gossip_info \<Rightarrow> peers_info \<Rightarrow> string list" where
  "peer_schemas g ps = map (schema_version \<circ> snd) (filter (\<lambda>(n, row). case dget g n of
     None \<Rightarrow> False | Some gi \<Rightarrow> g_status gi \<notin> set GOSSIP_STATUSES_FILTER_OUT) ps)"

definition check_schema_version ::
  "(hnode list \<Rightarrow> hnode list) \<Rightarrow> hnode list \<Rightarrow> hnode \<Rightarrow> gossip_info \<Rightarrow> peers_info \<Rightarrow> nodes_status \<Rightarrow> finding list" where
  "check_schema_version perm nodes cur g ps ns =
     (if length ns = 1 \<or> ps = [] \<or> g = [] then []
      else concat (map (schema_of_node nodes cur ps) g) @
        (let missing = perm (filter (\<lambda>n. \<not> dmem g n) (map fst ps)) in
         if missing \<noteq> []
         then [err ''NodeSchemaVersion'' ERROR (''Current node '' @ hn_text cur @ ''. Nodes '' @ py_join '','' (map hn_ip missing) @
                 '' exists in the SYSTEM.PEERS but missed in gossip.'')]
         else []) @
        (if 1 < card (set (gossip_schemas g))
         then [warn ''NodeSchemaVersion'' (''Current node '' @ hn_text cur @ ''. Schema version is not same on all nodes in gossip info: '' @
                 py_join nl (map (\<lambda>(n, gi). hn_text n @ '': '' @ g_schema gi) g))]
         else []) @
        (if 1 < card (set (peer_schemas g ps))
         then [warn ''NodeSchemaVersion'' (''Current node '' @ hn_text cur @ ''. Schema version is not same on all nodes in SYSTEM.PEERS info: '' @
                 py_join nl (map (\<lambda>(n, row). hn_text n @ '': '' @ schema_version row) ps))]
         else []))"

text \<open>
  \<open>BaseNode.node_health_events\<close>. The check of the group 0 comes last; without Raft it yields \<open>None\<close>, so
  what is yielded is a finding or nothing.
\<close>

definition node_health_events ::
  "raft_mode \<Rightarrow> raft_view \<Rightarrow> (peer_row \<Rightarrow> string) \<Rightarrow> (hnode list \<Rightarrow> hnode list) \<Rightarrow> hnode list \<Rightarrow> hnode \<Rightarrow>
     nodes_status \<Rightarrow> gossip_info \<Rightarrow> peers_info \<Rightarrow> finding option list" where
  "node_health_events mode v row_text perm nodes cur ns g ps =
     map Some (check_nodes_status nodes cur ns @
       check_node_status_in_gossip_and_nodetool_status perm nodes cur g ns @
       check_schema_version perm nodes cur g ps ns @
       check_nulls_in_peers row_text nodes cur g ps) @
     map (map_option (err ''Group0TokenRingInconsistency'' ERROR)) (check_group0_tokenring_consistency mode (hn_name cur) v)"

section \<open>Retries\<close>

text \<open>
  \<open>BaseNode.check_node_health\<close>: \<open>events i\<close> is what attempt \<open>i\<close> yields. An iterator that is empty and one
  that yields \<open>None\<close> first both mean a healthy node. The last attempt publishes what it yields, in order;
  calling a method of a \<open>None\<close> raises.
\<close>

fun publish_all :: "finding option list \<Rightarrow> finding list \<times> unit res" where
  "publish_all [] = ([], Inr ())"
| "publish_all (None # es) = ([], Inl AttributeError)"
| "publish_all (Some e # es) = (let (out, r) = publish_all es in (e # out, r))"

fun health_attempts :: "(nat \<Rightarrow> finding option list) \<Rightarrow> nat \<Rightarrow> nat \<Rightarrow> finding list \<times> unit res" where
  "health_attempts events i 0 = ([], Inr ())"
| "health_attempts events i (Suc left) =
     (case events i of
        [] \<Rightarrow> ([], Inr ())
      | None # es \<Rightarrow> ([], Inr ())
      | Some e # es \<Rightarrow> if left = 0 then publish_all (Some e # es) else health_attempts events (i + 1) left)"

definition check_node_health :: "bool \<Rightarrow> nat \<Rightarrow> (nat \<Rightarrow> finding option list) \<Rightarrow> finding list \<times> unit res" where
  "check_node_health enabled retries events = (if enabled then health_attempts events 1 retries else ([], Inr ()))"

definition CHECK_NODE_HEALTH_RETRIES :: nat where "CHECK_NODE_HEALTH_RETRIES = 10"

text \<open>\<open>check_nodes_running_nemesis_count\<close>: the message of the warning, if there is one.\<close>

definition check_nodes_running_nemesis_count :: "hnode list \<Rightarrow> nat \<Rightarrow> finding list" where
  "check_nodes_running_nemesis_count nodes nemesis_count =
     (let running = filter (\<lambda>n. tstr (hn_nemesis n)) nodes in
      if length running \<le> nemesis_count then []
      else [warn ''NodesNemesis'' (''There are more then expected nodes running nemesis: '' @
        py_join ''; '' (map (\<lambda>n. hn_ip n @ '' ('' @ (if hn_seed n then ''seed'' else ''non-seed'') @ ''): '' @ the (hn_nemesis n)) running))])"

text \<open>
  \<open>check_cluster_health\<close>: the nodes are checked in turn unless several nemeses run in parallel. It gives
  the findings that are published and the message of the event around the check; an exception of a check
  leaves the others out. \<open>rows_ok\<close> is the validation of the partitions, which the tester does.
\<close>

fun check_nodes_in_turn :: "(hnode \<Rightarrow> finding list \<times> unit res) \<Rightarrow> hnode list \<Rightarrow> finding list \<times> unit res" where
  "check_nodes_in_turn check [] = ([], Inr ())"
| "check_nodes_in_turn check (n # ns) = (case check n of
     (out, Inl e) \<Rightarrow> (out, Inl e)
   | (out, Inr _) \<Rightarrow> (let (rest, r) = check_nodes_in_turn check ns in (out @ rest, r)))"

definition check_cluster_health ::
  "bool \<Rightarrow> nat \<Rightarrow> hnode list \<Rightarrow> (hnode \<Rightarrow> finding list \<times> unit res) \<Rightarrow> unit res \<Rightarrow> finding list \<times> string option res" where
  "check_cluster_health enabled nemesis_count nodes check rows_ok =
     (if \<not> enabled then ([], Inr None)
      else if nemesis_count \<noteq> 1
      then ([], Inr (Some ''Test runs with parallel nemesis. Nodes health checks are disabled.''))
      else (let (out, r) = check_nodes_in_turn check nodes in
        (case r of
           Inl e \<Rightarrow> (out, Inl e)
         | Inr _ \<Rightarrow> (out @ check_nodes_running_nemesis_count nodes nemesis_count,
             rbind rows_ok (\<lambda>_. Inr (Some ''Cluster health check finished''))))))"

text \<open>
  \<open>check_schema_agreement_in_gossip_and_peers\<close>: \<open>ask i\<close> is the gossip and the peers' information the
  node gives in attempt \<open>i\<close>. The loop over the nodes only collects differences; what follows it
  leaves the loop over the attempts.
\<close>

definition agreement_prefix :: "hnode \<Rightarrow> nat \<Rightarrow> string" where
  "agreement_prefix n i = ''Check for schema agreement on the node '' @ hn_name n @ '' ('' @ hn_text n @ '') [attempt #'' @
     str_nat i @ ''].''"

definition normal_schemas :: "gossip_info \<Rightarrow> string list" where
  "normal_schemas g = map (g_schema \<circ> snd) (filter (\<lambda>(n, gi). g_status gi = ''NORMAL'') g)"

definition differences :: "string \<Rightarrow> gossip_info \<Rightarrow> peers_info \<Rightarrow> string" where
  "differences pref g ps = concat (map (\<lambda>(n, gi). case dget ps n of
       None \<Rightarrow> []
     | Some row \<Rightarrow> if g_status gi = ''NORMAL'' \<and> g_schema gi \<noteq> schema_version row
         then pref @ '' Schema version is not same in the gossip and peers for '' @ hn_text n @ nl else []) g)"

fun agreement_attempts :: "hnode \<Rightarrow> (nat \<Rightarrow> gossip_info \<times> peers_info) \<Rightarrow> nat \<Rightarrow> nat \<Rightarrow> string \<Rightarrow> string" where
  "agreement_attempts n ask i 0 er = er"
| "agreement_attempts n ask i (Suc left) er =
     (let pref = agreement_prefix n i; (g, ps) = ask i in
      if g = [] then agreement_attempts n ask (i + 1) left (pref @ '' Unable to get the gossip info'')
      else if ps = [] then agreement_attempts n ask (i + 1) left (pref @ '' Unable to get the peers info'')
      else if 1 < card (set (normal_schemas g))
      then agreement_attempts n ask (i + 1) left (pref @ '' Schema version is not same on nodes in the gossip'')
      else differences pref g ps)"

definition check_schema_agreement_in_gossip_and_peers :: "hnode \<Rightarrow> (nat \<Rightarrow> gossip_info \<times> peers_info) \<Rightarrow> nat \<Rightarrow> string" where
  "check_schema_agreement_in_gossip_and_peers n ask retries = agreement_attempts n ask 0 retries []"

text \<open>
  \<open>wait_for_schema_agreement\<close>: a try asks the nodes in turn, each on the state of the world, and the first
  one with an error raises; the whole is retried ten times.
\<close>

fun agreement_try :: "(hnode \<Rightarrow> 's \<Rightarrow> string \<times> 's) \<Rightarrow> hnode list \<Rightarrow> 's \<Rightarrow> bool res \<times> 's" where
  "agreement_try check [] s = (Inr True, s)"
| "agreement_try check (n # ns) s = (let (er, s1) = check n s in
     if er \<noteq> [] then (Inl AssertionError, s1) else agreement_try check ns s1)"

definition wait_for_schema_agreement ::
  "'s world_ops \<Rightarrow> (hnode \<Rightarrow> 's \<Rightarrow> string \<times> 's) \<Rightarrow> hnode list \<Rightarrow> 's \<Rightarrow> bool option res \<times> 's" where
  "wait_for_schema_agreement w check nodes =
     retrying w (new_retrying 10 5 (\<lambda>e. e = AssertionError) 0 True) (agreement_try check nodes)"

text \<open>\<open>wait_for_nodes_up_and_normal\<close>; \<open>network_error\<close> are the exceptions of the network.\<close>

definition wait_for_nodes_up_and_normal ::
  "'s world_ops \<Rightarrow> (py_error \<Rightarrow> bool) \<Rightarrow> ('s \<Rightarrow> cluster_status res \<times> 's) \<Rightarrow> hnode list \<Rightarrow> hnode list \<Rightarrow> nat \<Rightarrow> time \<Rightarrow> time \<Rightarrow> 's \<Rightarrow>
     unit option res \<times> 's" where
  "wait_for_nodes_up_and_normal w network_error status all_nodes nodes iterations sleep_time tmout =
     retrying w (new_retrying iterations sleep_time (\<lambda>e. network_error e \<or> e = UnknownException ''ClusterNodesNotReady'') tmout True)
       (\<lambda>s. let (st, s1) = status s in (rbind st (\<lambda>x. check_nodes_up_and_normal x all_nodes nodes), s1))"

section \<open>A healthy node\<close>

text \<open>What it means that the sources agree.\<close>

definition agree_on_status :: "gossip_info \<Rightarrow> nodes_status \<Rightarrow> bool" where
  "agree_on_status g ns \<longleftrightarrow>
     (\<forall>(n, gi)\<in>set g. case dget ns n of
        None \<Rightarrow> g_status gi \<in> set GOSSIP_STATUSES_FILTER_OUT
      | Some p \<Rightarrow> (g_status gi = ''NORMAL'') = (ns_status p = ''UN'')) \<and>
     (\<forall>n. map_option ns_status (dget ns n) = Some ''UN'' \<longrightarrow> dmem g n)"

definition agree_on_schema :: "hnode \<Rightarrow> gossip_info \<Rightarrow> peers_info \<Rightarrow> bool" where
  "agree_on_schema cur g ps \<longleftrightarrow>
     (\<forall>(n, gi)\<in>set g. n \<noteq> cur \<and> g_status gi = ''NORMAL'' \<longrightarrow>
        (\<exists>row. dget ps n = Some row \<and> schema_version row = g_schema gi)) \<and>
     (\<forall>n. dmem ps n \<longrightarrow> dmem g n) \<and>
     card (set (gossip_schemas g)) \<le> 1 \<and> card (set (peer_schemas g ps)) \<le> 1"

definition no_nulls :: "gossip_info \<Rightarrow> peers_info \<Rightarrow> bool" where
  "no_nulls g ps \<longleftrightarrow> (\<forall>(n, row)\<in>set ps. \<forall>gi. dget g n = Some gi \<and> g_status gi \<notin> set GOSSIP_STATUSES_FILTER_OUT \<longrightarrow>
     Some ''null'' \<notin> set (row_values row))"

definition group0_ok :: "raft_view \<Rightarrow> bool" where
  "group0_ok v \<longleftrightarrow> (\<forall>m\<in>set (group0 v). voter m \<and> Some (g0_host_id m) \<in> r_host_id ` set (ring v))"

lemma concat_map_Nil: "concat (map f xs) = [] \<longleftrightarrow> (\<forall>x\<in>set xs. f x = [])"
  by auto

lemma status_findings_Nil: "check_nodes_status nodes cur ns = [] \<longleftrightarrow> (\<forall>(n, p)\<in>set ns. ns_status p = ''UN'')"
  unfolding check_nodes_status_def concat_map_Nil by (rule ball_cong) (simp_all add: case_prod_unfold)

lemma nulls_findings_Nil: "g \<noteq> [] \<Longrightarrow> check_nulls_in_peers row_text nodes cur g ps = [] \<longleftrightarrow> no_nulls g ps"
  unfolding check_nulls_in_peers_def no_nulls_def if_not_P concat_map_Nil
  by (rule ball_cong) (auto simp: list_all_iff split: option.splits if_splits)

lemma cross_findings_Nil:
  assumes "ns \<noteq> []" and "\<And>xs. set (perm xs) = set xs"
  shows "check_node_status_in_gossip_and_nodetool_status perm nodes cur g ns = [] \<longleftrightarrow> agree_on_status g ns"
proof -
  have "map_option ns_status (dget ns n) = Some ''UN'' \<Longrightarrow> n \<in> fst ` set ns" for n
    by (auto dest: map_of_SomeD intro: rev_image_eqI)
  then show ?thesis
    unfolding check_node_status_in_gossip_and_nodetool_status_def agree_on_status_def if_not_P[OF assms(1)] append_is_Nil_conv concat_map_Nil
    by (intro arg_cong2[of _ _ _ _ "(\<and>)"] ball_cong) (auto simp: assms(2) split: option.splits if_splits)
qed

lemma schema_of_node_Nil:
  "schema_of_node nodes cur ps (n, gi) = [] \<longleftrightarrow>
     (n \<noteq> cur \<and> g_status gi = ''NORMAL'' \<longrightarrow> (\<exists>row. dget ps n = Some row \<and> schema_version row = g_schema gi))"
  by (auto simp: schema_of_node_def split: option.splits)

lemma schema_findings_Nil:
  assumes "length ns \<noteq> 1" and "ps \<noteq> []" and "g \<noteq> []" and "\<And>xs. set (perm xs) = set xs"
  shows "check_schema_version perm nodes cur g ps ns = [] \<longleftrightarrow> agree_on_schema cur g ps"
proof -
  have "perm (filter (\<lambda>n. \<not> dmem g n) (map fst ps)) = [] \<longleftrightarrow> set (perm (filter (\<lambda>n. \<not> dmem g n) (map fst ps))) = {}" by simp
  also have "\<dots> \<longleftrightarrow> (\<forall>n. dmem ps n \<longrightarrow> dmem g n)" unfolding assms(4) by (auto simp: dmem_iff)
  finally have missing: "perm (filter (\<lambda>n. \<not> dmem g n) (map fst ps)) = [] \<longleftrightarrow> (\<forall>n. dmem ps n \<longrightarrow> dmem g n)" .
  have each: "(\<forall>x\<in>set g. schema_of_node nodes cur ps x = []) \<longleftrightarrow>
      (\<forall>(n, gi)\<in>set g. n \<noteq> cur \<and> g_status gi = ''NORMAL'' \<longrightarrow> (\<exists>row. dget ps n = Some row \<and> schema_version row = g_schema gi))"
    by (rule ball_cong) (auto simp: schema_of_node_Nil)
  show ?thesis
    using assms(1-3) unfolding check_schema_version_def agree_on_schema_def
    by (simp add: Let_def concat_map_Nil each missing not_less del: concat_eq_Nil_conv)
qed

text \<open>
  C24. With all sources available and more than one node, the health checks yield nothing exactly when every
  node is up, the gossip and \<open>nodetool\<close> agree on the status of every node, the gossip and the peers agree
  on one schema version, no row has a null and the group 0 is the token ring. \<open>perm\<close> is the order of a set.
\<close>

theorem health_checks_exact:
  assumes "1 < length ns" and "g \<noteq> []" and "ps \<noteq> []" and "\<And>xs. set (perm xs) = set xs"
  shows "node_health_events RaftFeature v row_text perm nodes cur ns g ps = [] \<longleftrightarrow>
    (\<forall>(n, p)\<in>set ns. ns_status p = ''UN'') \<and> agree_on_status g ns \<and> agree_on_schema cur g ps \<and> no_nulls g ps \<and> group0_ok v"
proof -
  have "ns \<noteq> []" and "length ns \<noteq> 1" using assms(1) by auto
  with assms show ?thesis
    by (simp add: node_health_events_def status_findings_Nil cross_findings_Nil schema_findings_Nil nulls_findings_Nil
        group0_check_Nil group0_ok_def)
qed

definition sample_row :: "string \<Rightarrow> peer_row" where
  "sample_row schema = \<lparr>p_peer = ''10.0.0.2'', p_data_center = Some ''dc1'', p_host_id = Some ''b'', p_rack = Some ''r1'',
     p_release_version = Some ''3.0.8'', p_rpc_address = Some ''10.0.0.2'', p_schema_version = Some schema, p_supported_features = None\<rparr>"

definition sample_n1 :: hnode where "sample_n1 = sample_node ''n1'' ''10.0.0.1''"

definition sample_n2 :: hnode where "sample_n2 = sample_node ''n2'' ''10.0.0.2''"

definition sample_status :: nodes_status where
  "sample_status = map (\<lambda>n. (n, \<lparr>ns_status = ''UN'', ns_dc = ''dc1'', ns_rack = ''r1''\<rparr>)) [sample_n1, sample_n2]"

definition sample_gossip :: gossip_info where
  "sample_gossip = map (\<lambda>n. (n, \<lparr>g_schema = ''s1'', g_status = ''NORMAL'', g_dc = ''dc1''\<rparr>)) [sample_n1, sample_n2]"

lemma sample_nodes_distinct: "sample_n1 \<noteq> sample_n2" "sample_n2 \<noteq> sample_n1"
  by (simp_all add: sample_n1_def sample_n2_def sample_node_def)

lemmas sample_health_defs = sample_status_def sample_gossip_def sample_nodes_distinct sample_row_def

theorem health_checks_exact_witness:
  "node_health_events RaftFeature sample_view (\<lambda>_. []) id [sample_n1, sample_n2] sample_n1 sample_status sample_gossip
     [(sample_n2, sample_row ''s1'')] = [] \<and>
   node_health_events RaftFeature sample_view (\<lambda>_. []) id [sample_n1, sample_n2] sample_n1 sample_status sample_gossip
     [(sample_n2, sample_row ''s2'')] \<noteq> []"
proof -
  have "1 < length sample_status" "sample_gossip \<noteq> []" by (simp_all add: sample_health_defs)
  note exact = health_checks_exact[OF this, where perm = id]
  have "agree_on_status sample_gossip sample_status" and "group0_ok sample_view"
    by (simp_all add: agree_on_status_def group0_ok_def dmem_def sample_view_def sample_health_defs)
  moreover have "agree_on_schema sample_n1 sample_gossip [(sample_n2, sample_row ''s1'')]"
    and "\<not> agree_on_schema sample_n1 sample_gossip [(sample_n2, sample_row ''s2'')]"
    by (simp_all add: agree_on_schema_def dmem_def gossip_schemas_def peer_schemas_def schema_version_def
        GOSSIP_STATUSES_FILTER_OUT_def sample_health_defs)
  moreover have "no_nulls sample_gossip [(sample_n2, sample_row ''s1'')]"
    by (simp add: no_nulls_def row_values_def sample_row_def)
  moreover have "\<forall>(n, p)\<in>set sample_status. ns_status p = ''UN''" by (simp add: sample_status_def)
  ultimately show ?thesis by (simp add: exact)
qed

section \<open>Attempts\<close>

text \<open>An attempt after which the node counts as healthy.\<close>

definition seems_healthy :: "finding option list \<Rightarrow> bool" where
  "seems_healthy es \<longleftrightarrow> es = [] \<or> hd es = None"

lemma health_attempts_eq:
  "health_attempts events i (Suc left) =
     (if \<exists>j\<le>left. seems_healthy (events (i + j)) then ([], Inr ()) else publish_all (events (i + left)))"
proof (induction left arbitrary: i)
  case 0
  then show ?case by (simp add: seems_healthy_def split: list.splits option.splits)
next
  case (Suc left)
  have ex: "(\<exists>j\<le>Suc left. seems_healthy (events (i + j))) \<longleftrightarrow>
      seems_healthy (events i) \<or> (\<exists>j\<le>left. seems_healthy (events (i + 1 + j)))"
    by (metis Suc_le_mono add_Suc_right add_0_right add_Suc not0_implies_Suc plus_1_eq_Suc add.commute le0)
  show ?case
  proof (cases "seems_healthy (events i)")
    case True
    then show ?thesis unfolding ex by (auto simp: seems_healthy_def split: list.splits)
  next
    case False
    then obtain e es where "events i = Some e # es" by (cases "events i") (auto simp: seems_healthy_def)
    then have "health_attempts events i (Suc (Suc left)) = health_attempts events (i + 1) (Suc left)" by simp
    with Suc.IH[of "i + 1"] have step: "health_attempts events i (Suc (Suc left)) =
        (if \<exists>j\<le>left. seems_healthy (events (i + 1 + j)) then ([], Inr ()) else publish_all (events (i + 1 + left)))"
      by (simp only:)
    show ?thesis unfolding step ex using False by auto
  qed
qed

text \<open>
  C25. Health events are published at most once, by the last attempt, and only when none of the attempts
  before it found the node healthy: then what the last attempt yields is published, in order.
\<close>

theorem health_published_last:
  assumes "0 < retries"
  shows "check_node_health True retries events =
    (if \<exists>i\<in>{1..retries}. seems_healthy (events i) then ([], Inr ()) else publish_all (events retries))"
proof -
  obtain left where r: "retries = Suc left" using assms by (cases retries) auto
  have "(\<exists>j\<le>left. seems_healthy (events (1 + j))) \<longleftrightarrow> (\<exists>i\<in>{1..retries}. seems_healthy (events i))"
    unfolding r by (metis One_nat_def Suc_le_mono atLeastAtMost_iff le_add1 plus_1_eq_Suc Suc_le_D add.commute)
  then show ?thesis unfolding check_node_health_def r health_attempts_eq by simp
qed

definition sample_finding :: finding where "sample_finding = warn ''NodesNemesis'' ''m''"

theorem health_published_last_witness:
  "check_node_health True 2 (\<lambda>i. [Some sample_finding]) = ([sample_finding], Inr ()) \<and>
   check_node_health True 2 (\<lambda>i. if i = 2 then [] else [Some sample_finding]) = ([], Inr ())"
  using health_published_last[of 2 "\<lambda>i. [Some sample_finding]"]
    health_published_last[of 2 "\<lambda>i. if i = 2 then [] else [Some sample_finding]"]
  by (auto simp: seems_healthy_def)

lemma publish_all_None: "publish_all (map Some fs @ [None]) = (fs, Inl AttributeError)"
  by (induction fs) simp_all

text \<open>
  Without Raft the check of the group 0 yields \<open>None\<close>. So a node that stays unhealthy makes
  \<open>check_node_health\<close> raise an \<open>AttributeError\<close> in its last attempt, after it published the findings.
\<close>

theorem no_raft_health_raises:
  assumes "0 < retries" and "check_nodes_status nodes cur ns \<noteq> []"
  shows "snd (check_node_health True retries (\<lambda>_. node_health_events NoRaft v row_text perm nodes cur ns g ps)) = Inl AttributeError"
proof -
  obtain fs where es: "node_health_events NoRaft v row_text perm nodes cur ns g ps = map Some fs @ [None]" and fs: "fs \<noteq> []"
    using assms(2) by (auto simp: node_health_events_def check_group0_tokenring_consistency_def simp flip: map_append)
  then have "\<not> seems_healthy (map Some fs @ [None])" by (cases fs) (simp_all add: seems_healthy_def)
  then show ?thesis using assms(1) health_attempts_eq[of _ 1 "retries - 1"]
    by (simp add: check_node_health_def es publish_all_None)
qed

theorem no_raft_health_raises_witness:
  "snd (check_node_health True 10 (\<lambda>_. node_health_events NoRaft sample_view (\<lambda>_. []) id [sample_n1] sample_n1
     [(sample_n1, \<lparr>ns_status = ''DN'', ns_dc = ''dc1'', ns_rack = ''r1''\<rparr>)] [] [])) = Inl AttributeError"
  by (rule no_raft_health_raises) (simp_all add: check_nodes_status_def)

section \<open>Schema agreement\<close>

text \<open>
  The first attempt in which the gossip and the peers answer and the gossip has one schema version
  decides: differences between the gossip and the peers are returned at once, with tries left.
\<close>

theorem differences_not_retried:
  assumes "ask i = (g, ps)" and "g \<noteq> []" and "ps \<noteq> []" and "card (set (normal_schemas g)) \<le> 1"
    and "\<And>j. j < i \<Longrightarrow> fst (ask j) = [] \<or> snd (ask j) = [] \<or> 1 < card (set (normal_schemas (fst (ask j))))" and "i < retries"
  shows "check_schema_agreement_in_gossip_and_peers n ask retries = differences (agreement_prefix n i) g ps"
proof -
  have "agreement_attempts n ask k left er = differences (agreement_prefix n i) g ps" if "k \<le> i" "i < k + left" for k left er
    using that
  proof (induction left arbitrary: k er)
    case (Suc left)
    obtain g' ps' where ask: "ask k = (g', ps')" by (cases "ask k")
    show ?case
    proof (cases "k = i")
      case True
      with assms(1-4) show ?thesis by (simp add: not_less)
    next
      case False
      with Suc.prems have "k < i" by simp
      then show ?thesis using assms(5)[of k] Suc.IH[of "k + 1"] Suc.prems ask by (auto simp: Let_def)
    qed
  qed simp
  then show ?thesis using assms(6) by (simp add: check_schema_agreement_in_gossip_and_peers_def)
qed

theorem differences_not_retried_witness:
  "check_schema_agreement_in_gossip_and_peers sample_n1 (\<lambda>i. (sample_gossip, [(sample_n2, sample_row ''s2'')])) 10 =
     differences (agreement_prefix sample_n1 0) sample_gossip [(sample_n2, sample_row ''s2'')] \<and>
   differences (agreement_prefix sample_n1 0) sample_gossip [(sample_n2, sample_row ''s2'')] \<noteq> []"
proof -
  have "check_schema_agreement_in_gossip_and_peers sample_n1 (\<lambda>i. (sample_gossip, [(sample_n2, sample_row ''s2'')])) 10 =
     differences (agreement_prefix sample_n1 0) sample_gossip [(sample_n2, sample_row ''s2'')]"
    by (rule differences_not_retried[where i = 0]) (simp_all add: normal_schemas_def sample_health_defs)
  then show ?thesis by (simp add: differences_def schema_version_def sample_health_defs)
qed

text \<open>\<open>wait_for_schema_agreement\<close> returns only after one try in which every node agreed.\<close>

lemma agreement_waited:
  assumes "wait_for_schema_agreement w check nodes s = (Inr x, s1)"
  shows "x = Some True \<and> (\<exists>s0. agreement_try check nodes s0 = (Inr True, s1))"
proof -
  have val: "fst (agreement_try check nodes s0) = Inr v \<Longrightarrow> v" for s0 v
    by (induction check nodes s0 rule: agreement_try.induct) (auto simp: Let_def split: prod.splits if_splits)
  obtain v s0 where "x = Some v" "agreement_try check nodes s0 = (Inr v, s1)"
    using assms unfolding wait_for_schema_agreement_def by (rule retrying_value) (simp_all add: new_retrying_def)
  with val[of s0 v] show ?thesis by auto
qed

end
