(* ===== verification/Nemesis_Classes.thy ===== *)
theory Nemesis_Classes
  imports Pystd
begin

text \<open>
  The nemesis classes of \<open>sdcm/nemesis.py\<close>: for each class its name, its base class, the flags its body
  sets and the lines of its source that mention a disrupt method, which is what
  \<open>inspect.getsource\<close> is searched for. The classes are listed in the order of the file.
\<close>

section \<open>Classes\<close>

record nemesis_class =
  nc_name :: string
  nc_base :: string
  nc_flags :: "(string, bool) dict"
  nc_source :: string

definition nemesis_cls :: "string \<Rightarrow> string \<Rightarrow> (string, bool) dict \<Rightarrow> string \<Rightarrow> nemesis_class" where
  "nemesis_cls name base flags source = \<lparr>nc_name = name, nc_base = base, nc_flags = flags, nc_source = source\<rparr>"

definition flag_on :: "string \<Rightarrow> string \<times> bool" where "flag_on f = (f, True)"

definition flag_off :: "string \<Rightarrow> string \<times> bool" where "flag_off f = (f, False)"

text \<open>A call of a disrupt method in a source, and several lines of a source.\<close>

definition disrupt_call :: "string \<Rightarrow> string \<Rightarrow> string" where
  "disrupt_call m args = ''self.disrupt_'' @ m @ ''('' @ args @ '')''"

definition source_lines :: "string list \<Rightarrow> string" where "source_lines ls = py_join nl ls"

text \<open>The flags of the class \<open>Nemesis\<close> itself.\<close>

definition Nemesis_flags :: "(string, bool) dict" where
  "Nemesis_flags =
     [flag_off ''topology_changes'', flag_off ''disruptive'', flag_on ''run_with_gemini'', flag_off ''networking'', flag_off ''kubernetes'', flag_off ''limited'',
      flag_off ''has_steady_run'', flag_off ''schema_changes'', flag_off ''config_changes'', flag_off ''free_tier_set'', flag_off ''manager_operation'',
      flag_off ''delete_rows'', flag_off ''zero_node_changes'']"

definition nemesis_classes_1 :: "nemesis_class list" where
  "nemesis_classes_1 =
    [nemesis_cls ''SslHotReloadingNemesis'' ''Nemesis'' [flag_off ''disruptive'', flag_on ''config_changes'']
       (disrupt_call ''hot_reloading_internode_certificate'' ''''),
     nemesis_cls ''PauseLdapNemesis'' ''Nemesis'' [flag_off ''disruptive'', flag_on ''limited'']
       (disrupt_call ''ldap_connection_toggle'' ''''),
     nemesis_cls ''ToggleLdapConfiguration'' ''Nemesis'' [flag_on ''disruptive'', flag_on ''limited'']
       (disrupt_call ''disable_enable_ldap_authorization'' ''''),
     nemesis_cls ''NoOpMonkey'' ''Nemesis'' [flag_on ''kubernetes'']
       ([]),
     nemesis_cls ''AddRemoveDcNemesis'' ''Nemesis'' [flag_on ''disruptive'', flag_off ''kubernetes'', flag_off ''run_with_gemini'', flag_on ''limited'', flag_on ''topology_changes'']
       (disrupt_call ''add_remove_dc'' ''''),
     nemesis_cls ''GrowShrinkClusterNemesis'' ''Nemesis'' [flag_on ''disruptive'', flag_on ''kubernetes'', flag_on ''topology_changes'']
       (disrupt_call ''grow_shrink_cluster'' ''''),
     nemesis_cls ''AddRemoveRackNemesis'' ''Nemesis'' [flag_on ''disruptive'', flag_on ''kubernetes'', flag_on ''config_changes'']
       (disrupt_call ''grow_shrink_new_rack'' ''''),
     nemesis_cls ''StopWaitStartMonkey'' ''Nemesis'' [flag_on ''disruptive'', flag_on ''kubernetes'', flag_on ''limited'', flag_on ''zero_node_changes'']
       (disrupt_call ''stop_wait_start_scylla_server'' ''600''),
     nemesis_cls ''StopStartMonkey'' ''Nemesis'' [flag_on ''disruptive'', flag_on ''kubernetes'', flag_on ''limited'']
       (disrupt_call ''stop_start_scylla_server'' ''''),
     nemesis_cls ''EnableDisableTableEncryptionAwsKmsProviderWithRotationMonkey'' ''Nemesis'' [flag_on ''disruptive'', flag_off ''kubernetes'']
       (disrupt_call ''enable_disable_table_encryption_aws_kms_provider_with_rotation'' ''''),
     nemesis_cls ''EnableDisableTableEncryptionAwsKmsProviderWithoutRotationMonkey'' ''Nemesis'' [flag_on ''disruptive'', flag_off ''kubernetes'']
       (disrupt_call ''enable_disable_table_encryption_aws_kms_provider_without_rotation'' ''''),
     nemesis_cls ''EnableDisableTableEncryptionAwsKmsProviderMonkey'' ''Nemesis'' [flag_on ''disruptive'', flag_off ''kubernetes'']
       (source_lines [''self.disrupt_methods_list = ['', ''self.call_random_disrupt_method(disrupt_methods=self.disrupt_methods_list, predefined_sequence=True)''])]"

definition nemesis_classes_2 :: "nemesis_class list" where
  "nemesis_classes_2 =
    [nemesis_cls ''RestartThenRepairNodeMonkey'' ''Nemesis'' [flag_on ''disruptive'', flag_on ''kubernetes'']
       (disrupt_call ''restart_then_repair_node'' ''''),
     nemesis_cls ''MultipleHardRebootNodeMonkey'' ''Nemesis'' [flag_on ''disruptive'', flag_on ''kubernetes'', flag_on ''free_tier_set'']
       (disrupt_call ''multiple_hard_reboot_node'' ''''),
     nemesis_cls ''HardRebootNodeMonkey'' ''Nemesis'' [flag_on ''disruptive'', flag_on ''kubernetes'', flag_on ''limited'', flag_on ''free_tier_set'']
       (disrupt_call ''hard_reboot_node'' ''''),
     nemesis_cls ''SoftRebootNodeMonkey'' ''Nemesis'' [flag_on ''disruptive'', flag_on ''kubernetes'', flag_on ''limited'', flag_on ''free_tier_set'']
       (disrupt_call ''soft_reboot_node'' ''''),
     nemesis_cls ''DrainerMonkey'' ''Nemesis'' [flag_on ''disruptive'', flag_on ''kubernetes'', flag_on ''limited'', flag_on ''topology_changes'']
       (disrupt_call ''nodetool_drain'' ''''),
     nemesis_cls ''CorruptThenRepairMonkey'' ''Nemesis'' [flag_on ''disruptive'', flag_on ''kubernetes'']
       (disrupt_call ''destroy_data_then_repair'' ''''),
     nemesis_cls ''CorruptThenRebuildMonkey'' ''Nemesis'' [flag_on ''disruptive'', flag_on ''kubernetes'']
       (disrupt_call ''destroy_data_then_rebuild'' ''''),
     nemesis_cls ''DecommissionMonkey'' ''Nemesis'' [flag_on ''disruptive'', flag_on ''limited'', flag_on ''topology_changes'']
       (disrupt_call ''nodetool_decommission'' ''''),
     nemesis_cls ''DecommissionSeedNode'' ''Nemesis'' [flag_on ''disruptive'', flag_on ''topology_changes'']
       (disrupt_call ''nodetool_seed_decommission'' ''''),
     nemesis_cls ''NoCorruptRepairMonkey'' ''Nemesis'' [flag_off ''disruptive'', flag_on ''kubernetes'', flag_on ''limited'']
       (disrupt_call ''no_corrupt_repair'' ''''),
     nemesis_cls ''MajorCompactionMonkey'' ''Nemesis'' [flag_off ''disruptive'', flag_on ''kubernetes'', flag_on ''limited'']
       (disrupt_call ''major_compaction'' ''''),
     nemesis_cls ''RefreshMonkey'' ''Nemesis'' [flag_off ''disruptive'', flag_off ''run_with_gemini'', flag_on ''kubernetes'', flag_on ''limited'']
       (disrupt_call ''nodetool_refresh'' ''big_sstable=False'')]"

definition nemesis_classes_3 :: "nemesis_class list" where
  "nemesis_classes_3 =
    [nemesis_cls ''LoadAndStreamMonkey'' ''Nemesis'' [flag_off ''disruptive'', flag_off ''run_with_gemini'', flag_on ''kubernetes'', flag_on ''limited'']
       (disrupt_call ''load_and_stream'' ''''),
     nemesis_cls ''RefreshBigMonkey'' ''Nemesis'' [flag_off ''disruptive'', flag_off ''run_with_gemini'', flag_on ''kubernetes'']
       (disrupt_call ''nodetool_refresh'' ''big_sstable=True''),
     nemesis_cls ''RemoveServiceLevelMonkey'' ''Nemesis'' [flag_on ''disruptive'', flag_on ''sla'']
       (disrupt_call ''remove_service_level_while_load'' ''''),
     nemesis_cls ''EnospcMonkey'' ''Nemesis'' [flag_on ''disruptive'', flag_on ''kubernetes'', flag_on ''limited'']
       (disrupt_call ''nodetool_enospc'' ''''),
     nemesis_cls ''EnospcAllNodesMonkey'' ''Nemesis'' [flag_on ''disruptive'', flag_on ''kubernetes'']
       (disrupt_call ''nodetool_enospc'' ''all_nodes=True''),
     nemesis_cls ''NodeToolCleanupMonkey'' ''Nemesis'' [flag_off ''disruptive'', flag_on ''kubernetes'', flag_on ''limited'']
       (disrupt_call ''nodetool_cleanup'' ''''),
     nemesis_cls ''TruncateMonkey'' ''Nemesis'' [flag_off ''disruptive'', flag_on ''kubernetes'', flag_on ''limited'', flag_on ''free_tier_set'']
       (disrupt_call ''truncate'' ''''),
     nemesis_cls ''TruncateLargeParititionMonkey'' ''Nemesis'' [flag_off ''disruptive'', flag_on ''kubernetes'', flag_on ''free_tier_set'']
       (disrupt_call ''truncate_large_partition'' ''''),
     nemesis_cls ''DeleteByPartitionsMonkey'' ''Nemesis'' [flag_off ''disruptive'', flag_on ''kubernetes'', flag_on ''free_tier_set'', flag_on ''delete_rows'']
       (disrupt_call ''delete_10_full_partitions'' ''''),
     nemesis_cls ''DeleteByRowsRangeMonkey'' ''Nemesis'' [flag_off ''disruptive'', flag_on ''kubernetes'', flag_on ''free_tier_set'', flag_on ''delete_rows'']
       (disrupt_call ''delete_by_rows_range'' ''''),
     nemesis_cls ''DeleteOverlappingRowRangesMonkey'' ''Nemesis'' [flag_off ''disruptive'', flag_on ''kubernetes'', flag_on ''free_tier_set'', flag_on ''delete_rows'']
       (disrupt_call ''delete_overlapping_row_ranges'' ''''),
     nemesis_cls ''ChaosMonkey'' ''Nemesis'' []
       ([])]"

definition classes_CategoricalMonkey :: "nemesis_class list" where
  "classes_CategoricalMonkey =
    [nemesis_cls ''CategoricalMonkey'' ''Nemesis'' []
       ([])]"

definition nemesis_classes_5 :: "nemesis_class list" where
  "nemesis_classes_5 =
    [nemesis_cls ''LimitedChaosMonkey'' ''Nemesis'' []
       (source_lines [''self.disrupt_methods_list = self.get_list_of_methods_compatible_with_backend(limited=True)'', ''self.call_random_disrupt_method(disrupt_methods=self.disrupt_methods_list)'']),
     nemesis_cls ''ScyllaCloudLimitedChaosMonkey'' ''Nemesis'' []
       ([]),
     nemesis_cls ''AllMonkey'' ''Nemesis'' []
       ([]),
     nemesis_cls ''MdcChaosMonkey'' ''Nemesis'' []
       ([])]"

definition classes_UpgradeNemesis :: "nemesis_class list" where
  "classes_UpgradeNemesis =
    [nemesis_cls ''UpgradeNemesis'' ''Nemesis'' []
       ([])]"

definition classes_UpgradeNemesisOneNode :: "nemesis_class list" where
  "classes_UpgradeNemesisOneNode =
    [nemesis_cls ''UpgradeNemesisOneNode'' ''UpgradeNemesis'' []
       ([])]"

definition classes_RollbackNemesis :: "nemesis_class list" where
  "classes_RollbackNemesis =
    [nemesis_cls ''RollbackNemesis'' ''Nemesis'' []
       ([])]"

definition nemesis_classes_9 :: "nemesis_class list" where
  "nemesis_classes_9 =
    [nemesis_cls ''ModifyTableMonkey'' ''Nemesis'' [flag_off ''disruptive'', flag_on ''kubernetes'', flag_on ''limited'', flag_on ''schema_changes'', flag_on ''free_tier_set'']
       (disrupt_call ''modify_table'' ''''),
     nemesis_cls ''AddDropColumnMonkey'' ''Nemesis'' [flag_off ''disruptive'', flag_off ''run_with_gemini'', flag_off ''networking'', flag_on ''kubernetes'', flag_on ''limited'', flag_on ''schema_changes'', flag_on ''free_tier_set'']
       (disrupt_call ''add_drop_column'' ''''),
     nemesis_cls ''ToggleTableIcsMonkey'' ''Nemesis'' [flag_on ''kubernetes'', flag_on ''schema_changes'', flag_on ''free_tier_set'']
       (disrupt_call ''toggle_table_ics'' ''''),
     nemesis_cls ''ToggleGcModeMonkey'' ''Nemesis'' [flag_on ''kubernetes'', flag_off ''disruptive'', flag_on ''schema_changes'', flag_on ''free_tier_set'']
       (disrupt_call ''toggle_table_gc_mode'' ''''),
     nemesis_cls ''MgmtBackup'' ''Nemesis'' [flag_on ''manager_operation'', flag_off ''disruptive'', flag_on ''limited'']
       (disrupt_call ''mgmt_backup'' ''''),
     nemesis_cls ''MgmtBackupSpecificKeyspaces'' ''Nemesis'' [flag_on ''manager_operation'', flag_off ''disruptive'', flag_on ''limited'']
       (disrupt_call ''mgmt_backup_specific_keyspaces'' ''''),
     nemesis_cls ''MgmtRestore'' ''Nemesis'' [flag_on ''manager_operation'', flag_on ''disruptive'', flag_on ''kubernetes'', flag_on ''limited'']
       (disrupt_call ''mgmt_restore'' ''''),
     nemesis_cls ''MgmtRepair'' ''Nemesis'' [flag_on ''manager_operation'', flag_off ''disruptive'', flag_on ''kubernetes'', flag_on ''limited'']
       (disrupt_call ''mgmt_repair_cli'' ''''),
     nemesis_cls ''MgmtCorruptThenRepair'' ''Nemesis'' [flag_on ''manager_operation'', flag_on ''disruptive'', flag_on ''kubernetes'']
       (disrupt_call ''mgmt_corrupt_then_repair'' ''''),
     nemesis_cls ''AbortRepairMonkey'' ''Nemesis'' [flag_off ''disruptive'', flag_on ''kubernetes'', flag_on ''limited'']
       (disrupt_call ''abort_repair'' '''')]"

definition nemesis_classes_10 :: "nemesis_class list" where
  "nemesis_classes_10 =
    [nemesis_cls ''NodeTerminateAndReplace'' ''Nemesis'' [flag_on ''disruptive'', flag_off ''kubernetes'', flag_on ''topology_changes'', flag_on ''zero_node_changes'']
       (disrupt_call ''terminate_and_replace_node'' ''''),
     nemesis_cls ''DrainKubernetesNodeThenReplaceScyllaNode'' ''Nemesis'' [flag_on ''disruptive'', flag_on ''kubernetes'']
       (disrupt_call ''drain_kubernetes_node_then_replace_scylla_node'' ''''),
     nemesis_cls ''TerminateKubernetesHostThenReplaceScyllaNode'' ''Nemesis'' [flag_on ''disruptive'', flag_on ''kubernetes'']
       (disrupt_call ''terminate_kubernetes_host_then_replace_scylla_node'' ''''),
     nemesis_cls ''DisruptKubernetesNodeThenReplaceScyllaNode'' ''Nemesis'' [flag_on ''disruptive'', flag_on ''kubernetes'']
       (source_lines [''self.disrupt_methods_list = ['', ''self.call_random_disrupt_method(disrupt_methods=self.disrupt_methods_list)'']),
     nemesis_cls ''DrainKubernetesNodeThenDecommissionAndAddScyllaNode'' ''Nemesis'' [flag_on ''disruptive'', flag_on ''kubernetes'']
       (disrupt_call ''drain_kubernetes_node_then_decommission_and_add_scylla_node'' ''''),
     nemesis_cls ''TerminateKubernetesHostThenDecommissionAndAddScyllaNode'' ''Nemesis'' [flag_on ''disruptive'', flag_on ''kubernetes'']
       (disrupt_call ''terminate_kubernetes_host_then_decommission_and_add_scylla_node'' ''''),
     nemesis_cls ''DisruptKubernetesNodeThenDecommissionAndAddScyllaNode'' ''Nemesis'' [flag_on ''disruptive'', flag_on ''kubernetes'']
       (source_lines [''self.disrupt_methods_list = ['', ''self.call_random_disrupt_method(disrupt_methods=self.disrupt_methods_list)'']),
     nemesis_cls ''K8sSetMonkey'' ''Nemesis'' [flag_on ''disruptive'', flag_on ''kubernetes'']
       (source_lines [''self.disrupt_methods_list = ['', ''disrupt_methods=self.disrupt_methods_list, predefined_sequence=True)'']),
     nemesis_cls ''OperatorNodeReplace'' ''Nemesis'' [flag_on ''disruptive'', flag_on ''kubernetes'', flag_on ''free_tier_set'']
       (disrupt_call ''replace_scylla_node_on_kubernetes'' ''''),
     nemesis_cls ''OperatorNodetoolFlushAndReshard'' ''Nemesis'' [flag_on ''disruptive'', flag_on ''kubernetes'']
       (disrupt_call ''nodetool_flush_and_reshard_on_kubernetes'' '''')]"

definition nemesis_classes_11 :: "nemesis_class list" where
  "nemesis_classes_11 =
    [nemesis_cls ''ScyllaKillMonkey'' ''Nemesis'' [flag_on ''disruptive'', flag_on ''kubernetes'', flag_on ''free_tier_set'']
       (disrupt_call ''kill_scylla'' ''''),
     nemesis_cls ''ValidateHintedHandoffShortDowntime'' ''Nemesis'' [flag_on ''disruptive'', flag_on ''kubernetes'', flag_on ''free_tier_set'']
       (disrupt_call ''validate_hh_short_downtime'' ''''),
     nemesis_cls ''SnapshotOperations'' ''Nemesis'' [flag_off ''disruptive'', flag_on ''kubernetes'', flag_on ''limited'']
       (disrupt_call ''snapshot_operations'' ''''),
     nemesis_cls ''NodeRestartWithResharding'' ''Nemesis'' [flag_on ''disruptive'', flag_on ''kubernetes'', flag_on ''topology_changes'', flag_on ''config_changes'']
       (disrupt_call ''restart_with_resharding'' ''''),
     nemesis_cls ''ClusterRollingRestart'' ''Nemesis'' [flag_on ''disruptive'', flag_on ''kubernetes'', flag_on ''free_tier_set'']
       (disrupt_call ''rolling_restart_cluster'' ''random_order=False''),
     nemesis_cls ''RollingRestartConfigChangeInternodeCompression'' ''Nemesis'' [flag_on ''disruptive'', flag_on ''full_cluster_restart'', flag_on ''config_changes'']
       (disrupt_call ''rolling_config_change_internode_compression'' ''''),
     nemesis_cls ''ClusterRollingRestartRandomOrder'' ''Nemesis'' [flag_on ''disruptive'', flag_on ''kubernetes'', flag_on ''free_tier_set'']
       (disrupt_call ''rolling_restart_cluster'' ''random_order=True''),
     nemesis_cls ''SwitchBetweenPasswordAuthAndSaslauthdAuth'' ''Nemesis'' [flag_on ''disruptive'', flag_on ''config_changes'']
       (disrupt_call ''switch_between_password_authenticator_and_saslauthd_authenticator_and_back'' ''''),
     nemesis_cls ''TopPartitions'' ''Nemesis'' [flag_off ''disruptive'', flag_on ''kubernetes'', flag_on ''limited'']
       (disrupt_call ''show_toppartitions'' ''''),
     nemesis_cls ''RandomInterruptionNetworkMonkey'' ''Nemesis'' [flag_on ''disruptive'', flag_on ''networking'', flag_off ''run_with_gemini'', flag_on ''kubernetes'']
       (disrupt_call ''network_random_interruptions'' ''''),
     nemesis_cls ''BlockNetworkMonkey'' ''Nemesis'' [flag_on ''disruptive'', flag_on ''networking'', flag_off ''run_with_gemini'', flag_on ''kubernetes'']
       (disrupt_call ''network_block'' ''''),
     nemesis_cls ''RejectInterNodeNetworkMonkey'' ''Nemesis'' [flag_on ''disruptive'', flag_on ''networking'', flag_off ''run_with_gemini'', flag_on ''free_tier_set'']
       (disrupt_call ''network_reject_inter_node_communication'' '''')]"

definition nemesis_classes_12 :: "nemesis_class list" where
  "nemesis_classes_12 =
    [nemesis_cls ''RejectNodeExporterNetworkMonkey'' ''Nemesis'' [flag_on ''disruptive'', flag_on ''networking'', flag_off ''run_with_gemini'']
       (disrupt_call ''network_reject_node_exporter'' ''''),
     nemesis_cls ''RejectThriftNetworkMonkey'' ''Nemesis'' [flag_on ''disruptive'', flag_on ''networking'', flag_off ''run_with_gemini'']
       (disrupt_call ''network_reject_thrift'' ''''),
     nemesis_cls ''StopStartInterfacesNetworkMonkey'' ''Nemesis'' [flag_on ''disruptive'', flag_on ''networking'', flag_off ''run_with_gemini'']
       (disrupt_call ''network_start_stop_interface'' ''''),
     nemesis_cls ''DisruptiveMonkey'' ''Nemesis'' []
       (source_lines [''self.disrupt_methods_list = self.get_list_of_methods_compatible_with_backend(disruptive=True)'', ''self.call_random_disrupt_method(disrupt_methods=self.disrupt_methods_list)'']),
     nemesis_cls ''NonDisruptiveMonkey'' ''Nemesis'' []
       (source_lines [''self.disrupt_methods_list = self.get_list_of_methods_compatible_with_backend(disruptive=False)'', ''self.call_random_disrupt_method(disrupt_methods=self.disrupt_methods_list)'']),
     nemesis_cls ''NetworkMonkey'' ''Nemesis'' []
       (source_lines [''self.disrupt_methods_list = self.get_list_of_methods_compatible_with_backend(networking=True)'', ''self.call_random_disrupt_method(disrupt_methods=self.disrupt_methods_list)'']),
     nemesis_cls ''GeminiChaosMonkey'' ''Nemesis'' []
       (source_lines [''self.disrupt_methods_list = self.get_list_of_methods_compatible_with_backend(run_with_gemini=True)'', ''self.call_random_disrupt_method(disrupt_methods=self.disrupt_methods_list)'']),
     nemesis_cls ''GeminiNonDisruptiveChaosMonkey'' ''Nemesis'' []
       (source_lines [''self.disrupt_methods_list = run_with_gemini.intersection(non_disruptive)'', ''self.call_random_disrupt_method(disrupt_methods=self.disrupt_methods_list)''])]"

definition nemesis_classes_13 :: "nemesis_class list" where
  "nemesis_classes_13 =
    [nemesis_cls ''ScyllaOperatorBasicOperationsMonkey'' ''Nemesis'' [flag_on ''disruptive'']
       (source_lines [''self.disrupt_methods_list = ['', ''self.call_random_disrupt_method(disrupt_methods=self.disrupt_methods_list, predefined_sequence=True)'']),
     nemesis_cls ''NemesisSequence'' ''Nemesis'' [flag_on ''disruptive'', flag_off ''networking'', flag_off ''run_with_gemini'']
       (disrupt_call ''run_unique_sequence'' ''''),
     nemesis_cls ''TerminateAndRemoveNodeMonkey'' ''Nemesis'' [flag_on ''disruptive'', flag_off ''kubernetes'', flag_on ''topology_changes'']
       (disrupt_call ''remove_node_then_add_node'' ''''),
     nemesis_cls ''SisyphusMonkey'' ''Nemesis'' []
       ([]),
     nemesis_cls ''ToggleCDCMonkey'' ''Nemesis'' [flag_off ''disruptive'', flag_on ''schema_changes'', flag_on ''config_changes'', flag_on ''free_tier_set'']
       (disrupt_call ''toggle_cdc_feature_properties_on_table'' ''''),
     nemesis_cls ''CDCStressorMonkey'' ''Nemesis'' [flag_off ''disruptive'', flag_on ''free_tier_set'']
       (disrupt_call ''run_cdcstressor_tool'' ''''),
     nemesis_cls ''DecommissionStreamingErrMonkey'' ''Nemesis'' [flag_on ''disruptive'', flag_on ''topology_changes'']
       (disrupt_call ''decommission_streaming_err'' ''''),
     nemesis_cls ''RebuildStreamingErrMonkey'' ''Nemesis'' [flag_on ''disruptive'']
       (disrupt_call ''rebuild_streaming_err'' ''''),
     nemesis_cls ''RepairStreamingErrMonkey'' ''Nemesis'' [flag_on ''disruptive'']
       (disrupt_call ''repair_streaming_err'' '''')]"

definition nemesis_classes_14 :: "nemesis_class list" where
  "nemesis_classes_14 =
    [nemesis_cls ''CorruptThenScrubMonkey'' ''Nemesis'' [flag_off ''disruptive'']
       (disrupt_call ''corrupt_then_scrub'' ''''),
     nemesis_cls ''MemoryStressMonkey'' ''Nemesis'' [flag_on ''disruptive'', flag_on ''free_tier_set'']
       (disrupt_call ''memory_stress'' ''''),
     nemesis_cls ''ResetLocalSchemaMonkey'' ''Nemesis'' [flag_off ''disruptive'', flag_on ''config_changes'', flag_on ''free_tier_set'']
       (disrupt_call ''resetlocalschema'' ''''),
     nemesis_cls ''StartStopMajorCompaction'' ''Nemesis'' [flag_off ''disruptive'']
       (disrupt_call ''start_stop_major_compaction'' ''''),
     nemesis_cls ''StartStopScrubCompaction'' ''Nemesis'' [flag_off ''disruptive'']
       (disrupt_call ''start_stop_scrub_compaction'' ''''),
     nemesis_cls ''StartStopCleanupCompaction'' ''Nemesis'' [flag_off ''disruptive'']
       (disrupt_call ''start_stop_cleanup_compaction'' ''''),
     nemesis_cls ''StartStopValidationCompaction'' ''Nemesis'' [flag_off ''disruptive'']
       (disrupt_call ''start_stop_validation_compaction'' ''''),
     nemesis_cls ''FreeTierSetMonkey'' ''SisyphusMonkey'' []
       ([]),
     nemesis_cls ''SlaIncreaseSharesDuringLoad'' ''Nemesis'' [flag_off ''disruptive'', flag_on ''sla'']
       (disrupt_call ''sla_increase_shares_during_load'' ''''),
     nemesis_cls ''SlaDecreaseSharesDuringLoad'' ''Nemesis'' [flag_off ''disruptive'', flag_on ''sla'']
       (disrupt_call ''sla_decrease_shares_during_load'' ''''),
     nemesis_cls ''SlaReplaceUsingDetachDuringLoad'' ''Nemesis'' [flag_on ''disruptive'', flag_on ''sla'']
       (disrupt_call ''replace_service_level_using_detach_during_load'' ''''),
     nemesis_cls ''SlaReplaceUsingDropDuringLoad'' ''Nemesis'' [flag_on ''disruptive'', flag_on ''sla'']
       (disrupt_call ''replace_service_level_using_drop_during_load'' '''')]"

definition nemesis_classes_15 :: "nemesis_class list" where
  "nemesis_classes_15 =
    [nemesis_cls ''SlaIncreaseSharesByAttachAnotherSlDuringLoad'' ''Nemesis'' [flag_on ''disruptive'', flag_on ''sla'']
       (disrupt_call ''increase_shares_by_attach_another_sl_during_load'' ''''),
     nemesis_cls ''SlaMaximumAllowedSlsWithMaxSharesDuringLoad'' ''Nemesis'' [flag_off ''disruptive'', flag_on ''sla'']
       (disrupt_call ''maximum_allowed_sls_with_max_shares_during_load'' ''''),
     nemesis_cls ''SlaNemeses'' ''Nemesis'' [flag_off ''disruptive'']
       (source_lines [''self.disrupt_methods_list = self.get_list_of_methods_by_flags(sla=True)'', ''self.call_random_disrupt_method(disrupt_methods=self.disrupt_methods_list)'']),
     nemesis_cls ''CreateIndexNemesis'' ''Nemesis'' [flag_off ''disruptive'', flag_on ''schema_changes'', flag_on ''free_tier_set'']
       (disrupt_call ''create_index'' ''''),
     nemesis_cls ''AddRemoveMvNemesis'' ''Nemesis'' [flag_on ''disruptive'', flag_on ''schema_changes'', flag_on ''free_tier_set'']
       (disrupt_call ''add_remove_mv'' ''''),
     nemesis_cls ''ToggleAuditNemesisSyslog'' ''Nemesis'' [flag_on ''disruptive'', flag_on ''schema_changes'', flag_on ''config_changes'', flag_on ''free_tier_set'']
       (disrupt_call ''toggle_audit_syslog'' ''''),
     nemesis_cls ''BootstrapStreamingErrorNemesis'' ''Nemesis'' [flag_on ''disruptive'', flag_on ''topology_changes'']
       (disrupt_call ''bootstrap_streaming_error'' ''''),
     nemesis_cls ''DisableBinaryGossipExecuteMajorCompaction'' ''Nemesis'' [flag_on ''disruptive'', flag_on ''kubernetes'']
       (disrupt_call ''disable_binary_gossip_execute_major_compaction'' ''''),
     nemesis_cls ''EndOfQuotaNemesis'' ''Nemesis'' [flag_on ''disruptive'', flag_on ''config_changes'']
       (disrupt_call ''end_of_quota_nemesis'' ''''),
     nemesis_cls ''GrowShrinkZeroTokenNode'' ''Nemesis'' [flag_on ''disruptive'', flag_off ''schema_changes'', flag_off ''free_tier_set'', flag_on ''zero_node_changes'']
       (disrupt_call ''grow_shrink_zero_nodes'' ''''),
     nemesis_cls ''ZeroTokenSetMonkey'' ''SisyphusMonkey'' []
       ([])]"

definition nemesis_classes_16 :: "nemesis_class list" where
  "nemesis_classes_16 =
    [nemesis_cls ''SerialRestartOfElectedTopologyCoordinatorNemesis'' ''Nemesis'' [flag_on ''disruptive'', flag_on ''topology_changes'']
       (disrupt_call ''serial_restart_elected_topology_coordinator'' '''')]"

definition nemesis_table :: "nemesis_class list" where
  "nemesis_table = nemesis_classes_1 @
     nemesis_classes_2 @
     nemesis_classes_3 @
     classes_CategoricalMonkey @
     nemesis_classes_5 @
     classes_UpgradeNemesis @
     classes_UpgradeNemesisOneNode @
     classes_RollbackNemesis @
     nemesis_classes_9 @
     nemesis_classes_10 @
     nemesis_classes_11 @
     nemesis_classes_12 @
     nemesis_classes_13 @
     nemesis_classes_14 @
     nemesis_classes_15 @
     nemesis_classes_16"

end
