(* ===== verification/Nemesis_Select.thy ===== *)
theory Nemesis_Select
  imports Nemesis_Classes "HOL-Library.Sublist" "HOL-Library.Multiset"
begin

text \<open>
  Which disrupt methods a nemesis runs, \<open>sdcm/nemesis.py\<close>: the subclasses found through
  \<open>__subclasses__()\<close>, their selection by flags, the methods found in their sources, the list of
  disruptions a test executes and the order in which they are called.
\<close>

section \<open>Looking at classes\<close>

text \<open>The flags of each class with what it inherits: a class is defined after its base.\<close>

definition resolve_flags :: "nemesis_class list \<Rightarrow> (string, (string, bool) dict) dict" where
  "resolve_flags tbl = foldl (\<lambda>env c. env @ [(nc_name c, nc_flags c @ dget_default env (nc_base c) Nemesis_flags)]) [] tbl"

text \<open>\<open>getattr(cls, flag, False)\<close>\<close>

definition class_flag :: "nemesis_class list \<Rightarrow> string \<Rightarrow> string \<Rightarrow> bool" where
  "class_flag tbl name flag = dget_default (dget_default (resolve_flags tbl) name []) flag False"

text \<open>\<open>cls.__subclasses__()\<close>\<close>

definition subclasses_of :: "nemesis_class list \<Rightarrow> string \<Rightarrow> string list" where
  "subclasses_of tbl n = map nc_name (filter (\<lambda>c. nc_base c = n) tbl)"

text \<open>
  The loop of \<open>_get_subclasses\<close>: a round over the copy of \<open>tmp\<close> takes every class out of it and puts
  its subclasses in. \<open>None\<close> when the fuel is used up.
\<close>

fun subclass_rounds :: "nemesis_class list \<Rightarrow> nat \<Rightarrow> string list \<Rightarrow> string list option" where
  "subclass_rounds tbl 0 tmp = (if tmp = [] then Some [] else None)"
| "subclass_rounds tbl (Suc fuel) tmp = (if tmp = [] then Some []
     else map_option ((@) tmp) (subclass_rounds tbl fuel (concat (map (subclasses_of tbl) tmp))))"

definition all_subclasses :: "nemesis_class list \<Rightarrow> string list option" where
  "all_subclasses tbl = subclass_rounds tbl (length tbl) (subclasses_of tbl ''Nemesis'')"

definition DEPRECATED_LIST_OF_NEMESISES :: "string list" where
  "DEPRECATED_LIST_OF_NEMESISES = [''UpgradeNemesis'', ''UpgradeNemesisOneNode'', ''RollbackNemesis'']"

definition COMPLEX_NEMESIS :: "string list" where
  "COMPLEX_NEMESIS =
     [''NoOpMonkey'', ''ChaosMonkey'', ''LimitedChaosMonkey'', ''ScyllaCloudLimitedChaosMonkey'', ''AllMonkey'', ''MdcChaosMonkey'',
      ''DisruptiveMonkey'', ''NonDisruptiveMonkey'', ''GeminiNonDisruptiveChaosMonkey'', ''GeminiChaosMonkey'', ''NetworkMonkey'',
      ''SisyphusMonkey'', ''DisruptKubernetesNodeThenReplaceScyllaNode'', ''DisruptKubernetesNodeThenDecommissionAndAddScyllaNode'',
      ''CategoricalMonkey'']"

text \<open>A filter on a flag; \<open>None\<close> does not filter.\<close>

definition flags_match :: "nemesis_class list \<Rightarrow> (string, bool option) dict \<Rightarrow> string \<Rightarrow> bool" where
  "flags_match tbl flags n = list_all (\<lambda>(f, v). case v of None \<Rightarrow> True | Some b \<Rightarrow> class_flag tbl n f = b) flags"

definition get_subclasses_from_list :: "nemesis_class list \<Rightarrow> (string, bool option) dict \<Rightarrow> string list \<Rightarrow> string list" where
  "get_subclasses_from_list tbl flags ns =
     filter (\<lambda>n. n \<notin> set (COMPLEX_NEMESIS @ DEPRECATED_LIST_OF_NEMESISES) \<and> flags_match tbl flags n) ns"

definition get_subclasses :: "nemesis_class list \<Rightarrow> (string, bool option) dict \<Rightarrow> string list option" where
  "get_subclasses tbl flags = map_option (get_subclasses_from_list tbl flags) (all_subclasses tbl)"

definition strip_bangs :: "string \<Rightarrow> string" where
  "strip_bangs s = rev (dropWhile (\<lambda>c. c = CHR ''!'') (rev (dropWhile (\<lambda>c. c = CHR ''!'') s)))"

text \<open>The dictionary of \<open>get_list_of_subclasses_by_property_name\<close>; a later selector of a flag replaces an earlier one.\<close>

definition selector_flags :: "string list \<Rightarrow> (string, bool option) dict" where
  "selector_flags sel = fold (\<lambda>f. dset (strip_bangs f) (Some (\<not> starts_with f ''!''))) sel []"

definition get_list_of_subclasses_by_property_name :: "nemesis_class list \<Rightarrow> string list \<Rightarrow> string list option" where
  "get_list_of_subclasses_by_property_name tbl sel = get_subclasses tbl (selector_flags sel)"

section \<open>Methods in a source\<close>

definition flag_multiline :: re_flags where
  "flag_multiline = no_flags\<lparr>multiline := True\<rparr>"

definition METHOD_PATTERN :: string where
  "METHOD_PATTERN = raw ''self~.(?P<method_name>disrupt_[A-Za-z_]+?)~(.*~)''"

definition METHOD_PATTERN_DIGITS :: string where
  "METHOD_PATTERN_DIGITS = raw ''self~.(?P<method_name>disrupt_[0-9A-Za-z_]+?)~(.*~)''"

definition method_in_source :: "string \<Rightarrow> string \<Rightarrow> string option" where
  "method_in_source pat source = Option.bind (pat_search flag_multiline pat source) (\<lambda>m. m_group m ''method_name'')"

definition source_of :: "nemesis_class list \<Rightarrow> string \<Rightarrow> string" where
  "source_of tbl n = (case find (\<lambda>c. nc_name c = n) tbl of None \<Rightarrow> [] | Some c \<Rightarrow> nc_source c)"

definition methods_of :: "string \<Rightarrow> nemesis_class list \<Rightarrow> string list \<Rightarrow> string list" where
  "methods_of pat tbl ns = concat (map (\<lambda>n. case method_in_source pat (source_of tbl n) of None \<Rightarrow> [] | Some m \<Rightarrow> [m]) ns)"

text \<open>The flags a nemesis set may ask for, as the keyword arguments of the two methods.\<close>

record method_flags =
  mf_disruptive :: "bool option"
  mf_run_with_gemini :: "bool option"
  mf_networking :: "bool option"
  mf_kubernetes :: "bool option"
  mf_limited :: "bool option"
  mf_topology_changes :: "bool option"
  mf_schema_changes :: "bool option"
  mf_config_changes :: "bool option"
  mf_free_tier_set :: "bool option"
  mf_sla :: "bool option"
  mf_manager_operation :: "bool option"
  mf_zero_node_changes :: "bool option"

definition no_method_flags :: method_flags where
  "no_method_flags = \<lparr>mf_disruptive = None, mf_run_with_gemini = None, mf_networking = None, mf_kubernetes = None, mf_limited = None,
     mf_topology_changes = None, mf_schema_changes = None, mf_config_changes = None, mf_free_tier_set = None, mf_sla = None,
     mf_manager_operation = None, mf_zero_node_changes = None\<rparr>"

text \<open>\<open>get_list_of_methods_by_flags\<close> does not pass \<open>zero_node_changes\<close> on.\<close>

definition get_list_of_methods_by_flags :: "nemesis_class list \<Rightarrow> method_flags \<Rightarrow> string list option" where
  "get_list_of_methods_by_flags tbl f = map_option (methods_of METHOD_PATTERN tbl) (get_subclasses tbl
     [(''disruptive'', mf_disruptive f), (''run_with_gemini'', mf_run_with_gemini f), (''networking'', mf_networking f),
      (''kubernetes'', mf_kubernetes f), (''limited'', mf_limited f), (''topology_changes'', mf_topology_changes f),
      (''schema_changes'', mf_schema_changes f), (''config_changes'', mf_config_changes f), (''free_tier_set'', mf_free_tier_set f),
      (''sla'', mf_sla f), (''manager_operation'', mf_manager_operation f)])"

definition get_list_of_methods_compatible_with_backend :: "nemesis_class list \<Rightarrow> bool \<Rightarrow> method_flags \<Rightarrow> string list option" where
  "get_list_of_methods_compatible_with_backend tbl on_kubernetes f =
     get_list_of_methods_by_flags tbl (f\<lparr>mf_kubernetes := (if on_kubernetes then Some True else None), mf_sla := None\<rparr>)"

text \<open>
  \<open>get_list_of_disrupt_methods\<close>: the members of the object, in the order of their names as
  \<open>inspect.getmembers\<close> gives them, whose name was found. \<open>members\<close> are the names of its callable members.
  The other two results, the properties and the names of the classes, only document a selection.
\<close>

definition get_list_of_disrupt_methods :: "nemesis_class list \<Rightarrow> string list \<Rightarrow> string list \<Rightarrow> string list" where
  "get_list_of_disrupt_methods tbl members ns =
     (let names = methods_of METHOD_PATTERN_DIGITS tbl ns in filter (\<lambda>m. m \<in> set names) members)"

section \<open>The list of disruptions\<close>

record nemesis_params =
  np_nemesis_selector :: "string list"
  np_nemesis_exclude_disabled :: bool
  np_nemesis_multiply_factor :: nat
  np_test_duration :: int

text \<open>
  The getter of \<open>nemesis_selector_list\<close> stores the list it makes; the list of the parameters is the one it
  appends to. The setter appends to the list it is given.
\<close>

definition selector_getter :: "nemesis_params \<Rightarrow> string list \<Rightarrow> string list \<times> nemesis_params" where
  "selector_getter p stored = (if stored \<noteq> [] then (stored, p)
     else let sel = np_nemesis_selector p @ (if np_nemesis_exclude_disabled p then [''!disabled''] else []) in
       (sel, if np_nemesis_selector p \<noteq> [] then p\<lparr>np_nemesis_selector := sel\<rparr> else p))"

definition selector_setter :: "nemesis_params \<Rightarrow> string list \<Rightarrow> string list" where
  "selector_setter p value = value @ (if value \<noteq> [] \<and> np_nemesis_exclude_disabled p then [''!disabled''] else [])"

text \<open>What a nemesis keeps of its selection.\<close>

record nemesis_state =
  nm_params :: nemesis_params
  nm_selector :: "string list"
  nm_disruptions :: "string list"
  nm_cycle :: "nat option"           \<comment> \<open>the position in the cycle once it is made\<close>
  nm_sequence :: "string list"       \<comment> \<open>\<open>_random_sequence\<close>\<close>

text \<open>\<open>None\<close> only when the subclasses cannot be listed.\<close>

definition selected_disruptions :: "nemesis_class list \<Rightarrow> string list \<Rightarrow> string list \<Rightarrow> string list option" where
  "selected_disruptions tbl members sel = (if sel \<noteq> []
     then map_option (\<lambda>ns. if ns \<noteq> [] then get_list_of_disrupt_methods tbl members ns else [])
       (get_list_of_subclasses_by_property_name tbl sel)
     else Some (filter (\<lambda>m. starts_with m ''disrupt_'') members))"

definition build_list_of_disruptions_to_execute ::
  "nemesis_class list \<Rightarrow> string list \<Rightarrow> string list \<Rightarrow> nat \<Rightarrow> nemesis_state \<Rightarrow> nemesis_state option" where
  "build_list_of_disruptions_to_execute tbl members selector factor s =
     (let (sel, s1) = (if selector \<noteq> [] then (selector, s)
            else let (l, p) = selector_getter (nm_params s) (nm_selector s) in (l, s\<lparr>nm_params := p, nm_selector := l\<rparr>));
          f = np_nemesis_multiply_factor (nm_params s1); factor' = (if f \<noteq> 0 then f else factor)
      in map_option (\<lambda>ds. s1\<lparr>nm_disruptions := nm_disruptions s1 @ (if factor' \<noteq> 0 then concat (replicate factor' ds) else ds)\<rparr>)
           (selected_disruptions tbl members sel))"

definition shuffle_list_of_disruptions :: "(string list \<Rightarrow> string list) \<Rightarrow> nemesis_state \<Rightarrow> nemesis_state" where
  "shuffle_list_of_disruptions shuffle s = s\<lparr>nm_disruptions := shuffle (nm_disruptions s)\<rparr>"

text \<open>\<open>call_next_nemesis\<close>: the method it executes.\<close>

definition call_next_nemesis :: "nemesis_state \<Rightarrow> (string \<times> nemesis_state) res" where
  "call_next_nemesis s = (if nm_disruptions s = [] then Inl AssertionError
     else let i = (case nm_cycle s of None \<Rightarrow> 0 | Some i \<Rightarrow> i) in
       Inr (nm_disruptions s ! i, s\<lparr>nm_cycle := Some (Suc i mod length (nm_disruptions s))\<rparr>))"

fun call_nemeses :: "nat \<Rightarrow> nemesis_state \<Rightarrow> (string list \<times> nemesis_state) res" where
  "call_nemeses 0 s = Inr ([], s)"
| "call_nemeses (Suc n) s = rbind (call_next_nemesis s) (\<lambda>(m, s1).
     rbind (call_nemeses n s1) (\<lambda>(ms, s2). Inr (m # ms, s2)))"

text \<open>
  \<open>call_random_disrupt_method\<close>: the methods to choose from, the rate by the duration of the test, and the
  method executed with the random sequence afterwards. \<open>pick\<close> is \<open>random.choice\<close> on the number of methods,
  \<open>shuffle\<close> is \<open>random.shuffle\<close>.
\<close>

definition methods_to_call :: "string list \<Rightarrow> string list option \<Rightarrow> string list" where
  "methods_to_call members wanted = (case wanted of
     None \<Rightarrow> filter (\<lambda>m. starts_with m ''disrupt_'') members
   | Some w \<Rightarrow> filter (\<lambda>m. m \<in> set w) members)"

definition sequence_rate :: "int \<Rightarrow> nat" where
  "sequence_rate duration = (if duration < 600 then 1 else if duration < 4320 then 2 else 3)"

definition call_random_disrupt_method ::
  "(nat \<Rightarrow> nat) \<Rightarrow> (string list \<Rightarrow> string list) \<Rightarrow> string list \<Rightarrow> string list option \<Rightarrow> bool \<Rightarrow> nemesis_state \<Rightarrow>
     string option \<times> nemesis_state" where
  "call_random_disrupt_method pick shuffle members wanted predefined s =
     (let ms = methods_to_call members wanted in
      if ms = [] then (None, s)
      else if \<not> predefined then (Some (ms ! pick (length ms)), s)
      else let sq = (if nm_sequence s \<noteq> [] then nm_sequence s
                     else shuffle (concat (replicate (sequence_rate (np_test_duration (nm_params s))) ms)))
           in (Some (last sq), s\<lparr>nm_sequence := butlast sq\<rparr>))"

text \<open>\<open>execute_disrupt_method\<close>: the metric is stopped however the method ends.\<close>

datatype metric_event = EventStart string | EventStop string

definition execute_disrupt_method :: "string \<Rightarrow> metric_event list \<times> 'a res \<Rightarrow> metric_event list \<times> 'a res" where
  "execute_disrupt_method m run = (let nm = py_remove ''disrupt_'' m in (EventStart nm # fst run @ [EventStop nm], snd run))"

section \<open>The sets of nemeses\<close>

text \<open>The methods the sets choose from, where they are written out or asked for by flags.\<close>

definition CLOUD_LIMITED_CHAOS_MONKEY :: "string list" where
  "CLOUD_LIMITED_CHAOS_MONKEY =
     [''disrupt_nodetool_cleanup'', ''disrupt_nodetool_drain'', ''disrupt_nodetool_refresh'', ''disrupt_stop_start_scylla_server'',
      ''disrupt_major_compaction'', ''disrupt_modify_table'', ''disrupt_nodetool_enospc'', ''disrupt_stop_wait_start_scylla_server'',
      ''disrupt_soft_reboot_node'', ''disrupt_truncate'']"

definition MdcChaosMonkey_methods :: "string list" where
  "MdcChaosMonkey_methods = [''disrupt_destroy_data_then_repair'', ''disrupt_no_corrupt_repair'', ''disrupt_nodetool_decommission'']"

definition EnableDisableTableEncryption_methods :: "string list" where
  "EnableDisableTableEncryption_methods =
     [''disrupt_enable_disable_table_encryption_aws_kms_provider_without_rotation'',
      ''disrupt_enable_disable_table_encryption_aws_kms_provider_with_rotation'']"

definition K8sSetMonkey_methods :: "string list" where
  "K8sSetMonkey_methods =
     [''disrupt_drain_kubernetes_node_then_replace_scylla_node'', ''disrupt_terminate_kubernetes_host_then_replace_scylla_node'',
      ''disrupt_drain_kubernetes_node_then_decommission_and_add_scylla_node'',
      ''disrupt_terminate_kubernetes_host_then_decommission_and_add_scylla_node'']"

definition EXCLUSIVE_NEMESIS_NAMES :: "string list" where
  "EXCLUSIVE_NEMESIS_NAMES =
     [''disrupt_drain_kubernetes_node_then_replace_scylla_node'', ''disrupt_terminate_kubernetes_host_then_replace_scylla_node'',
      ''disrupt_drain_kubernetes_node_then_decommission_and_add_scylla_node'',
      ''disrupt_terminate_kubernetes_host_then_decommission_and_add_scylla_node'']"

definition ScyllaOperatorBasicOperations_methods :: "string list" where
  "ScyllaOperatorBasicOperations_methods =
     [''disrupt_nodetool_flush_and_reshard_on_kubernetes'', ''disrupt_rolling_restart_cluster'', ''disrupt_grow_shrink_cluster'',
      ''disrupt_grow_shrink_new_rack'', ''disrupt_stop_start_scylla_server''] @ K8sSetMonkey_methods @
     [''disrupt_replace_scylla_node_on_kubernetes'', ''disrupt_mgmt_corrupt_then_repair'', ''disrupt_mgmt_repair_cli'',
      ''disrupt_mgmt_backup_specific_keyspaces'', ''disrupt_mgmt_backup'']"

datatype monkey_set = LimitedChaos | Disruptive | NonDisruptive | Network | GeminiChaos

fun monkey_flags :: "monkey_set \<Rightarrow> method_flags" where
  "monkey_flags LimitedChaos = no_method_flags\<lparr>mf_limited := Some True\<rparr>"
| "monkey_flags Disruptive = no_method_flags\<lparr>mf_disruptive := Some True\<rparr>"
| "monkey_flags NonDisruptive = no_method_flags\<lparr>mf_disruptive := Some False\<rparr>"
| "monkey_flags Network = no_method_flags\<lparr>mf_networking := Some True\<rparr>"
| "monkey_flags GeminiChaos = no_method_flags\<lparr>mf_run_with_gemini := Some True\<rparr>"

definition monkey_methods :: "nemesis_class list \<Rightarrow> bool \<Rightarrow> monkey_set \<Rightarrow> string list option" where
  "monkey_methods tbl k8s m = get_list_of_methods_compatible_with_backend tbl k8s (monkey_flags m)"

definition GeminiNonDisruptive_methods :: "nemesis_class list \<Rightarrow> bool \<Rightarrow> string set option" where
  "GeminiNonDisruptive_methods tbl k8s = (case (monkey_methods tbl k8s GeminiChaos, monkey_methods tbl k8s NonDisruptive) of
     (Some a, Some b) \<Rightarrow> Some (set a \<inter> set b) | _ \<Rightarrow> None)"

text \<open>\<open>SisyphusMonkey\<close>, \<open>FreeTierSetMonkey\<close> and \<open>ZeroTokenSetMonkey\<close> build their list from a selector.\<close>

definition sisyphus_init ::
  "(string list \<Rightarrow> string list) \<Rightarrow> nemesis_class list \<Rightarrow> string list \<Rightarrow> string list \<Rightarrow> nemesis_state \<Rightarrow> nemesis_state option" where
  "sisyphus_init shuffle tbl members selector s =
     map_option (shuffle_list_of_disruptions shuffle) (build_list_of_disruptions_to_execute tbl members selector 1 s)"

definition FreeTierSet_selector :: "string list" where "FreeTierSet_selector = [''free_tier_set'']"

definition ZeroTokenSet_selector :: "string list" where "ZeroTokenSet_selector = [''zero_node_changes'']"

text \<open>
  \<open>CategoricalMonkey.get_disruption_distribution\<close>: a weight is \<open>None\<close> when \<open>float()\<close> refuses it. The result
  is the list of methods with their weights.
\<close>

definition prefixed :: "string \<Rightarrow> string \<Rightarrow> string" where
  "prefixed pref val = (if starts_with val pref then val else pref @ val)"

fun listed_weights :: "string list \<Rightarrow> (string \<times> rat option) list \<Rightarrow> (string \<times> rat) list res" where
  "listed_weights all_methods [] = Inr []"
| "listed_weights all_methods ((name, w) # ds) =
     (let pn = prefixed ''disrupt_'' name in
      if pn \<notin> set all_methods then Inl ValueError
      else (case w of
          None \<Rightarrow> Inl ValueError
        | Some x \<Rightarrow> if x < 0 then Inl ValueError
            else rbind (listed_weights all_methods ds) (\<lambda>ws. Inr (if 0 < x then (pn, x) # ws else ws))))"

definition get_disruption_distribution :: "string list \<Rightarrow> (string \<times> rat option) list \<Rightarrow> rat \<Rightarrow> (string \<times> rat) list res" where
  "get_disruption_distribution all_methods weights default_weight =
     rbind (listed_weights all_methods weights) (\<lambda>ws.
       let listed = map (prefixed ''disrupt_'' \<circ> fst) weights;
           rest = (if 0 < default_weight then map (\<lambda>m. (m, default_weight)) (filter (\<lambda>m. m \<notin> set listed) all_methods) else []);
           population = ws @ rest
       in if population = [] then Inl ValueError else Inr population)"

section \<open>Which subclasses are found\<close>

text \<open>A table in the order of the definitions: names are unique, a base is \<open>Nemesis\<close> or defined before.\<close>

fun bases_before :: "string list \<Rightarrow> nemesis_class list \<Rightarrow> bool" where
  "bases_before seen [] = True"
| "bases_before seen (c # cs) \<longleftrightarrow> (nc_base c = ''Nemesis'' \<or> nc_base c \<in> set seen) \<and> nc_name c \<notin> set seen \<and> nc_name c \<noteq> ''Nemesis'' \<and>
     bases_before (nc_name c # seen) cs"

text \<open>The classes the rounds of the loop take, from the class \<open>Nemesis\<close> itself.\<close>

primrec level :: "nemesis_class list \<Rightarrow> nat \<Rightarrow> string list" where
  "level tbl 0 = [''Nemesis'']"
| "level tbl (Suc k) = concat (map (subclasses_of tbl) (level tbl k))"

lemma in_level_Suc: "n \<in> set (level tbl (Suc k)) \<longleftrightarrow> (\<exists>c\<in>set tbl. nc_name c = n \<and> nc_base c \<in> set (level tbl k))"
  by (auto simp: subclasses_of_def)

lemma bases_before_nth:
  assumes "bases_before seen tbl" and "i < length tbl"
  shows "nc_name (tbl ! i) \<noteq> ''Nemesis'' \<and> nc_name (tbl ! i) \<notin> set seen \<and> (\<forall>j<i. nc_name (tbl ! j) \<noteq> nc_name (tbl ! i)) \<and>
    (nc_base (tbl ! i) = ''Nemesis'' \<or> nc_base (tbl ! i) \<in> set seen \<or> (\<exists>j<i. nc_name (tbl ! j) = nc_base (tbl ! i)))"
  using assms
proof (induction tbl arbitrary: seen i)
  case (Cons c tbl)
  show ?case
  proof (cases i)
    case (Suc i')
    with Cons.prems Cons.IH[of "nc_name c # seen" i'] show ?thesis
      by (auto simp: nth_Cons' less_Suc_eq_0_disj)
  qed (use Cons.prems in auto)
qed simp

text \<open>The position of a class in the table is at least its depth, so the levels end.\<close>

lemma level_position:
  assumes "bases_before [] tbl" and "i < length tbl" and "nc_name (tbl ! i) \<in> set (level tbl (Suc k))"
  shows "k \<le> i"
  using assms(2,3)
proof (induction k arbitrary: i)
  case (Suc k)
  obtain c where c: "c \<in> set tbl" "nc_name c = nc_name (tbl ! i)" "nc_base c \<in> set (level tbl (Suc k))"
    using Suc.prems(2) unfolding in_level_Suc[of _ tbl "Suc k"] by blast
  obtain i' where i': "i' < length tbl" "c = tbl ! i'" using c(1) by (auto simp: in_set_conv_nth)
  have "i' = i" using bases_before_nth[OF assms(1), of i] bases_before_nth[OF assms(1), of i'] i' c(2) Suc.prems(1)
    by (metis linorder_neqE_nat)
  with i' c(3) have base: "nc_base (tbl ! i) \<in> set (level tbl (Suc k))" by simp
  have "nc_base (tbl ! i) \<noteq> ''Nemesis''"
  proof
    assume "nc_base (tbl ! i) = ''Nemesis''"
    with base obtain c' where "c' \<in> set tbl" "nc_name c' = ''Nemesis''" unfolding in_level_Suc by auto
    with bases_before_nth[OF assms(1)] show False by (auto simp: in_set_conv_nth)
  qed
  then obtain j where "j < i" "nc_name (tbl ! j) = nc_base (tbl ! i)"
    using bases_before_nth[OF assms(1) Suc.prems(1)] by auto
  with Suc.IH[of j] base Suc.prems(1) show ?case by simp
qed simp

lemma levels_end: "bases_before [] tbl \<Longrightarrow> level tbl (Suc (length tbl)) = []"
proof (rule ccontr)
  assume "bases_before [] tbl" "level tbl (Suc (length tbl)) \<noteq> []"
  then obtain n where n: "n \<in> set (level tbl (Suc (length tbl)))" using hd_in_set by blast
  then obtain c where "c \<in> set tbl" "nc_name c = n" unfolding in_level_Suc by blast
  then obtain i where "i < length tbl" "nc_name (tbl ! i) = n" by (auto simp: in_set_conv_nth)
  with level_position[OF \<open>bases_before [] tbl\<close>, of i "length tbl"] n show False by simp
qed

lemma every_class_has_level:
  assumes "bases_before [] tbl"
  shows "i < length tbl \<Longrightarrow> \<exists>k\<le>i. nc_name (tbl ! i) \<in> set (level tbl (Suc k))"
proof (induction i rule: less_induct)
  case (less i)
  have mem: "tbl ! i \<in> set tbl" using less.prems by simp
  consider "nc_base (tbl ! i) = ''Nemesis''" | j where "j < i" "nc_name (tbl ! j) = nc_base (tbl ! i)"
    using bases_before_nth[OF assms less.prems] by auto
  then show ?case
  proof cases
    case 1
    then have "nc_name (tbl ! i) \<in> set (level tbl (Suc 0))" using mem unfolding in_level_Suc by auto
    then show ?thesis by blast
  next
    case (2 j)
    with less.IH[of j] less.prems obtain k where "k \<le> j" "nc_base (tbl ! i) \<in> set (level tbl (Suc k))" by auto
    then have "nc_name (tbl ! i) \<in> set (level tbl (Suc (Suc k)))" using mem unfolding in_level_Suc[of _ tbl "Suc k"] by blast
    with \<open>k \<le> j\<close> 2(1) show ?thesis by (metis Suc_le_eq le_less_trans)
  qed
qed

lemma level_empty: "level tbl k = [] \<Longrightarrow> level tbl (k + j) = []"
  by (induction j) simp_all

text \<open>The rounds give the levels one after the other.\<close>

lemma subclass_rounds_levels:
  assumes "level tbl (k + fuel) = []"
  shows "\<exists>xs. subclass_rounds tbl fuel (level tbl k) = Some xs \<and> set xs = (\<Union>j\<in>{k..<k + fuel}. set (level tbl j))"
  using assms
proof (induction fuel arbitrary: k)
  case (Suc fuel)
  show ?case
  proof (cases "level tbl k = []")
    case True
    then have "level tbl j = []" if "k \<le> j" for j using level_empty[of tbl k "j - k"] that by simp
    with True show ?thesis by auto
  next
    case False
    from Suc.IH[of "Suc k"] Suc.prems obtain xs where
      xs: "subclass_rounds tbl fuel (level tbl (Suc k)) = Some xs" "set xs = (\<Union>j\<in>{Suc k..<Suc k + fuel}. set (level tbl j))" by auto
    have "{k..<k + Suc fuel} = insert k {Suc k..<Suc k + fuel}" by auto
    with xs False show ?thesis by simp
  qed
qed simp

text \<open>
  \<open>_get_subclasses\<close> ends and finds every class: for every table whose classes are defined after their
  bases the loop gives exactly the names of the table, through any depth of inheritance.
\<close>

lemma all_subclasses_found:
  assumes "bases_before [] tbl"
  shows "\<exists>xs. all_subclasses tbl = Some xs \<and> set xs = nc_name ` set tbl"
proof -
  have "level tbl (Suc 0 + length tbl) = []" using levels_end[OF assms] by simp
  from subclass_rounds_levels[OF this] obtain xs where xs: "subclass_rounds tbl (length tbl) (level tbl (Suc 0)) = Some xs"
    "set xs = (\<Union>j\<in>{Suc 0..<Suc 0 + length tbl}. set (level tbl j))" by blast
  have "set xs = nc_name ` set tbl"
  proof
    show "set xs \<subseteq> nc_name ` set tbl"
    proof
      fix n assume "n \<in> set xs"
      then obtain j where "1 \<le> j" "n \<in> set (level tbl j)" using xs(2) by auto
      then show "n \<in> nc_name ` set tbl" using in_level_Suc[of n tbl "j - 1"] by auto
    qed
    show "nc_name ` set tbl \<subseteq> set xs"
    proof
      fix n assume "n \<in> nc_name ` set tbl"
      then obtain i where i: "i < length tbl" "n = nc_name (tbl ! i)" by (auto simp: in_set_conv_nth)
      then obtain k where "k \<le> i" "n \<in> set (level tbl (Suc k))" using every_class_has_level[OF assms i(1)] by auto
      with i(1) show "n \<in> set xs" unfolding xs(2) by (intro UN_I[of "Suc k"]) auto
    qed
  qed
  moreover have "level tbl (Suc 0) = subclasses_of tbl ''Nemesis''" by simp
  ultimately show ?thesis using xs(1) by (simp add: all_subclasses_def)
qed

section \<open>Finding a method in a source\<close>

text \<open>What the two patterns compile to; \<open>cs\<close> is the class of the characters of a name.\<close>

abbreviation method_rx :: "cclass list \<Rightarrow> rx list" where
  "method_rx cs \<equiv> map lit_rx ''self.'' @
     [RGrp ''method_name'' (foldr RSeq (map lit_rx ''disrupt_'') (RSeq (RSet False cs) (RStar False (RSet False cs)))),
      lit_rx (CHR ''(''), RStar True RAny, lit_rx (CHR '')'')]"

abbreviation letters :: "cclass list" where
  "letters \<equiv> [CRange (CHR ''_'') (CHR ''_''), CRange (CHR ''a'') (CHR ''z''), CRange (CHR ''A'') (CHR ''Z'')]"

abbreviation letters_digits :: "cclass list" where
  "letters_digits \<equiv> letters @ [CRange (CHR ''0'') (CHR ''9'')]"

lemma METHOD_PATTERN_compiles: "map_option rx_flat (re_compile METHOD_PATTERN) = Some (method_rx letters)"
  by code_simp

lemma METHOD_PATTERN_DIGITS_compiles: "map_option rx_flat (re_compile METHOD_PATTERN_DIGITS) = Some (method_rx letters_digits)"
  by code_simp

definition name_char :: "cclass list \<Rightarrow> char \<Rightarrow> bool" where
  "name_char cs c = list_ex (\<lambda>k. cclass_has k c) cs"

text \<open>The reference: the first \<open>self.disrupt_\<close> with a name, an opening and, on the line, a closing parenthesis.\<close>

definition call_here :: "cclass list \<Rightarrow> string \<Rightarrow> string option" where
  "call_here cs s =
     (let r = drop (length ''self.disrupt_'') s; w = takeWhile (name_char cs) r; t = dropWhile (name_char cs) r in
      if starts_with s ''self.disrupt_'' \<and> w \<noteq> [] \<and> starts_with t ''('' \<and> CHR '')'' \<in> set (takeWhile (\<lambda>c. c \<noteq> NL) (tl t))
      then Some (''disrupt_'' @ w) else None)"

fun find_call :: "cclass list \<Rightarrow> string \<Rightarrow> string option" where
  "find_call cs [] = None"
| "find_call cs (c # s) = (case call_here cs (c # s) of Some m \<Rightarrow> Some m | None \<Rightarrow> find_call cs s)"

declare rx_run.simps(8) [simp del]

lemma set_has_name: "\<not> ignorecase f \<Longrightarrow> set_has f False cs = name_char cs"
  by (rule ext) (simp add: set_has_def name_char_def)

lemma lazy_star:
  assumes "\<not> ignorecase f"
  shows "rx_run f (RStar False (RSet False cs)) (bef, s, g) =
    map (\<lambda>k. (rev (take k s) @ bef, drop k s, g)) [0..<Suc (length (takeWhile (name_char cs) s))]"
proof (induction s arbitrary: bef)
  case (Cons c s)
  have upt: "[0..<Suc (Suc n)] = 0 # map Suc [0..<Suc n]" for n
    unfolding map_Suc_upt by (rule upt_conv_Cons) simp
  have one: "[0..<Suc 0] = [0]" by simp
  show ?case
    by (subst rx_run.simps(8)) (auto simp: Cons set_has_name[OF assms] upt one simp del: upt_Suc)
qed (simp add: rx_run.simps(8))

lemma run_literal_then:
  assumes "\<not> ignorecase f"
  shows "rx_run f (foldr RSeq (map lit_rx p) r) (bef, s, g) =
     (if starts_with s p then rx_run f r (rev p @ bef, drop (length p) s, g) else [])"
proof (induction p arbitrary: bef s)
  case (Cons c p)
  then show ?case using assms by (cases s) (auto simp: starts_with_def set_has_def simp del: cclass_has.simps)
qed (simp add: starts_with_def)

lemma star_any_line:
  assumes "\<not> dotall f"
  shows "x \<in> set (rx_run f (RStar True RAny) (bef, s, g)) \<longleftrightarrow> (\<exists>a b. s = a @ b \<and> NL \<notin> set a \<and> x = (rev a @ bef, b, g))"
proof (induction s arbitrary: bef)
  case (Cons c s)
  have "(\<exists>a b. c # s = a @ b \<and> NL \<notin> set a \<and> x = (rev a @ bef, b, g)) \<longleftrightarrow>
      x = (bef, c # s, g) \<or> (c \<noteq> NL \<and> (\<exists>a b. s = a @ b \<and> NL \<notin> set a \<and> x = (rev a @ c # bef, b, g)))" (is "?L \<longleftrightarrow> ?R")
  proof
    assume ?L
    then obtain a b where ab: "c # s = a @ b" "NL \<notin> set a" "x = (rev a @ bef, b, g)" by blast
    then show ?R by (cases a) auto
  next
    assume ?R
    then show ?L
    proof
      assume "x = (bef, c # s, g)"
      then show ?L by (intro exI[of _ "[]"] exI[of _ "c # s"]) simp
    next
      assume "c \<noteq> NL \<and> (\<exists>a b. s = a @ b \<and> NL \<notin> set a \<and> x = (rev a @ c # bef, b, g))"
      then obtain a b where "c \<noteq> NL" "s = a @ b" "NL \<notin> set a" "x = (rev a @ c # bef, b, g)" by blast
      then show ?L by (intro exI[of _ "c # a"] exI[of _ b]) simp
    qed
  qed
  moreover have "rx_run f (RStar True RAny) (bef, c # s, g) =
      (if c \<noteq> NL then rx_run f (RStar True RAny) (c # bef, s, g) else []) @ [(bef, c # s, g)]"
    using assms by (subst rx_run.simps(8)) simp
  ultimately show ?case using Cons[of "c # bef"] by auto
qed (simp add: rx_run.simps(8))

lemma concat_upt_last: "(\<And>k. k < n \<Longrightarrow> F k = []) \<Longrightarrow> concat (map F [0..<Suc n]) = F n"
  by auto

lemma run_char:
  "\<not> ignorecase f \<Longrightarrow> rx_run f (lit_rx c) (b, t, g) = (if starts_with t [c] then [(c # b, tl t, g)] else [])"
  by (cases t) (simp_all add: set_has_def starts_with_def del: cclass_has.simps)

text \<open>The name and the parenthesis after it: only the longest name is followed by one.\<close>

lemma run_name:
  assumes "\<not> ignorecase f" and "\<not> name_char cs (CHR ''('')"
  shows "concat (map (\<lambda>(b, r, g1). rx_run f (lit_rx (CHR ''('')) (b, r, H r g1))
      (rx_run f (RSeq (RSet False cs) (RStar False (RSet False cs))) (bef, s, g))) =
    (let w = takeWhile (name_char cs) s; t = dropWhile (name_char cs) s in
     if w \<noteq> [] \<and> starts_with t ''('' then [(CHR ''('' # rev w @ bef, tl t, H t g)] else [])"
proof (cases s)
  case (Cons c s')
  show ?thesis
  proof (cases "name_char cs c")
    case True
    let ?n = "length (takeWhile (name_char cs) s')"
    let ?F = "\<lambda>k. rx_run f (lit_rx (CHR ''('')) (rev (take k s') @ c # bef, drop k s', H (drop k s') g)"
    have runs: "rx_run f (RSeq (RSet False cs) (RStar False (RSet False cs))) (bef, s, g) =
        map (\<lambda>k. (rev (take k s') @ c # bef, drop k s', g)) [0..<Suc ?n]"
      using Cons True assms(1) by (simp add: set_has_name lazy_star del: upt_Suc)
    have "?F k = []" if k: "k < ?n" for k
    proof -
      have "k < length s'" using k length_takeWhile_le[of "name_char cs" s'] by simp
      then have "drop k s' = s' ! k # drop (Suc k) s'" by (simp add: Cons_nth_drop_Suc)
      moreover have "name_char cs (s' ! k)" using k by (metis nth_mem set_takeWhileD takeWhile_nth)
      ultimately have "\<not> starts_with (drop k s') ''(''" using assms(2) by (auto simp: starts_with_def)
      then show ?thesis unfolding run_char[OF assms(1)] by simp
    qed
    then have "concat (map ?F [0..<Suc ?n]) = ?F ?n" by (rule concat_upt_last)
    also have "\<dots> = (if starts_with (dropWhile (name_char cs) s') ''(''
        then [(CHR ''('' # rev (takeWhile (name_char cs) s') @ c # bef, tl (dropWhile (name_char cs) s'), H (dropWhile (name_char cs) s') g)] else [])"
      unfolding run_char[OF assms(1)] by (simp add: takeWhile_eq_take[symmetric] dropWhile_eq_drop[symmetric])
    finally show ?thesis unfolding runs map_map o_def prod.case using Cons True by (simp add: Let_def del: upt_Suc rx_run.simps)
  next
    case False
    with Cons assms(1) show ?thesis by (simp add: set_has_name)
  qed
qed simp

lemma run_close:
  assumes "\<not> ignorecase f" and "\<not> dotall f"
  defines "xs \<equiv> \<lambda>st. rx_run f (RSeq (RStar True RAny) (RSeq (lit_rx (CHR '')'')) REps)) st"
  shows "xs (b, t, g) \<noteq> [] \<longleftrightarrow> CHR '')'' \<in> set (takeWhile (\<lambda>c. c \<noteq> NL) t)"
    and "x \<in> set (xs (b, t, g)) \<Longrightarrow> snd (snd x) = g"
proof -
  have run: "xs (b, t, g) = concat (map (rx_run f (lit_rx (CHR '')''))) (rx_run f (RStar True RAny) (b, t, g)))"
    unfolding xs_def rx_run.simps(6) rx_run_eps ..
  have one: "rx_run f (lit_rx (CHR '')'')) y = (case y of (b', t', g') \<Rightarrow> if starts_with t' '')'' then [(CHR '')'' # b', tl t', g')] else [])" for y
    by (cases y) (simp only: run_char[OF assms(1)] prod.case)
  show "x \<in> set (xs (b, t, g)) \<Longrightarrow> snd (snd x) = g"
    unfolding run one by (auto simp: star_any_line[OF assms(2)] split: if_splits)
  have nonempty: "concat (map h ys) \<noteq> [] \<longleftrightarrow> (\<exists>y\<in>set ys. h y \<noteq> [])" for h :: "rx_state \<Rightarrow> rx_state list" and ys by auto
  have "xs (b, t, g) \<noteq> [] \<longleftrightarrow> (\<exists>y\<in>set (rx_run f (RStar True RAny) (b, t, g)). starts_with (fst (snd y)) '')'')"
    unfolding run one unfolding nonempty by (intro bex_cong refl) (auto split: if_splits)
  also have "\<dots> \<longleftrightarrow> (\<exists>a r. t = a @ r \<and> NL \<notin> set a \<and> starts_with r '')'')"
    unfolding Bex_def star_any_line[OF assms(2)] by auto
  also have "\<dots> \<longleftrightarrow> (\<exists>a r. t = a @ CHR '')'' # r \<and> NL \<notin> set a)" by (auto simp: starts_with_iff)
  also have "\<dots> \<longleftrightarrow> CHR '')'' \<in> set (takeWhile (\<lambda>c. c \<noteq> NL) t)"
  proof
    assume "\<exists>a r. t = a @ CHR '')'' # r \<and> NL \<notin> set a"
    then obtain a r where "t = a @ CHR '')'' # r" "NL \<notin> set a" by blast
    then show "CHR '')'' \<in> set (takeWhile (\<lambda>c. c \<noteq> NL) t)" by (auto simp: takeWhile_append NL_def)
  next
    assume "CHR '')'' \<in> set (takeWhile (\<lambda>c. c \<noteq> NL) t)"
    then obtain a r where "takeWhile (\<lambda>c. c \<noteq> NL) t = a @ CHR '')'' # r" by (auto simp: in_set_conv_decomp)
    then have "t = (a @ CHR '')'' # r) @ dropWhile (\<lambda>c. c \<noteq> NL) t" and "set a \<subseteq> set (takeWhile (\<lambda>c. c \<noteq> NL) t)"
      using takeWhile_dropWhile_id[of "\<lambda>c. c \<noteq> NL" t] by auto
    then have "t = a @ CHR '')'' # (r @ dropWhile (\<lambda>c. c \<noteq> NL) t)" and "NL \<notin> set a" by (auto dest: set_takeWhileD)
    then show "\<exists>a r. t = a @ CHR '')'' # r \<and> NL \<notin> set a" by blast
  qed
  finally show "xs (b, t, g) \<noteq> [] \<longleftrightarrow> CHR '')'' \<in> set (takeWhile (\<lambda>c. c \<noteq> NL) t)" .
qed

lemma starts_with_append_iff: "starts_with s (p @ q) \<longleftrightarrow> starts_with s p \<and> starts_with (drop (length p) s) q"
  by (auto simp: starts_with_iff)

lemma run_seq: "concat (map (rx_run f (RSeq a b)) ys) = concat (map (rx_run f b) (concat (map (rx_run f a) ys)))"
  by (induction ys) simp_all

lemma take_before: "x = a @ w @ t \<Longrightarrow> take (length x - length t) x = a @ w"
  by simp

lemma here_group:
  assumes "rx_run f r (bef, s, []) = xs" and "\<forall>x\<in>set xs. snd (snd x) = dset n m []" and "xs \<noteq> [] \<longleftrightarrow> P"
  shows "Option.bind (rx_here f r bef s) (\<lambda>x. m_group x n) = (if P then Some m else None) \<and>
    (rx_here f r bef s = None \<longleftrightarrow> (if P then Some m else None) = None)"
  using assms by (cases xs) (auto simp: rx_here_def m_group_def)

text \<open>A match at a position is a call at that position.\<close>

lemma method_here:
  assumes "rx_flat r = method_rx cs" and "\<not> ignorecase f" and "\<not> dotall f" and "\<not> name_char cs (CHR ''('')"
  shows "Option.bind (rx_here f r bef s) (\<lambda>m. m_group m ''method_name'') = call_here cs s \<and>
    (rx_here f r bef s = None \<longleftrightarrow> call_here cs s = None)"
proof -
  let ?N = "RSeq (RSet False cs) (RStar False (RSet False cs))"
  let ?E = "RSeq (RStar True RAny) (RSeq (lit_rx (CHR '')'')) REps)"
  let ?s1 = "drop (length ''self.'') s"
  let ?s2 = "drop (length ''disrupt_'') ?s1"
  let ?w = "takeWhile (name_char cs) ?s2" and ?t = "dropWhile (name_char cs) ?s2"
  let ?H = "\<lambda>x. dset ''method_name'' (take (length ?s1 - length x) ?s1)"
  let ?b1 = "rev ''self.'' @ bef" and ?b2 = "rev ''disrupt_'' @ rev ''self.'' @ bef"
  have start: "starts_with s ''self.disrupt_'' \<longleftrightarrow> starts_with s ''self.'' \<and> starts_with ?s1 ''disrupt_''"
    using starts_with_append_iff[of s "''self.''" "''disrupt_''"] by (simp only: append_Cons append_Nil)
  have "rx_run f r (bef, s, []) = rx_run f (foldr RSeq (map lit_rx ''self.'')
      (RSeq (RGrp ''method_name'' (foldr RSeq (map lit_rx ''disrupt_'') ?N)) (RSeq (lit_rx (CHR ''('')) ?E))) (bef, s, [])"
    using rx_run_flat[of f r "(bef, s, [])"] unfolding assms(1) foldr_append by (simp only: foldr.simps o_apply id_apply)
  also have "\<dots> = (if starts_with s ''self.disrupt_'' then concat (map (rx_run f ?E)
      (concat (map (\<lambda>(b, x, g1). rx_run f (lit_rx (CHR ''('')) (b, x, ?H x g1)) (rx_run f ?N (?b2, ?s2, []))))) else [])"
    unfolding run_literal_then[OF assms(2)] start rx_run.simps(6)[of f "RGrp _ _"] run_seq rx_run.simps(11) run_literal_then[OF assms(2)]
    by (cases "starts_with s ''self.''"; cases "starts_with ?s1 ''disrupt_''")
      (simp_all only: if_True if_False simp_thms map_map o_def case_prod_unfold fst_conv snd_conv list.map concat.simps)
  also have "\<dots> = (if starts_with s ''self.disrupt_'' \<and> ?w \<noteq> [] \<and> starts_with ?t ''(''
      then rx_run f ?E (CHR ''('' # rev ?w @ ?b2, tl ?t, ?H ?t []) else [])"
    unfolding run_name[OF assms(2,4)] by (simp add: Let_def del: rx_run.simps)
  finally have run: "rx_run f r (bef, s, []) = \<dots>" .
  have drops: "drop (length ''self.disrupt_'') s = ?s2" by (simp add: drop_drop)
  show ?thesis
  proof (cases "starts_with s ''self.disrupt_'' \<and> ?w \<noteq> [] \<and> starts_with ?t ''(''")
    case True
    let ?xs = "rx_run f ?E (CHR ''('' # rev ?w @ ?b2, tl ?t, ?H ?t [])"
    obtain q where q: "?s1 = ''disrupt_'' @ q" using True unfolding start by (auto simp only: starts_with_iff)
    have "?s1 = ''disrupt_'' @ ?w @ ?t" unfolding takeWhile_dropWhile_id unfolding q by simp
    then have grp: "take (length ?s1 - length ?t) ?s1 = ''disrupt_'' @ ?w" by (rule take_before)
    have xs: "rx_run f r (bef, s, []) = ?xs" unfolding run by (rule if_P[OF True])
    have call: "call_here cs s = (if CHR '')'' \<in> set (takeWhile (\<lambda>c. c \<noteq> NL) (tl ?t)) then Some (''disrupt_'' @ ?w) else None)"
      using True unfolding call_here_def drops Let_def by (simp only: if_True simp_thms)
    show ?thesis unfolding call
    proof (rule here_group[OF xs])
      show "\<forall>x\<in>set ?xs. snd (snd x) = dset ''method_name'' (''disrupt_'' @ ?w) []"
        using run_close(2)[OF assms(2,3)] unfolding grp by blast
      show "?xs \<noteq> [] \<longleftrightarrow> CHR '')'' \<in> set (takeWhile (\<lambda>c. c \<noteq> NL) (tl ?t))" by (rule run_close(1)[OF assms(2,3)])
    qed
  next
    case False
    have "rx_run f r (bef, s, []) = []" unfolding run by (rule if_not_P[OF False])
    with False show ?thesis unfolding rx_here_def call_here_def drops Let_def by auto
  qed
qed

lemma method_search:
  assumes "rx_flat r = method_rx cs" and "\<not> ignorecase f" and "\<not> dotall f" and "\<not> name_char cs (CHR ''('')"
  shows "Option.bind (rx_search_from f r bef s) (\<lambda>m. m_group m ''method_name'') = find_call cs s"
proof (induction s arbitrary: bef)
  case Nil
  have "call_here cs [] = None" by (simp add: call_here_def starts_with_def)
  with method_here[OF assms, of bef "[]"] show ?case by simp
next
  case (Cons c s)
  with method_here[OF assms, of bef "c # s"] show ?case by (auto split: option.splits)
qed

text \<open>
  Searching a source with the regular expression gives the name of the first call of a disrupt method
  in it: the name is made of letters and underscores only (\<open>get_list_of_methods_by_flags\<close>), or of digits too
  (\<open>get_list_of_disrupt_methods\<close>).
\<close>

lemma method_in_source_find_call:
  "method_in_source METHOD_PATTERN src = find_call letters src"
  "method_in_source METHOD_PATTERN_DIGITS src = find_call letters_digits src"
proof -
  have found: "method_in_source p src = find_call cs src"
    if "map_option rx_flat (re_compile p) = Some (method_rx cs)" and "\<not> name_char cs (CHR ''('')" for p cs
    using that method_search[of _ cs flag_multiline "[]" src]
    by (auto simp: method_in_source_def pat_search_def re_search_def flag_multiline_def no_flags_def)
  have "\<not> name_char letters (CHR ''('')" and "\<not> name_char letters_digits (CHR ''('')"
    by (simp_all add: name_char_def char_code_def)
  then show "method_in_source METHOD_PATTERN src = find_call letters src"
    "method_in_source METHOD_PATTERN_DIGITS src = find_call letters_digits src"
    using found METHOD_PATTERN_compiles METHOD_PATTERN_DIGITS_compiles by blast+
qed

lemma find_disrupt_call:
  assumes "m \<noteq> []" and "list_all (name_char cs) m" and "\<not> name_char cs (CHR ''('')" and "NL \<notin> set args"
  shows "find_call cs (disrupt_call m args) = Some (''disrupt_'' @ m)"
proof -
  have "takeWhile (name_char cs) (m @ CHR ''('' # args @ '')'') = m" and
    "dropWhile (name_char cs) (m @ CHR ''('' # args @ '')'') = CHR ''('' # args @ '')''"
    using assms(2,3) by (auto simp: takeWhile_append dropWhile_append list_all_iff)
  moreover have "CHR '')'' \<in> set (takeWhile (\<lambda>c. c \<noteq> NL) (args @ '')''))"
    using assms(4) by (subst takeWhile_append2) (auto simp: NL_def)
  ultimately have "call_here cs (disrupt_call m args) = Some (''disrupt_'' @ m)"
    using assms(1) by (simp add: call_here_def disrupt_call_def starts_with_def)
  then show ?thesis by (simp add: disrupt_call_def)
qed

section \<open>Which disruptions are selected\<close>

lemma bases_before_distinct:
  assumes "bases_before [] tbl" and "c \<in> set tbl" and "c' \<in> set tbl" and "nc_name c = nc_name c'"
  shows "c = c'"
proof -
  obtain i j where ij: "i < length tbl" "c = tbl ! i" "j < length tbl" "c' = tbl ! j"
    using assms(2,3) by (auto simp: in_set_conv_nth)
  then have "i = j" using bases_before_nth[OF assms(1), of i] bases_before_nth[OF assms(1), of j] assms(4)
    by (metis linorder_neqE_nat)
  with ij show ?thesis by simp
qed

lemma source_of_class:
  assumes "bases_before [] tbl" and "c \<in> set tbl"
  shows "source_of tbl (nc_name c) = nc_source c"
proof (cases "find (\<lambda>d. nc_name d = nc_name c) tbl")
  case None
  with assms(2) show ?thesis unfolding find_None_iff by metis
next
  case (Some d)
  then have "d \<in> set tbl" and "nc_name d = nc_name c" by (auto simp: find_Some_iff)
  then have "d = c" using bases_before_distinct[OF assms(1)] assms(2) by simp
  with Some show ?thesis by (simp add: source_of_def)
qed

text \<open>A class a selection may take, and whether its flags are the selected ones.\<close>

definition selectable :: "nemesis_class list \<Rightarrow> (string, bool option) dict \<Rightarrow> nemesis_class \<Rightarrow> bool" where
  "selectable tbl flags c \<longleftrightarrow> nc_name c \<notin> set (COMPLEX_NEMESIS @ DEPRECATED_LIST_OF_NEMESISES) \<and> flags_match tbl flags (nc_name c)"

lemma get_subclasses_set:
  assumes "bases_before [] tbl"
  shows "\<exists>ns. get_subclasses tbl flags = Some ns \<and> set ns = nc_name ` {c \<in> set tbl. selectable tbl flags c}"
  using all_subclasses_found[OF assms] by (auto simp: get_subclasses_def get_subclasses_from_list_def selectable_def)

lemma methods_of_set:
  assumes "bases_before [] tbl" and "set ns = nc_name ` {c \<in> set tbl. P c}"
  shows "set (methods_of p tbl ns) = {m. \<exists>c\<in>set tbl. P c \<and> method_in_source p (nc_source c) = Some m}"
  unfolding methods_of_def set_concat set_map assms(2)
  by (auto simp: source_of_class[OF assms(1)] split: option.splits)

lemma selected_disruptions_filter:
  assumes "bases_before [] tbl" and "sel \<noteq> []"
  shows "selected_disruptions tbl members sel = Some (filter (\<lambda>m. \<exists>c\<in>set tbl. selectable tbl (selector_flags sel) c \<and>
    find_call letters_digits (nc_source c) = Some m) members)"
proof -
  obtain ns where ns: "get_subclasses tbl (selector_flags sel) = Some ns"
      "set ns = nc_name ` {c \<in> set tbl. selectable tbl (selector_flags sel) c}"
    using get_subclasses_set[OF assms(1)] by blast
  have "get_list_of_disrupt_methods tbl members [] = []" by (simp add: get_list_of_disrupt_methods_def methods_of_def)
  then have "selected_disruptions tbl members sel = Some (get_list_of_disrupt_methods tbl members ns)"
    using assms(2) ns(1) by (cases ns) (simp_all add: selected_disruptions_def get_list_of_subclasses_by_property_name_def)
  then show ?thesis using methods_of_set[OF assms(1) ns(2), of METHOD_PATTERN_DIGITS]
    unfolding get_list_of_disrupt_methods_def Let_def method_in_source_find_call by (simp only: mem_Collect_eq)
qed

text \<open>
  A flag of a class is looked up along its bases: the one its body sets, otherwise that of its base, and at
  the end that of \<open>Nemesis\<close>.
\<close>

fun inherited_flags :: "nemesis_class list \<Rightarrow> (string, (string, bool) dict) dict \<Rightarrow> (string, (string, bool) dict) dict" where
  "inherited_flags [] env = env"
| "inherited_flags (c # cs) env = inherited_flags cs (env @ [(nc_name c, nc_flags c @ dget_default env (nc_base c) Nemesis_flags)])"

lemma resolve_flags_rec: "resolve_flags tbl = inherited_flags tbl []"
proof -
  have "foldl (\<lambda>env c. env @ [(nc_name c, nc_flags c @ dget_default env (nc_base c) Nemesis_flags)]) env tbl = inherited_flags tbl env" for env
    by (induction tbl arbitrary: env) simp_all
  then show ?thesis by (simp add: resolve_flags_def)
qed

lemma inherited_flags_keep: "map_of env n = Some fl \<Longrightarrow> map_of (inherited_flags tbl env) n = Some fl"
  by (induction tbl arbitrary: env) (auto simp: map_add_Some_iff)

lemma inherited_flags_class:
  assumes "bases_before seen tbl" and "N = ''Nemesis''" and "fst ` set env = set seen" and "N \<notin> set seen" and "c \<in> set tbl"
  shows "map_of (inherited_flags tbl env) (nc_name c) =
    Some (nc_flags c @ (if nc_base c = N then Nemesis_flags else dget_default (inherited_flags tbl env) (nc_base c) []))"
  using assms(1,3-)
proof (induction tbl arbitrary: seen env)
  case (Cons d tbl)
  let ?env = "env @ [(nc_name d, nc_flags d @ dget_default env (nc_base d) Nemesis_flags)]"
  have b: "nc_base d = N \<or> nc_base d \<in> set seen" "nc_name d \<notin> set seen" "nc_name d \<noteq> N"
    "bases_before (nc_name d # seen) tbl" using Cons.prems(1) unfolding bases_before.simps assms(2)[symmetric] by blast+
  show ?case
  proof (cases "c \<in> set tbl")
    case True
    have "fst ` set ?env = set (nc_name d # seen)" using Cons.prems(2) by auto
    moreover have "N \<notin> set (nc_name d # seen)" unfolding list.set using b(3) Cons.prems(3) by blast
    ultimately show ?thesis using Cons.IH[OF b(4) _ _ True, of ?env] unfolding inherited_flags.simps by blast
  next
    case False
    then have [simp]: "d = c" using Cons.prems(4) by simp
    have "map_of env (nc_name c) = None" using b(2) Cons.prems(2) unfolding map_of_eq_None_iff by simp
    then have "map_of ?env (nc_name c) = Some (nc_flags c @ dget_default env (nc_base c) Nemesis_flags)"
      by (simp add: map_add_def)
    from inherited_flags_keep[OF this, of tbl]
    have own: "map_of (inherited_flags (d # tbl) env) (nc_name c) = Some (nc_flags c @ dget_default env (nc_base c) Nemesis_flags)" by simp
    show ?thesis
    proof (cases "nc_base c = N")
      case True
      then have "map_of env (nc_base c) = None" using Cons.prems(2,3) unfolding map_of_eq_None_iff by (simp only: simp_thms)
      then have "dget_default env (nc_base c) Nemesis_flags = Nemesis_flags" unfolding dget_default_def by (simp only: option.case)
      then show ?thesis unfolding own if_P[OF True] by (simp only:)
    next
      case False
      then have "nc_base c \<in> fst ` set env" using b(1) unfolding \<open>d = c\<close> Cons.prems(2) by blast
      then obtain fl where fl: "map_of env (nc_base c) = Some fl" by (metis map_of_eq_None_iff not_Some_eq)
      then have "map_of (inherited_flags (d # tbl) env) (nc_base c) = Some fl" by (rule inherited_flags_keep)
      then show ?thesis unfolding own if_not_P[OF False] using fl by (simp only: dget_default_def option.case)
    qed
  qed
qed simp

lemma dget_default_append: "dget_default (a @ b) k v = (case dget a k of Some x \<Rightarrow> x | None \<Rightarrow> dget_default b k v)"
  by (simp add: dget_default_def map_add_def split: option.split)

lemma class_flag_inherited:
  assumes "bases_before [] tbl" and "c \<in> set tbl"
  shows "class_flag tbl (nc_name c) f = (case dget (nc_flags c) f of Some v \<Rightarrow> v
    | None \<Rightarrow> if nc_base c = ''Nemesis'' then dget_default Nemesis_flags f False else class_flag tbl (nc_base c) f)"
proof -
  have "map_of (inherited_flags tbl []) (nc_name c) = Some (nc_flags c @
      (if nc_base c = ''Nemesis'' then Nemesis_flags else dget_default (inherited_flags tbl []) (nc_base c) []))"
    by (rule inherited_flags_class[OF assms(1) refl _ _ assms(2)]) (simp_all only: list.set image_empty empty_iff simp_thms)
  then have "dget_default (inherited_flags tbl []) (nc_name c) [] = nc_flags c @
      (if nc_base c = ''Nemesis'' then Nemesis_flags else dget_default (inherited_flags tbl []) (nc_base c) [])"
    by (simp only: dget_default_def option.case)
  then show ?thesis unfolding class_flag_def resolve_flags_rec
    by (cases "nc_base c = ''Nemesis''") (simp_all only: if_True if_False dget_default_append simp_thms)
qed

text \<open>
  C29. The disruptions a selector gives, in the order of the names of the members: a member is taken exactly when
  some class of the table, at any depth of inheritance and outside the complex and the deprecated ones, has
  the selected flags, its own or inherited, and calls that method first.
\<close>

theorem selected_disruptions_exact:
  assumes "bases_before [] tbl" and "sel \<noteq> []"
  shows "selected_disruptions tbl members sel = Some (filter (\<lambda>m. \<exists>c\<in>set tbl.
      nc_name c \<notin> set (COMPLEX_NEMESIS @ DEPRECATED_LIST_OF_NEMESISES) \<and>
      (\<forall>(f, v)\<in>set (selector_flags sel). v = None \<or> v = Some (class_flag tbl (nc_name c) f)) \<and>
      find_call letters_digits (nc_source c) = Some m) members) \<and>
    (\<forall>c\<in>set tbl. \<forall>f. class_flag tbl (nc_name c) f = (case dget (nc_flags c) f of Some v \<Rightarrow> v
      | None \<Rightarrow> if nc_base c = ''Nemesis'' then dget_default Nemesis_flags f False else class_flag tbl (nc_base c) f))"
proof -
  have "flags_match tbl fl n = (\<forall>(f, v)\<in>set fl. v = None \<or> v = Some (class_flag tbl n f))" for fl n
    unfolding flags_match_def list_all_iff by (rule ball_cong) (auto split: option.splits)
  then show ?thesis
    using selected_disruptions_filter[OF assms] class_flag_inherited[OF assms(1)] unfolding selectable_def by simp
qed

theorem selected_disruptions_exact_witness:
  "selected_disruptions nemesis_classes_16 [''disrupt_serial_restart_elected_topology_coordinator''] [''topology_changes''] =
     Some (filter (\<lambda>m. \<exists>c\<in>set nemesis_classes_16.
      nc_name c \<notin> set (COMPLEX_NEMESIS @ DEPRECATED_LIST_OF_NEMESISES) \<and>
      (\<forall>(f, v)\<in>set (selector_flags [''topology_changes'']). v = None \<or> v = Some (class_flag nemesis_classes_16 (nc_name c) f)) \<and>
      find_call letters_digits (nc_source c) = Some m) [''disrupt_serial_restart_elected_topology_coordinator''])"
proof -
  have "bases_before [] nemesis_classes_16" by (simp add: nemesis_classes_16_def nemesis_cls_def)
  from selected_disruptions_exact[OF this, of "[''topology_changes'']"] show ?thesis by blast
qed

section \<open>The order of the disruptions\<close>

lemma call_nemeses_from:
  assumes "nm_disruptions s \<noteq> []" and "i = (case nm_cycle s of None \<Rightarrow> 0 | Some i \<Rightarrow> i)" and "i < length (nm_disruptions s)"
  shows "\<exists>s'. call_nemeses n s = Inr (map (\<lambda>j. nm_disruptions s ! ((i + j) mod length (nm_disruptions s))) [0..<n], s') \<and>
    nm_disruptions s' = nm_disruptions s"
  using assms
proof (induction n arbitrary: s i)
  case (Suc n)
  let ?d = "nm_disruptions s"
  let ?s = "s\<lparr>nm_cycle := Some (Suc i mod length ?d)\<rparr>"
  have "call_next_nemesis s = Inr (?d ! i, ?s)" using Suc.prems by (simp add: call_next_nemesis_def Let_def)
  moreover obtain s' where "call_nemeses n ?s = Inr (map (\<lambda>j. ?d ! ((Suc i mod length ?d + j) mod length ?d)) [0..<n], s')"
    "nm_disruptions s' = ?d"
    using Suc.IH[of ?s "Suc i mod length ?d"] Suc.prems by auto
  moreover have "map (\<lambda>j. ?d ! ((i + j) mod length ?d)) [0..<Suc n] = ?d ! i # map (\<lambda>j. ?d ! ((Suc i mod length ?d + j) mod length ?d)) [0..<n]"
    using Suc.prems by (simp add: map_upt_Suc mod_add_left_eq del: upt_Suc)
  ultimately show ?case by simp
qed simp

lemma rounds_of_list: "map (\<lambda>j. xs ! (j mod length xs)) [0..<k * length xs] = concat (replicate k xs)"
proof (induction k)
  case (Suc k)
  have "map (\<lambda>j. xs ! (j mod length xs)) [k * length xs..<k * length xs + length xs] = map (\<lambda>j. xs ! j) [0..<length xs]"
    by (rule nth_equalityI) simp_all
  moreover have "[0..<Suc k * length xs] = [0..<k * length xs] @ [k * length xs..<k * length xs + length xs]"
    using upt_add_eq_append[of 0 "k * length xs" "length xs"] by (simp add: add.commute)
  moreover have "concat (replicate (Suc k) xs) = concat (replicate k xs) @ xs" by (induction k) simp_all
  ultimately show ?case using Suc.IH by (simp add: map_nth)
qed simp

lemma length_concat_rounds: "length (concat (replicate k xs)) = k * length xs"
  by (induction k) simp_all

lemma count_rounds: "count_list (concat (replicate k xs)) x = k * count_list xs x"
  by (induction k) simp_all

lemma count_list_mset: "count_list xs x = count (mset xs) x"
  by (induction xs) simp_all

lemma mset_count_list: "mset xs = mset ys \<Longrightarrow> count_list xs x = count_list ys x"
  by (metis count_list_mset)

text \<open>
  C30. A nemesis made from a selector, with the cluster's multiply factor: in every round of the cycle each
  selected disruption is executed as many times as the factor says and no other is, however the list was
  shuffled, and the next round is the same again.
\<close>

theorem sisyphus_rounds_fair:
  assumes "bases_before [] tbl" and "sel \<noteq> []" and "distinct members"
    and "\<And>xs. mset (shuffle xs) = mset xs"
    and "nm_disruptions s = []" and "nm_cycle s = None" and "np_nemesis_multiply_factor (nm_params s) = factor" and "0 < factor"
    and "selected_disruptions tbl members sel = Some ds" and "ds \<noteq> []"
  shows "\<exists>s1 ms s2. sisyphus_init shuffle tbl members sel s = Some s1 \<and>
    call_nemeses (rounds * (factor * length ds)) s1 = Inr (ms, s2) \<and>
    (\<forall>m. count_list ms m = (if m \<in> set ds then rounds * factor else 0))"
proof -
  let ?l = "shuffle (concat (replicate factor ds))"
  let ?s1 = "s\<lparr>nm_disruptions := ?l\<rparr>"
  have init: "sisyphus_init shuffle tbl members sel s = Some ?s1"
    using assms(2,5,7-9) by (simp add: sisyphus_init_def build_list_of_disruptions_to_execute_def shuffle_list_of_disruptions_def)
  have len: "length ?l = factor * length ds" 
    using arg_cong[where f = size, OF assms(4)[of "concat (replicate factor ds)"]] by (simp add: length_concat_rounds del: length_concat)
  then have ne: "?l \<noteq> []" using assms(8,10) by auto
  have "distinct ds" 
    using selected_disruptions_filter[OF assms(1,2), of members] assms(3) unfolding assms(9) option.inject by (simp only: distinct_filter)
  then have one: "count_list ds m = (if m \<in> set ds then 1 else 0)" for m
    by (simp add: distinct_count_atmost_1 count_list_mset)
  obtain s2 where s2: "call_nemeses (rounds * length ?l) ?s1 = Inr (concat (replicate rounds ?l), s2)"
    using call_nemeses_from[of ?s1 0 "rounds * length ?l"] ne assms(6) by (auto simp: rounds_of_list)
  have "count_list (concat (replicate rounds ?l)) m = (if m \<in> set ds then rounds * factor else 0)" for m
    using mset_count_list[OF assms(4), of "concat (replicate factor ds)" m] one[of m] by (simp add: count_rounds)
  with init s2 show ?thesis unfolding len by blast
qed

lemma classes_16_ordered: "bases_before [] nemesis_classes_16"
  by (simp add: nemesis_classes_16_def nemesis_cls_def)

lemma classes_16_selected:
  "selected_disruptions nemesis_classes_16 [''disrupt_drop_table'', ''disrupt_serial_restart_elected_topology_coordinator''] [''topology_changes''] =
     Some [''disrupt_serial_restart_elected_topology_coordinator'']"
  unfolding selected_disruptions_filter[OF classes_16_ordered list.distinct(2)] by code_simp

theorem sisyphus_rounds_fair_witness:
  "\<exists>s1 ms s2. sisyphus_init rev nemesis_classes_16 [''disrupt_drop_table'', ''disrupt_serial_restart_elected_topology_coordinator'']
      [''topology_changes''] \<lparr>nm_params = \<lparr>np_nemesis_selector = [], np_nemesis_exclude_disabled = True, np_nemesis_multiply_factor = 6,
        np_test_duration = 60\<rparr>, nm_selector = [], nm_disruptions = [], nm_cycle = None, nm_sequence = []\<rparr> = Some s1 \<and>
    call_nemeses (2 * (6 * length [''disrupt_serial_restart_elected_topology_coordinator''])) s1 = Inr (ms, s2) \<and>
    (\<forall>m. count_list ms m = (if m \<in> set [''disrupt_serial_restart_elected_topology_coordinator''] then 2 * 6 else 0))"
  by (rule sisyphus_rounds_fair[OF classes_16_ordered _ _ _ _ _ _ _ classes_16_selected]) simp_all

text \<open>Calls of \<open>call_random_disrupt_method\<close> with the predefined sequence, one after the other.\<close>

fun random_calls ::
  "(nat \<Rightarrow> nat) \<Rightarrow> (string list \<Rightarrow> string list) \<Rightarrow> string list \<Rightarrow> string list option \<Rightarrow> nat \<Rightarrow> nemesis_state \<Rightarrow>
     string option list \<times> nemesis_state" where
  "random_calls pick shuffle members wanted 0 s = ([], s)"
| "random_calls pick shuffle members wanted (Suc n) s =
     (let (m, s1) = call_random_disrupt_method pick shuffle members wanted True s;
          (ms, s2) = random_calls pick shuffle members wanted n s1 in (m # ms, s2))"

lemma random_calls_sequence:
  assumes "methods_to_call members wanted \<noteq> []"
  shows "random_calls pick shuffle members wanted (length xs) (s\<lparr>nm_sequence := ys @ xs\<rparr>) =
    (map Some (rev xs), s\<lparr>nm_sequence := ys\<rparr>)"
proof (induction xs rule: rev_induct)
  case (snoc x xs)
  have "call_random_disrupt_method pick shuffle members wanted True (s\<lparr>nm_sequence := ys @ xs @ [x]\<rparr>) =
      (Some x, s\<lparr>nm_sequence := ys @ xs\<rparr>)"
    using assms by (simp add: call_random_disrupt_method_def butlast_append)
  with snoc.IH show ?case by simp
qed simp

lemma first_random_call:
  assumes "methods_to_call members wanted \<noteq> []" and "nm_sequence s = []"
    and "sq = shuffle (concat (replicate (sequence_rate (np_test_duration (nm_params s))) (methods_to_call members wanted)))" and "sq \<noteq> []"
  shows "call_random_disrupt_method pick shuffle members wanted True s =
    call_random_disrupt_method pick shuffle members wanted True (s\<lparr>nm_sequence := sq\<rparr>)"
  using assms by (simp add: call_random_disrupt_method_def)

text \<open>
  With the predefined sequence every method is executed the same number of times in a round: once in a test of
  less than ten hours, twice in one of less than three days, otherwise three times. After the round the sequence is
  used up, and the next call starts a new one.
\<close>

theorem random_sequence_fair:
  assumes "distinct members" and "\<And>xs. mset (shuffle xs) = mset xs" and "nm_sequence s = []"
    and "ms = methods_to_call members wanted" and "ms \<noteq> []"
    and "rate = (if np_test_duration (nm_params s) < 10 * 60 then 1 else if np_test_duration (nm_params s) < 3 * 24 * 60 then 2 else 3)"
  shows "\<exists>xs. random_calls pick shuffle members wanted (rate * length ms) s = (map Some xs, s) \<and>
    (\<forall>m. count_list xs m = (if m \<in> set ms then rate else 0))"
proof -
  let ?sq = "shuffle (concat (replicate rate ms))"
  have rate: "sequence_rate (np_test_duration (nm_params s)) = rate" "0 < rate" using assms(6) by (auto simp: sequence_rate_def)
  have len: "length ?sq = rate * length ms"
    using arg_cong[where f = size, OF assms(2)[of "concat (replicate rate ms)"]] by (simp add: length_concat_rounds del: length_concat)
  with assms(5) rate obtain n where n: "rate * length ms = Suc n" and ne: "?sq \<noteq> []"
    by (metis length_0_conv mult_eq_0_iff neq0_conv not0_implies_Suc)
  have "random_calls pick shuffle members wanted (Suc n) s = random_calls pick shuffle members wanted (Suc n) (s\<lparr>nm_sequence := ?sq\<rparr>)"
    using first_random_call[of members wanted s ?sq shuffle pick] ne assms(3-5) rate by simp
  also have "\<dots> = (map Some (rev ?sq), s\<lparr>nm_sequence := []\<rparr>)"
    using random_calls_sequence[where members = members and wanted = wanted and xs = ?sq and ys = "[]"] assms(4,5) len n by simp
  finally have "random_calls pick shuffle members wanted (rate * length ms) s = (map Some (rev ?sq), s)"
    using n assms(3) by simp
  moreover have "distinct ms" using assms(1,4) by (auto simp: methods_to_call_def split: option.split)
  then have "count_list ms m = (if m \<in> set ms then 1 else 0)" for m by (simp add: distinct_count_atmost_1 count_list_mset)
  then have "count_list (rev ?sq) m = (if m \<in> set ms then rate else 0)" for m
    using mset_count_list[OF assms(2), of "concat (replicate rate ms)" m] by (simp add: count_rounds)
  ultimately show ?thesis by blast
qed

theorem random_sequence_fair_witness:
  "\<exists>xs. random_calls (\<lambda>n. 0) rev [''disrupt_a'', ''disrupt_b''] None (2 * length [''disrupt_a'', ''disrupt_b''])
      \<lparr>nm_params = \<lparr>np_nemesis_selector = [], np_nemesis_exclude_disabled = True, np_nemesis_multiply_factor = 6,
        np_test_duration = 1440\<rparr>, nm_selector = [], nm_disruptions = [], nm_cycle = None, nm_sequence = []\<rparr> =
      (map Some xs, \<lparr>nm_params = \<lparr>np_nemesis_selector = [], np_nemesis_exclude_disabled = True, np_nemesis_multiply_factor = 6,
        np_test_duration = 1440\<rparr>, nm_selector = [], nm_disruptions = [], nm_cycle = None, nm_sequence = []\<rparr>) \<and>
    (\<forall>m. count_list xs m = (if m \<in> set [''disrupt_a'', ''disrupt_b''] then 2 else 0))"
  by (rule random_sequence_fair) (simp_all add: methods_to_call_def starts_with_def)

section \<open>Methods with digits\<close>

lemma find_call_name: "find_call cs s = Some m \<Longrightarrow> \<exists>w. m = ''disrupt_'' @ w \<and> list_all (name_char cs) w"
  by (induction s) (auto simp: call_here_def Let_def list_all_iff dest: set_takeWhileD split: option.splits if_splits)

text \<open>
  A method whose name has a digit is never found by flags: it is in no set of nemeses that is chosen by
  \<open>get_list_of_methods_by_flags\<close>, whatever the flags are, although \<open>get_list_of_disrupt_methods\<close>
  finds it. \<open>disrupt_delete_10_full_partitions\<close> of \<open>DeleteByPartitionsMonkey\<close> is such a method.
\<close>

theorem methods_by_flags_miss_digits:
  "find_call letters_digits (disrupt_call ''delete_10_full_partitions'' []) = Some ''disrupt_delete_10_full_partitions'' \<and>
   (\<forall>tbl f ms. get_list_of_methods_by_flags tbl f = Some ms \<longrightarrow> ''disrupt_delete_10_full_partitions'' \<notin> set ms)"
proof (intro conjI allI impI)
  show "find_call letters_digits (disrupt_call ''delete_10_full_partitions'' []) = Some ''disrupt_delete_10_full_partitions''"
    by code_simp
  fix tbl f ms assume "get_list_of_methods_by_flags tbl f = Some ms"
  then obtain ns where ms: "ms = methods_of METHOD_PATTERN tbl ns" unfolding get_list_of_methods_by_flags_def by blast
  show "''disrupt_delete_10_full_partitions'' \<notin> set ms"
  proof
    assume "''disrupt_delete_10_full_partitions'' \<in> set ms"
    then obtain n where "method_in_source METHOD_PATTERN (source_of tbl n) = Some ''disrupt_delete_10_full_partitions''"
      unfolding ms methods_of_def by (auto split: option.splits)
    then obtain w where w: "''disrupt_delete_10_full_partitions'' = ''disrupt_'' @ w" "list_all (name_char letters) w"
      unfolding method_in_source_find_call using find_call_name by blast
    then have "w = ''delete_10_full_partitions''" by simp
    with w(2) show False by (simp add: name_char_def char_code_def)
  qed
qed

lemma delete_partitions_methods:
  "get_list_of_methods_by_flags [nemesis_cls ''DeleteByPartitionsMonkey'' ''Nemesis'' [flag_on ''free_tier_set'']
     (disrupt_call ''delete_10_full_partitions'' []), nemesis_cls ''DrainerMonkey'' ''Nemesis'' [flag_on ''limited'']
     (disrupt_call ''nodetool_drain'' [])] no_method_flags = Some [''disrupt_nodetool_drain'']"
  unfolding get_list_of_methods_by_flags_def methods_of_def method_in_source_find_call by code_simp

theorem methods_by_flags_miss_digits_witness:
  "get_list_of_methods_by_flags [nemesis_cls ''DeleteByPartitionsMonkey'' ''Nemesis'' [flag_on ''free_tier_set'']
     (disrupt_call ''delete_10_full_partitions'' []), nemesis_cls ''DrainerMonkey'' ''Nemesis'' [flag_on ''limited'']
     (disrupt_call ''nodetool_drain'' [])] no_method_flags = Some [''disrupt_nodetool_drain''] \<and>
   ''disrupt_delete_10_full_partitions'' \<notin> set [''disrupt_nodetool_drain'']"
  by (rule conjI[OF delete_partitions_methods
      conjunct2[OF methods_by_flags_miss_digits, THEN spec, THEN spec, THEN spec, THEN mp, OF delete_partitions_methods]])

end
