(* ===== verification/Nemesis_Table.thy ===== *)
theory Nemesis_Table
  imports Nemesis_Select
begin

text \<open>
  The selection of nemeses on the classes of \<open>sdcm/nemesis.py\<close> themselves: the table is in the order the
  selection needs, and the set for the free tier is what its documentation says.
\<close>

lemma nemesis_table_ordered: "bases_before [] nemesis_table"
  by code_simp

text \<open>What the body of a class says of the free tier.\<close>

definition free_tier_body :: "nemesis_class \<Rightarrow> bool" where
  "free_tier_body c \<longleftrightarrow> (if dget (nc_flags c) ''free_tier_set'' = Some True
     then nc_base c = ''Nemesis'' \<and> dget (nc_flags c) ''topology_changes'' \<noteq> Some True \<and>
       dget (nc_flags c) ''manager_operation'' \<noteq> Some True \<and>
       find_call letters_digits (nc_source c) \<notin> Some ` set EXCLUSIVE_NEMESIS_NAMES
     else nc_base c = ''Nemesis'' \<or>
       list_ex (\<lambda>d. nc_name d = nc_base c \<and> nc_base d = ''Nemesis'' \<and> dget (nc_flags d) ''free_tier_set'' \<noteq> Some True) nemesis_table)"

lemma free_tier_bodies: "list_all free_tier_body nemesis_table"
  by code_simp

lemma free_tier_class:
  "list_ex (\<lambda>c. nc_name c = ''ToggleCDCMonkey'' \<and> dget (nc_flags c) ''free_tier_set'' = Some True) nemesis_table"
  by code_simp

lemma free_tier_class_simple: "''ToggleCDCMonkey'' \<notin> set (COMPLEX_NEMESIS @ DEPRECATED_LIST_OF_NEMESISES)"
  by code_simp

lemma free_tier_flags: "selector_flags FreeTierSet_selector = [(''free_tier_set'', Some True)]"
  by code_simp

lemma Nemesis_flags_off:
  "\<not> dget_default Nemesis_flags ''free_tier_set'' False" "\<not> dget_default Nemesis_flags ''topology_changes'' False"
  "\<not> dget_default Nemesis_flags ''manager_operation'' False"
  by code_simp+

lemma class_flag_of_base:
  assumes "c \<in> set nemesis_table" and "nc_base c = ''Nemesis''" and "\<not> dget_default Nemesis_flags f False"
  shows "class_flag nemesis_table (nc_name c) f \<longleftrightarrow> dget (nc_flags c) f = Some True"
  unfolding class_flag_inherited[OF nemesis_table_ordered assms(1)] if_P[OF assms(2)]
  using assms(3) by (cases "dget (nc_flags c) f") (simp_all only: option.case option.distinct option.inject simp_thms)

lemma free_tier_class_flag:
  assumes "c \<in> set nemesis_table" and "class_flag nemesis_table (nc_name c) ''free_tier_set''"
  shows "dget (nc_flags c) ''free_tier_set'' = Some True"
proof (rule ccontr)
  assume no: "dget (nc_flags c) ''free_tier_set'' \<noteq> Some True"
  have "free_tier_body c" using free_tier_bodies assms(1) unfolding list_all_iff by (rule bspec)
  then have body: "nc_base c = ''Nemesis'' \<or> list_ex (\<lambda>d. nc_name d = nc_base c \<and> nc_base d = ''Nemesis'' \<and>
      dget (nc_flags d) ''free_tier_set'' \<noteq> Some True) nemesis_table"
    unfolding free_tier_body_def if_not_P[OF no] .
  show False
  proof (cases "nc_base c = ''Nemesis''")
    case True
    show False using class_flag_of_base[OF assms(1) True Nemesis_flags_off(1)] assms(2) no by (simp only: simp_thms)
  next
    case False
    then obtain d where d: "d \<in> set nemesis_table" "nc_name d = nc_base c" "nc_base d = ''Nemesis''"
        "dget (nc_flags d) ''free_tier_set'' \<noteq> Some True"
      using body unfolding list_ex_iff by (elim disjE bexE conjE) (simp_all only: simp_thms)
    have "\<not> class_flag nemesis_table (nc_base c) ''free_tier_set''"
      using class_flag_of_base[OF d(1,3) Nemesis_flags_off(1)] d(4) unfolding d(2) by (simp only: simp_thms)
    then show False using assms(2) no unfolding class_flag_inherited[OF nemesis_table_ordered assms(1)] if_not_P[OF False]
      by (cases "dget (nc_flags c) ''free_tier_set''") (simp_all only: option.case option.inject simp_thms)
  qed
qed

text \<open>
  The set for the free tier is what its documentation says: the selection gives some classes, and no class it
  gives changes the topology, uses the manager or runs an exclusive disruption.
\<close>

theorem free_tier_set_documented:
  "\<exists>ns. get_list_of_subclasses_by_property_name nemesis_table FreeTierSet_selector = Some ns \<and> ns \<noteq> [] \<and>
    list_all (\<lambda>n. \<not> class_flag nemesis_table n ''topology_changes'' \<and> \<not> class_flag nemesis_table n ''manager_operation'' \<and>
      method_in_source METHOD_PATTERN_DIGITS (source_of nemesis_table n) \<notin> Some ` set EXCLUSIVE_NEMESIS_NAMES) ns"
proof -
  let ?sel = "selectable nemesis_table (selector_flags FreeTierSet_selector)"
  have sel: "?sel c \<longleftrightarrow> nc_name c \<notin> set (COMPLEX_NEMESIS @ DEPRECATED_LIST_OF_NEMESISES) \<and>
      class_flag nemesis_table (nc_name c) ''free_tier_set''" for c
    unfolding selectable_def flags_match_def free_tier_flags by (simp only: list.pred_inject prod.case option.case simp_thms)
  obtain ns where ns: "get_subclasses nemesis_table (selector_flags FreeTierSet_selector) = Some ns"
      "set ns = nc_name ` {c \<in> set nemesis_table. ?sel c}"
    using get_subclasses_set[OF nemesis_table_ordered] by blast
  have ok: "\<not> class_flag nemesis_table (nc_name c) ''topology_changes'' \<and> \<not> class_flag nemesis_table (nc_name c) ''manager_operation'' \<and>
      method_in_source METHOD_PATTERN_DIGITS (source_of nemesis_table (nc_name c)) \<notin> Some ` set EXCLUSIVE_NEMESIS_NAMES"
    if "c \<in> set nemesis_table" "?sel c" for c
  proof -
    have own: "dget (nc_flags c) ''free_tier_set'' = Some True" using that(2) unfolding sel by (elim conjE) (rule free_tier_class_flag[OF that(1)])
    have "free_tier_body c" using free_tier_bodies that(1) unfolding list_all_iff by (rule bspec)
    then have body: "nc_base c = ''Nemesis''" "dget (nc_flags c) ''topology_changes'' \<noteq> Some True"
        "dget (nc_flags c) ''manager_operation'' \<noteq> Some True" "find_call letters_digits (nc_source c) \<notin> Some ` set EXCLUSIVE_NEMESIS_NAMES"
      unfolding free_tier_body_def if_P[OF own] by (simp_all only: simp_thms)
    then show ?thesis
      using class_flag_of_base[OF that(1) body(1) Nemesis_flags_off(2)] class_flag_of_base[OF that(1) body(1) Nemesis_flags_off(3)]
      unfolding source_of_class[OF nemesis_table_ordered that(1)] method_in_source_find_call by (simp only: simp_thms)
  qed
  obtain c where c: "c \<in> set nemesis_table" "nc_name c = ''ToggleCDCMonkey''" "dget (nc_flags c) ''free_tier_set'' = Some True"
    using free_tier_class unfolding list_ex_iff by (elim bexE conjE)
  have "class_flag nemesis_table (nc_name c) ''free_tier_set''"
    unfolding class_flag_inherited[OF nemesis_table_ordered c(1)] c(3) option.case by (rule TrueI)
  moreover have "nc_name c \<notin> set (COMPLEX_NEMESIS @ DEPRECATED_LIST_OF_NEMESISES)" unfolding c(2) by (rule free_tier_class_simple)
  ultimately have "?sel c" unfolding sel by (intro conjI)
  with c(1) have "set ns \<noteq> {}" unfolding ns(2) by blast
  then have "ns \<noteq> []" by simp
  moreover have "list_all (\<lambda>n. \<not> class_flag nemesis_table n ''topology_changes'' \<and> \<not> class_flag nemesis_table n ''manager_operation'' \<and>
      method_in_source METHOD_PATTERN_DIGITS (source_of nemesis_table n) \<notin> Some ` set EXCLUSIVE_NEMESIS_NAMES) ns"
    unfolding list_all_iff ns(2) ball_simps(9) by (rule ballI, rule ok) (simp_all only: mem_Collect_eq)
  ultimately show ?thesis unfolding get_list_of_subclasses_by_property_name_def by (intro exI[of _ ns] conjI ns(1))
qed

end
