(* ===== verification/Nemesis_Lock.thy ===== *)
theory Nemesis_Lock
  imports Main
begin

text \<open>
  Exclusive disruptions, \<open>disrupt_method_wrapper\<close> of \<open>sdcm/nemesis.py\<close>: a disruption registers itself in
  \<open>NEMESIS_RUN_INFO\<close> under \<open>NEMESIS_LOCK\<close>; an exclusive one keeps the lock and waits until nobody is
  registered. Threads are numbered; the steps of all of them are interleaved.
\<close>

section \<open>The protocol\<close>

text \<open>
  Where a thread is: outside of the wrapper, before the call of \<open>acquire\<close> or blocked in it, after it, after the
  registration, in the disruption, or in the \<open>finally\<close> clause.
\<close>

datatype place = Outside | Acquiring | Holding | Registered | Disrupting | Leaving

text \<open>A lock of Python has no owner, every thread can release it. The key of a disruption is its thread.\<close>

record protocol =
  lock_held :: bool
  run_info :: "nat set"
  place :: "nat \<Rightarrow> place"
  exclusive :: "nat \<Rightarrow> bool"

definition put :: "nat \<Rightarrow> place \<Rightarrow> protocol \<Rightarrow> protocol" where
  "put i p s = s\<lparr>place := (place s)(i := p)\<rparr>"

definition idle :: protocol where
  "idle = \<lparr>lock_held = False, run_info = {}, place = (\<lambda>i. Outside), exclusive = (\<lambda>i. False)\<rparr>"

text \<open>The \<open>finally\<close> clause; releasing a lock that is not held raises an error and changes nothing.\<close>

definition lock_leave :: "nat \<Rightarrow> protocol \<Rightarrow> protocol" where
  "lock_leave i s = put i Outside (if exclusive s i then s\<lparr>lock_held := False\<rparr> else s\<lparr>run_info := run_info s - {i}\<rparr>)"

inductive lock_step :: "protocol \<Rightarrow> protocol \<Rightarrow> bool" where
  enter: "place s i = Outside \<Longrightarrow> lock_step s (put i Acquiring (s\<lparr>exclusive := (exclusive s)(i := x)\<rparr>))"
| acquire: "place s i = Acquiring \<Longrightarrow> \<not> lock_held s \<Longrightarrow> lock_step s (put i Holding (s\<lparr>lock_held := True\<rparr>))"
| register: "place s i = Holding \<Longrightarrow> \<not> exclusive s i \<Longrightarrow> lock_step s (put i Registered (s\<lparr>run_info := insert i (run_info s)\<rparr>))"
| release: "place s i = Registered \<Longrightarrow> lock_step s (put i Disrupting (s\<lparr>lock_held := False\<rparr>))"
| alone: "place s i = Holding \<Longrightarrow> exclusive s i \<Longrightarrow> run_info s = {} \<Longrightarrow> lock_step s (put i Disrupting s)"
| finish: "place s i = Disrupting \<Longrightarrow> lock_step s (put i Leaving s)"
| leaves: "place s i = Leaving \<Longrightarrow> lock_step s (lock_leave i s)"

text \<open>
  \<open>stop_nemesis\<close> raises \<open>KillNemesis\<close> in a thread, which the interpreter delivers between two of its
  instructions: a thread that is blocked in \<open>acquire\<close> gets it after the lock is acquired.
\<close>

inductive lock_kill :: "protocol \<Rightarrow> protocol \<Rightarrow> bool" where
  "place s i \<in> {Acquiring, Holding, Registered, Disrupting} \<Longrightarrow> lock_kill s (put i Leaving s)"

inductive_cases stepE: "lock_step s s'"

section \<open>Without kills before the disruption\<close>

text \<open>The threads that have the lock.\<close>

definition has_lock :: "protocol \<Rightarrow> nat \<Rightarrow> bool" where
  "has_lock s i \<longleftrightarrow> place s i \<in> {Holding, Registered} \<or> exclusive s i \<and> place s i \<in> {Disrupting, Leaving}"

definition registered :: "protocol \<Rightarrow> nat \<Rightarrow> bool" where
  "registered s i \<longleftrightarrow> \<not> exclusive s i \<and> place s i \<in> {Registered, Disrupting, Leaving}"

definition orderly :: "protocol \<Rightarrow> bool" where
  "orderly s \<longleftrightarrow> (lock_held s \<longleftrightarrow> (\<exists>i. has_lock s i)) \<and> (\<forall>i j. has_lock s i \<longrightarrow> has_lock s j \<longrightarrow> i = j) \<and>
     run_info s = {i. registered s i} \<and> (\<forall>i. place s i = Registered \<longrightarrow> \<not> exclusive s i) \<and>
     (\<forall>i. exclusive s i \<longrightarrow> place s i = Disrupting \<longrightarrow> run_info s = {})"

lemma orderly_idle: "orderly idle"
  by (simp add: orderly_def idle_def has_lock_def registered_def)

lemma put_simps [simp]:
  "lock_held (put i p s) = lock_held s" "run_info (put i p s) = run_info s" "exclusive (put i p s) = exclusive s"
  "place (put i p s) = (place s)(i := p)"
  by (simp_all add: put_def)

lemma orderlyI:
  assumes "lock_held s \<longleftrightarrow> (\<exists>i. has_lock s i)" and "\<And>i j. has_lock s i \<Longrightarrow> has_lock s j \<Longrightarrow> i = j"
    and "\<And>i. i \<in> run_info s \<longleftrightarrow> registered s i" and "\<And>i. place s i = Registered \<Longrightarrow> \<not> exclusive s i"
    and "\<And>i j. exclusive s i \<Longrightarrow> place s i = Disrupting \<Longrightarrow> \<not> registered s j"
  shows "orderly s"
  unfolding orderly_def using assms by blast

lemma orderlyD:
  assumes "orderly s"
  shows "lock_held s \<longleftrightarrow> (\<exists>i. has_lock s i)" and "has_lock s i \<Longrightarrow> has_lock s j \<Longrightarrow> i = j"
    and "i \<in> run_info s \<longleftrightarrow> registered s i" and "place s i = Registered \<Longrightarrow> \<not> exclusive s i"
    and "exclusive s i \<Longrightarrow> place s i = Disrupting \<Longrightarrow> \<not> registered s j"
  using assms unfolding orderly_def by blast+

lemma has_lock_at: "has_lock (put i p s) j \<longleftrightarrow>
    (if j = i then p \<in> {Holding, Registered} \<or> exclusive s i \<and> p \<in> {Disrupting, Leaving} else has_lock s j)"
  by (simp add: has_lock_def)

lemma registered_at: "registered (put i p s) j \<longleftrightarrow>
    (if j = i then \<not> exclusive s i \<and> p \<in> {Registered, Disrupting, Leaving} else registered s j)"
  by (simp add: registered_def)

lemma lock_fields:
  "has_lock (s\<lparr>lock_held := b\<rparr>) = has_lock s" "has_lock (s\<lparr>run_info := r\<rparr>) = has_lock s"
  "registered (s\<lparr>lock_held := b\<rparr>) = registered s" "registered (s\<lparr>run_info := r\<rparr>) = registered s"
  "j \<noteq> i \<Longrightarrow> has_lock (s\<lparr>exclusive := (exclusive s)(i := x)\<rparr>) j = has_lock s j"
  "j \<noteq> i \<Longrightarrow> registered (s\<lparr>exclusive := (exclusive s)(i := x)\<rparr>) j = registered s j"
  by (simp_all add: fun_eq_iff has_lock_def registered_def)

lemma lock_places:
  "place s i = Outside \<Longrightarrow> \<not> has_lock s i \<and> \<not> registered s i" "place s i = Acquiring \<Longrightarrow> \<not> has_lock s i \<and> \<not> registered s i"
  "place s i = Holding \<Longrightarrow> has_lock s i \<and> \<not> registered s i" "place s i = Registered \<Longrightarrow> has_lock s i"
  "place s i \<in> {Disrupting, Leaving} \<Longrightarrow> has_lock s i = exclusive s i \<and> registered s i = (\<not> exclusive s i)"
  by (auto simp: has_lock_def registered_def)

lemmas lock_simps = has_lock_at registered_at lock_fields

lemma orderly_enter:
  assumes "place s i = Outside" and "orderly s"
  shows "orderly (put i Acquiring (s\<lparr>exclusive := (exclusive s)(i := x)\<rparr>))"
proof -
  note o = orderlyD[OF assms(2)] and p = lock_places(1)[OF assms(1)]
  show ?thesis
  proof (rule orderlyI, goal_cases)
    case 1 then show ?case using o(1) p by (auto simp: lock_simps)
  next
    case (2 j k) then show ?case using o(2)[of j k] by (auto simp: lock_simps split: if_splits)
  next
    case (3 j) then show ?case using o(3)[of j] p by (auto simp: lock_simps)
  next
    case (4 j) then show ?case using o(4)[of j] by (auto split: if_splits)
  next
    case (5 j k) then show ?case using o(5)[of j k] by (auto simp: lock_simps split: if_splits)
  qed
qed

lemma orderly_acquire:
  assumes "place s i = Acquiring" and "\<not> lock_held s" and "orderly s"
  shows "orderly (put i Holding (s\<lparr>lock_held := True\<rparr>))"
proof -
  note o = orderlyD[OF assms(3)] and p = lock_places(2)[OF assms(1)]
  have free: "\<not> has_lock s j" for j using o(1) assms(2) by blast
  show ?thesis
  proof (rule orderlyI, goal_cases)
    case (2 j k) then show ?case using free by (auto simp: lock_simps split: if_splits)
  next
    case (3 j) then show ?case using o(3)[of j] p by (auto simp: lock_simps)
  next
    case (4 j) then show ?case using o(4)[of j] by (auto split: if_splits)
  next
    case (5 j k) then show ?case using o(5)[of j k] p by (auto simp: lock_simps split: if_splits)
  qed (auto simp: lock_simps)
qed

lemma orderly_register:
  assumes "place s i = Holding" and "\<not> exclusive s i" and "orderly s"
  shows "orderly (put i Registered (s\<lparr>run_info := insert i (run_info s)\<rparr>))"
proof -
  note o = orderlyD[OF assms(3)] and p = lock_places(3)[OF assms(1)]
  have only: "has_lock s j \<Longrightarrow> j = i" for j using o(2)[of j i] p by blast
  have none: "\<not> (exclusive s j \<and> place s j \<in> {Disrupting, Leaving})" for j
    using only[of j] assms(1) by (auto simp: has_lock_def)
  show ?thesis
  proof (rule orderlyI, goal_cases)
    case 1 then show ?case using o(1) p by (auto simp: lock_simps)
  next
    case (2 j k) then show ?case using only by (auto simp: lock_simps split: if_splits)
  next
    case (3 j) then show ?case using o(3)[of j] assms(2) by (auto simp: lock_simps)
  next
    case (4 j) then show ?case using o(4)[of j] assms(2) by (auto split: if_splits)
  next
    case (5 j k) then show ?case using none[of j] by (auto split: if_splits)
  qed
qed

lemma orderly_release:
  assumes "place s i = Registered" and "orderly s"
  shows "orderly (put i Disrupting (s\<lparr>lock_held := False\<rparr>))"
proof -
  note o = orderlyD[OF assms(2)] and p = lock_places(4)[OF assms(1)]
  have ex: "\<not> exclusive s i" using o(4) assms(1) by blast
  have only: "has_lock s j \<Longrightarrow> j = i" for j using o(2)[of j i] p by blast
  have reg: "registered s i" using ex assms(1) by (simp add: registered_def)
  show ?thesis
  proof (rule orderlyI, goal_cases)
    case 1 then show ?case using only ex by (auto simp: lock_simps)
  next
    case (2 j k) then show ?case using only ex by (auto simp: lock_simps split: if_splits)
  next
    case (3 j) then show ?case using o(3)[of j] ex reg by (auto simp: lock_simps)
  next
    case (4 j) then show ?case using o(4)[of j] by (auto split: if_splits)
  next
    case (5 j k) then show ?case using o(5)[of j i] ex reg by (auto split: if_splits)
  qed
qed

lemma orderly_alone:
  assumes "place s i = Holding" and "exclusive s i" and "run_info s = {}" and "orderly s"
  shows "orderly (put i Disrupting s)"
proof -
  note o = orderlyD[OF assms(4)] and p = lock_places(3)[OF assms(1)]
  have only: "has_lock s j \<Longrightarrow> j = i" for j using o(2)[of j i] p by blast
  have none: "\<not> registered s j" for j using o(3)[of j] assms(3) by simp
  show ?thesis
  proof (rule orderlyI, goal_cases)
    case 1 then show ?case using o(1) p assms(2) by (auto simp: lock_simps)
  next
    case (2 j k) then show ?case using only by (auto simp: lock_simps split: if_splits)
  next
    case (3 j) then show ?case using o(3)[of j] assms(2) none by (auto simp: lock_simps)
  next
    case (4 j) then show ?case using o(4)[of j] by (auto split: if_splits)
  next
    case (5 j k) then show ?case using none assms(2) by (auto simp: lock_simps split: if_splits)
  qed
qed

lemma orderly_finish:
  assumes "place s i = Disrupting" and "orderly s"
  shows "orderly (put i Leaving s)"
proof -
  note o = orderlyD[OF assms(2)]
  have p: "has_lock s i = exclusive s i \<and> registered s i = (\<not> exclusive s i)" using lock_places(5)[of s i] assms(1) by simp
  have same: "has_lock (put i Leaving s) = has_lock s" "registered (put i Leaving s) = registered s"
    using p by (auto simp: fun_eq_iff lock_simps)
  show ?thesis
    by (rule orderlyI, unfold same) (use o assms(1) in \<open>auto split: if_splits\<close>)
qed

lemma orderly_leaves:
  assumes "place s i = Leaving" and "orderly s"
  shows "orderly (lock_leave i s)"
proof -
  note o = orderlyD[OF assms(2)]
  have p: "has_lock s i = exclusive s i \<and> registered s i = (\<not> exclusive s i)" using lock_places(5)[of s i] assms(1) by simp
  show ?thesis
  proof (cases "exclusive s i")
    case True
    have only: "has_lock s j \<Longrightarrow> j = i" for j using o(2)[of j i] p True by blast
    show ?thesis
    proof (rule orderlyI, goal_cases)
      case 1 then show ?case using only True by (auto simp: lock_leave_def lock_simps)
    next
      case (2 j k) then show ?case using only True by (auto simp: lock_leave_def lock_simps split: if_splits)
    next
      case (3 j) then show ?case using o(3)[of j] p True by (auto simp: lock_leave_def lock_simps)
    next
      case (4 j) then show ?case using o(4)[of j] True by (auto simp: lock_leave_def split: if_splits)
    next
      case (5 j k) then show ?case using o(5)[of j k] True by (auto simp: lock_leave_def lock_simps split: if_splits)
    qed
  next
    case False
    show ?thesis
    proof (rule orderlyI, goal_cases)
      case 1 then show ?case using o(1) p False by (auto simp: lock_leave_def lock_simps)
    next
      case (2 j k) then show ?case using o(2)[of j k] False by (auto simp: lock_leave_def lock_simps split: if_splits)
    next
      case (3 j) then show ?case using o(3)[of j] False by (auto simp: lock_leave_def lock_simps)
    next
      case (4 j) then show ?case using o(4)[of j] False by (auto simp: lock_leave_def split: if_splits)
    next
      case (5 j k) then show ?case using o(5)[of j k] False by (auto simp: lock_leave_def lock_simps split: if_splits)
    qed
  qed
qed

lemma orderly_step: "lock_step s s' \<Longrightarrow> orderly s \<Longrightarrow> orderly s'"
  by (induction rule: lock_step.induct)
    (blast intro: orderly_enter orderly_acquire orderly_register orderly_release orderly_alone orderly_finish orderly_leaves)+

text \<open>A kill in the disruption, or of an exclusive disruption that holds the lock, does no harm.\<close>

inductive safe_kill :: "protocol \<Rightarrow> protocol \<Rightarrow> bool" where
  "place s i = Disrupting \<or> place s i = Holding \<and> exclusive s i \<Longrightarrow> safe_kill s (put i Leaving s)"

lemma orderly_safe_kill: "safe_kill s s' \<Longrightarrow> orderly s \<Longrightarrow> orderly s'"
proof (induction rule: safe_kill.induct)
  case (1 s i)
  show ?case
  proof (cases "place s i = Disrupting")
    case True
    then show ?thesis using 1(2) by (rule orderly_finish)
  next
    case False
    with 1(1) have h: "place s i = Holding" "exclusive s i" by auto
    note o = orderlyD[OF 1(2)]
    have same: "has_lock (put i Leaving s) = has_lock s" "registered (put i Leaving s) = registered s"
      using h by (auto simp: fun_eq_iff has_lock_def registered_def)
    show ?thesis by (rule orderlyI, unfold same) (use o h in \<open>auto split: if_splits\<close>)
  qed
qed

text \<open>
  C31. While an exclusive disruption runs, no other disruption does, whatever the interleaving of the threads is: unless a
  nemesis is killed between the beginning of the wrapper and its disruption.
\<close>

theorem exclusive_runs_alone:
  assumes "(\<lambda>s s'. lock_step s s' \<or> safe_kill s s')\<^sup>*\<^sup>* idle s" and "exclusive s i" and "place s i = Disrupting" and "j \<noteq> i"
  shows "place s j \<noteq> Disrupting"
proof
  assume j: "place s j = Disrupting"
  have "orderly s" using assms(1)
    by (induction rule: rtranclp_induct) (blast intro: orderly_idle orderly_step orderly_safe_kill)+
  note o = orderlyD[OF this]
  have "has_lock s i" using assms(2,3) by (simp add: has_lock_def)
  show False
  proof (cases "exclusive s j")
    case True
    then have "has_lock s j" using j by (simp add: has_lock_def)
    with o(2)[of i j] \<open>has_lock s i\<close> assms(4) show False by simp
  next
    case False
    then have "registered s j" using j by (simp add: registered_def)
    with o(5)[OF assms(2,3)] show False by blast
  qed
qed

text \<open>The states of two runs: an exclusive disruption, and a nemesis that is killed with the lock.\<close>

definition exclusive_running :: protocol where
  "exclusive_running = idle\<lparr>lock_held := True, place := (place idle)(0 := Disrupting), exclusive := (exclusive idle)(0 := True)\<rparr>"

lemma reach_exclusive_running: "lock_step\<^sup>*\<^sup>* idle exclusive_running"
proof -
  let ?s1 = "put 0 Acquiring (idle\<lparr>exclusive := (exclusive idle)(0 := True)\<rparr>)"
  let ?s2 = "put 0 Holding (?s1\<lparr>lock_held := True\<rparr>)"
  have "lock_step idle ?s1" by (rule lock_step.enter) (simp add: idle_def)
  moreover have "lock_step ?s1 ?s2" by (rule lock_step.acquire) (simp_all add: idle_def)
  moreover have "lock_step ?s2 (put 0 Disrupting ?s2)" by (rule lock_step.alone) (simp_all add: idle_def)
  moreover have "put 0 Disrupting ?s2 = exclusive_running" by (simp add: exclusive_running_def put_def idle_def)
  ultimately show ?thesis by (metis (no_types) converse_rtranclp_into_rtranclp rtranclp.rtrancl_refl)
qed

theorem exclusive_runs_alone_witness: "place exclusive_running 1 \<noteq> Disrupting"
proof (rule exclusive_runs_alone[of _ 0])
  show "(\<lambda>s s'. lock_step s s' \<or> safe_kill s s')\<^sup>*\<^sup>* idle exclusive_running"
    using reach_exclusive_running by (rule rtranclp_mono[THEN predicate2D, rotated]) blast
qed (simp_all add: exclusive_running_def)

section \<open>Kills before the disruption\<close>

abbreviation run_step :: "protocol \<Rightarrow> protocol \<Rightarrow> bool" where
  "run_step s s' \<equiv> lock_step s s' \<or> lock_kill s s'"

lemma run_by_step: "run_step\<^sup>*\<^sup>* s t \<Longrightarrow> lock_step t u \<Longrightarrow> run_step\<^sup>*\<^sup>* s u"
  by (rule rtranclp.rtrancl_into_rtrancl) blast+

lemma run_by_kill: "run_step\<^sup>*\<^sup>* s t \<Longrightarrow> lock_kill t u \<Longrightarrow> run_step\<^sup>*\<^sup>* s u"
  by (rule rtranclp.rtrancl_into_rtrancl) blast+

definition lock_lost :: "protocol \<Rightarrow> bool" where
  "lock_lost s \<longleftrightarrow> lock_held s \<and> (\<forall>i. place s i \<in> {Outside, Acquiring})"

lemma lock_lost_step: "lock_step s s' \<Longrightarrow> lock_lost s \<Longrightarrow> lock_lost s'"
proof (induction rule: lock_step.induct)
  case (enter s i x)
  then show ?case by (simp add: lock_lost_def)
next
  case (acquire s i)
  then show ?case by (simp add: lock_lost_def)
qed (metis lock_lost_def insertE place.distinct singletonD)+

text \<open>
  C32. A disruption that is not exclusive and is killed while it waits for the lock gets the exception once it has acquired
  the lock, and its \<open>finally\<close> clause does not release it: all threads can be outside of the wrapper with
  the lock held, and from then on no nemesis ever starts a disruption.
\<close>

theorem kill_loses_lock:
  "\<exists>s. run_step\<^sup>*\<^sup>* idle s \<and> place s = (\<lambda>i. Outside) \<and>
     {s'. lock_step\<^sup>*\<^sup>* s s'} \<subseteq> {s'. \<forall>i. place s' i \<noteq> Disrupting}"
proof -
  let ?s1 = "put 0 Acquiring (idle\<lparr>exclusive := (exclusive idle)(0 := False)\<rparr>)"
  let ?s2 = "put 0 Holding (?s1\<lparr>lock_held := True\<rparr>)"
  let ?s3 = "put 0 Leaving ?s2"
  let ?s = "lock_leave 0 ?s3"
  have "run_step\<^sup>*\<^sup>* idle idle" by (rule rtranclp.rtrancl_refl)
  then have "run_step\<^sup>*\<^sup>* idle ?s1" by (rule run_by_step[OF _ lock_step.enter]) (simp add: idle_def)
  then have "run_step\<^sup>*\<^sup>* idle ?s2" by (rule run_by_step[OF _ lock_step.acquire]) (simp_all add: idle_def)
  then have "run_step\<^sup>*\<^sup>* idle ?s3" by (rule run_by_kill[OF _ lock_kill.intros]) simp
  then have "run_step\<^sup>*\<^sup>* idle ?s" by (rule run_by_step[OF _ lock_step.leaves]) simp
  moreover have "place ?s = (\<lambda>i. Outside)" by (simp add: lock_leave_def idle_def fun_eq_iff)
  moreover have "place s' i \<noteq> Disrupting" if "lock_step\<^sup>*\<^sup>* ?s s'" for s' i
  proof -
    have "lock_lost ?s" by (simp add: lock_lost_def lock_leave_def idle_def)
    with that have "lock_lost s'" by (induction rule: rtranclp_induct) (auto intro: lock_lost_step)
    then have "place s' i \<in> {Outside, Acquiring}" by (simp add: lock_lost_def)
    then show ?thesis by auto
  qed
  ultimately show ?thesis by blast
qed

text \<open>
  An exclusive disruption that is killed before it has acquired the lock releases it in its \<open>finally\<close> clause all
  the same: the lock of another exclusive disruption, beside which a third one can then run.
\<close>

theorem kill_breaks_exclusion:
  "\<exists>s. run_step\<^sup>*\<^sup>* idle s \<and> exclusive s 0 \<and> place s 0 = Disrupting \<and> place s 2 = Disrupting"
proof -
  let ?s0 = "exclusive_running"
  let ?s1 = "put 1 Acquiring (?s0\<lparr>exclusive := (exclusive ?s0)(1 := True)\<rparr>)"
  let ?s2 = "put 1 Leaving ?s1"
  let ?s3 = "lock_leave 1 ?s2"
  let ?s4 = "put 2 Acquiring (?s3\<lparr>exclusive := (exclusive ?s3)(2 := False)\<rparr>)"
  let ?s5 = "put 2 Holding (?s4\<lparr>lock_held := True\<rparr>)"
  let ?s6 = "put 2 Registered (?s5\<lparr>run_info := insert 2 (run_info ?s5)\<rparr>)"
  let ?s7 = "put 2 Disrupting (?s6\<lparr>lock_held := False\<rparr>)"
  note sims = exclusive_running_def idle_def lock_leave_def
  have "run_step\<^sup>*\<^sup>* idle ?s0"
    using reach_exclusive_running by (rule rtranclp_mono[THEN predicate2D, rotated]) blast
  then have "run_step\<^sup>*\<^sup>* idle ?s1" by (rule run_by_step[OF _ lock_step.enter]) (simp add: sims)
  then have "run_step\<^sup>*\<^sup>* idle ?s2" by (rule run_by_kill[OF _ lock_kill.intros]) simp
  then have "run_step\<^sup>*\<^sup>* idle ?s3" by (rule run_by_step[OF _ lock_step.leaves]) simp
  then have "run_step\<^sup>*\<^sup>* idle ?s4" by (rule run_by_step[OF _ lock_step.enter]) (simp add: sims)
  then have "run_step\<^sup>*\<^sup>* idle ?s5" by (rule run_by_step[OF _ lock_step.acquire]) (simp_all add: sims)
  then have "run_step\<^sup>*\<^sup>* idle ?s6" by (rule run_by_step[OF _ lock_step.register]) simp_all
  then have "run_step\<^sup>*\<^sup>* idle ?s7" by (rule run_by_step[OF _ lock_step.release]) simp
  moreover have "exclusive ?s7 0 \<and> place ?s7 0 = Disrupting \<and> place ?s7 2 = Disrupting" by (simp add: sims)
  ultimately show ?thesis by blast
qed

end
