(* ===== verification/Nemesis_Targets.thy ===== *)
theory Nemesis_Targets
  imports Prelude
begin

text \<open>
  The nodes that nemeses work on, \<open>sdcm/nemesis.py\<close>: how a nemesis finds, marks, switches and gives up its
  target, and what several nemeses that do so at the same time can get.
\<close>

section \<open>Nodes and nemeses\<close>

datatype target_pool = data_nodes | zero_nodes | all_nodes

text \<open>What the choice of a target looks at. Nodes are numbered by their position in the cluster.\<close>

record target =
  tg_zero_token :: bool
  tg_is_seed :: bool
  tg_dc_idx :: nat
  tg_rack :: nat

text \<open>The mark \<open>running_nemesis\<close> of every node.\<close>

type_synonym marks = "nat \<Rightarrow> string option"

definition is_free :: "marks \<Rightarrow> nat \<Rightarrow> bool" where
  "is_free m i = (case m i of None \<Rightarrow> True | Some l \<Rightarrow> l = [])"

text \<open>The exceptions the running of a nemesis tells apart; \<open>OtherExc\<close> is any other with its text.\<close>

datatype nemesis_exc = UnsupportedNemesis string | MethodVersionNotFound string | KillNemesis | OtherExc string

record nemesis =
  nz_target :: "nat option"
  nz_current :: "string option"
  nz_pool :: target_pool
  nz_filter_seed :: bool

text \<open>\<open>DefaultValue\<close>, \<open>None\<close>, or a truth value.\<close>

datatype seed_arg = DefaultValue | AnySeed | SeedIs bool

definition pool_nodes :: "target list \<Rightarrow> target_pool \<Rightarrow> nat list" where
  "pool_nodes cl p = filter (\<lambda>i. case p of
      data_nodes \<Rightarrow> \<not> tg_zero_token (cl ! i) | zero_nodes \<Rightarrow> tg_zero_token (cl ! i) | all_nodes \<Rightarrow> True) [0..<length cl]"

definition set_target_node_pool_type :: "target_pool \<Rightarrow> nemesis \<Rightarrow> nemesis" where
  "set_target_node_pool_type p n = n\<lparr>nz_pool := p\<rparr>"

definition set_current_disruption :: "string option \<Rightarrow> nemesis \<Rightarrow> nemesis" where
  "set_current_disruption label n = n\<lparr>nz_current := label\<rparr>"

definition get_target_nodes :: "target list \<Rightarrow> marks \<Rightarrow> nemesis \<Rightarrow> seed_arg \<Rightarrow> nat option \<Rightarrow> nat option \<Rightarrow> nat list" where
  "get_target_nodes cl m n is_seed dc_idx rack =
     (let seed = (case is_seed of DefaultValue \<Rightarrow> (if nz_filter_seed n then Some False else None) | AnySeed \<Rightarrow> None | SeedIs b \<Rightarrow> Some b);
          free = filter (is_free m) (pool_nodes cl (nz_pool n));
          seeds = (case seed of None \<Rightarrow> free | Some b \<Rightarrow> filter (\<lambda>i. tg_is_seed (cl ! i) = b) free);
          dcs = (case dc_idx of None \<Rightarrow> seeds | Some d \<Rightarrow> filter (\<lambda>i. tg_dc_idx (cl ! i) = d) seeds)
      in case rack of None \<Rightarrow> dcs | Some r \<Rightarrow> filter (\<lambda>i. tg_rack (cl ! i) = r) dcs)"

section \<open>Marks\<close>

definition set_current_running_nemesis :: "nat \<Rightarrow> nemesis \<Rightarrow> marks \<Rightarrow> marks" where
  "set_current_running_nemesis i n m = m(i := nz_current n)"

definition unset_current_running_nemesis :: "nat option \<Rightarrow> marks \<Rightarrow> marks" where
  "unset_current_running_nemesis t m = (case t of None \<Rightarrow> m | Some i \<Rightarrow> m(i := None))"

text \<open>A nemesis without a target raises before it changes anything.\<close>

definition switch_target_node :: "nat \<Rightarrow> nemesis \<times> marks \<Rightarrow> (nemesis \<times> marks) res" where
  "switch_target_node i s = (case s of (n, m) \<Rightarrow> (case nz_target n of
     None \<Rightarrow> Inl AttributeError
   | Some t \<Rightarrow> Inr (n\<lparr>nz_target := Some i\<rparr>, (m(t := None))(i := nz_current n))))"

text \<open>
  The context manager \<open>run_nemesis\<close>: its beginning picks a free node of the list and marks it, its end
  takes the mark away. \<open>pick\<close> is \<open>random.choice\<close> on the number of nodes.
\<close>

definition run_nemesis_enter :: "(nat \<Rightarrow> nat) \<Rightarrow> nat list \<Rightarrow> string \<Rightarrow> marks \<Rightarrow> (nat \<times> marks) res" where
  "run_nemesis_enter pick node_list label m =
     (let free = filter (is_free m) node_list in
      if free = [] then Inl AssertionError
      else let i = free ! pick (length free) in Inr (i, m(i := Some label)))"

definition run_nemesis_exit :: "nat \<Rightarrow> marks \<Rightarrow> marks" where
  "run_nemesis_exit i m = m(i := None)"

definition run_nemesis :: "(nat \<Rightarrow> nat) \<Rightarrow> nat list \<Rightarrow> string \<Rightarrow> (nat \<Rightarrow> marks \<Rightarrow> 'a res \<times> marks) \<Rightarrow> marks \<Rightarrow> 'a res \<times> marks" where
  "run_nemesis pick node_list label body m = (case run_nemesis_enter pick node_list label m of
     Inl e \<Rightarrow> (Inl e, m)
   | Inr (i, m1) \<Rightarrow> (let (r, m2) = body i m1 in (r, run_nemesis_exit i m2)))"

text \<open>
  \<open>set_target_node\<close>: the old target is given up first, also when no node is found; \<open>self.target_node\<close>
  keeps naming it then. The exception, if any, and the state after it.
\<close>

definition no_node_message :: "nat option \<Rightarrow> nat option \<Rightarrow> string" where
  "no_node_message dc_idx rack = ''Can't allocate node from '' @
     (case dc_idx of None \<Rightarrow> [] | Some d \<Rightarrow> ''dc '' @ str_nat d @ '' '') @
     (case rack of None \<Rightarrow> [] | Some r \<Rightarrow> ''rack '' @ str_nat r @ '' '') @ ''to run nemesis on''"

definition label_of :: "string option \<Rightarrow> string option" where
  "label_of l = (case l of None \<Rightarrow> None | Some x \<Rightarrow> if x = [] then None else Some x)"

definition set_target_node ::
  "(nat \<Rightarrow> nat) \<Rightarrow> target list \<Rightarrow> nat option \<Rightarrow> nat option \<Rightarrow> seed_arg \<Rightarrow> bool \<Rightarrow> string option \<Rightarrow> nemesis \<times> marks \<Rightarrow>
     nemesis_exc option \<times> nemesis \<times> marks" where
  "set_target_node pick cl dc_idx rack is_seed only_last current s = (case s of (n, m) \<Rightarrow>
     (let m1 = unset_current_running_nemesis (nz_target n) m;
          nodes = get_target_nodes cl m1 n is_seed dc_idx rack
      in if nodes = [] then (Some (UnsupportedNemesis (no_node_message dc_idx rack)), n, m1)
         else let t = (if only_last then last nodes else nodes ! pick (length nodes)); n1 = n\<lparr>nz_target := Some t\<rparr> in
           (case label_of current of
              Some l \<Rightarrow> (None, set_current_disruption (Some l) n1, m1(t := Some l))
            | None \<Rightarrow> (case label_of (nz_current n) of
                Some l \<Rightarrow> (None, n1, m1(t := Some l))
              | None \<Rightarrow> (Some (OtherExc ''current_disruption is not set''), n1, m1)))))"

section \<open>What is chosen\<close>

lemma in_get_target_nodes:
  "i \<in> set (get_target_nodes cl m n is_seed dc_idx rack) \<longleftrightarrow> i < length cl \<and> is_free m i \<and>
     (case nz_pool n of data_nodes \<Rightarrow> \<not> tg_zero_token (cl ! i) | zero_nodes \<Rightarrow> tg_zero_token (cl ! i) | all_nodes \<Rightarrow> True) \<and>
     (case is_seed of DefaultValue \<Rightarrow> nz_filter_seed n \<longrightarrow> \<not> tg_is_seed (cl ! i) | AnySeed \<Rightarrow> True | SeedIs b \<Rightarrow> tg_is_seed (cl ! i) = b) \<and>
     (case dc_idx of None \<Rightarrow> True | Some d \<Rightarrow> tg_dc_idx (cl ! i) = d) \<and>
     (case rack of None \<Rightarrow> True | Some r \<Rightarrow> tg_rack (cl ! i) = r)"
  by (auto simp: get_target_nodes_def pool_nodes_def Let_def split: option.split seed_arg.split)

lemma chosen_in: "xs \<noteq> [] \<Longrightarrow> pick (length xs) < length xs \<Longrightarrow> (if b then last xs else xs ! pick (length xs)) \<in> set xs"
  by simp

lemma set_target_node_success:
  assumes "set_target_node pick cl dc_idx rack is_seed only_last current (n, m) = (None, n', m')"
    and "\<And>k. 0 < k \<Longrightarrow> pick k < k"
  obtains t l where "nz_target n' = Some t" and "nz_current n' = Some l" and "l \<noteq> []"
    and "m' = (unset_current_running_nemesis (nz_target n) m)(t := Some l)"
    and "t \<in> set (get_target_nodes cl (unset_current_running_nemesis (nz_target n) m) n is_seed dc_idx rack)"
proof -
  let ?m = "unset_current_running_nemesis (nz_target n) m"
  let ?nodes = "get_target_nodes cl ?m n is_seed dc_idx rack"
  let ?t = "if only_last then last ?nodes else ?nodes ! pick (length ?nodes)"
  have ne: "?nodes \<noteq> []" using assms(1) by (auto simp: set_target_node_def Let_def)
  then have "?t \<in> set ?nodes" using assms(2) chosen_in by simp
  with assms(1) ne that show thesis
    by (auto simp: set_target_node_def Let_def label_of_def set_current_disruption_def split: option.splits if_splits)
qed

text \<open>
  The target a nemesis gets is a node of its pool and with the asked properties that no nemesis is marked on,
  apart from the node it had before; it is marked with the disruption, and no other mark is changed.
\<close>

theorem set_target_node_chooses_free:
  assumes "set_target_node pick cl dc_idx rack is_seed only_last current (n, m) = (None, n', m')"
    and "\<And>k. 0 < k \<Longrightarrow> pick k < k"
  shows "\<exists>t l. nz_target n' = Some t \<and> nz_current n' = Some l \<and> l \<noteq> [] \<and> m' t = Some l \<and>
    t < length cl \<and> (is_free m t \<or> nz_target n = Some t) \<and>
    (case nz_pool n of data_nodes \<Rightarrow> \<not> tg_zero_token (cl ! t) | zero_nodes \<Rightarrow> tg_zero_token (cl ! t) | all_nodes \<Rightarrow> True) \<and>
    (case is_seed of DefaultValue \<Rightarrow> nz_filter_seed n \<longrightarrow> \<not> tg_is_seed (cl ! t) | AnySeed \<Rightarrow> True | SeedIs b \<Rightarrow> tg_is_seed (cl ! t) = b) \<and>
    (case dc_idx of None \<Rightarrow> True | Some d \<Rightarrow> tg_dc_idx (cl ! t) = d) \<and>
    (case rack of None \<Rightarrow> True | Some r \<Rightarrow> tg_rack (cl ! t) = r) \<and>
    (\<forall>i. i \<noteq> t \<and> nz_target n \<noteq> Some i \<longrightarrow> m' i = m i)"
proof -
  obtain t l where t: "nz_target n' = Some t" "nz_current n' = Some l" "l \<noteq> []"
      "m' = (unset_current_running_nemesis (nz_target n) m)(t := Some l)"
      "t \<in> set (get_target_nodes cl (unset_current_running_nemesis (nz_target n) m) n is_seed dc_idx rack)"
    using set_target_node_success[OF assms] by metis
  have "is_free m t \<or> nz_target n = Some t"
    using t(5) unfolding in_get_target_nodes
    by (auto simp: unset_current_running_nemesis_def is_free_def split: option.splits if_splits)
  moreover have "m' i = m i" if "i \<noteq> t" "nz_target n \<noteq> Some i" for i
    using that t(4) by (auto simp: unset_current_running_nemesis_def split: option.split)
  ultimately show ?thesis using t unfolding in_get_target_nodes by auto
qed

definition one_rack :: "target list" where
  "one_rack = replicate 3 \<lparr>tg_zero_token = False, tg_is_seed = False, tg_dc_idx = 0, tg_rack = 0\<rparr>"

definition idle_nemesis :: nemesis where
  "idle_nemesis = \<lparr>nz_target = None, nz_current = None, nz_pool = data_nodes, nz_filter_seed = True\<rparr>"

lemma first_node_chosen:
  "set_target_node (\<lambda>k. 0) one_rack None None DefaultValue False (Some ''Drain'') (idle_nemesis, \<lambda>i. None) =
     (None, idle_nemesis\<lparr>nz_target := Some 0, nz_current := Some ''Drain''\<rparr>, (\<lambda>i. None)(0 := Some ''Drain''))"
  by (simp add: set_target_node_def get_target_nodes_def pool_nodes_def one_rack_def idle_nemesis_def is_free_def label_of_def
      set_current_disruption_def unset_current_running_nemesis_def upt_rec numeral_3_eq_3)

theorem set_target_node_chooses_free_witness:
  "\<exists>t l. nz_target (idle_nemesis\<lparr>nz_target := Some 0, nz_current := Some ''Drain''\<rparr>) = Some t \<and>
    nz_current (idle_nemesis\<lparr>nz_target := Some 0, nz_current := Some ''Drain''\<rparr>) = Some l \<and> l \<noteq> [] \<and>
    ((\<lambda>i. None)(0 := Some ''Drain'')) t = Some l \<and> t < length one_rack"
  using set_target_node_chooses_free[OF first_node_chosen] by blast

section \<open>Several nemeses\<close>

text \<open>
  The nemeses of a cluster run in threads of their own. A nemesis is active from the choice of its target at the
  beginning of a disruption to the end of the cycle of \<open>run\<close>, which takes the mark of its target away and does
  not forget the target. Each of these is one step, since it holds \<open>NEMESIS_TARGET_SELECTION_LOCK\<close>.
\<close>

record crowd =
  cr_marks :: marks
  cr_nem :: "nat \<Rightarrow> nemesis"
  cr_active :: "nat \<Rightarrow> bool"

definition start_disruption :: "(nat \<Rightarrow> nat) \<Rightarrow> target list \<Rightarrow> target_pool \<Rightarrow> string \<Rightarrow> nat \<Rightarrow> crowd \<Rightarrow> crowd" where
  "start_disruption pick cl pool label i s =
     (let (e, n, m) = set_target_node pick cl None None DefaultValue False (Some label)
            (set_target_node_pool_type pool (cr_nem s i), cr_marks s)
      in s\<lparr>cr_marks := m, cr_nem := (cr_nem s)(i := n), cr_active := (cr_active s)(i := (e = None))\<rparr>)"

definition end_cycle :: "nat \<Rightarrow> crowd \<Rightarrow> crowd" where
  "end_cycle i s = s\<lparr>cr_marks := unset_current_running_nemesis (nz_target (cr_nem s i)) (cr_marks s), cr_active := (cr_active s)(i := False)\<rparr>"

definition new_crowd :: "bool \<Rightarrow> crowd" where
  "new_crowd filter_seed = \<lparr>cr_marks = (\<lambda>i. None),
     cr_nem = (\<lambda>i. \<lparr>nz_target = None, nz_current = None, nz_pool = data_nodes, nz_filter_seed = filter_seed\<rparr>), cr_active = (\<lambda>i. False)\<rparr>"

text \<open>The states the nemeses can get to, where a disruption starts only in states that \<open>P\<close> allows.\<close>

inductive crowd_reach :: "target list \<Rightarrow> (crowd \<Rightarrow> nat \<Rightarrow> bool) \<Rightarrow> bool \<Rightarrow> crowd \<Rightarrow> bool" for cl P filter_seed where
  new: "crowd_reach cl P filter_seed (new_crowd filter_seed)"
| start: "crowd_reach cl P filter_seed s \<Longrightarrow> \<not> cr_active s i \<Longrightarrow> P s i \<Longrightarrow> label \<noteq> [] \<Longrightarrow> (\<And>k. 0 < k \<Longrightarrow> pick k < k) \<Longrightarrow>
    crowd_reach cl P filter_seed (start_disruption pick cl pool label i s)"
| finish: "crowd_reach cl P filter_seed s \<Longrightarrow> cr_active s i \<Longrightarrow> crowd_reach cl P filter_seed (end_cycle i s)"

text \<open>A nemesis whose old target has not been taken by another one.\<close>

definition not_stale :: "crowd \<Rightarrow> nat \<Rightarrow> bool" where
  "not_stale s i \<longleftrightarrow> nz_target (cr_nem s i) = None \<or> (\<forall>j. j \<noteq> i \<longrightarrow> cr_active s j \<longrightarrow> nz_target (cr_nem s j) \<noteq> nz_target (cr_nem s i))"

definition apart :: "crowd \<Rightarrow> bool" where
  "apart s \<longleftrightarrow> (\<forall>i. cr_active s i \<longrightarrow> (\<exists>t. nz_target (cr_nem s i) = Some t \<and> \<not> is_free (cr_marks s) t)) \<and>
     (\<forall>i j. cr_active s i \<longrightarrow> cr_active s j \<longrightarrow> i \<noteq> j \<longrightarrow> nz_target (cr_nem s i) \<noteq> nz_target (cr_nem s j))"

lemma apart_active: "apart s \<Longrightarrow> cr_active s i \<Longrightarrow> \<exists>t. nz_target (cr_nem s i) = Some t \<and> \<not> is_free (cr_marks s) t"
  by (simp add: apart_def)

lemma apart_distinct: "apart s \<Longrightarrow> cr_active s i \<Longrightarrow> cr_active s j \<Longrightarrow> i \<noteq> j \<Longrightarrow> nz_target (cr_nem s i) \<noteq> nz_target (cr_nem s j)"
  by (simp add: apart_def)

lemma end_cycle_apart: "apart s \<Longrightarrow> cr_active s i \<Longrightarrow> apart (end_cycle i s)"
  unfolding apart_def end_cycle_def unset_current_running_nemesis_def is_free_def
  by (auto split: option.splits) (metis option.inject)+

lemma start_disruption_apart:
  assumes "apart s" and "\<not> cr_active s i" and "not_stale s i" and "label \<noteq> []" and pick: "\<And>k. 0 < k \<Longrightarrow> pick k < k"
  shows "apart (start_disruption pick cl pool label i s)"
proof -
  let ?n0 = "set_target_node_pool_type pool (cr_nem s i)"
  let ?m1 = "unset_current_running_nemesis (nz_target ?n0) (cr_marks s)"
  obtain e n m where st: "set_target_node pick cl None None DefaultValue False (Some label) (?n0, cr_marks s) = (e, n, m)"
    by (metis prod_cases3)
  have old: "nz_target ?n0 = nz_target (cr_nem s i)" by (simp add: set_target_node_pool_type_def)
  have kept: "?m1 t = cr_marks s t" if "cr_active s j" "nz_target (cr_nem s j) = Some t" "j \<noteq> i" for j t
    using assms(3) that unfolding old by (auto simp: not_stale_def unset_current_running_nemesis_def split: option.split)
  have others: "\<not> is_free ?m1 t" if "cr_active s j" "nz_target (cr_nem s j) = Some t" "j \<noteq> i" for j t
    using apart_active[OF assms(1) that(1)] kept[OF that] that(2) by (simp add: is_free_def)
  show ?thesis
  proof (cases e)
    case None
    from set_target_node_success[OF st[unfolded None] pick] obtain t l where
      t: "nz_target n = Some t" "l \<noteq> []" "m = ?m1(t := Some l)" "is_free ?m1 t" unfolding in_get_target_nodes by metis
    have "nz_target (cr_nem s j) \<noteq> Some t" if "cr_active s j" "j \<noteq> i" for j using others[OF that(1) _ that(2)] t(4) by blast
    moreover have "\<not> is_free m t'" if "cr_active s j" "nz_target (cr_nem s j) = Some t'" "j \<noteq> i" for j t'
      using others[OF that] t by (auto simp: is_free_def)
    moreover have "\<not> is_free m t" using t by (simp add: is_free_def)
    ultimately show ?thesis using t(1) None apart_active[OF assms(1)] apart_distinct[OF assms(1)]
      unfolding start_disruption_def st apart_def by simp metis
  next
    case (Some x)
    then have "m = ?m1"
      using st assms(4) by (auto simp: set_target_node_def label_of_def Let_def split: if_splits option.splits)
    then show ?thesis using Some others assms(2) apart_active[OF assms(1)] apart_distinct[OF assms(1)]
      unfolding start_disruption_def st apart_def by simp metis
  qed
qed


lemma one_rack_nodes:
  assumes "nz_pool n = data_nodes"
  shows "get_target_nodes one_rack m n DefaultValue None None = filter (is_free m) [0, 1, 2]"
proof -
  have "[0..<3::nat] = [0, 1, 2]" by (simp add: upt_rec numeral_3_eq_3)
  then show ?thesis using assms by (simp add: get_target_nodes_def pool_nodes_def one_rack_def numeral_3_eq_3 numeral_2_eq_2)
qed

lemma one_rack_start:
  assumes "label \<noteq> []"
  shows "start_disruption (\<lambda>k. 0) one_rack data_nodes label i s = (let m = unset_current_running_nemesis (nz_target (cr_nem s i)) (cr_marks s);
     nodes = filter (is_free m) [0, 1, 2] in
     if nodes = [] then s\<lparr>cr_marks := m, cr_nem := (cr_nem s)(i := (cr_nem s i)\<lparr>nz_pool := data_nodes\<rparr>), cr_active := (cr_active s)(i := False)\<rparr>
     else s\<lparr>cr_marks := m(hd nodes := Some label),
       cr_nem := (cr_nem s)(i := (cr_nem s i)\<lparr>nz_pool := data_nodes, nz_target := Some (hd nodes), nz_current := Some label\<rparr>),
       cr_active := (cr_active s)(i := True)\<rparr>)"
  using assms by (simp add: start_disruption_def set_target_node_def one_rack_nodes label_of_def set_current_disruption_def
      set_target_node_pool_type_def Let_def hd_conv_nth del: filter.simps)

definition first_started :: crowd where
  "first_started = start_disruption (\<lambda>k. 0) one_rack data_nodes ''Drain'' 0 (new_crowd True)"

definition both_started :: crowd where
  "both_started = start_disruption (\<lambda>k. 0) one_rack data_nodes ''Repair'' 1 first_started"

lemmas two_nemeses = first_started_def both_started_def one_rack_start Let_def unset_current_running_nemesis_def is_free_def new_crowd_def


text \<open>
  C34. The code does not make sure of that. A nemesis keeps naming the target of its last cycle; when another nemesis
  has taken that node since then, the next disruption of the first one takes the mark of the other away and can
  choose the same node: two nemeses disrupt one node at the same time.
\<close>

theorem nemeses_share_target:
  "\<exists>s. crowd_reach one_rack (\<lambda>s i. True) True s \<and> cr_active s 0 \<and> cr_active s 1 \<and>
     nz_target (cr_nem s 0) = Some 0 \<and> nz_target (cr_nem s 1) = Some 0"
proof -
  let ?R = "crowd_reach one_rack (\<lambda>s i. True) True"
  define s2 where "s2 = end_cycle 0 first_started"
  define s3 where "s3 = start_disruption (\<lambda>k. 0) one_rack data_nodes ''Repair'' 1 s2"
  define s4 where "s4 = start_disruption (\<lambda>k. 0) one_rack data_nodes ''Drain'' 0 s3"
  note run = s2_def s3_def s4_def end_cycle_def two_nemeses
  have "?R first_started"
    unfolding first_started_def by (rule crowd_reach.start[OF crowd_reach.new]) (simp_all add: new_crowd_def)
  then have "?R s2" unfolding s2_def by (rule crowd_reach.finish) (simp add: two_nemeses)
  then have "?R s3" unfolding s3_def by (rule crowd_reach.start) (simp_all add: run)
  then have "?R s4" unfolding s4_def by (rule crowd_reach.start) (simp_all add: run)
  moreover have "cr_active s4 0 \<and> cr_active s4 1 \<and> nz_target (cr_nem s4 0) = Some 0 \<and> nz_target (cr_nem s4 1) = Some 0"
    by (simp add: run)
  ultimately show ?thesis by blast
qed

end
