(* ===== verification/Nemesis_Run.thy ===== *)
theory Nemesis_Run
  imports Nemesis_Targets Nemesis_Select Event_Init
begin

text \<open>
  The running of disruptions, \<open>sdcm/nemesis.py\<close>: \<open>disrupt_method_wrapper\<close>, which is around every disrupt method
  and keeps the books of a nemesis, and the loop \<open>run\<close> of a nemesis thread. The lock of exclusive disruptions
  is in \<open>Nemesis_Lock\<close>.
\<close>

section \<open>The books of a nemesis\<close>

text \<open>\<open>log_info\<close>; the key \<open>operation\<close> is deleted before the statistics are updated.\<close>

record op_info =
  oi_operation :: "string option"
  oi_start :: int
  oi_end :: int
  oi_duration :: int
  oi_node :: string
  oi_subtype :: string
  oi_skip_reason :: "string option"
  oi_error :: "string option"
  oi_full_traceback :: "string option"

record op_stats =
  st_runs :: "op_info list"
  st_failures :: "op_info list"
  st_cnt :: nat

datatype nemesis_status = FAILED | SKIPPED | SUCCEEDED

datatype argus_call = SubmitNemesis string string int string | FinalizeNemesis string int nemesis_status string

text \<open>What a nemesis has recorded, and what it has sent: metrics, calls of Argus, events with their registry.\<close>

record book =
  nb_durations :: "int list"
  nb_operations :: "op_info list"
  nb_errors :: "string list"
  nb_stats :: "(string, op_stats) dict"
  nb_metrics :: "metric_event list"
  nb_argus :: "argus_call list"
  nb_events :: "event list"
  nb_registry :: creg

definition update_stats :: "string \<Rightarrow> bool \<Rightarrow> op_info \<Rightarrow> (string, op_stats) dict \<Rightarrow> (string, op_stats) dict" where
  "update_stats disrupt status data stats =
     (let st = dget_default stats disrupt \<lparr>st_runs = [], st_failures = [], st_cnt = 0\<rparr>;
          st1 = (if status then st\<lparr>st_runs := st_runs st @ [data]\<rparr> else st\<lparr>st_failures := st_failures st @ [data]\<rparr>)
      in dset disrupt (st1\<lparr>st_cnt := st_cnt st1 + 1\<rparr>) stats)"

text \<open>\<open>report\<close>: the average of the durations.\<close>

definition avg_duration :: "int list \<Rightarrow> rat" where
  "avg_duration ds = (if ds = [] then 0 else of_int (sum_list ds) / of_nat (length ds))"

section \<open>Names\<close>

definition py_capitalize :: "string \<Rightarrow> string" where
  "py_capitalize s = (case s of [] \<Rightarrow> [] | c # cs \<Rightarrow> to_upper c # py_lower cs)"

definition disruption_label :: "string \<Rightarrow> string" where
  "disruption_label method_name = concat (map py_capitalize (py_split (CHR ''_'') (py_remove ''disrupt_'' method_name)))"

text \<open>\<open>get_disrupt_name\<close> raises when there is no word.\<close>

definition get_disrupt_name :: "nemesis \<Rightarrow> string option" where
  "get_disrupt_name n = (case nz_current n of None \<Rightarrow> None | Some c \<Rightarrow> (case py_words c of [] \<Rightarrow> None | w # ws \<Rightarrow> Some w))"

definition get_class_name :: "string \<Rightarrow> string" where
  "get_class_name cls = py_remove ''Monkey'' cls"

section \<open>The wrapper\<close>

text \<open>
  The environment of one disruption: the method and the nemesis' class, the results of the two health checks, the readings
  of the clock, whether the summary has critical events, the texts of tracebacks, whether Argus takes the submission,
  and what makes the event.
\<close>

record disrupt_env =
  de_method_name :: string
  de_pool :: target_pool
  de_class :: string
  de_health_before :: "nemesis_exc option"
  de_health_after :: "nemesis_exc option"
  de_start :: time
  de_begin :: time
  de_end :: time
  de_exit :: time
  de_critical :: bool
  de_traceback :: string
  de_exit_traceback :: string
  de_argus_ok :: bool
  de_maker :: maker
  de_hash :: "string list \<Rightarrow> int"
  de_pick :: "nat \<Rightarrow> nat"
  de_cluster :: "target list"
  de_node_text :: "nat \<Rightarrow> string"

definition set_full_traceback :: "string \<Rightarrow> event \<Rightarrow> event" where
  "set_full_traceback tb e = e\<lparr>attrs := dset ''full_traceback'' (Some tb) (attrs e)\<rparr>"

definition fail_event :: "string \<Rightarrow> string \<Rightarrow> event \<Rightarrow> event" where
  "fail_event er tb e = (set_full_traceback tb (add_error [er] e))\<lparr>severity := ERROR\<rparr>"

definition get_nemesis_status :: "event \<Rightarrow> nemesis_status" where
  "get_nemesis_status e = (if severity e = ERROR then FAILED else if is_skipped e then SKIPPED else SUCCEEDED)"

definition argus_message :: "event \<Rightarrow> string" where
  "argus_message e = (if severity e = ERROR then (case dget (attrs e) ''full_traceback'' of Some (Some tb) \<Rightarrow> tb | _ \<Rightarrow> [])
     else if is_skipped e then (case cont e of Some k \<Rightarrow> k_skip_reason k | None \<Rightarrow> []) else [])"

definition argus_create_nemesis_info :: "disrupt_env \<Rightarrow> string \<Rightarrow> argus_call list" where
  "argus_create_nemesis_info E node = (if de_argus_ok E
     then [SubmitNemesis (de_method_name E) (get_class_name (de_class E)) (py_trunc (de_start E)) node] else [])"

definition argus_finalize_nemesis_info :: "disrupt_env \<Rightarrow> event \<Rightarrow> argus_call" where
  "argus_finalize_nemesis_info E e =
     FinalizeNemesis (de_method_name E) (py_trunc (de_start E)) (get_nemesis_status e) (argus_message e)"

text \<open>The handlers of the method's exceptions: the info, the event, the errors and the status.\<close>

definition note_outcome ::
  "disrupt_env \<Rightarrow> nemesis_exc option \<Rightarrow> op_info \<times> event \<times> string list \<Rightarrow> op_info \<times> event \<times> string list \<times> bool" where
  "note_outcome E x s = (case s of (i, e, errs) \<Rightarrow>
     (let skipped = (\<lambda>r. (i\<lparr>oi_subtype := ''skipped'', oi_skip_reason := Some r\<rparr>, skip r e, errs, True));
          failed = (\<lambda>er errs'. (i\<lparr>oi_error := Some er, oi_full_traceback := Some (de_traceback E)\<rparr>,
            fail_event er (de_traceback E) e, errs', False))
      in case x of
        None \<Rightarrow> (i, e, errs, True)
      | Some (UnsupportedNemesis r) \<Rightarrow> skipped r
      | Some (MethodVersionNotFound r) \<Rightarrow> skipped r
      | Some KillNemesis \<Rightarrow> if de_critical E then failed ''Killed by tearDown - test fail'' errs else skipped ''Killed by tearDown - test success''
      | Some (OtherExc d) \<Rightarrow> failed d (errs @ [d])))"

text \<open>Only other exceptions are not raised again.\<close>

definition raised_again :: "nemesis_exc option \<Rightarrow> nemesis_exc option" where
  "raised_again x = (case x of Some (OtherExc d) \<Rightarrow> None | _ \<Rightarrow> x)"

definition has_metric :: "disrupt_env \<Rightarrow> bool" where
  "has_metric E \<longleftrightarrow> \<not> contains (get_class_name (de_class E)) ''Chaos''"

text \<open>The \<open>finally\<close> clause after the method; it raises itself when the nemesis has no name for its disruption.\<close>

definition finish_disruption ::
  "disrupt_env \<Rightarrow> nemesis \<Rightarrow> op_info \<Rightarrow> event \<Rightarrow> bool \<Rightarrow> book \<Rightarrow> nemesis_exc option \<times> event \<times> book" where
  "finish_disruption E n i e status b =
     (let d = py_trunc (de_end E - de_start E);
          i1 = i\<lparr>oi_end := py_trunc (de_end E), oi_duration := d\<rparr>;
          b1 = b\<lparr>nb_durations := nb_durations b @ [d], nb_operations := nb_operations b @ [i1],
                 nb_metrics := nb_metrics b @ (if has_metric E then [EventStop (get_class_name (de_class E))] else [])\<rparr>
      in case get_disrupt_name n of
        None \<Rightarrow> (Some (OtherExc ''list index out of range''), e, b1)
      | Some disrupt \<Rightarrow>
          (let e1 = upd_cont (\<lambda>k. k\<lparr>k_duration := Some d\<rparr>) e in
           (None, e1, b1\<lparr>nb_stats := update_stats disrupt status (i1\<lparr>oi_operation := None\<rparr>) (nb_stats b1),
              nb_argus := nb_argus b1 @ (if de_argus_ok E then [argus_finalize_nemesis_info E e1] else [])\<rparr>)))"

text \<open>From the start message to the end of the event: the target is chosen, the method is run, the books are kept.\<close>

definition run_disruption ::
  "disrupt_env \<Rightarrow> (nemesis \<times> marks \<Rightarrow> (nemesis_exc + 'r) \<times> nemesis \<times> marks) \<Rightarrow> nemesis \<times> marks \<times> book \<Rightarrow>
     (nemesis_exc + 'r option) \<times> nemesis \<times> marks \<times> book" where
  "run_disruption E meth s = (case s of (n, m, b) \<Rightarrow>
     (let node = (case nz_target n of Some t \<Rightarrow> de_node_text E t | None \<Rightarrow> ''None'');
          b1 = b\<lparr>nb_metrics := nb_metrics b @ (if has_metric E then [EventStart (get_class_name (de_class E))] else [])\<rparr>;
          i = \<lparr>oi_operation = nz_current n, oi_start = py_trunc (de_start E), oi_end = 0, oi_duration = 0, oi_node = node,
               oi_subtype = ''end'', oi_skip_reason = None, oi_error = None, oi_full_traceback = None\<rparr>
      in case get_disrupt_name n of
        None \<Rightarrow> (Inl (OtherExc ''list index out of range''), n, m, b1)
      | Some name \<Rightarrow>
         (let (e1, r1, out1) = begin_event (de_hash E) (de_begin E) True (new_DisruptionEvent (de_maker E) name node NORMAL True) (nb_registry b1);
              b2 = b1\<lparr>nb_registry := r1, nb_events := nb_events b1 @ out1, nb_argus := nb_argus b1 @ argus_create_nemesis_info E node\<rparr>;
              (res, n2, m2) = meth (n, m);
              x = (case res of Inl er \<Rightarrow> Some er | Inr v \<Rightarrow> None);
              (i2, e2, errs, status) = note_outcome E x (i, e1, nb_errors b2);
              (fx, e3, b3) = finish_disruption E n2 i2 e2 status (b2\<lparr>nb_errors := errs\<rparr>);
              again = (case fx of Some er \<Rightarrow> Some er | None \<Rightarrow> raised_again x);
              exc = (case again of None \<Rightarrow> None | Some KillNemesis \<Rightarrow> None | Some y \<Rightarrow> Some (de_exit_traceback E));
              (e4, r4, out4) = exit_event (de_hash E) (de_exit E) exc e3 (nb_registry b3);
              b4 = b3\<lparr>nb_registry := r4, nb_events := nb_events b3 @ out4\<rparr>
          in case again of
            Some er \<Rightarrow> (Inl er, n2, m2, b4)
          | None \<Rightarrow> (case de_health_after E of
              Some er \<Rightarrow> (Inl er, n2, m2, b4)
            | None \<Rightarrow> (Inr (case res of Inl er \<Rightarrow> None | Inr v \<Rightarrow> Some v), n2, m2, b4)))))"

definition disrupt_method_wrapper ::
  "disrupt_env \<Rightarrow> (nemesis \<times> marks \<Rightarrow> (nemesis_exc + 'r) \<times> nemesis \<times> marks) \<Rightarrow> nemesis \<times> marks \<times> book \<Rightarrow>
     (nemesis_exc + 'r option) \<times> nemesis \<times> marks \<times> book" where
  "disrupt_method_wrapper E meth s = (case s of (n, m, b) \<Rightarrow>
     (let (r, n1, m1, b1) = (case de_health_before E of
            Some x \<Rightarrow> (Inl x, n, m, b)
          | None \<Rightarrow> (case set_target_node (de_pick E) (de_cluster E) None None DefaultValue False
                  (Some (disruption_label (de_method_name E))) (set_target_node_pool_type (de_pool E) n, m) of
              (Some x, n1, m1) \<Rightarrow> (Inl x, n1, m1, b)
            | (None, n1, m1) \<Rightarrow> run_disruption E meth (n1, m1, b)))
      in (r, set_target_node_pool_type data_nodes n1, m1, b1)))"

section \<open>What a disruption leaves\<close>

text \<open>The outcomes that count as a failure and as skipped.\<close>

definition fails :: "disrupt_env \<Rightarrow> nemesis_exc option \<Rightarrow> bool" where
  "fails E x = (case x of Some (OtherExc d) \<Rightarrow> True | Some KillNemesis \<Rightarrow> de_critical E | _ \<Rightarrow> False)"

definition outcome_status :: "disrupt_env \<Rightarrow> nemesis_exc option \<Rightarrow> nemesis_status" where
  "outcome_status E x = (if fails E x then FAILED else if x = None then SUCCEEDED else SKIPPED)"

lemma new_DisruptionEvent_fresh:
  "severity (new_DisruptionEvent k name node NORMAL True) = NORMAL"
  "\<exists>c. cont (new_DisruptionEvent k name node NORMAL True) = Some c \<and> \<not> k_is_skipped c \<and> k_publish_event c"
  by (simp_all add: new_DisruptionEvent_def contin_def continuous_init_def made_def new_event_def)

lemma begin_event_severity:
  assumes "begin_event hsh now b e r = (e1, r1, out)"
  shows "severity e1 = severity e"
proof -
  let ?e0 = "(upd_cont (\<lambda>k. k\<lparr>k_begin_timestamp := Some now\<rparr>) e)\<lparr>event_timestamp := Some now, period_type := BEGIN\<rparr>"
  let ?e2 = "add_subcontext (find_running_disruption_events (add_event hsh ?e0 r)) ?e0"
  from assms have "e1 = fst (publish_if b ?e2)" by (auto simp: begin_event_def Let_def split: prod.splits)
  then show ?thesis using publish_if_frame[of b ?e2] by simp
qed

lemma status_after_duration:
  "get_nemesis_status (upd_cont (\<lambda>k. k\<lparr>k_duration := d\<rparr>) e) = get_nemesis_status e"
  by (simp add: get_nemesis_status_def is_skipped_def upd_cont_def split: option.split)

lemma skip_status: "cont e = Some c \<Longrightarrow> severity e = NORMAL \<Longrightarrow> get_nemesis_status (skip r e) = SKIPPED"
  by (simp add: get_nemesis_status_def skip_def upd_cont_def is_skipped_def)

lemma fail_status: "get_nemesis_status (fail_event er tb e) = FAILED"
  by (simp add: get_nemesis_status_def fail_event_def)

lemma outcome_cont:
  assumes "cont e = Some c"
  shows "\<exists>c'. cont (skip r e) = Some c' \<and> k_publish_event c' = k_publish_event c"
    and "\<exists>c'. cont (fail_event er tb e) = Some c' \<and> k_publish_event c' = k_publish_event c"
  using assms by (simp_all add: skip_def fail_event_def set_full_traceback_def add_error_def upd_cont_def)

lemma exit_event_publishes:
  assumes "exit_event hsh now exc e r = (e1, r1, out)" and "cont e = Some c" and "k_publish_event c"
  shows "\<exists>e2. out = [e2] \<and> period_type e2 = END"
proof -
  have "\<exists>c'. cont (note_exception exc e) = Some c' \<and> k_publish_event c'"
    using assms(2,3) by (cases exc) (auto simp: note_exception_def add_error_def upd_cont_def)
  with end_event_facts[OF assms(1)[unfolded exit_event_def]] show ?thesis by auto
qed

lemma status_of_outcome:
  assumes "severity e = NORMAL" and "cont e = Some c" and "\<not> k_is_skipped c"
  shows "\<exists>i' e'. note_outcome E x (i, e, errs) = (i', e', errs @ (case x of Some (OtherExc er) \<Rightarrow> [er] | _ \<Rightarrow> []), \<not> fails E x) \<and>
    get_nemesis_status e' = outcome_status E x \<and>
    oi_subtype i' = (if outcome_status E x = SKIPPED then ''skipped'' else oi_subtype i) \<and>
    (outcome_status E x = FAILED \<longrightarrow> oi_error i' \<noteq> None) \<and> (outcome_status E x \<noteq> FAILED \<longrightarrow> oi_error i' = oi_error i) \<and>
    (\<exists>c'. cont e' = Some c' \<and> k_publish_event c' = k_publish_event c)"
proof (cases x)
  case None
  then show ?thesis using assms by (simp add: note_outcome_def outcome_status_def fails_def get_nemesis_status_def is_skipped_def)
next
  case (Some y)
  then show ?thesis using skip_status[OF assms(2,1)] fail_status
    by (cases y) (simp_all add: note_outcome_def outcome_status_def fails_def outcome_cont[OF assms(2)])
qed

definition outcome_of :: "nemesis_exc + 'r \<Rightarrow> nemesis_exc option" where
  "outcome_of res = (case res of Inl x \<Rightarrow> Some x | Inr v \<Rightarrow> None)"

definition wrapper_result :: "disrupt_env \<Rightarrow> nemesis_exc + 'r \<Rightarrow> nemesis_exc + 'r option" where
  "wrapper_result E res = (case raised_again (outcome_of res) of
     Some x \<Rightarrow> Inl x
   | None \<Rightarrow> (case de_health_after E of Some x \<Rightarrow> Inl x | None \<Rightarrow> Inr (case res of Inl x \<Rightarrow> None | Inr v \<Rightarrow> Some v)))"

text \<open>What one disruption adds to the books.\<close>

definition booked :: "disrupt_env \<Rightarrow> string \<Rightarrow> nemesis_exc option \<Rightarrow> book \<Rightarrow> book \<Rightarrow> bool" where
  "booked E name x b b' \<longleftrightarrow> (\<exists>i node msg e1 e2.
     nb_durations b' = nb_durations b @ [py_trunc (de_end E - de_start E)] \<and>
     nb_operations b' = nb_operations b @ [i] \<and> oi_duration i = py_trunc (de_end E - de_start E) \<and>
     oi_subtype i = (if outcome_status E x = SKIPPED then ''skipped'' else ''end'') \<and> (oi_error i \<noteq> None \<longleftrightarrow> outcome_status E x = FAILED) \<and>
     nb_stats b' = update_stats name (outcome_status E x \<noteq> FAILED) (i\<lparr>oi_operation := None\<rparr>) (nb_stats b) \<and>
     nb_errors b' = nb_errors b @ (case x of Some (OtherExc er) \<Rightarrow> [er] | _ \<Rightarrow> []) \<and>
     nb_argus b' = nb_argus b @ (if de_argus_ok E
       then [SubmitNemesis (de_method_name E) (get_class_name (de_class E)) (py_trunc (de_start E)) node,
             FinalizeNemesis (de_method_name E) (py_trunc (de_start E)) (outcome_status E x) msg] else []) \<and>
     nb_metrics b' = nb_metrics b @ (if has_metric E
       then [EventStart (get_class_name (de_class E)), EventStop (get_class_name (de_class E))] else []) \<and>
     nb_events b' = nb_events b @ [e1, e2] \<and> period_type e1 = BEGIN \<and> period_type e2 = END)"

lemma outcome_status_FAILED: "outcome_status E x = FAILED \<longleftrightarrow> fails E x"
  by (simp add: outcome_status_def)

lemma run_disruption_booked:
  assumes "get_disrupt_name n1 = Some d1" and "meth (n1, m1) = (res, n2, m2)" and "get_disrupt_name n2 = Some d2"
  shows "\<exists>b'. run_disruption E meth (n1, m1, b) = (wrapper_result E res, n2, m2, b') \<and> booked E d2 (outcome_of res) b b'"
proof -
  let ?node = "case nz_target n1 of Some t \<Rightarrow> de_node_text E t | None \<Rightarrow> ''None''"
  let ?new = "new_DisruptionEvent (de_maker E) d1 ?node NORMAL True"
  let ?i = "\<lparr>oi_operation = nz_current n1, oi_start = py_trunc (de_start E), oi_end = 0, oi_duration = 0, oi_node = ?node,
               oi_subtype = ''end'', oi_skip_reason = None, oi_error = None, oi_full_traceback = None\<rparr>"
  obtain e1 r1 out1 where be: "begin_event (de_hash E) (de_begin E) True ?new (nb_registry b) = (e1, r1, out1)" by (metis prod_cases3)
  obtain c where c: "cont ?new = Some c" "\<not> k_is_skipped c" "k_publish_event c" using new_DisruptionEvent_fresh(2) by blast
  have e1: "severity e1 = NORMAL" using begin_event_severity[OF be] new_DisruptionEvent_fresh(1) by simp
  have out1: "out1 = [e1\<lparr>ready_to_publish := True\<rparr>]" "period_type e1 = BEGIN" and
    c1: "cont e1 = Some (c\<lparr>k_begin_timestamp := Some (de_begin E)\<rparr>)"
    using begin_event_facts[OF be c(1)] c(3) by auto
  have c1': "\<not> k_is_skipped (c\<lparr>k_begin_timestamp := Some (de_begin E)\<rparr>)" "k_publish_event (c\<lparr>k_begin_timestamp := Some (de_begin E)\<rparr>)"
    using c(2,3) by simp_all
  from status_of_outcome[OF e1 c1 c1'(1), of E "outcome_of res" ?i "nb_errors b"]
  obtain i2 e2 c2 where no: "note_outcome E (outcome_of res) (?i, e1, nb_errors b) =
        (i2, e2, nb_errors b @ (case outcome_of res of Some (OtherExc er) \<Rightarrow> [er] | _ \<Rightarrow> []), \<not> fails E (outcome_of res))"
      "get_nemesis_status e2 = outcome_status E (outcome_of res)"
      "oi_subtype i2 = (if outcome_status E (outcome_of res) = SKIPPED then ''skipped'' else oi_subtype ?i)"
      "outcome_status E (outcome_of res) = FAILED \<longrightarrow> oi_error i2 \<noteq> None"
      "outcome_status E (outcome_of res) \<noteq> FAILED \<longrightarrow> oi_error i2 = oi_error ?i"
      "cont e2 = Some c2" "k_publish_event c2 = k_publish_event (c\<lparr>k_begin_timestamp := Some (de_begin E)\<rparr>)"
    by blast
  let ?d = "py_trunc (de_end E - de_start E)"
  let ?e3 = "upd_cont (\<lambda>k. k\<lparr>k_duration := Some ?d\<rparr>) e2"
  let ?exc = "case raised_again (outcome_of res) of None \<Rightarrow> None | Some KillNemesis \<Rightarrow> None | Some y \<Rightarrow> Some (de_exit_traceback E)"
  obtain e4 r4 out4 where ex: "exit_event (de_hash E) (de_exit E) ?exc ?e3 r1 = (e4, r4, out4)" by (metis prod_cases3)
  obtain e5 where out4: "out4 = [e5]" "period_type e5 = END"
    using exit_event_publishes[OF ex, of "c2\<lparr>k_duration := Some ?d\<rparr>"] no(6,7) c1'(2) by (auto simp: upd_cont_def)
  have x: "(case res of Inl er \<Rightarrow> Some er | Inr v \<Rightarrow> None) = outcome_of res" by (simp add: outcome_of_def)
  have "\<exists>b'. run_disruption E meth (n1, m1, b) = (wrapper_result E res, n2, m2, b') \<and>
      nb_registry b' = r4 \<and> nb_events b' = nb_events b @ [e1\<lparr>ready_to_publish := True\<rparr>, e5] \<and>
      nb_durations b' = nb_durations b @ [?d] \<and> nb_operations b' = nb_operations b @ [i2\<lparr>oi_end := py_trunc (de_end E), oi_duration := ?d\<rparr>] \<and>
      nb_errors b' = nb_errors b @ (case outcome_of res of Some (OtherExc er) \<Rightarrow> [er] | _ \<Rightarrow> []) \<and>
      nb_stats b' = update_stats d2 (\<not> fails E (outcome_of res)) (i2\<lparr>oi_end := py_trunc (de_end E), oi_duration := ?d, oi_operation := None\<rparr>) (nb_stats b) \<and>
      nb_argus b' = nb_argus b @ argus_create_nemesis_info E ?node @ (if de_argus_ok E then [argus_finalize_nemesis_info E ?e3] else []) \<and>
      nb_metrics b' = nb_metrics b @ (if has_metric E then [EventStart (get_class_name (de_class E)), EventStop (get_class_name (de_class E))] else [])"
    unfolding run_disruption_def finish_disruption_def
    using assms be no(1) out1(1) out4(1) ex
    by (simp add: Let_def x wrapper_result_def split: option.split)
  then show ?thesis using no(2-5) out1(2) out4(2)
    unfolding booked_def outcome_status_FAILED[symmetric] argus_create_nemesis_info_def argus_finalize_nemesis_info_def status_after_duration
    by fastforce
qed


section \<open>Balanced books\<close>

lemma sum_of_dset:
  fixes f :: "'v \<Rightarrow> nat"
  shows "sum_list (map (f \<circ> snd) (dset k v d)) + (case dget d k of None \<Rightarrow> 0 | Some w \<Rightarrow> f w) = sum_list (map (f \<circ> snd) d) + f v"
  by (induction d) (auto split: option.splits)

definition stats_ok :: "(string, op_stats) dict \<Rightarrow> bool" where
  "stats_ok stats \<longleftrightarrow> (\<forall>d st. dget stats d = Some st \<longrightarrow> st_cnt st = length (st_runs st) + length (st_failures st))"

lemma update_stats_ok: "stats_ok stats \<Longrightarrow> stats_ok (update_stats d status i stats)"
  unfolding stats_ok_def update_stats_def
  by (auto simp: Let_def update_conv dget_default_def split: option.splits if_splits)

lemma update_stats_sum:
  "sum_list (map (st_cnt \<circ> snd) (update_stats d status i stats)) = sum_list (map (st_cnt \<circ> snd) stats) + 1"
proof -
  let ?st = "dget_default stats d \<lparr>st_runs = [], st_failures = [], st_cnt = 0\<rparr>"
  have "st_cnt ?st = (case dget stats d of None \<Rightarrow> 0 | Some w \<Rightarrow> st_cnt w)" by (simp add: dget_default_def split: option.split)
  moreover define st where "st = (if status then ?st\<lparr>st_runs := st_runs ?st @ [i]\<rparr> else ?st\<lparr>st_failures := st_failures ?st @ [i]\<rparr>)"
  moreover have "st_cnt st = st_cnt ?st" by (simp add: st_def)
  moreover have "update_stats d status i stats = dset d (st\<lparr>st_cnt := st_cnt st + 1\<rparr>) stats" by (simp add: update_stats_def st_def Let_def)
  ultimately show ?thesis using sum_of_dset[of st_cnt d "st\<lparr>st_cnt := st_cnt st + 1\<rparr>" stats] by simp
qed

text \<open>
  The books agree with each other: as many operations as durations, as many counted in the statistics, every count the
  number of its runs and failures, and a stop for each start of a metric.
\<close>

definition balanced :: "book \<Rightarrow> bool" where
  "balanced b \<longleftrightarrow> length (nb_operations b) = length (nb_durations b) \<and>
     sum_list (map (st_cnt \<circ> snd) (nb_stats b)) = length (nb_durations b) \<and> stats_ok (nb_stats b) \<and>
     (\<forall>c. count_list (nb_metrics b) (EventStart c) = count_list (nb_metrics b) (EventStop c))"

definition new_book :: book where
  "new_book = \<lparr>nb_durations = [], nb_operations = [], nb_errors = [], nb_stats = [], nb_metrics = [], nb_argus = [],
     nb_events = [], nb_registry = []\<rparr>"

lemma new_book_balanced: "balanced new_book"
  by (simp add: balanced_def new_book_def stats_ok_def)

lemma booked_balanced: "booked E d x b b' \<Longrightarrow> balanced b \<Longrightarrow> balanced b'"
  unfolding booked_def balanced_def
  by (elim exE conjE) (simp add: update_stats_sum update_stats_ok)

lemma target_has_label:
  assumes "set_target_node pick cl dc rack seed last_only (Some label) (n, m) = (None, n1, m1)" and "py_words label \<noteq> []"
  shows "\<exists>d. get_disrupt_name n1 = Some d"
proof -
  have "label \<noteq> []" using assms(2) by (auto simp: py_words_def)
  then have "nz_current n1 = Some label"
    using assms(1) by (auto simp: set_target_node_def label_of_def set_current_disruption_def Let_def split: if_splits)
  with assms(2) show ?thesis by (auto simp: get_disrupt_name_def split: list.split)
qed

text \<open>The disruptions of a nemesis, one after the other, whatever each of them gives.\<close>

fun disruptions ::
  "(disrupt_env \<times> (nemesis \<times> marks \<Rightarrow> (nemesis_exc + 'r) \<times> nemesis \<times> marks)) list \<Rightarrow> nemesis \<times> marks \<times> book \<Rightarrow> nemesis \<times> marks \<times> book" where
  "disruptions [] s = s"
| "disruptions ((E, meth) # ds) s = disruptions ds (snd (disrupt_method_wrapper E meth s))"

definition named :: "disrupt_env \<times> (nemesis \<times> marks \<Rightarrow> (nemesis_exc + 'r) \<times> nemesis \<times> marks) \<Rightarrow> bool" where
  "named x \<longleftrightarrow> py_words (disruption_label (de_method_name (fst x))) \<noteq> [] \<and>
     (\<forall>s. get_disrupt_name (fst (snd (snd x s))) \<noteq> None)"

lemma wrapper_balanced:
  assumes "named (E, meth)" and "balanced b" and "disrupt_method_wrapper E meth (n, m, b) = (r, n', m', b')"
  shows "balanced b'"
proof (cases "de_health_before E")
  case (Some x)
  then show ?thesis using assms(2,3) by (simp add: disrupt_method_wrapper_def)
next
  case None
  let ?st = "set_target_node (de_pick E) (de_cluster E) None None DefaultValue False (Some (disruption_label (de_method_name E)))
      (set_target_node_pool_type (de_pool E) n, m)"
  obtain e n1 m1 where st: "?st = (e, n1, m1)" by (metis prod_cases3)
  show ?thesis
  proof (cases e)
    case (Some x)
    then show ?thesis using None st assms(2,3) by (simp add: disrupt_method_wrapper_def)
  next
    case e: None
    obtain d1 where d1: "get_disrupt_name n1 = Some d1" using target_has_label[OF st[unfolded e]] assms(1) by (auto simp: named_def)
    obtain res n2 m2 where me: "meth (n1, m1) = (res, n2, m2)" by (metis prod_cases3)
    have "get_disrupt_name (fst (snd (meth (n1, m1)))) \<noteq> None" using assms(1) unfolding named_def by simp
    then obtain d2 where d2: "get_disrupt_name n2 = Some d2" using me by auto
    from run_disruption_booked[where meth = meth, OF d1 me d2, of E b] obtain b1 where
      "run_disruption E meth (n1, m1, b) = (wrapper_result E res, n2, m2, b1)" "booked E d2 (outcome_of res) b b1" by blast
    then show ?thesis using None st e assms(2,3) booked_balanced by (auto simp: disrupt_method_wrapper_def)
  qed
qed


definition drain_env :: disrupt_env where
  "drain_env = \<lparr>de_method_name = ''disrupt_nodetool_drain'', de_pool = data_nodes, de_class = ''DrainerMonkey'', de_health_before = None,
     de_health_after = None, de_start = 100, de_begin = 101, de_end = 160, de_exit = 161, de_critical = False,
     de_traceback = ''Traceback'', de_exit_traceback = ''Traceback'', de_argus_ok = True,
     de_maker = \<lparr>mk_now = 100, mk_uid = ''id'', mk_running = []\<rparr>, de_hash = (\<lambda>x. 0), de_pick = (\<lambda>k. 0), de_cluster = one_rack,
     de_node_text = (\<lambda>i. ''node'')\<rparr>"

definition failing_method :: "nemesis \<times> marks \<Rightarrow> (nemesis_exc + nat) \<times> nemesis \<times> marks" where
  "failing_method s = (Inl (OtherExc ''timeout''), (fst s)\<lparr>nz_current := Some ''NodetoolDrain''\<rparr>, snd s)"

lemma drain_label: "disruption_label (de_method_name drain_env) = ''NodetoolDrain''"
  by (simp add: drain_env_def) code_simp

lemma drain_words: "py_words ''NodetoolDrain'' = [''NodetoolDrain'']"
  by code_simp

lemma drain_named: "named (drain_env, failing_method)"
  by (simp add: named_def drain_label drain_words failing_method_def get_disrupt_name_def)

lemma named_unhealthy: "named (E, f) \<Longrightarrow> named (E\<lparr>de_health_before := x\<rparr>, f)"
  by (simp add: named_def)


lemma drain_target:
  "set_target_node (de_pick drain_env) (de_cluster drain_env) None None DefaultValue False
     (Some (disruption_label (de_method_name drain_env))) (set_target_node_pool_type (de_pool drain_env) idle_nemesis, \<lambda>i. None) =
   (None, idle_nemesis\<lparr>nz_target := Some 0, nz_current := Some ''NodetoolDrain''\<rparr>, (\<lambda>i. None)(0 := Some ''NodetoolDrain''))"
  unfolding drain_label
  by (simp add: drain_env_def set_target_node_def idle_nemesis_def one_rack_nodes is_free_def label_of_def set_current_disruption_def
      unset_current_running_nemesis_def set_target_node_pool_type_def)


section \<open>The loop of a nemesis\<close>

text \<open>
  \<open>run\<close> on any state: \<open>disrupt\<close> is one disruption, \<open>unset\<close> takes the mark of the target away, \<open>stopped\<close> reads the
  termination event, and \<open>wait\<close> waits for it, in which the thread can be killed. Without a given number of cycles the
  loop runs until it is stopped; \<open>None\<close> when the fuel is used up. The result is the exception that leaves \<open>run\<close>.
\<close>

record 's run_ops =
  ro_disrupt :: "'s \<Rightarrow> nemesis_exc option \<times> 's"
  ro_unset :: "'s \<Rightarrow> 's"
  ro_stopped :: "'s \<Rightarrow> bool"
  ro_wait :: "time \<Rightarrow> 's \<Rightarrow> bool \<times> 's"

definition run_interval :: "time option \<Rightarrow> time \<Rightarrow> time" where
  "run_interval interval old = (case interval of None \<Rightarrow> old | Some i \<Rightarrow> if i = 0 then old else i * 60)"

text \<open>One cycle: what it raises, if anything, and the state after the \<open>finally\<close> clause.\<close>

definition run_cycle :: "'s run_ops \<Rightarrow> time \<Rightarrow> 's \<Rightarrow> nemesis_exc option \<times> 's" where
  "run_cycle R interval s =
     (let (x, s1) = ro_disrupt R s;
          skipped = (case x of Some (UnsupportedNemesis r) \<Rightarrow> True | Some (MethodVersionNotFound r) \<Rightarrow> True | _ \<Rightarrow> False);
          (killed, s2) = ro_wait R (if skipped then 0 else interval) (ro_unset R s1)
      in (if killed then Some KillNemesis else if skipped then None else x, s2))"

fun run_loop :: "'s run_ops \<Rightarrow> time \<Rightarrow> nat \<Rightarrow> int \<Rightarrow> 's \<Rightarrow> (nemesis_exc option \<times> 's) option" where
  "run_loop R interval 0 cycles s = None"
| "run_loop R interval (Suc fuel) cycles s =
     (if ro_stopped R s \<or> cycles = 0 then Some (None, s)
      else (case run_cycle R interval s of
          (None, s1) \<Rightarrow> run_loop R interval fuel (cycles - 1) s1
        | (Some KillNemesis, s1) \<Rightarrow> Some (None, s1)
        | (Some x, s1) \<Rightarrow> Some (Some x, s1)))"

definition after_cycles :: "'s run_ops \<Rightarrow> time \<Rightarrow> nat \<Rightarrow> 's \<Rightarrow> 's" where
  "after_cycles R interval k s = ((\<lambda>t. snd (run_cycle R interval t)) ^^ k) s"

lemma after_cycles_Suc: "after_cycles R interval (Suc k) s = after_cycles R interval k (snd (run_cycle R interval s))"
  by (simp only: after_cycles_def funpow_Suc_right o_apply)

lemma run_loop_cycles:
  assumes "\<forall>j<k. \<not> ro_stopped R (after_cycles R interval j s) \<and> fst (run_cycle R interval (after_cycles R interval j s)) = None"
    and "cycles < 0 \<or> int k \<le> cycles"
  shows "run_loop R interval (k + fuel) cycles s = run_loop R interval fuel (cycles - int k) (after_cycles R interval k s)"
  using assms
proof (induction k arbitrary: cycles s)
  case (Suc k)
  obtain s1 where s1: "run_cycle R interval s = (None, s1)" "\<not> ro_stopped R s" "cycles \<noteq> 0"
    using Suc.prems(1)[rule_format, of 0] Suc.prems(2) by (cases "run_cycle R interval s") (auto simp: after_cycles_def)
  have "\<forall>j<k. \<not> ro_stopped R (after_cycles R interval j s1) \<and> fst (run_cycle R interval (after_cycles R interval j s1)) = None"
    using Suc.prems(1) s1(1) by (metis Suc_mono after_cycles_Suc snd_conv)
  moreover have "cycles - 1 < 0 \<or> int k \<le> cycles - 1" using Suc.prems(2) by auto
  ultimately have "run_loop R interval (k + fuel) (cycles - 1) s1 = run_loop R interval fuel (cycles - 1 - int k) (after_cycles R interval k s1)"
    by (rule Suc.IH)
  with s1 show ?case by (simp add: after_cycles_Suc algebra_simps)
qed (simp add: after_cycles_def)

lemma run_cycle_raises: "fst (run_cycle R interval s) = Some x \<Longrightarrow> x = KillNemesis \<or> (\<exists>d. x = OtherExc d)"
  by (auto simp: run_cycle_def Let_def split: prod.splits option.splits nemesis_exc.splits if_splits)


definition counting_run :: "nat run_ops" where
  "counting_run = \<lparr>ro_disrupt = (\<lambda>s. (if s = 1 then Some (UnsupportedNemesis ''no node'') else None, s + 1)), ro_unset = (\<lambda>s. s),
     ro_stopped = (\<lambda>s. False), ro_wait = (\<lambda>t s. (False, s))\<rparr>"

lemma counting_cycles: "run_cycle counting_run t s = (None, s + 1)"
  by (simp add: run_cycle_def counting_run_def)

lemma counting_after: "after_cycles counting_run t k s = s + k"
  by (induction k arbitrary: s) (simp_all add: after_cycles_def counting_cycles)


end
