(* ===== verification/Config_Options.thy ===== *)
theory Config_Options
  imports Pystd
begin

text \<open>
  The options of \<open>sdcm/sct_config.py\<close>: the table \<open>config_options\<close> with the name, the environment variable, the type and
  the limits of each option, in the order of the file, and the lists of names the checks use. The help of an option
  is documentation and is left out.
\<close>

section \<open>Values and options\<close>

text \<open>A value of the configuration, as the files and the environment give it.\<close>

datatype cval = CNone | CStr string | CInt int | CBool bool | CFloat rat | CList "cval list" | CDict "(string \<times> cval) list"

text \<open>The conversions an option can name as its type.\<close>

datatype opt_type =
    T_str | T_only_str | T_file | T_boolean | T_int | T_float | T_list | T_dict | T_str_or_list | T_str_or_list_or_eval
  | T_int_or_space_separated_ints | T_dict_or_str | T_dict_or_str_or_pydantic

record config_option =
  co_name :: string
  co_env :: string
  co_type :: opt_type
  co_appendable :: "bool option"
  co_k8s_multitenancy_supported :: bool
  co_choices :: "cval list"

definition opt :: "string \<Rightarrow> string \<Rightarrow> opt_type \<Rightarrow> config_option" where
  "opt name env t = \<lparr>co_name = name, co_env = env, co_type = t, co_appendable = None, co_k8s_multitenancy_supported = False, co_choices = []\<rparr>"

section \<open>The table\<close>

definition config_options_1 :: "config_option list" where
  "config_options_1 =
    [(opt ''config_files'' ''SCT_CONFIG_FILES'' T_str_or_list_or_eval)\<lparr>co_appendable := Some False\<rparr>,
     (opt ''cluster_backend'' ''SCT_CLUSTER_BACKEND'' T_str)\<lparr>co_appendable := Some False\<rparr>,
     (opt ''test_method'' ''SCT_TEST_METHOD'' T_str)\<lparr>co_appendable := Some False\<rparr>,
     opt ''test_duration'' ''SCT_TEST_DURATION'' T_int,
     opt ''prepare_stress_duration'' ''SCT_PREPARE_STRESS_DURATION'' T_int,
     opt ''stress_duration'' ''SCT_STRESS_DURATION'' T_int,
     opt ''n_db_nodes'' ''SCT_N_DB_NODES'' T_int_or_space_separated_ints,
     opt ''n_test_oracle_db_nodes'' ''SCT_N_TEST_ORACLE_DB_NODES'' T_int_or_space_separated_ints,
     opt ''n_loaders'' ''SCT_N_LOADERS'' T_int_or_space_separated_ints,
     opt ''n_monitor_nodes'' ''SCT_N_MONITORS_NODES'' T_int_or_space_separated_ints,
     opt ''intra_node_comm_public'' ''SCT_INTRA_NODE_COMM_PUBLIC'' T_boolean,
     opt ''endpoint_snitch'' ''SCT_ENDPOINT_SNITCH'' T_str,
     opt ''user_credentials_path'' ''SCT_USER_CREDENTIALS_PATH'' T_str,
     opt ''cloud_credentials_path'' ''SCT_CLOUD_CREDENTIALS_PATH'' T_str,
     opt ''cloud_cluster_id'' ''SCT_CLOUD_CLUSTER_ID'' T_int,
     opt ''cloud_prom_bearer_token'' ''SCT_CLOUD_PROM_BEARER_TOKEN'' T_str,
     opt ''cloud_prom_path'' ''SCT_CLOUD_PROM_PATH'' T_str,
     opt ''cloud_prom_host'' ''SCT_CLOUD_PROM_HOST'' T_str,
     (opt ''ip_ssh_connections'' ''SCT_IP_SSH_CONNECTIONS'' T_str)\<lparr>co_choices := [CStr ''public'', CStr ''private'', CStr ''ipv6'']\<rparr>,
     opt ''scylla_repo'' ''SCT_SCYLLA_REPO'' T_str,
     opt ''scylla_apt_keys'' ''SCT_SCYLLA_APT_KEYS'' T_str_or_list,
     opt ''unified_package'' ''SCT_UNIFIED_PACKAGE'' T_str,
     opt ''nonroot_offline_install'' ''SCT_NONROOT_OFFLINE_INSTALL'' T_boolean,
     (opt ''install_mode'' ''SCT_INSTALL_MODE'' T_str)\<lparr>co_appendable := Some False\<rparr>,
     (opt ''scylla_version'' ''SCT_SCYLLA_VERSION'' T_str)\<lparr>co_appendable := Some False\<rparr>,
     (opt ''user_data_format_version'' ''SCT_USER_DATA_FORMAT_VERSION'' T_str)\<lparr>co_appendable := Some False\<rparr>,
     (opt ''oracle_user_data_format_version'' ''SCT_ORACLE_USER_DATA_FORMAT_VERSION'' T_str)\<lparr>co_appendable := Some False\<rparr>,
     (opt ''oracle_scylla_version'' ''SCT_ORACLE_SCYLLA_VERSION'' T_str)\<lparr>co_appendable := Some False\<rparr>,
     (opt ''scylla_linux_distro'' ''SCT_SCYLLA_LINUX_DISTRO'' T_str)\<lparr>co_appendable := Some False\<rparr>,
     (opt ''scylla_linux_distro_loader'' ''SCT_SCYLLA_LINUX_DISTRO_LOADER'' T_str)\<lparr>co_appendable := Some False\<rparr>,
     (opt ''assert_linux_distro_features'' ''SCT_ASSERT_LINUX_DISTRO_FEATURES'' T_str_or_list_or_eval)\<lparr>co_appendable := Some True\<rparr>,
     opt ''scylla_repo_m'' ''SCT_SCYLLA_REPO_M'' T_str,
     opt ''scylla_repo_loader'' ''SCT_SCYLLA_REPO_LOADER'' T_str,
     opt ''scylla_mgmt_address'' ''SCT_SCYLLA_MGMT_ADDRESS'' T_str]"

definition config_options_2 :: "config_option list" where
  "config_options_2 =
    [opt ''scylla_mgmt_agent_address'' ''SCT_SCYLLA_MGMT_AGENT_ADDRESS'' T_str,
     (opt ''manager_version'' ''SCT_MANAGER_VERSION'' T_str)\<lparr>co_appendable := Some False\<rparr>,
     (opt ''target_manager_version'' ''SCT_TARGET_MANAGER_VERSION'' T_str)\<lparr>co_appendable := Some False\<rparr>,
     (opt ''manager_scylla_backend_version'' ''SCT_MANAGER_SCYLLA_BACKEND_VERSION'' T_str)\<lparr>co_appendable := Some False\<rparr>,
     (opt ''scylla_mgmt_agent_version'' ''SCT_SCYLLA_MGMT_AGENT_VERSION'' T_str)\<lparr>co_appendable := Some False\<rparr>,
     opt ''scylla_mgmt_pkg'' ''SCT_SCYLLA_MGMT_PKG'' T_str,
     opt ''stress_cmd_lwt_i'' ''SCT_STRESS_CMD_LWT_I'' T_str,
     opt ''stress_cmd_lwt_d'' ''SCT_STRESS_CMD_LWT_D'' T_str,
     opt ''stress_cmd_lwt_u'' ''SCT_STRESS_CMD_LWT_U'' T_str,
     opt ''stress_cmd_lwt_ine'' ''SCT_STRESS_CMD_LWT_INE'' T_str,
     opt ''stress_cmd_lwt_uc'' ''SCT_STRESS_CMD_LWT_UC'' T_str,
     opt ''stress_cmd_lwt_ue'' ''SCT_STRESS_CMD_LWT_UE'' T_str,
     opt ''stress_cmd_lwt_de'' ''SCT_STRESS_CMD_LWT_DE'' T_str,
     opt ''stress_cmd_lwt_dc'' ''SCT_STRESS_CMD_LWT_DC'' T_str,
     opt ''stress_cmd_lwt_mixed'' ''SCT_STRESS_CMD_LWT_MIXED'' T_str,
     opt ''stress_cmd_lwt_mixed_baseline'' ''SCT_STRESS_CMD_LWT_MIXED_BASELINE'' T_str,
     opt ''use_cloud_manager'' ''SCT_USE_CLOUD_MANAGER'' T_boolean,
     opt ''use_ldap'' ''SCT_USE_LDAP'' T_boolean,
     opt ''use_ldap_authorization'' ''SCT_USE_LDAP_AUTHORIZATION'' T_boolean,
     opt ''use_ldap_authentication'' ''SCT_USE_LDAP_AUTHENTICATION'' T_boolean,
     opt ''prepare_saslauthd'' ''SCT_PREPARE_SASLAUTHD'' T_boolean,
     opt ''ldap_server_type'' ''SCT_LDAP_SERVER_TYPE'' T_str,
     opt ''use_mgmt'' ''SCT_USE_MGMT'' T_boolean,
     opt ''parallel_node_operations'' ''SCT_PARALLEL_NODE_OPERATIONS'' T_boolean,
     opt ''manager_prometheus_port'' ''SCT_MANAGER_PROMETHEUS_PORT'' T_int,
     opt ''target_scylla_mgmt_server_address'' ''SCT_TARGET_SCYLLA_MGMT_SERVER_ADDRESS'' T_str,
     opt ''target_scylla_mgmt_agent_address'' ''SCT_TARGET_SCYLLA_MGMT_AGENT_ADDRESS'' T_str,
     opt ''update_db_packages'' ''SCT_UPDATE_DB_PACKAGES'' T_str,
     opt ''monitor_branch'' ''SCT_MONITOR_BRANCH'' T_str,
     opt ''db_type'' ''SCT_DB_TYPE'' T_str,
     opt ''user_prefix'' ''SCT_USER_PREFIX'' T_str,
     opt ''ami_id_db_scylla_desc'' ''SCT_AMI_ID_DB_SCYLLA_DESC'' T_str,
     opt ''sct_public_ip'' ''SCT_SCT_PUBLIC_IP'' T_str,
     opt ''sct_ngrok_name'' ''SCT_NGROK_NAME'' T_str,
     opt ''backtrace_decoding'' ''SCT_BACKTRACE_DECODING'' T_boolean,
     opt ''print_kernel_callstack'' ''SCT_PRINT_KERNEL_CALLSTACK'' T_boolean,
     opt ''instance_provision'' ''SCT_INSTANCE_PROVISION'' T_str,
     opt ''instance_provision_fallback_on_demand'' ''SCT_INSTANCE_PROVISION_FALLBACK_ON_DEMAND'' T_boolean,
     opt ''reuse_cluster'' ''SCT_REUSE_CLUSTER'' T_str]"

definition config_options_3 :: "config_option list" where
  "config_options_3 =
    [opt ''test_id'' ''SCT_TEST_ID'' T_str,
     (opt ''db_nodes_shards_selection'' ''SCT_NODES_SHARDS_SELECTION'' T_str)\<lparr>co_choices := [CStr ''default'', CStr ''random'']\<rparr>,
     (opt ''seeds_selector'' ''SCT_SEEDS_SELECTOR'' T_str)\<lparr>co_choices := [CStr ''random'', CStr ''first'', CStr ''all'']\<rparr>,
     opt ''seeds_num'' ''SCT_SEEDS_NUM'' T_int,
     opt ''email_recipients'' ''SCT_EMAIL_RECIPIENTS'' T_str_or_list,
     opt ''email_subject_postfix'' ''SCT_EMAIL_SUBJECT_POSTFIX'' T_str,
     opt ''enable_test_profiling'' ''SCT_ENABLE_TEST_PROFILING'' T_boolean,
     opt ''ssh_transport'' ''SSH_TRANSPORT'' T_str,
     opt ''experimental_features'' ''SCT_EXPERIMENTAL_FEATURES'' T_list,
     opt ''server_encrypt'' ''SCT_SERVER_ENCRYPT'' T_boolean,
     opt ''client_encrypt'' ''SCT_CLIENT_ENCRYPT'' T_boolean,
     opt ''peer_verification'' ''SCT_PEER_VERIFICATION'' T_boolean,
     opt ''client_encrypt_mtls'' ''SCT_CLIENT_ENCRYPT_MTLS'' T_boolean,
     opt ''server_encrypt_mtls'' ''SCT_SERVER_ENCRYPT_MTLS'' T_boolean,
     opt ''hinted_handoff'' ''SCT_HINTED_HANDOFF'' T_str,
     (opt ''authenticator'' ''SCT_AUTHENTICATOR'' T_str)\<lparr>co_choices := [CStr ''PasswordAuthenticator'', CStr ''AllowAllAuthenticator'', CStr ''com.scylladb.auth.SaslauthdAuthenticator'']\<rparr>,
     opt ''authenticator_user'' ''SCT_AUTHENTICATOR_USER'' T_str,
     opt ''authenticator_password'' ''SCT_AUTHENTICATOR_PASSWORD'' T_str,
     opt ''authorizer'' ''SCT_AUTHORIZER'' T_str,
     opt ''sla'' ''SCT_SLA'' T_boolean,
     opt ''service_level_shares'' ''SCT_SERVICE_LEVEL_SHARES'' T_list,
     opt ''alternator_port'' ''SCT_ALTERNATOR_PORT'' T_int,
     (opt ''dynamodb_primarykey_type'' ''SCT_DYNAMODB_PRIMARYKEY_TYPE'' T_str)\<lparr>co_choices := [CStr ''HASH'', CStr ''HASH_AND_RANGE'']\<rparr>,
     opt ''alternator_write_isolation'' ''SCT_ALTERNATOR_WRITE_ISOLATION'' T_str,
     opt ''alternator_use_dns_routing'' ''SCT_ALTERNATOR_USE_DNS_ROUTING'' T_boolean,
     opt ''alternator_enforce_authorization'' ''SCT_ALTERNATOR_ENFORCE_AUTHORIZATION'' T_boolean,
     opt ''alternator_access_key_id'' ''SCT_ALTERNATOR_ACCESS_KEY_ID'' T_str,
     opt ''alternator_secret_access_key'' ''SCT_ALTERNATOR_SECRET_ACCESS_KEY'' T_str,
     opt ''region_aware_loader'' ''SCT_REGION_AWARE_LOADER'' T_boolean,
     opt ''append_scylla_args'' ''SCT_APPEND_SCYLLA_ARGS'' T_str,
     opt ''append_scylla_args_oracle'' ''SCT_APPEND_SCYLLA_ARGS_ORACLE'' T_str,
     opt ''append_scylla_yaml'' ''SCT_APPEND_SCYLLA_YAML'' T_dict_or_str,
     opt ''append_scylla_node_exporter_args'' ''SCT_SCYLLA_NODE_EXPORTER_ARGS'' T_str,
     (opt ''nemesis_class_name'' ''SCT_NEMESIS_CLASS_NAME'' T_only_str)\<lparr>co_k8s_multitenancy_supported := True\<rparr>,
     (opt ''nemesis_interval'' ''SCT_NEMESIS_INTERVAL'' T_int)\<lparr>co_k8s_multitenancy_supported := True\<rparr>,
     (opt ''nemesis_sequence_sleep_between_ops'' ''SCT_NEMESIS_SEQUENCE_SLEEP_BETWEEN_OPS'' T_int)\<lparr>co_k8s_multitenancy_supported := True\<rparr>,
     (opt ''nemesis_during_prepare'' ''SCT_NEMESIS_DURING_PREPARE'' T_boolean)\<lparr>co_k8s_multitenancy_supported := True\<rparr>,
     (opt ''nemesis_seed'' ''SCT_NEMESIS_SEED'' T_int)\<lparr>co_k8s_multitenancy_supported := True\<rparr>,
     (opt ''nemesis_add_node_cnt'' ''SCT_NEMESIS_ADD_NODE_CNT'' T_int)\<lparr>co_k8s_multitenancy_supported := True\<rparr>,
     (opt ''nemesis_grow_shrink_instance_type'' ''SCT_NEMESIS_GROW_SHRINK_INSTANCE_TYPE'' T_only_str)\<lparr>co_k8s_multitenancy_supported := True\<rparr>,
     opt ''cluster_target_size'' ''SCT_CLUSTER_TARGET_SIZE'' T_int]"

definition config_options_4 :: "config_option list" where
  "config_options_4 =
    [(opt ''space_node_threshold'' ''SCT_SPACE_NODE_THRESHOLD'' T_int)\<lparr>co_k8s_multitenancy_supported := True\<rparr>,
     (opt ''nemesis_filter_seeds'' ''SCT_NEMESIS_FILTER_SEEDS'' T_boolean)\<lparr>co_k8s_multitenancy_supported := True\<rparr>,
     (opt ''stress_cmd'' ''SCT_STRESS_CMD'' T_str_or_list)\<lparr>co_k8s_multitenancy_supported := True\<rparr>,
     opt ''gemini_schema_url'' ''SCT_GEMINI_SCHEMA_URL'' T_str,
     opt ''gemini_cmd'' ''SCT_GEMINI_CMD'' T_str,
     opt ''gemini_seed'' ''SCT_GEMINI_SEED'' T_int,
     opt ''gemini_log_cql_statements'' ''SCT_GEMINI_LOG_CQL_STATEMENTS'' T_boolean,
     opt ''gemini_table_options'' ''SCT_GEMINI_TABLE_OPTIONS'' T_list,
     opt ''instance_type_loader'' ''SCT_INSTANCE_TYPE_LOADER'' T_str,
     opt ''instance_type_monitor'' ''SCT_INSTANCE_TYPE_MONITOR'' T_str,
     opt ''instance_type_db'' ''SCT_INSTANCE_TYPE_DB'' T_str,
     opt ''instance_type_db_oracle'' ''SCT_INSTANCE_TYPE_DB_ORACLE'' T_str,
     opt ''instance_type_runner'' ''SCT_INSTANCE_TYPE_RUNNER'' T_str,
     (opt ''region_name'' ''SCT_REGION_NAME'' T_str_or_list_or_eval)\<lparr>co_appendable := Some False\<rparr>,
     opt ''security_group_ids'' ''SCT_SECURITY_GROUP_IDS'' T_str_or_list,
     opt ''use_placement_group'' ''SCT_USE_PLACEMENT_GROUP'' T_str,
     opt ''subnet_id'' ''SCT_SUBNET_ID'' T_str_or_list,
     opt ''ami_id_db_scylla'' ''SCT_AMI_ID_DB_SCYLLA'' T_str,
     opt ''ami_id_loader'' ''SCT_AMI_ID_LOADER'' T_str,
     opt ''ami_id_monitor'' ''SCT_AMI_ID_MONITOR'' T_str,
     opt ''ami_id_db_cassandra'' ''SCT_AMI_ID_DB_CASSANDRA'' T_str,
     opt ''ami_id_db_oracle'' ''SCT_AMI_ID_DB_ORACLE'' T_str,
     opt ''root_disk_size_db'' ''SCT_ROOT_DISK_SIZE_DB'' T_int,
     opt ''root_disk_size_monitor'' ''SCT_ROOT_DISK_SIZE_MONITOR'' T_int,
     opt ''root_disk_size_loader'' ''SCT_ROOT_DISK_SIZE_LOADER'' T_int,
     opt ''root_disk_size_runner'' ''SCT_ROOT_DISK_SIZE_RUNNER'' T_int,
     opt ''ami_db_scylla_user'' ''SCT_AMI_DB_SCYLLA_USER'' T_str,
     opt ''ami_monitor_user'' ''SCT_AMI_MONITOR_USER'' T_str,
     opt ''ami_loader_user'' ''SCT_AMI_LOADER_USER'' T_str,
     opt ''ami_db_cassandra_user'' ''SCT_AMI_DB_CASSANDRA_USER'' T_str,
     opt ''spot_max_price'' ''SCT_SPOT_MAX_PRICE'' T_float,
     opt ''extra_network_interface'' ''SCT_EXTRA_NETWORK_INTERFACE'' T_boolean,
     opt ''aws_instance_profile_name_db'' ''SCT_AWS_INSTANCE_PROFILE_NAME_DB'' T_str,
     opt ''aws_instance_profile_name_loader'' ''SCT_AWS_INSTANCE_PROFILE_NAME_LOADER'' T_str,
     opt ''backup_bucket_backend'' ''SCT_BACKUP_BUCKET_BACKEND'' T_str,
     opt ''backup_bucket_location'' ''SCT_BACKUP_BUCKET_LOCATION'' T_str_or_list,
     opt ''use_prepared_loaders'' ''SCT_USE_PREPARED_LOADERS'' T_boolean,
     opt ''scylla_d_overrides_files'' ''SCT_SCYLLA_D_OVERRIDES_FILES'' T_str_or_list_or_eval,
     opt ''gce_project'' ''SCT_GCE_PROJECT'' T_str,
     (opt ''gce_datacenter'' ''SCT_GCE_DATACENTER'' T_str_or_list_or_eval)\<lparr>co_appendable := Some False\<rparr>,
     opt ''gce_network'' ''SCT_GCE_NETWORK'' T_str,
     opt ''gce_image_db'' ''SCT_GCE_IMAGE_DB'' T_str,
     opt ''gce_image_monitor'' ''SCT_GCE_IMAGE_MONITOR'' T_str,
     opt ''gce_image_loader'' ''SCT_GCE_IMAGE_LOADER'' T_str]"

definition config_options_5 :: "config_option list" where
  "config_options_5 =
    [opt ''gce_image_username'' ''SCT_GCE_IMAGE_USERNAME'' T_str,
     opt ''gce_instance_type_loader'' ''SCT_GCE_INSTANCE_TYPE_LOADER'' T_str,
     opt ''gce_root_disk_type_loader'' ''SCT_GCE_ROOT_DISK_TYPE_LOADER'' T_str,
     opt ''gce_n_local_ssd_disk_loader'' ''SCT_GCE_N_LOCAL_SSD_DISK_LOADER'' T_int,
     opt ''gce_instance_type_monitor'' ''SCT_GCE_INSTANCE_TYPE_MONITOR'' T_str,
     opt ''gce_root_disk_type_monitor'' ''SCT_GCE_ROOT_DISK_TYPE_MONITOR'' T_str,
     opt ''gce_n_local_ssd_disk_monitor'' ''SCT_GCE_N_LOCAL_SSD_DISK_MONITOR'' T_int,
     opt ''gce_instance_type_db'' ''SCT_GCE_INSTANCE_TYPE_DB'' T_str,
     opt ''gce_root_disk_type_db'' ''SCT_GCE_ROOT_DISK_TYPE_DB'' T_str,
     opt ''gce_n_local_ssd_disk_db'' ''SCT_GCE_N_LOCAL_SSD_DISK_DB'' T_int,
     opt ''gce_pd_standard_disk_size_db'' ''SCT_GCE_PD_STANDARD_DISK_SIZE_DB'' T_int,
     opt ''gce_pd_ssd_disk_size_db'' ''SCT_GCE_PD_SSD_DISK_SIZE_DB'' T_int,
     opt ''gce_setup_hybrid_raid'' ''SCT_GCE_SETUP_HYBRID_RAID'' T_boolean,
     opt ''gce_pd_ssd_disk_size_loader'' ''SCT_GCE_PD_SSD_DISK_SIZE_LOADER'' T_int,
     opt ''gce_pd_ssd_disk_size_monitor'' ''SCT_GCE_SSD_DISK_SIZE_MONITOR'' T_int,
     (opt ''azure_region_name'' ''SCT_AZURE_REGION_NAME'' T_str_or_list_or_eval)\<lparr>co_appendable := Some False\<rparr>,
     opt ''azure_instance_type_loader'' ''SCT_AZURE_INSTANCE_TYPE_LOADER'' T_str,
     opt ''azure_instance_type_monitor'' ''SCT_AZURE_INSTANCE_TYPE_MONITOR'' T_str,
     opt ''azure_instance_type_db'' ''SCT_AZURE_INSTANCE_TYPE_DB'' T_str,
     opt ''azure_instance_type_db_oracle'' ''SCT_AZURE_INSTANCE_TYPE_DB_ORACLE'' T_str,
     opt ''azure_image_db'' ''SCT_AZURE_IMAGE_DB'' T_str,
     opt ''azure_image_monitor'' ''SCT_AZURE_IMAGE_MONITOR'' T_str,
     opt ''azure_image_loader'' ''SCT_AZURE_IMAGE_LOADER'' T_str,
     opt ''azure_image_username'' ''SCT_AZURE_IMAGE_USERNAME'' T_str,
     opt ''eks_service_ipv4_cidr'' ''SCT_EKS_SERVICE_IPV4_CIDR'' T_str,
     opt ''eks_vpc_cni_version'' ''SCT_EKS_VPC_CNI_VERSION'' T_str,
     opt ''eks_role_arn'' ''SCT_EKS_ROLE_ARN'' T_str,
     opt ''eks_cluster_version'' ''SCT_EKS_CLUSTER_VERSION'' T_str,
     opt ''eks_nodegroup_role_arn'' ''SCT_EKS_NODEGROUP_ROLE_ARN'' T_str,
     opt ''gke_cluster_version'' ''SCT_GKE_CLUSTER_VERSION'' T_str,
     opt ''gke_k8s_release_channel'' ''SCT_GKE_K8S_RELEASE_CHANNEL'' T_str,
     opt ''k8s_scylla_utils_docker_image'' ''SCT_K8S_SCYLLA_UTILS_DOCKER_IMAGE'' T_str,
     opt ''k8s_enable_performance_tuning'' ''SCT_K8S_ENABLE_PERFORMANCE_TUNING'' T_boolean,
     opt ''k8s_deploy_monitoring'' ''SCT_K8S_DEPLOY_MONITORING'' T_boolean,
     (opt ''k8s_local_volume_provisioner_type'' ''SCT_K8S_LOCAL_VOLUME_PROVISIONER_TYPE'' T_str)\<lparr>co_choices := [CStr ''static'', CStr ''dynamic'']\<rparr>,
     opt ''k8s_scylla_operator_docker_image'' ''SCT_K8S_SCYLLA_OPERATOR_DOCKER_IMAGE'' T_str,
     opt ''k8s_scylla_operator_upgrade_docker_image'' ''SCT_K8S_SCYLLA_OPERATOR_UPGRADE_DOCKER_IMAGE'' T_str,
     opt ''k8s_scylla_operator_helm_repo'' ''SCT_K8S_SCYLLA_OPERATOR_HELM_REPO'' T_str,
     opt ''k8s_scylla_operator_upgrade_helm_repo'' ''SCT_K8S_SCYLLA_OPERATOR_UPGRADE_HELM_REPO'' T_str,
     opt ''k8s_scylla_operator_chart_version'' ''SCT_K8S_SCYLLA_OPERATOR_CHART_VERSION'' T_str,
     opt ''k8s_scylla_operator_upgrade_chart_version'' ''SCT_K8S_SCYLLA_OPERATOR_UPGRADE_CHART_VERSION'' T_str,
     opt ''k8s_functional_test_dataset'' ''SCT_K8S_FUNCTIONAL_TEST_DATASET'' T_str]"

definition config_options_6 :: "config_option list" where
  "config_options_6 =
    [(opt ''k8s_scylla_cpu_limit'' ''SCT_K8S_SCYLLA_CPU_LIMIT'' T_str)\<lparr>co_k8s_multitenancy_supported := True\<rparr>,
     (opt ''k8s_scylla_memory_limit'' ''SCT_K8S_SCYLLA_MEMORY_LIMIT'' T_str)\<lparr>co_k8s_multitenancy_supported := True\<rparr>,
     opt ''k8s_scylla_cluster_name'' ''SCT_K8S_SCYLLA_CLUSTER_NAME'' T_str,
     opt ''k8s_n_scylla_pods_per_cluster'' ''K8S_N_SCYLLA_PODS_PER_CLUSTER'' T_int_or_space_separated_ints,
     opt ''k8s_scylla_disk_gi'' ''SCT_K8S_SCYLLA_DISK_GI'' T_int,
     opt ''k8s_scylla_disk_class'' ''SCT_K8S_SCYLLA_DISK_CLASS'' T_str,
     opt ''k8s_loader_cluster_name'' ''SCT_K8S_LOADER_CLUSTER_NAME'' T_str,
     opt ''k8s_n_loader_pods_per_cluster'' ''SCT_K8S_N_LOADER_PODS_PER_CLUSTER'' T_int_or_space_separated_ints,
     (opt ''k8s_loader_run_type'' ''SCT_K8S_LOADER_RUN_TYPE'' T_str)\<lparr>co_choices := [CStr ''static'', CStr ''dynamic'']\<rparr>,
     opt ''k8s_instance_type_auxiliary'' ''SCT_K8S_INSTANCE_TYPE_AUXILIARY'' T_str,
     opt ''k8s_instance_type_monitor'' ''SCT_K8S_INSTANCE_TYPE_MONITOR'' T_str,
     opt ''mini_k8s_version'' ''SCT_MINI_K8S_VERSION'' T_str,
     opt ''k8s_cert_manager_version'' ''SCT_K8S_CERT_MANAGER_VERSION'' T_str,
     opt ''k8s_minio_storage_size'' ''SCT_K8S_MINIO_STORAGE_SIZE'' T_str,
     opt ''k8s_log_api_calls'' ''SCT_K8S_LOG_API_CALLS'' T_boolean,
     opt ''k8s_tenants_num'' ''SCT_TENANTS_NUM'' T_int,
     opt ''k8s_enable_tls'' ''SCT_K8S_ENABLE_TLS'' T_boolean,
     opt ''k8s_enable_sni'' ''SCT_K8S_ENABLE_SNI'' T_boolean,
     opt ''k8s_enable_alternator'' ''SCT_K8S_ENABLE_ALTERNATOR'' T_boolean,
     (opt ''k8s_connection_bundle_file'' ''SCT_K8S_CONNECTION_BUNDLE_FILE'' T_file)\<lparr>co_k8s_multitenancy_supported := True\<rparr>,
     (opt ''k8s_db_node_service_type'' ''SCT_K8S_DB_NODE_SERVICE_TYPE'' T_str)\<lparr>co_choices := [CStr '''', CStr ''ClusterIP'', CStr ''Headless'', CStr ''LoadBalancer'']\<rparr>,
     (opt ''k8s_db_node_to_node_broadcast_ip_type'' ''SCT_K8S_DB_NODE_TO_NODE_BROADCAST_IP_TYPE'' T_str)\<lparr>co_choices := [CStr '''', CStr ''ServiceClusterIP'', CStr ''PodIP'', CStr ''ServiceLoadBalancerIngress'']\<rparr>,
     (opt ''k8s_db_node_to_client_broadcast_ip_type'' ''SCT_K8S_DB_NODE_TO_CLIENT_BROADCAST_IP_TYPE'' T_str)\<lparr>co_choices := [CStr '''', CStr ''ServiceClusterIP'', CStr ''PodIP'', CStr ''ServiceLoadBalancerIngress'']\<rparr>,
     opt ''k8s_use_chaos_mesh'' ''SCT_K8S_USE_CHAOS_MESH'' T_boolean,
     opt ''k8s_n_auxiliary_nodes'' ''SCT_K8S_N_AUXILIARY_NODES'' T_int,
     opt ''k8s_n_monitor_nodes'' ''SCT_K8S_N_MONITOR_NODES'' T_int,
     opt ''mgmt_docker_image'' ''SCT_MGMT_DOCKER_IMAGE'' T_str,
     opt ''docker_image'' ''SCT_DOCKER_IMAGE'' T_str,
     opt ''docker_network'' ''SCT_DOCKER_NETWORK'' T_str,
     opt ''s3_baremetal_config'' ''SCT_S3_BAREMETAL_CONFIG'' T_str,
     opt ''db_nodes_private_ip'' ''SCT_DB_NODES_PRIVATE_IP'' T_str_or_list_or_eval,
     opt ''db_nodes_public_ip'' ''SCT_DB_NODES_PUBLIC_IP'' T_str_or_list_or_eval,
     opt ''loaders_private_ip'' ''SCT_LOADERS_PRIVATE_IP'' T_str_or_list_or_eval,
     opt ''loaders_public_ip'' ''SCT_LOADERS_PUBLIC_IP'' T_str_or_list_or_eval,
     opt ''monitor_nodes_private_ip'' ''SCT_MONITOR_NODES_PRIVATE_IP'' T_str_or_list_or_eval,
     opt ''monitor_nodes_public_ip'' ''SCT_MONITOR_NODES_PUBLIC_IP'' T_str_or_list_or_eval,
     opt ''cassandra_stress_population_size'' ''SCT_CASSANDRA_STRESS_POPULATION_SIZE'' T_int,
     opt ''cassandra_stress_threads'' ''SCT_CASSANDRA_STRESS_THREADS'' T_int,
     opt ''add_node_cnt'' ''SCT_ADD_NODE_CNT'' T_int,
     opt ''stress_multiplier'' ''SCT_STRESS_MULTIPLIER'' T_int,
     opt ''stress_multiplier_w'' ''SCT_STRESS_MULTIPLIER_W'' T_int,
     opt ''stress_multiplier_r'' ''SCT_STRESS_MULTIPLIER_R'' T_int,
     opt ''stress_multiplier_m'' ''SCT_STRESS_MULTIPLIER_M'' T_int,
     opt ''run_fullscan'' ''SCT_RUN_FULLSCAN'' T_list,
     opt ''run_full_partition_scan'' ''SCT_run_full_partition_scan'' T_str,
     opt ''run_tombstone_gc_verification'' ''SCT_RUN_TOMBSTONE_GC_VERIFICATION'' T_str,
     opt ''keyspace_num'' ''SCT_KEYSPACE_NUM'' T_int]"

definition config_options_7 :: "config_option list" where
  "config_options_7 =
    [(opt ''round_robin'' ''SCT_ROUND_ROBIN'' T_boolean)\<lparr>co_k8s_multitenancy_supported := True\<rparr>,
     opt ''batch_size'' ''SCT_BATCH_SIZE'' T_int,
     opt ''pre_create_schema'' ''SCT_PRE_CREATE_SCHEMA'' T_boolean,
     opt ''pre_create_keyspace'' ''SCT_PRE_CREATE_KEYSPACE'' T_str_or_list,
     opt ''post_prepare_cql_cmds'' ''SCT_POST_PREPARE_CQL_CMDS'' T_str_or_list,
     opt ''prepare_wait_no_compactions_timeout'' ''SCT_PREPARE_WAIT_NO_COMPACTIONS_TIMEOUT'' T_int,
     opt ''compaction_strategy'' ''SCT_COMPACTION_STRATEGY'' T_str,
     opt ''sstable_size'' ''SSTABLE_SIZE'' T_int,
     opt ''cluster_health_check'' ''SCT_CLUSTER_HEALTH_CHECK'' T_boolean,
     opt ''data_validation'' ''SCT_DATA_VALIDATION'' T_str,
     (opt ''stress_read_cmd'' ''SCT_STRESS_READ_CMD'' T_str_or_list)\<lparr>co_k8s_multitenancy_supported := True\<rparr>,
     (opt ''prepare_verify_cmd'' ''SCT_PREPARE_VERIFY_CMD'' T_str_or_list)\<lparr>co_k8s_multitenancy_supported := True\<rparr>,
     opt ''user_profile_table_count'' ''SCT_USER_PROFILE_TABLE_COUNT'' T_int,
     opt ''scylla_mgmt_upgrade_to_repo'' ''SCT_SCYLLA_MGMT_UPGRADE_TO_REPO'' T_str,
     opt ''mgmt_restore_extra_params'' ''SCT_MGMT_RESTORE_EXTRA_PARAMS'' T_str,
     opt ''mgmt_agent_backup_config'' ''SCT_MGMT_AGENT_BACKUP_CONFIG'' T_dict_or_str_or_pydantic,
     opt ''mgmt_reuse_backup_snapshot_name'' ''SCT_MGMT_REUSE_BACKUP_SNAPSHOT_NAME'' T_str,
     opt ''mgmt_skip_post_restore_stress_read'' ''SCT_MGMT_SKIP_POST_RESTORE_STRESS_READ'' T_boolean,
     opt ''mgmt_nodetool_refresh_flags'' ''SCT_MGMT_NODETOOL_REFRESH_FLAGS'' T_str,
     opt ''mgmt_prepare_snapshot_size'' ''SCT_MGMT_PREPARE_SNAPSHOT_SIZE'' T_int,
     opt ''mgmt_snapshots_preparer_params'' ''SCT_MGMT_SNAPSHOTS_PREPARER_PARAMS'' T_dict_or_str,
     (opt ''stress_cmd_w'' ''SCT_STRESS_CMD_W'' T_str_or_list)\<lparr>co_k8s_multitenancy_supported := True\<rparr>,
     (opt ''stress_cmd_r'' ''SCT_STRESS_CMD_R'' T_str_or_list)\<lparr>co_k8s_multitenancy_supported := True\<rparr>,
     (opt ''stress_cmd_m'' ''SCT_STRESS_CMD_M'' T_str_or_list)\<lparr>co_k8s_multitenancy_supported := True\<rparr>,
     (opt ''stress_cmd_cache_warmup'' ''SCT_STRESS_CMD_CACHE_WARM_UP'' T_str_or_list)\<lparr>co_k8s_multitenancy_supported := True\<rparr>,
     (opt ''prepare_write_cmd'' ''SCT_PREPARE_WRITE_CMD'' T_str_or_list)\<lparr>co_k8s_multitenancy_supported := True\<rparr>,
     opt ''stress_cmd_no_mv'' ''SCT_STRESS_CMD_NO_MV'' T_str_or_list,
     opt ''stress_cmd_no_mv_profile'' ''SCT_STRESS_CMD_NO_MV_PROFILE'' T_str,
     opt ''perf_extra_jobs_to_compare'' ''SCT_PERF_EXTRA_JOBS_TO_COMPARE'' T_str_or_list_or_eval,
     opt ''cs_user_profiles'' ''SCT_CS_USER_PROFILES'' T_str_or_list,
     opt ''prepare_cs_user_profiles'' ''SCT_PREPARE_CS_USER_PROFILES'' T_str_or_list,
     opt ''cs_duration'' ''SCT_CS_DURATION'' T_str,
     opt ''cs_debug'' ''SCT_CS_DEBUG'' T_boolean]"

definition config_options_8 :: "config_option list" where
  "config_options_8 =
    [opt ''stress_cmd_mv'' ''SCT_STRESS_CMD_MV'' T_str_or_list,
     opt ''prepare_stress_cmd'' ''SCT_PREPARE_STRESS_CMD'' T_str_or_list,
     opt ''perf_gradual_threads'' ''SCT_PERF_GRADUAL_THREADS'' T_dict_or_str,
     opt ''perf_gradual_throttle_steps'' ''SCT_PERF_GRADUAL_THROTTLE_STEPS'' T_dict_or_str,
     opt ''skip_download'' ''SCT_SKIP_DOWNLOAD'' T_boolean,
     opt ''sstable_file'' ''SCT_SSTABLE_FILE'' T_str,
     opt ''sstable_url'' ''SCT_SSTABLE_URL'' T_str,
     opt ''sstable_md5'' ''SCT_SSTABLE_MD5'' T_str,
     opt ''flush_times'' ''SCT_FLUSH_TIMES'' T_int,
     opt ''flush_period'' ''SCT_FLUSH_PERIOD'' T_int,
     opt ''new_scylla_repo'' ''SCT_NEW_SCYLLA_REPO'' T_str,
     opt ''new_version'' ''SCT_NEW_VERSION'' T_str,
     opt ''target_upgrade_version'' ''SCT_TARGET_UPGRADE_VERSION'' T_str,
     opt ''disable_raft'' ''SCT_DISABLE_RAFT'' T_boolean,
     opt ''enable_tablets_on_upgrade'' ''SCT_ENABLE_TABLETS_ON_UPGRADE'' T_boolean,
     opt ''enable_views_with_tablets_on_upgrade'' ''SCT_ENABLE_VIEWS_WITH_TABLETS_ON_UPGRADE'' T_boolean,
     opt ''upgrade_node_packages'' ''SCT_UPGRADE_NODE_PACKAGES'' T_str,
     opt ''upgrade_node_system'' ''SCT_UPGRADE_NODE_SYSTEM'' T_boolean,
     opt ''stress_cmd_1'' ''SCT_STRESS_CMD_1'' T_str_or_list,
     opt ''stress_cmd_complex_prepare'' ''SCT_STRESS_CMD_COMPLEX_PREPARE'' T_str_or_list,
     opt ''prepare_write_stress'' ''SCT_PREPARE_WRITE_STRESS'' T_str_or_list,
     opt ''stress_cmd_read_10m'' ''SCT_STRESS_CMD_READ_10M'' T_str_or_list,
     opt ''stress_cmd_read_cl_one'' ''SCT_STRESS_CMD_READ_CL_ONE'' T_str_or_list,
     opt ''stress_cmd_read_60m'' ''SCT_STRESS_CMD_READ_60M'' T_str_or_list,
     opt ''stress_cmd_complex_verify_read'' ''SCT_STRESS_CMD_COMPLEX_VERIFY_READ'' T_str_or_list,
     opt ''stress_cmd_complex_verify_more'' ''SCT_STRESS_CMD_COMPLEX_VERIFY_MORE'' T_str_or_list,
     opt ''write_stress_during_entire_test'' ''SCT_WRITE_STRESS_DURING_ENTIRE_TEST'' T_str_or_list,
     opt ''verify_data_after_entire_test'' ''SCT_VERIFY_DATA_AFTER_ENTIRE_TEST'' T_str_or_list,
     opt ''stress_cmd_read_cl_quorum'' ''SCT_STRESS_CMD_READ_CL_QUORUM'' T_str_or_list,
     opt ''verify_stress_after_cluster_upgrade'' ''SCT_VERIFY_STRESS_AFTER_CLUSTER_UPGRADE'' T_str_or_list,
     opt ''stress_cmd_complex_verify_delete'' ''SCT_STRESS_CMD_COMPLEX_VERIFY_DELETE'' T_str_or_list,
     opt ''scylla_encryption_options'' ''SCT_SCYLLA_ENCRYPTION_OPTIONS'' T_str_or_list,
     opt ''kms_key_rotation_interval'' ''SCT_KMS_KEY_ROTATION_INTERVAL'' T_int]"

definition config_options_9 :: "config_option list" where
  "config_options_9 =
    [opt ''enterprise_disable_kms'' ''SCT_ENTERPRISE_DISABLE_KMS'' T_boolean,
     (opt ''logs_transport'' ''SCT_LOGS_TRANSPORT'' T_str)\<lparr>co_choices := [CStr ''ssh'', CStr ''docker'', CStr ''syslog-ng'']\<rparr>,
     opt ''collect_logs'' ''SCT_COLLECT_LOGS'' T_boolean,
     opt ''execute_post_behavior'' ''SCT_EXECUTE_POST_BEHAVIOR'' T_boolean,
     (opt ''post_behavior_db_nodes'' ''SCT_POST_BEHAVIOR_DB_NODES'' T_str)\<lparr>co_choices := [CStr ''keep'', CStr ''keep-on-failure'', CStr ''destroy'']\<rparr>,
     (opt ''post_behavior_loader_nodes'' ''SCT_POST_BEHAVIOR_LOADER_NODES'' T_str)\<lparr>co_choices := [CStr ''keep'', CStr ''keep-on-failure'', CStr ''destroy'']\<rparr>,
     (opt ''post_behavior_monitor_nodes'' ''SCT_POST_BEHAVIOR_MONITOR_NODES'' T_str)\<lparr>co_choices := [CStr ''keep'', CStr ''keep-on-failure'', CStr ''destroy'']\<rparr>,
     (opt ''post_behavior_k8s_cluster'' ''SCT_POST_BEHAVIOR_K8S_CLUSTER'' T_str)\<lparr>co_choices := [CStr ''keep'', CStr ''keep-on-failure'', CStr ''destroy'']\<rparr>,
     opt ''internode_compression'' ''SCT_INTERNODE_COMPRESSION'' T_str,
     opt ''internode_encryption'' ''SCT_INTERNODE_ENCRYPTION'' T_str,
     opt ''jmx_heap_memory'' ''SCT_JMX_HEAP_MEMORY'' T_int,
     opt ''store_perf_results'' ''SCT_STORE_PERF_RESULTS'' T_boolean,
     opt ''append_scylla_setup_args'' ''SCT_APPEND_SCYLLA_SETUP_ARGS'' T_str,
     opt ''use_preinstalled_scylla'' ''SCT_USE_PREINSTALLED_SCYLLA'' T_boolean,
     opt ''force_run_iotune'' ''SCT_FORCE_RUN_IOTUNE'' T_boolean,
     opt ''stress_cdclog_reader_cmd'' ''SCT_STRESS_CDCLOG_READER_CMD'' T_str,
     opt ''store_cdclog_reader_stats_in_es'' ''SCT_STORE_CDCLOG_READER_STATS_IN_ES'' T_boolean,
     opt ''stop_test_on_stress_failure'' ''SCT_STOP_TEST_ON_STRESS_FAILURE'' T_boolean,
     opt ''stress_cdc_log_reader_batching_enable'' ''SCT_STRESS_CDC_LOG_READER_BATCHING_ENABLE'' T_boolean,
     opt ''use_legacy_cluster_init'' ''SCT_USE_LEGACY_CLUSTER_INIT'' T_boolean,
     opt ''availability_zone'' ''SCT_AVAILABILITY_ZONE'' T_str,
     opt ''aws_fallback_to_next_availability_zone'' ''SCT_AWS_FALLBACK_TO_NEXT_AVAILABILITY_ZONE'' T_boolean,
     opt ''num_nodes_to_rollback'' ''SCT_NUM_NODES_TO_ROLLBACK'' T_str,
     opt ''upgrade_sstables'' ''SCT_UPGRADE_SSTABLES'' T_boolean,
     opt ''stress_before_upgrade'' ''SCT_STRESS_BEFORE_UPGRADE'' T_str,
     opt ''stress_during_entire_upgrade'' ''SCT_STRESS_DURING_ENTIRE_UPGRADE'' T_str,
     opt ''stress_after_cluster_upgrade'' ''SCT_STRESS_AFTER_CLUSTER_UPGRADE'' T_str,
     opt ''jepsen_scylla_repo'' ''SCT_JEPSEN_SCYLLA_REPO'' T_str,
     opt ''jepsen_test_cmd'' ''SCT_JEPSEN_TEST_CMD'' T_str_or_list,
     opt ''jepsen_test_count'' ''SCT_JEPSEN_TEST_COUNT'' T_int,
     (opt ''jepsen_test_run_policy'' ''SCT_JEPSEN_TEST_RUN_POLICY'' T_str)\<lparr>co_choices := [CStr ''most'', CStr ''any'', CStr ''all'']\<rparr>,
     opt ''max_events_severities'' ''SCT_MAX_EVENTS_SEVERITIES'' T_str_or_list,
     opt ''scylla_rsyslog_setup'' ''SCT_SCYLLA_RSYSLOG_SETUP'' T_boolean,
     opt ''events_limit_in_email'' ''SCT_EVENTS_LIMIT_IN_EMAIL'' T_int]"

definition config_options_10 :: "config_option list" where
  "config_options_10 =
    [opt ''data_volume_disk_num'' ''SCT_DATA_VOLUME_DISK_NUM'' T_int,
     opt ''data_volume_disk_type'' ''SCT_DATA_VOLUME_DISK_TYPE'' T_str,
     opt ''data_volume_disk_size'' ''SCT_DATA_VOLUME_DISK_SIZE'' T_int,
     opt ''data_volume_disk_iops'' ''SCT_DATA_VOLUME_DISK_IOPS'' T_int,
     opt ''data_volume_disk_throughput'' ''SCT_DATA_VOLUME_DISK_THROUGHPUT'' T_int,
     opt ''run_db_node_benchmarks'' ''SCT_RUN_DB_NODE_BENCHMARKS'' T_boolean,
     (opt ''nemesis_selector'' ''SCT_NEMESIS_SELECTOR'' T_str_or_list)\<lparr>co_k8s_multitenancy_supported := True\<rparr>,
     (opt ''nemesis_exclude_disabled'' ''SCT_NEMESIS_EXCLUDE_DISABLED'' T_boolean)\<lparr>co_k8s_multitenancy_supported := True\<rparr>,
     (opt ''nemesis_multiply_factor'' ''SCT_NEMESIS_MULTIPLY_FACTOR'' T_int)\<lparr>co_k8s_multitenancy_supported := True\<rparr>,
     opt ''nemesis_double_load_during_grow_shrink_duration'' ''SCT_NEMESIS_DOUBLE_LOAD_DURING_GROW_SHRINK_DURATION'' T_int,
     opt ''raid_level'' ''SCT_RAID_LEVEL'' T_int,
     opt ''bare_loaders'' ''SCT_BARE_LOADERS'' T_boolean,
     opt ''stress_image'' ''SCT_STRESS_IMAGE'' T_dict_or_str,
     opt ''scylla_network_config'' ''SCT_SCYLLA_NETWORK_CONFIG'' T_list,
     opt ''enable_argus'' ''SCT_ENABLE_ARGUS'' T_boolean,
     opt ''cs_populating_distribution'' ''SCT_CS_POPULATING_DISTRIBUTION'' T_str,
     opt ''latte_schema_parameters'' ''SCT_LATTE_SCHEMA_PARAMETERS'' T_dict,
     opt ''num_loaders_step'' ''SCT_NUM_LOADERS_STEP'' T_int,
     opt ''stress_threads_start_num'' ''SCT_STRESS_THREADS_START_NUM'' T_int,
     opt ''num_threads_step'' ''SCT_NUM_THREADS_STEP'' T_int,
     opt ''stress_step_duration'' ''SCT_STRESS_STEP_DURATION'' T_str,
     opt ''max_deviation'' ''SCT_MAX_DEVIATION'' T_float,
     opt ''n_stress_process'' ''SCT_N_STRESS_PROCESS'' T_int,
     opt ''stress_process_step'' ''SCT_STRESS_PROCESS_STEP'' T_int,
     opt ''use_hdrhistogram'' ''SCT_USE_HDRHISTOGRAM'' T_boolean,
     opt ''stop_on_hw_perf_failure'' ''SCT_STOP_ON_HW_PERF_FAILURE'' T_boolean,
     opt ''custom_es_index'' ''SCT_CUSTOM_ES_INDEX'' T_str,
     (opt ''simulated_regions'' ''SCT_SIMULATED_REGIONS'' T_int)\<lparr>co_choices := [CInt 0, CInt 2, CInt 3, CInt 4, CInt 5]\<rparr>,
     opt ''simulated_racks'' ''SCT_SIMULATED_RACKS'' T_int,
     opt ''use_dns_names'' ''SCT_USE_DNS_NAMES'' T_boolean,
     opt ''validate_large_collections'' ''SCT_VALIDATE_LARGE_COLLECTIONS'' T_boolean,
     opt ''run_commit_log_check_thread'' ''SCT_RUN_COMMIT_LOG_CHECK_THREAD'' T_boolean,
     opt ''teardown_validators'' ''SCT_TEARDOWN_VALIDATORS'' T_dict_or_str,
     opt ''use_capacity_reservation'' ''SCT_USE_CAPACITY_RESERVATION'' T_boolean,
     opt ''bisect_start_date'' ''SCT_BISECT_START_DATE'' T_str,
     opt ''bisect_end_date'' ''SCT_BISECT_END_DATE'' T_str,
     (opt ''kafka_backend'' ''SCT_KAFKA_BACKEND'' T_str)\<lparr>co_choices := [CNone, CStr ''localstack'', CStr ''vm'', CStr ''msk'']\<rparr>,
     opt ''kafka_connectors'' ''SCT_KAFKA_CONNECTORS'' T_str_or_list_or_eval,
     opt ''run_scylla_doctor'' ''SCT_RUN_SCYLLA_DOCTOR'' T_boolean,
     opt ''skip_test_stages'' ''SCT_SKIP_TEST_STAGES'' T_dict_or_str,
     opt ''use_zero_nodes'' ''SCT_USE_ZERO_NODES'' T_boolean]"

definition config_options_11 :: "config_option list" where
  "config_options_11 =
    [opt ''n_db_zero_token_nodes'' ''SCT_N_DB_ZERO_TOKEN_NODES'' T_int_or_space_separated_ints,
     opt ''zero_token_instance_type_db'' ''SCT_ZERO_TOKEN_INSTANCE_TYPE_DB'' T_str,
     opt ''sct_aws_account_id'' ''SCT_AWS_ACCOUNT_ID'' T_str,
     opt ''latency_decorator_error_thresholds'' ''SCT_LATENCY_DECORATOR_ERROR_THRESHOLDS'' T_dict_or_str,
     opt ''workload_name'' ''SCT_WORKLOAD_NAME'' T_str]"

definition config_options :: "config_option list" where
  "config_options = config_options_1 @
     config_options_2 @
     config_options_3 @
     config_options_4 @
     config_options_5 @
     config_options_6 @
     config_options_7 @
     config_options_8 @
     config_options_9 @
     config_options_10 @
     config_options_11"

section \<open>Lists of names\<close>

definition available_backends :: "string list" where
  "available_backends =
    [''azure'', ''baremetal'', ''docker'', ''aws'', ''aws-siren'', ''k8s-local-kind-aws'', ''k8s-eks'', ''gce'', ''gce-siren'',
     ''k8s-local-kind-gce'', ''k8s-gke'', ''k8s-local-kind'']"

definition required_params :: "string list" where
  "required_params =
    [''cluster_backend'', ''test_duration'', ''n_db_nodes'', ''n_loaders'', ''use_preinstalled_scylla'',
     ''user_credentials_path'', ''root_disk_size_db'', ''root_disk_size_monitor'', ''root_disk_size_loader'']"

definition stress_cmd_params :: "string list" where
  "stress_cmd_params =
    [''gemini_cmd'', ''stress_cmd'', ''stress_read_cmd'', ''stress_cmd_w'', ''stress_cmd_r'', ''stress_cmd_m'',
     ''prepare_write_cmd'', ''stress_cmd_no_mv'', ''stress_cmd_no_mv_profile'', ''prepare_stress_cmd'', ''stress_cmd_1'',
     ''stress_cmd_complex_prepare'', ''prepare_write_stress'', ''stress_cmd_read_10m'', ''stress_cmd_read_cl_one'',
     ''stress_cmd_read_80m'', ''stress_cmd_complex_verify_read'', ''stress_cmd_complex_verify_more'',
     ''write_stress_during_entire_test'', ''verify_data_after_entire_test'', ''stress_cmd_read_cl_quorum'',
     ''verify_stress_after_cluster_upgrade'', ''stress_cmd_complex_verify_delete'', ''stress_cmd_lwt_mixed'',
     ''stress_cmd_lwt_de'', ''stress_cmd_lwt_dc'', ''stress_cmd_lwt_ue'', ''stress_cmd_lwt_uc'', ''stress_cmd_lwt_ine'',
     ''stress_cmd_lwt_d'', ''stress_cmd_lwt_u'', ''stress_cmd_lwt_i'']"

definition ami_id_params :: "string list" where
  "ami_id_params =
    [''ami_id_db_scylla'', ''ami_id_loader'', ''ami_id_monitor'', ''ami_id_db_cassandra'', ''ami_id_db_oracle'']"

definition aws_supported_regions :: "string list" where
  "aws_supported_regions =
    [''eu-west-1'', ''eu-west-2'', ''us-west-2'', ''us-east-1'', ''eu-north-1'', ''eu-central-1'']"

definition backend_required_params :: "(string, string list) dict" where
  "backend_required_params =
    [(''aws'', [''user_prefix'', ''instance_type_loader'', ''instance_type_monitor'', ''instance_type_db'', ''region_name'',
        ''ami_id_db_scylla'', ''ami_id_loader'', ''ami_id_monitor'', ''aws_root_disk_name_monitor'',
        ''ami_db_scylla_user'', ''ami_monitor_user'', ''scylla_network_config'']),
     (''gce'', [''user_prefix'', ''gce_network'', ''gce_image_db'', ''gce_image_username'', ''gce_instance_type_db'',
        ''gce_root_disk_type_db'', ''gce_n_local_ssd_disk_db'', ''gce_instance_type_loader'',
        ''gce_root_disk_type_loader'', ''gce_n_local_ssd_disk_loader'', ''gce_instance_type_monitor'',
        ''gce_root_disk_type_monitor'', ''gce_n_local_ssd_disk_monitor'', ''gce_datacenter'']),
     (''azure'', [''user_prefix'', ''azure_image_db'', ''azure_image_username'', ''azure_instance_type_db'',
        ''azure_root_disk_type_db'', ''azure_n_local_ssd_disk_db'', ''azure_instance_type_loader'',
        ''azure_root_disk_type_loader'', ''azure_n_local_ssd_disk_loader'', ''azure_instance_type_monitor'',
        ''azure_n_local_ssd_disk_monitor'', ''azure_region_name'']),
     (''docker'', [''user_credentials_path'', ''scylla_version'']),
     (''baremetal'', [''s3_baremetal_config'', ''db_nodes_private_ip'', ''db_nodes_public_ip'', ''user_credentials_path'']),
     (''aws-siren'', [''user_prefix'', ''instance_type_loader'', ''region_name'', ''cloud_credentials_path'', ''nemesis_filter_seeds'']),
     (''gce-siren'', [''user_prefix'', ''gce_network'', ''gce_image_username'', ''gce_instance_type_db'', ''gce_root_disk_type_db'',
        ''gce_n_local_ssd_disk_db'', ''gce_instance_type_loader'', ''gce_root_disk_type_loader'',
        ''gce_n_local_ssd_disk_loader'', ''gce_instance_type_monitor'', ''gce_root_disk_type_monitor'',
        ''gce_n_local_ssd_disk_monitor'', ''gce_datacenter'']),
     (''k8s-local-kind'', [''user_credentials_path'', ''scylla_version'', ''scylla_mgmt_agent_version'', ''k8s_scylla_operator_helm_repo'',
        ''k8s_scylla_cluster_name'', ''k8s_scylla_disk_gi'', ''mini_k8s_version'', ''mgmt_docker_image'']),
     (''k8s-local-kind-aws'', [''user_credentials_path'', ''scylla_version'', ''scylla_mgmt_agent_version'', ''k8s_scylla_operator_helm_repo'',
        ''k8s_scylla_cluster_name'', ''k8s_scylla_disk_gi'', ''mini_k8s_version'', ''mgmt_docker_image'']),
     (''k8s-local-kind-gce'', [''user_credentials_path'', ''scylla_version'', ''scylla_mgmt_agent_version'', ''k8s_scylla_operator_helm_repo'',
        ''k8s_scylla_cluster_name'', ''k8s_scylla_disk_gi'', ''mini_k8s_version'', ''mgmt_docker_image'']),
     (''k8s-gke'', [''gke_cluster_version'', ''gce_instance_type_db'', ''gce_root_disk_type_db'', ''gce_n_local_ssd_disk_db'',
        ''user_credentials_path'', ''scylla_version'', ''scylla_mgmt_agent_version'', ''k8s_scylla_operator_helm_repo'',
        ''k8s_scylla_cluster_name'', ''k8s_loader_cluster_name'', ''gce_instance_type_loader'', ''gce_image_monitor'',
        ''gce_instance_type_monitor'', ''gce_root_disk_type_monitor'', ''gce_n_local_ssd_disk_monitor'',
        ''mgmt_docker_image'']),
     (''k8s-eks'', [''instance_type_loader'', ''instance_type_monitor'', ''instance_type_db'', ''region_name'', ''ami_id_db_scylla'',
        ''ami_id_monitor'', ''aws_root_disk_name_monitor'', ''ami_db_scylla_user'', ''ami_monitor_user'',
        ''user_credentials_path'', ''scylla_version'', ''scylla_mgmt_agent_version'',
        ''k8s_scylla_operator_docker_image'', ''k8s_scylla_cluster_name'', ''k8s_loader_cluster_name'',
        ''mgmt_docker_image'', ''eks_service_ipv4_cidr'', ''eks_vpc_cni_version'', ''eks_role_arn'',
        ''eks_cluster_version'', ''eks_nodegroup_role_arn''])]"

definition defaults_config_files :: "(string, string list) dict" where
  "defaults_config_files =
    [(''aws'', [''defaults/aws_config.yaml'']),
     (''gce'', [''defaults/gce_config.yaml'']),
     (''azure'', [''defaults/azure_config.yaml'']),
     (''docker'', [''defaults/docker_config.yaml'']),
     (''baremetal'', [''defaults/baremetal_config.yaml'']),
     (''aws-siren'', [''defaults/aws_config.yaml'']),
     (''gce-siren'', [''defaults/gce_config.yaml'']),
     (''k8s-local-kind'', [''defaults/k8s_local_kind_config.yaml'']),
     (''k8s-local-kind-aws'', [''defaults/aws_config.yaml'', ''defaults/k8s_local_kind_aws_config.yaml'',
        ''defaults/k8s_local_kind_config.yaml'']),
     (''k8s-local-kind-gce'', [''defaults/k8s_local_kind_gce_config.yaml'', ''defaults/k8s_local_kind_config.yaml'']),
     (''k8s-gke'', [''defaults/gce_config.yaml'', ''defaults/k8s_gke_config.yaml'']),
     (''k8s-eks'', [''defaults/aws_config.yaml'', ''defaults/k8s_eks_config.yaml''])]"

definition per_provider_multi_region_params :: "(string, string list) dict" where
  "per_provider_multi_region_params =
    [(''aws'', [''region_name'', ''n_db_nodes'', ''ami_id_db_scylla'', ''ami_id_loader'']),
     (''gce'', [''gce_datacenter'', ''n_db_nodes''])]"

end
