(* ===== verification/Config.thy ===== *)
theory Config
  imports Config_Options
begin

text \<open>
  The configuration of a test, \<open>sdcm/sct_config.py\<close>: the conversion of values, the merge of the sources, the reading of the
  environment and of options.
\<close>

section \<open>Conversions\<close>

text \<open>
  What the conversions use and the configuration does not define: \<open>ast.literal_eval\<close> and \<open>yaml.safe_load\<close>, \<open>str\<close> of the
  values that are not plain, \<open>float\<close> and \<open>dict\<close>, and the file system; \<open>None\<close> when a call raises.
\<close>

record py_lib =
  literal_eval :: "string \<Rightarrow> cval option"
  safe_load :: "string \<Rightarrow> cval option"
  str_of :: "cval \<Rightarrow> string"
  float_of :: "cval \<Rightarrow> rat option"
  dict_of :: "cval \<Rightarrow> cval option"
  is_file :: "string \<Rightarrow> bool"

definition py_str :: "py_lib \<Rightarrow> cval \<Rightarrow> string" where
  "py_str L v = (case v of CStr s \<Rightarrow> s | CInt i \<Rightarrow> str_int i | CBool b \<Rightarrow> (if b then ''True'' else ''False'') | CNone \<Rightarrow> ''None'' | _ \<Rightarrow> str_of L v)"

definition truthy :: "cval \<Rightarrow> bool" where
  "truthy v = (case v of CNone \<Rightarrow> False | CStr s \<Rightarrow> s \<noteq> [] | CInt i \<Rightarrow> i \<noteq> 0 | CBool b \<Rightarrow> b | CFloat x \<Rightarrow> x \<noteq> 0
     | CList xs \<Rightarrow> xs \<noteq> [] | CDict d \<Rightarrow> d \<noteq> [])"

text \<open>\<open>int\<close> of a text: spaces around, a sign, and single underscores between digits are allowed.\<close>

definition int_of_text :: "string \<Rightarrow> int option" where
  "int_of_text s = (let t = py_strip s;
       neg = (t \<noteq> [] \<and> hd t = CHR ''-''); body = (if t \<noteq> [] \<and> (hd t = CHR ''-'' \<or> hd t = CHR ''+'') then tl t else t);
       ps = py_split (CHR ''_'') body
     in if list_all (\<lambda>p. p \<noteq> [] \<and> list_all is_digit p) ps
        then Some (if neg then - int (nat_of_digits (concat ps)) else int (nat_of_digits (concat ps))) else None)"

definition int_of :: "cval \<Rightarrow> int option" where
  "int_of v = (case v of CInt i \<Rightarrow> Some i | CBool b \<Rightarrow> Some (if b then 1 else 0) | CFloat x \<Rightarrow> Some (py_trunc x) | CStr s \<Rightarrow> int_of_text s | _ \<Rightarrow> None)"

definition strtobool :: "string \<Rightarrow> bool option" where
  "strtobool s = (let t = py_lower s in
     if t \<in> {''y'', ''yes'', ''t'', ''true'', ''on'', ''1''} then Some True
     else if t \<in> {''n'', ''no'', ''f'', ''false'', ''off'', ''0''} then Some False else None)"

definition is_str :: "cval \<Rightarrow> bool" where "is_str v = (case v of CStr s \<Rightarrow> True | _ \<Rightarrow> False)"

definition str_or_list :: "cval \<Rightarrow> cval option" where
  "str_or_list v = (case v of CStr s \<Rightarrow> Some (CList [v]) | CList xs \<Rightarrow> if list_all is_str xs then Some v else None | _ \<Rightarrow> None)"

definition str_or_list_or_eval :: "py_lib \<Rightarrow> cval \<Rightarrow> cval option" where
  "str_or_list_or_eval L v = (case v of
     CStr s \<Rightarrow> (case literal_eval L s of Some x \<Rightarrow> Some x | None \<Rightarrow> Some (CList (if s = [] then [] else [CStr s])))
   | CList xs \<Rightarrow> Some (CList (map (\<lambda>x. case x of
       CStr s \<Rightarrow> (case literal_eval L s of Some y \<Rightarrow> y | None \<Rightarrow> CStr s) | _ \<Rightarrow> CStr (py_str L x)) xs))
   | _ \<Rightarrow> None)"

definition int_or_space_separated_ints :: "cval \<Rightarrow> cval option" where
  "int_or_space_separated_ints v = (case int_of v of Some i \<Rightarrow> Some (CInt i)
   | None \<Rightarrow> (case v of CStr s \<Rightarrow> if list_all (\<lambda>w. int_of_text w \<noteq> None) (py_words s) then Some v else None | _ \<Rightarrow> None))"

definition dict_or_str :: "py_lib \<Rightarrow> cval \<Rightarrow> cval option" where
  "dict_or_str L v = (case v of CStr s \<Rightarrow> (case literal_eval L s of Some x \<Rightarrow> Some x | None \<Rightarrow> safe_load L s) | CDict d \<Rightarrow> Some v | _ \<Rightarrow> None)"

definition dict_or_str_or_pydantic :: "py_lib \<Rightarrow> cval \<Rightarrow> cval option" where
  "dict_or_str_or_pydantic L v = (case v of CStr s \<Rightarrow> literal_eval L s | CDict d \<Rightarrow> Some v | _ \<Rightarrow> None)"

definition boolean :: "cval \<Rightarrow> cval option" where
  "boolean v = (case v of CBool b \<Rightarrow> Some v | CStr s \<Rightarrow> map_option CBool (strtobool s) | _ \<Rightarrow> None)"

text \<open>\<open>list(value)\<close>\<close>

definition list_of :: "cval \<Rightarrow> cval list option" where
  "list_of v = (case v of CList xs \<Rightarrow> Some xs | CStr s \<Rightarrow> Some (map (\<lambda>c. CStr [c]) s) | CDict d \<Rightarrow> Some (map (CStr \<circ> fst) d) | _ \<Rightarrow> None)"

text \<open>\<open>opt['type'](value)\<close>\<close>

fun convert :: "py_lib \<Rightarrow> opt_type \<Rightarrow> cval \<Rightarrow> cval option" where
  "convert L T_str v = Some (CStr (py_str L v))"
| "convert L T_only_str v = (if is_str v then Some v else None)"
| "convert L T_file v = (case v of CStr s \<Rightarrow> if is_file L s then Some v else None | _ \<Rightarrow> None)"
| "convert L T_boolean v = boolean v"
| "convert L T_int v = map_option CInt (int_of v)"
| "convert L T_float v = map_option CFloat (float_of L v)"
| "convert L T_list v = map_option CList (list_of v)"
| "convert L T_dict v = dict_of L v"
| "convert L T_str_or_list v = str_or_list v"
| "convert L T_str_or_list_or_eval v = str_or_list_or_eval L v"
| "convert L T_int_or_space_separated_ints v = int_or_space_separated_ints v"
| "convert L T_dict_or_str v = dict_or_str L v"
| "convert L T_dict_or_str_or_pydantic v = dict_or_str_or_pydantic L v"

section \<open>Merging\<close>

type_synonym config = "(string, cval) dict"

definition get_config_option :: "config_option list \<Rightarrow> string \<Rightarrow> config_option res" where
  "get_config_option opts name = (case filter (\<lambda>o'. co_name o' = name) opts of [] \<Rightarrow> Inl IndexError | o' # os \<Rightarrow> Inr o')"

definition is_config_option_appendable :: "config_option list \<Rightarrow> string \<Rightarrow> bool res" where
  "is_config_option_appendable opts name = (case find (\<lambda>o'. co_name o' = name) opts of
     None \<Rightarrow> Inl ValueError
   | Some o' \<Rightarrow> Inr (case co_appendable o' of Some b \<Rightarrow> b
       | None \<Rightarrow> co_type o' \<in> {T_str, T_str_or_list_or_eval, T_str_or_list}))"

text \<open>
  One entry of the second dictionary: the first one after it, and whether the entry is used up. \<open>+=\<close> on a list takes the
  characters of the text one by one.
\<close>

definition merge_entry :: "config_option list \<Rightarrow> config \<Rightarrow> string \<times> cval \<Rightarrow> (config \<times> bool) res" where
  "merge_entry opts d1 kv = (case kv of (k, v) \<Rightarrow> (case v of
     CStr s \<Rightarrow> if \<not> starts_with s ''++'' then Inr (d1, False)
       else rbind (is_config_option_appendable opts k) (\<lambda>ok. if \<not> ok then Inl AssertionError
         else (case dget_default d1 k (CStr []) of
             CStr t \<Rightarrow> Inr (dset k (CStr (t @ drop 2 s)) d1, True)
           | CList xs \<Rightarrow> Inr (dset k (CList (xs @ map (\<lambda>c. CStr [c]) (drop 2 s))) d1, True)
           | _ \<Rightarrow> Inl TypeError))
   | CList (CStr s # rest) \<Rightarrow> if \<not> starts_with s ''++'' then Inr (d1, False)
       else rbind (is_config_option_appendable opts k) (\<lambda>ok. if \<not> ok then Inl AssertionError
         else (case dget_default d1 k (CList []) of
             CList xs \<Rightarrow> Inr (dset k (CList (xs @ rest)) d1, True)
           | _ \<Rightarrow> Inl AttributeError))
   | _ \<Rightarrow> Inr (d1, False)))"

text \<open>The first dictionary is changed in place, so it is there also when an entry raises.\<close>

fun merge_marked :: "config_option list \<Rightarrow> config \<Rightarrow> config \<Rightarrow> config \<times> config res" where
  "merge_marked opts d1 [] = (d1, Inr [])"
| "merge_marked opts d1 (kv # d2) = (case merge_entry opts d1 kv of
     Inl e \<Rightarrow> (d1, Inl e)
   | Inr (d, used) \<Rightarrow> (let (d', r) = merge_marked opts d d2 in (d', rbind r (\<lambda>left. Inr (if used then left else kv # left)))))"

text \<open>\<open>merge\<close> is \<open>anyconfig.merge\<close> with \<open>MS_DICTS\<close>.\<close>

definition merge_dicts_append_strings ::
  "(config \<Rightarrow> config \<Rightarrow> config) \<Rightarrow> config_option list \<Rightarrow> config \<Rightarrow> config \<Rightarrow> config \<times> unit res" where
  "merge_dicts_append_strings merge opts d1 d2 = (case merge_marked opts d1 d2 of
     (d, Inl e) \<Rightarrow> (d, Inl e) | (d, Inr left) \<Rightarrow> (merge d left, Inr ()))"

section \<open>The environment\<close>

definition py_insert :: "nat \<Rightarrow> 'a \<Rightarrow> 'a list \<Rightarrow> 'a list" where
  "py_insert i x xs = take i xs @ x # drop i xs"

definition nest_key :: "string \<Rightarrow> string" where
  "nest_key key = hd (tl (py_split (CHR ''.'') key))"

definition is_digits :: "string \<Rightarrow> bool" where "is_digits s \<longleftrightarrow> s \<noteq> [] \<and> list_all is_digit s"

definition nested_values :: "(string \<times> string) list \<Rightarrow> cval list \<times> (string, cval) dict" where
  "nested_values kvs = fold (\<lambda>(key, v) (l, d). if is_digits (nest_key key)
     then (py_insert (nat_of_digits (nest_key key)) (CStr v) l, d) else (l, dset (nest_key key) (CStr v) d)) kvs ([], [])"

definition load_option :: "py_lib \<Rightarrow> (string, string) dict \<Rightarrow> config_option \<Rightarrow> config \<Rightarrow> config res" where
  "load_option L environ o' vars =
     rbind (case dget environ (co_env o') of
         None \<Rightarrow> Inr vars
       | Some s \<Rightarrow> (case convert L (co_type o') (CStr s) of None \<Rightarrow> Inl ValueError | Some v \<Rightarrow> Inr (dset (co_name o') v vars)))
     (\<lambda>vars1. let nested = filter (\<lambda>(key, v). starts_with key (co_env o' @ ''.'')) environ in
       if nested = [] then Inr vars1
       else let (l, d) = nested_values nested in
         (case dget vars1 (co_name o') of
            Some (CDict (e # es)) \<Rightarrow> Inr (dset (co_name o') (CDict (fold (\<lambda>(k, v). dset k v) d (e # es))) vars1)
          | _ \<Rightarrow> (case convert L (co_type o') (if l \<noteq> [] then CList l else CDict d) of
              None \<Rightarrow> Inl (UnknownException ''conversion'') | Some v \<Rightarrow> Inr (dset (co_name o') v vars1))))"

fun load_environment :: "py_lib \<Rightarrow> (string, string) dict \<Rightarrow> config_option list \<Rightarrow> config \<Rightarrow> config res" where
  "load_environment L environ [] vars = Inr vars"
| "load_environment L environ (o' # os) vars = rbind (load_option L environ o' vars) (load_environment L environ os)"

definition load_environment_variables :: "py_lib \<Rightarrow> config_option list \<Rightarrow> (string, string) dict \<Rightarrow> config res" where
  "load_environment_variables L opts environ = load_environment L environ opts []"

section \<open>Reading options\<close>

text \<open>A configuration object: the dictionary, \<open>multi_region_params\<close>, and the environment it reads again for the regions.\<close>

record sct_config =
  sc_dict :: config
  sc_multi_region_params :: "string list"
  sc_environment :: config

definition cget :: "config \<Rightarrow> string \<Rightarrow> cval" where
  "cget d k = dget_default d k CNone"

definition strings_of :: "cval list \<Rightarrow> string list option" where
  "strings_of xs = those (map (\<lambda>v. case v of CStr s \<Rightarrow> Some s | _ \<Rightarrow> None) xs)"

text \<open>\<open>get\<close> of a key without a dot.\<close>

definition plain_get :: "sct_config \<Rightarrow> string \<Rightarrow> cval res" where
  "plain_get c key = (case cget (sc_dict c) key of
     CList xs \<Rightarrow> if key \<in> set (sc_multi_region_params c)
       then (case strings_of xs of None \<Rightarrow> Inl TypeError | Some ss \<Rightarrow> Inr (CStr (py_join '' '' ss))) else Inr (CList xs)
   | v \<Rightarrow> Inr v)"

fun dotted_walk :: "cval \<Rightarrow> string list \<Rightarrow> cval" where
  "dotted_walk v [] = v"
| "dotted_walk v (k # ks) = (case v of CDict d \<Rightarrow> dotted_walk (cget d k) ks | _ \<Rightarrow> v)"

definition dotted_get :: "sct_config \<Rightarrow> string \<Rightarrow> cval res" where
  "dotted_get c key = (let ks = py_split (CHR ''.'') key in rbind (plain_get c (hd ks)) (\<lambda>v. Inr (dotted_walk v (tl ks))))"

definition config_get :: "sct_config \<Rightarrow> string \<Rightarrow> cval res" where
  "config_get c key = (if CHR ''.'' \<in> set key
     then rbind (dotted_get c key) (\<lambda>v. if truthy v then Inr v else plain_get c key) else plain_get c key)"

text \<open>\<open>region_names\<close> and \<open>gce_datacenters\<close> differ in the option they read.\<close>

definition words_of_option :: "string \<Rightarrow> sct_config \<Rightarrow> string list res" where
  "words_of_option key c =
     rbind (case cget (sc_environment c) key of CNone \<Rightarrow> config_get c key | v \<Rightarrow> Inr v) (\<lambda>v.
       (case v of
          CNone \<Rightarrow> Inr []
        | CStr s \<Rightarrow> Inr (concat (map py_words (py_words s)))
        | CList xs \<Rightarrow> (case strings_of xs of None \<Rightarrow> Inl AttributeError | Some ss \<Rightarrow> Inr (concat (map py_words ss)))
        | _ \<Rightarrow> Inl TypeError))"

definition region_names :: "sct_config \<Rightarrow> string list res" where
  "region_names c = words_of_option ''region_name'' c"

definition gce_datacenters :: "sct_config \<Rightarrow> string list res" where
  "gce_datacenters c = words_of_option ''gce_datacenter'' c"

text \<open>\<open>int\<close> of every part of a text.\<close>

definition ints_of :: "string list \<Rightarrow> int list res" where
  "ints_of ws = (case those (map int_of_text ws) of None \<Rightarrow> Inl ValueError | Some is \<Rightarrow> Inr is)"

definition node_numbers :: "py_lib \<Rightarrow> cval \<Rightarrow> int list res" where
  "node_numbers L v = (case v of CInt i \<Rightarrow> Inr [i] | CBool b \<Rightarrow> Inr [if b then 1 else 0] | _ \<Rightarrow> ints_of (py_words (py_str L v)))"

definition total_db_nodes :: "py_lib \<Rightarrow> sct_config \<Rightarrow> int list res" where
  "total_db_nodes L c =
     rbind (config_get c ''use_zero_nodes'') (\<lambda>use. rbind (config_get c ''n_db_zero_token_nodes'') (\<lambda>z. rbind (config_get c ''n_db_nodes'') (\<lambda>n.
     rbind (node_numbers L z) (\<lambda>zero. rbind (node_numbers L n) (\<lambda>data.
       Inr (if truthy use \<and> zero \<noteq> [] then map (\<lambda>(a, b). a + b) (zip data zero) else data))))))"

section \<open>Building a configuration\<close>

text \<open>The values of the regions: a value that is there gets one more word for each region until it has as many.\<close>

fun add_region_values :: "py_lib \<Rightarrow> nat \<Rightarrow> (string \<times> cval) list \<Rightarrow> config \<Rightarrow> config res" where
  "add_region_values L n [] d = Inr d"
| "add_region_values L n ((k, v) # kvs) d = (case dget d k of
     None \<Rightarrow> add_region_values L n kvs (dset k v d)
   | Some (CStr s) \<Rightarrow> add_region_values L n kvs (if length (py_words s) < n then dset k (CStr (s @ '' '' @ py_str L v)) d else d)
   | Some _ \<Rightarrow> Inl AttributeError)"

fun add_regions :: "py_lib \<Rightarrow> nat \<Rightarrow> (string, (string \<times> cval) list) dict \<Rightarrow> string list \<Rightarrow> config \<Rightarrow> config res" where
  "add_regions L n data [] d = Inr d"
| "add_regions L n data (r # rs) d = (case dget data r of
     None \<Rightarrow> Inl ValueError
   | Some kvs \<Rightarrow> rbind (add_region_values L n kvs d) (add_regions L n data rs))"

definition apply_regions :: "py_lib \<Rightarrow> cval \<Rightarrow> (string, (string \<times> cval) list) dict \<Rightarrow> string list \<Rightarrow> config \<Rightarrow> config res" where
  "apply_regions L backend data regions d =
     (if backend \<notin> {CStr ''aws'', CStr ''aws-siren'', CStr ''k8s-eks''} then Inr d
      else if data \<noteq> [] then add_regions L (length regions) data regions d
      else if list_all (\<lambda>r. r \<in> set aws_supported_regions) regions then Inr d else Inl ValueError)"

text \<open>The user prefix: cut and cleaned.\<close>

definition prefix_char :: "char \<Rightarrow> char" where
  "prefix_char c = (if is_upper c \<or> is_lower c \<or> is_digit c \<or> c = CHR ''-'' then c else CHR ''-'')"

definition prefix_max_len :: "bool \<Rightarrow> bool \<Rightarrow> nat" where
  "prefix_max_len azure simulated = 35 - (if azure then 2 else 0) - (if simulated then 3 else 0)"

definition make_user_prefix :: "bool \<Rightarrow> bool \<Rightarrow> string \<Rightarrow> string" where
  "make_user_prefix azure simulated p = map prefix_char (take (prefix_max_len azure simulated) p)"

text \<open>
  The sources in their order: the images of the stress tools, the defaults of the backend, the configuration files, the data
  of the regions, the environment. A \<open>ValueError\<close> in the configuration files is only logged. \<open>regions_data\<close> is taken out
  of the dictionary; each of its values is a dictionary of options. The backend of the result is the constructor's
  local \<open>cluster_backend\<close>.
\<close>

definition regions_of :: "cval \<Rightarrow> (string, (string \<times> cval) list) dict" where
  "regions_of v = (case v of CDict d \<Rightarrow> map (\<lambda>(r, x). (r, case x of CDict kvs \<Rightarrow> kvs | _ \<Rightarrow> [])) d | _ \<Rightarrow> [])"

definition load_files :: "(config \<Rightarrow> config \<Rightarrow> config) \<Rightarrow> config_option list \<Rightarrow> config \<Rightarrow> config \<Rightarrow> config res \<Rightarrow> config res" where
  "load_files merge opts images defaults files = (case merge_dicts_append_strings merge opts images defaults of
     (d1, Inl e) \<Rightarrow> Inl e
   | (d1, Inr u) \<Rightarrow> rbind files (\<lambda>fs. (case merge_dicts_append_strings merge opts d1 fs of
       (d2, Inl e) \<Rightarrow> if e = ValueError then Inr d2 else Inl e
     | (d2, Inr u') \<Rightarrow> Inr d2)))"

definition load_sources ::
  "py_lib \<Rightarrow> (config \<Rightarrow> config \<Rightarrow> config) \<Rightarrow> config_option list \<Rightarrow> config \<Rightarrow> config \<Rightarrow> config res \<Rightarrow> config \<Rightarrow> (cval \<times> sct_config) res" where
  "load_sources L merge opts images defaults files env =
     (let params = dget_default per_provider_multi_region_params (py_str L (cget env ''cluster_backend'')) [];
          c = (\<lambda>d. \<lparr>sc_dict = d, sc_multi_region_params = params, sc_environment = env\<rparr>) in
      rbind (load_files merge opts images defaults files) (\<lambda>d2.
      let data = cget d2 ''regions_data''; d3 = (if truthy data then ddel ''regions_data'' d2 else d2) in
      rbind (config_get (c d3) ''cluster_backend'') (\<lambda>b.
      rbind (region_names (c d3)) (\<lambda>rs.
      let backend = dget_default env ''cluster_backend'' b in
      rbind (apply_regions L backend (if truthy data then regions_of data else []) rs d3) (\<lambda>d4.
      (case merge_dicts_append_strings merge opts d4 env of
         (d5, Inl e) \<Rightarrow> Inl e
       | (d5, Inr u) \<Rightarrow> Inr (backend, c d5)))))))"

text \<open>Step 9 of the constructor on the loaded options; \<open>user\<close> is \<open>getpass.getuser()\<close>.\<close>

definition gt_one :: "cval \<Rightarrow> bool res" where
  "gt_one v = (case v of CInt i \<Rightarrow> Inr (1 < i) | CBool b \<Rightarrow> Inr False | CFloat x \<Rightarrow> Inr (1 < x) | _ \<Rightarrow> Inl TypeError)"

definition or_else :: "cval \<Rightarrow> cval \<Rightarrow> cval" where "or_else v w = (if truthy v then v else w)"

definition set_user_prefix :: "py_lib \<Rightarrow> string \<Rightarrow> sct_config \<Rightarrow> sct_config res" where
  "set_user_prefix L user c =
     rbind (config_get c ''ami_id_db_scylla_desc'') (\<lambda>t. rbind (config_get c ''user_prefix'') (\<lambda>p.
     rbind (config_get c ''cluster_backend'') (\<lambda>b. rbind (config_get c ''simulated_regions'') (\<lambda>r. rbind (gt_one (or_else r (CInt 0))) (\<lambda>many.
       let tag = or_else t (CStr user); pre = or_else p (CStr user) in
       rbind (if tag \<noteq> pre then Inr (py_str L pre @ ''-'' @ py_str L tag) else (case pre of CStr s \<Rightarrow> Inr s | _ \<Rightarrow> Inl TypeError)) (\<lambda>text.
       Inr (c\<lparr>sc_dict := dset ''user_prefix'' (CStr (make_user_prefix (b = CStr ''azure'') many text)) (sc_dict c)\<rparr>)))))))"

section \<open>Which source wins\<close>

text \<open>A value with the mark \<open>++\<close>, and the values that replace what is there.\<close>

definition marked :: "cval \<Rightarrow> bool" where
  "marked v = (case v of CStr s \<Rightarrow> starts_with s ''++'' | CList (CStr s # xs) \<Rightarrow> starts_with s ''++'' | _ \<Rightarrow> False)"

definition plain_value :: "cval \<Rightarrow> bool" where
  "plain_value v = (\<not> marked v \<and> (case v of CDict d \<Rightarrow> False | _ \<Rightarrow> True))"

text \<open>What is relied on of \<open>anyconfig.merge\<close>: a value of the second dictionary that is no dictionary replaces the one of the first.\<close>

definition merges_dicts :: "(config \<Rightarrow> config \<Rightarrow> config) \<Rightarrow> bool" where
  "merges_dicts merge \<longleftrightarrow> (\<forall>d e k. (dget e k = None \<longrightarrow> dget (merge d e) k = dget d k) \<and>
     (\<forall>v. dget e k = Some v \<longrightarrow> plain_value v \<longrightarrow> dget (merge d e) k = Some v))"

fun layered :: "config list \<Rightarrow> string \<Rightarrow> cval option" where
  "layered [] k = None"
| "layered (d # ds) k = (case dget d k of Some v \<Rightarrow> Some v | None \<Rightarrow> layered ds k)"

definition settles :: "string \<Rightarrow> config \<Rightarrow> bool" where
  "settles k d = (distinct (map fst d) \<and> (case dget d k of None \<Rightarrow> True | Some v \<Rightarrow> plain_value v))"

lemma merge_entry_unmarked: "\<not> marked v \<Longrightarrow> merge_entry opts d (k, v) = Inr (d, False)"
  by (auto simp: merge_entry_def marked_def split: cval.splits list.splits)

lemma merge_entry_marked:
  assumes "merge_entry opts d (k, v) = Inr (d', used)" "marked v"
  shows "used" "k' \<noteq> k \<Longrightarrow> dget d' k' = dget d k'"
  using assms by (auto simp: merge_entry_def marked_def rbind_Inr_iff dget_dset split: cval.splits list.splits if_splits)

lemma merge_marked_left: "merge_marked opts d1 d2 = (d, Inr left) \<Longrightarrow> left = filter (\<lambda>kv. \<not> marked (snd kv)) d2"
proof (induction opts d1 d2 arbitrary: d left rule: merge_marked.induct)
  case (2 opts d1 kv d2)
  then obtain d' used where e: "merge_entry opts d1 kv = Inr (d', used)"
    by (auto split: sum.splits)
  from 2(2) e obtain rest where "merge_marked opts d' d2 = (d, Inr rest)" "left = (if used then rest else kv # rest)"
    by (auto simp: rbind_Inr_iff split: prod.splits)
  moreover have "used = marked (snd kv)"
    using e merge_entry_unmarked merge_entry_marked(1) by (cases kv) fastforce
  ultimately show ?case
    using 2(1) [OF e] by simp
qed simp

lemma merge_marked_keeps:
  "merge_marked opts d1 d2 = (d, r) \<Longrightarrow> list_all (\<lambda>kv. fst kv = k \<longrightarrow> \<not> marked (snd kv)) d2 \<Longrightarrow> dget d k = dget d1 k"
proof (induction opts d1 d2 arbitrary: d r rule: merge_marked.induct)
  case (2 opts d1 kv d2)
  show ?case
  proof (cases "merge_entry opts d1 kv")
    case (Inr p)
    obtain d' used where p: "p = (d', used)" by (cases p)
    with 2(2) Inr obtain r' where "merge_marked opts d' d2 = (d, r')"
      by (auto split: prod.splits)
    then have "dget d k = dget d' k"
      using 2(1) [OF Inr] 2(3) p by simp
    also have "\<dots> = dget d1 k"
      using Inr p 2(3) merge_entry_unmarked [of "snd kv" opts d1 "fst kv"] merge_entry_marked(2) [of opts d1 "fst kv" "snd kv" d' used k]
      by (cases "marked (snd kv)") auto
    finally show ?thesis .
  qed (use 2(2) in simp)
qed simp

lemma map_of_filter_value:
  "distinct (map fst d) \<Longrightarrow> dget (filter (\<lambda>kv. P (snd kv)) d) k = (case dget d k of None \<Rightarrow> None | Some v \<Rightarrow> if P v then Some v else None)"
  by (induction d) (auto simp: map_of_eq_None_iff split: option.splits)

lemma settles_unmarked: "settles k d \<Longrightarrow> list_all (\<lambda>kv. fst kv = k \<longrightarrow> \<not> marked (snd kv)) d"
  by (auto simp: settles_def list_all_iff plain_value_def dest: eq_key_imp_eq_value split: option.splits)

lemma merge_settles:
  assumes "merge_dicts_append_strings merge opts d1 d2 = (d, Inr u)" "merges_dicts merge" "settles k d2"
  shows "dget d k = (case dget d2 k of Some v \<Rightarrow> Some v | None \<Rightarrow> dget d1 k)"
proof -
  from assms(1) obtain d' left where m: "merge_marked opts d1 d2 = (d', Inr left)" and d: "d = merge d' left"
    by (auto simp: merge_dicts_append_strings_def split: prod.splits sum.splits)
  have l: "dget left k = dget d2 k"
    using assms(3) map_of_filter_value [of d2 "\<lambda>v. \<not> marked v" k]
    by (cases "dget d2 k") (simp_all add: merge_marked_left [OF m] settles_def plain_value_def)
  have "dget d' k = dget d1 k"
    by (rule merge_marked_keeps [OF m settles_unmarked [OF assms(3)]])
  then show ?thesis
    using assms(2,3) l by (cases "dget d2 k") (simp_all add: d merges_dicts_def settles_def)
qed

lemma merge_marked_unmarked: "list_all (\<lambda>kv. \<not> marked (snd kv)) d2 \<Longrightarrow> merge_marked opts d1 d2 = (d1, Inr d2)"
  by (induction d2) (auto simp: merge_entry_unmarked)

lemma load_files_layers:
  assumes "load_files merge opts images defaults (Inr files) = Inr d" "merges_dicts merge" "settles k defaults" "settles k files"
    and "list_all (\<lambda>kv. \<not> marked (snd kv)) files"
  shows "dget d k = layered [files, defaults, images] k"
proof -
  from assms(1) obtain d1 u where 1: "merge_dicts_append_strings merge opts images defaults = (d1, Inr u)"
    and 2: "(case merge_dicts_append_strings merge opts d1 files of
       (d2, Inl e) \<Rightarrow> if e = ValueError then Inr d2 else Inl e | (d2, Inr u') \<Rightarrow> Inr d2) = (Inr d :: config res)"
    by (auto simp: load_files_def split: prod.splits sum.splits)
  have "merge_dicts_append_strings merge opts d1 files = (merge d1 files, Inr ())"
    by (simp add: merge_dicts_append_strings_def merge_marked_unmarked assms(5))
  with 2 have "merge_dicts_append_strings merge opts d1 files = (d, Inr ())"
    by simp
  from merge_settles [OF this assms(2,4)] merge_settles [OF 1 assms(2,3)] show ?thesis
    by (simp split: option.splits)
qed

lemma apply_regions_elsewhere:
  "apply_regions L b data rs d = Inr d' \<Longrightarrow> b \<notin> {CStr ''aws'', CStr ''aws-siren'', CStr ''k8s-eks''} \<Longrightarrow> d' = d"
  unfolding apply_regions_def by (simp only: if_True not_False_eq_True simp_thms sum.inject)

lemma load_sources_steps:
  assumes "load_sources L merge opts images defaults files env = Inr (b, c)"
  obtains d2 d4 where "load_files merge opts images defaults files = Inr d2"
    "merge_dicts_append_strings merge opts d4 env = (sc_dict c, Inr ())"
    "b \<notin> {CStr ''aws'', CStr ''aws-siren'', CStr ''k8s-eks''} \<Longrightarrow> d4 = d2 \<or> d4 = ddel ''regions_data'' d2"
    "sc_multi_region_params c = dget_default per_provider_multi_region_params (py_str L (cget env ''cluster_backend'')) []"
proof -
  from assms obtain d2 d4 rs data b' where
      1: "load_files merge opts images defaults files = Inr d2"
    and a: "apply_regions L b' data rs (if truthy (cget d2 ''regions_data'') then ddel ''regions_data'' d2 else d2) = Inr d4"
    and 3: "(case merge_dicts_append_strings merge opts d4 env of (d5, Inl e) \<Rightarrow> Inl e
       | (d5, Inr u) \<Rightarrow> Inr (b', \<lparr>sc_dict = d5, sc_multi_region_params =
           dget_default per_provider_multi_region_params (py_str L (cget env ''cluster_backend'')) [], sc_environment = env\<rparr>)) =
       (Inr (b, c) :: (cval \<times> sct_config) res)"
    unfolding load_sources_def Let_def rbind_Inr_iff by blast
  have 2: "apply_regions L b data rs (if truthy (cget d2 ''regions_data'') then ddel ''regions_data'' d2 else d2) = Inr d4"
    using a 3 by (auto split: prod.splits sum.splits)
  show thesis
  proof (rule that [OF 1])
    show "merge_dicts_append_strings merge opts d4 env = (sc_dict c, Inr ())"
      "sc_multi_region_params c = dget_default per_provider_multi_region_params (py_str L (cget env ''cluster_backend'')) []"
      using 3 by (auto split: prod.splits sum.splits)
    show "d4 = d2 \<or> d4 = ddel ''regions_data'' d2" if "b \<notin> {CStr ''aws'', CStr ''aws-siren'', CStr ''k8s-eks''}"
      using apply_regions_elsewhere [OF 2 that] by (cases "truthy (cget d2 ''regions_data'')") simp_all
  qed
qed


text \<open>A merge without nested dictionaries, and sources with an option in all of them.\<close>

definition overwrite :: "config \<Rightarrow> config \<Rightarrow> config" where
  "overwrite d e = foldr (\<lambda>(k, v). dset k v) e d"

lemma overwrite_merges: "merges_dicts overwrite"
proof -
  have "dget (overwrite d e) k = (case dget e k of Some v \<Rightarrow> Some v | None \<Rightarrow> dget d k)" for d e k
    by (induction e) (auto simp: overwrite_def dget_dset)
  then show ?thesis
    by (simp add: merges_dicts_def)
qed

definition sample_lib :: py_lib where
  "sample_lib = \<lparr>literal_eval = (\<lambda>s. None), safe_load = (\<lambda>s. None), str_of = (\<lambda>v. []), float_of = (\<lambda>v. None),
     dict_of = (\<lambda>v. None), is_file = (\<lambda>s. True)\<rparr>"

definition sample_defaults :: config where
  "sample_defaults = [(''n_db_nodes'', CInt 3), (''seeds_num'', CInt 1), (''cluster_backend'', CStr ''docker'')]"

definition sample_files :: config where
  "sample_files = [(''n_db_nodes'', CInt 4), (''user_prefix'', CStr ''longevity'')]"

definition sample_environment :: config where
  "sample_environment = [(''n_db_nodes'', CInt 6)]"


text \<open>
  C38. A configuration file with a \<open>ValueError\<close> in it, as a text marked \<open>++\<close> for an option that the table does not have, is
  dropped: the constructor goes on, and no unmarked setting of the file is in the configuration.
\<close>

theorem config_file_dropped:
  assumes "merge_dicts_append_strings merge opts images defaults = (d1, Inr ())"
    and "merge_dicts_append_strings merge opts d1 files = (d2, Inl ValueError)"
    and "settles k files"
  shows "load_files merge opts images defaults (Inr files) = Inr d2 \<and> dget d2 k = dget d1 k"
proof -
  from assms(2) obtain r where "merge_marked opts d1 files = (d2, r)"
    by (auto simp: merge_dicts_append_strings_def split: prod.splits sum.splits)
  then have "dget d2 k = dget d1 k"
    by (rule merge_marked_keeps) (rule settles_unmarked [OF assms(3)])
  then show ?thesis
    by (simp add: load_files_def assms)
qed

definition sample_bad_file :: config where
  "sample_bad_file = [(''n_db_nodes'', CInt 6), (''no_such_option'', CStr ''++more'')]"

theorem config_file_dropped_witness:
  "load_files overwrite config_options_1 [] sample_defaults (Inr sample_bad_file) = Inr (overwrite [] sample_defaults) \<and>
   dget (overwrite [] sample_defaults) ''n_db_nodes'' = Some (CInt 3)"
proof -
  have m: "merge_dicts_append_strings overwrite config_options_1 [] sample_defaults = (overwrite [] sample_defaults, Inr ())"
    "merge_dicts_append_strings overwrite config_options_1 (overwrite [] sample_defaults) sample_bad_file = (overwrite [] sample_defaults, Inl ValueError)"
    "settles ''n_db_nodes'' sample_bad_file" "dget (overwrite [] sample_defaults) ''n_db_nodes'' = Some (CInt 3)"
    by code_simp+
  show ?thesis
    using config_file_dropped [OF m(1-3)] m(4) by (simp only: simp_thms)
qed


definition sample_config :: sct_config where
  "sample_config = \<lparr>sc_dict = [(''cluster_backend'', CStr ''azure''), (''user_prefix'', CStr ''longevity_with.a-rather/long name'')],
     sc_multi_region_params = [], sc_environment = []\<rparr>"


section \<open>Lists in the environment\<close>

lemma nest_key_item:
  assumes "CHR ''.'' \<notin> set e"
  shows "nest_key (e @ CHR ''.'' # str_nat i) = str_nat i"
proof -
  have "CHR ''.'' \<notin> set (str_nat i)"
    using str_nat_digits [of i] by (auto simp: list_all_iff is_digit_def char_code_def)
  with assms show ?thesis
    by (simp add: nest_key_def py_split_def py_split_acc_append py_split_acc_no_sep del: py_split_acc.simps)
qed

definition list_items :: "string \<Rightarrow> string list \<Rightarrow> (string \<times> string) list" where
  "list_items e xs = map (\<lambda>(i, x). (e @ ''.'' @ str_nat i, x)) (enumerate 0 xs)"

lemma nested_values_in_order: "CHR ''.'' \<notin> set e \<Longrightarrow> nested_values (list_items e xs) = (map CStr xs, [])"
proof (induction xs rule: rev_induct)
  case (snoc x xs)
  have "is_digits (str_nat i)" for i
    by (simp add: is_digits_def str_nat_digits)
  with snoc show ?case
    by (simp add: nested_values_def list_items_def enumerate_append_eq nest_key_item py_insert_def)
qed (simp add: nested_values_def list_items_def)

text \<open>
  A list that the environment gives item by item, \<open>SCT_X.0\<close>, \<open>SCT_X.1\<close> and so on, is read back whole when the variables are
  listed by their index; the index is only a position to insert at, so that the same variables in another order of the
  environment are another list.
\<close>

theorem nested_list_by_order:
  assumes "CHR ''.'' \<notin> set e"
  shows "nested_values (list_items e xs) = (map CStr xs, []) \<and>
    nested_values (rev (list_items e [a, b, c])) = ([CStr a, CStr c, CStr b], [])"
proof
  have d: "is_digits (str_nat i)" for i
    by (simp add: is_digits_def str_nat_digits)
  show "nested_values (rev (list_items e [a, b, c])) = ([CStr a, CStr c, CStr b], [])"
    using nest_key_item [OF assms] d by (simp add: nested_values_def list_items_def py_insert_def)
qed (rule nested_values_in_order [OF assms])

theorem nested_list_by_order_witness:
  "nested_values (list_items ''SCT_CONFIG_FILES'' [''a.yaml'', ''b.yaml'']) = (map CStr [''a.yaml'', ''b.yaml''], []) \<and>
   nested_values (rev (list_items ''SCT_CONFIG_FILES'' [''a'', ''b'', ''c''])) = ([CStr ''a'', CStr ''c'', CStr ''b''], [])"
  by (rule nested_list_by_order) simp

end
