(* ===== verification/Config_Checks.thy ===== *)
theory Config_Checks
  imports Config
begin

text \<open>
  The checks of a configuration in \<open>sdcm/sct_config.py\<close>: those at the end of the constructor, and \<open>verify_configuration\<close>. Each
  one returns normally or raises; the calls that ask a cloud provider are parameters.
\<close>

section \<open>Values\<close>

fun check_all :: "('a \<Rightarrow> unit res) \<Rightarrow> 'a list \<Rightarrow> unit res" where
  "check_all f [] = Inr ()"
| "check_all f (x # xs) = rbind (f x) (\<lambda>u. check_all f xs)"

definition py_assert :: "bool \<Rightarrow> unit res" where "py_assert b = (if b then Inr () else Inl AssertionError)"

definition raise_if :: "bool \<Rightarrow> unit res" where "raise_if b = (if b then Inl ValueError else Inr ())"

text \<open>\<open>==\<close> on values: truth values are numbers.\<close>

definition number_of :: "cval \<Rightarrow> rat option" where
  "number_of v = (case v of CInt i \<Rightarrow> Some (of_int i) | CBool b \<Rightarrow> Some (if b then 1 else 0) | CFloat x \<Rightarrow> Some x | _ \<Rightarrow> None)"

definition py_eq :: "cval \<Rightarrow> cval \<Rightarrow> bool" where
  "py_eq a b = (case (number_of a, number_of b) of (Some x, Some y) \<Rightarrow> x = y | _ \<Rightarrow> a = b)"

definition number_res :: "cval \<Rightarrow> rat res" where
  "number_res v = (case number_of v of Some x \<Rightarrow> Inr x | None \<Rightarrow> Inl TypeError)"

definition int_res :: "cval \<Rightarrow> int res" where
  "int_res v = (case int_of v of Some i \<Rightarrow> Inr i | None \<Rightarrow> Inl (if is_str v then ValueError else TypeError))"

definition str_res :: "cval \<Rightarrow> string res" where
  "str_res v = (case v of CStr s \<Rightarrow> Inr s | _ \<Rightarrow> Inl AttributeError)"

text \<open>\<open>text in value\<close>\<close>

definition in_value :: "string \<Rightarrow> cval \<Rightarrow> bool res" where
  "in_value t v = (case v of CStr s \<Rightarrow> Inr (contains s t) | CList xs \<Rightarrow> Inr (CStr t \<in> set xs) | CDict d \<Rightarrow> Inr (dmem d t) | _ \<Rightarrow> Inl TypeError)"

section \<open>Names and values of the options\<close>

definition check_unexpected_sct_variables :: "config_option list \<Rightarrow> (string, string) dict \<Rightarrow> sct_config \<Rightarrow> unit res" where
  "check_unexpected_sct_variables opts environ c =
     rbind (raise_if (\<not> set (map (hd \<circ> py_split (CHR ''.'')) (filter (\<lambda>k. starts_with k ''SCT_'') (map fst environ))) \<subseteq> set (map co_env opts)))
     (\<lambda>u. raise_if (\<not> set (map fst (sc_dict c)) \<subseteq> set (map co_name opts)))"

text \<open>Whether a value that its type refuses may be a list of values, one for each tenant or each nemesis thread.\<close>

definition list_allowed :: "sct_config \<Rightarrow> config_option \<Rightarrow> cval \<Rightarrow> bool res" where
  "list_allowed c o' v =
     rbind (config_get c ''cluster_backend'') (\<lambda>b. rbind (str_res b) (\<lambda>backend. let k8s = starts_with backend ''k8s'' in
     rbind (if k8s then rbind (config_get c ''k8s_tenants_num'') gt_one else Inr False) (\<lambda>many.
     if k8s \<and> many \<and> co_k8s_multitenancy_supported o' \<and> (case v of CList xs \<Rightarrow> True | _ \<Rightarrow> False) then Inr True
     else rbind (config_get c ''nemesis_class_name'') (\<lambda>n.
       Inr (co_name o' = ''nemesis_selector'' \<and> (case n of CStr s \<Rightarrow> 1 < length (py_split (CHR '' '') s) | _ \<Rightarrow> False))))))"

text \<open>The values to check against the choices: the value, or its items where a list is allowed.\<close>

definition typed_values :: "py_lib \<Rightarrow> sct_config \<Rightarrow> config_option \<Rightarrow> cval list res" where
  "typed_values L c o' = (case config_get c (co_name o') of
     Inl e \<Rightarrow> rbind (list_allowed c o' (CList [])) (\<lambda>ok. Inl (if ok then e else ValueError))
   | Inr v \<Rightarrow> if convert L (co_type o') v \<noteq> None then Inr [v]
       else rbind (list_allowed c o' v) (\<lambda>ok. if \<not> ok then Inl ValueError
         else (case list_of v of
             None \<Rightarrow> Inl TypeError
           | Some xs \<Rightarrow> if list_all (\<lambda>x. convert L (co_type o') x \<noteq> None) xs then Inr xs else Inl ValueError)))"

definition validate_value :: "py_lib \<Rightarrow> sct_config \<Rightarrow> config_option \<Rightarrow> unit res" where
  "validate_value L c o' = rbind (typed_values L c o') (\<lambda>vs.
     py_assert (co_choices o' = [] \<or> list_all (\<lambda>x. list_ex (py_eq x) (co_choices o')) vs))"

definition validate_sct_variable_values :: "py_lib \<Rightarrow> config_option list \<Rightarrow> sct_config \<Rightarrow> unit res" where
  "validate_sct_variable_values L opts c = check_all (\<lambda>o'. if dmem (sc_dict c) (co_name o') then validate_value L c o' else Inr ()) opts"

section \<open>Backends\<close>

definition image_option :: "cval \<Rightarrow> string option res" where
  "image_option backend =
     (if backend = CStr ''aws'' then Inr (Some ''ami_id_db_scylla'')
      else if backend = CStr ''gce'' then Inr (Some ''gce_image_db'')
      else if backend = CStr ''azure'' then Inr (Some ''azure_image_db'')
      else if backend = CStr ''docker'' then Inr (Some ''docker_image'')
      else if backend = CStr ''baremetal'' then Inr (Some ''db_nodes_public_ip'')
      else rbind (in_value ''k8s'' backend) (\<lambda>k8s. Inr (if k8s then Some ''scylla_version'' else None)))"

fun all_set :: "sct_config \<Rightarrow> string list \<Rightarrow> bool res" where
  "all_set c [] = Inr True"
| "all_set c (k # ks) = rbind (config_get c k) (\<lambda>v. if truthy v then all_set c ks else Inr False)"

definition check_version_supplied :: "sct_config \<Rightarrow> cval \<Rightarrow> unit res" where
  "check_version_supplied c backend =
     rbind (config_get c ''use_preinstalled_scylla'') (\<lambda>pre. rbind (config_get c ''unified_package'') (\<lambda>pkg. rbind (config_get c ''db_type'') (\<lambda>db.
     rbind (if db = CStr ''cloud_scylla'' then Inr (Some ''cloud_cluster_id'') else image_option backend) (\<lambda>image.
     rbind (all_set c ((if \<not> truthy pre \<and> backend \<noteq> CStr ''baremetal'' \<and> \<not> truthy pkg then [''scylla_repo''] else []) @
              (case image of None \<Rightarrow> [] | Some o' \<Rightarrow> [o']))) py_assert))))"

definition check_backend_defaults :: "config_option list \<Rightarrow> string list \<Rightarrow> sct_config \<Rightarrow> unit res" where
  "check_backend_defaults opts required c =
     py_assert (list_all (\<lambda>o'. dmem (sc_dict c) (co_name o')) (filter (\<lambda>o'. co_name o' \<in> set required) opts))"

definition check_per_backend_required_values :: "config_option list \<Rightarrow> sct_config \<Rightarrow> cval \<Rightarrow> unit res" where
  "check_per_backend_required_values opts c backend = (case backend of
     CStr b \<Rightarrow> if b \<notin> set available_backends then Inl ValueError
       else rbind (config_get c ''db_type'') (\<lambda>db.
         rbind (dindex backend_required_params (if (b = ''aws'' \<or> b = ''gce'') \<and> db = CStr ''cloud_scylla'' then b @ ''-siren'' else b)) (\<lambda>required.
         check_backend_defaults opts required c))
   | _ \<Rightarrow> Inl ValueError)"

section \<open>Regions, nodes and zones\<close>

definition region_number :: "cval \<Rightarrow> nat" where
  "region_number v = (case v of CStr s \<Rightarrow> length (py_words s) | CList xs \<Rightarrow> length xs | _ \<Rightarrow> 1)"

fun region_counts :: "sct_config \<Rightarrow> string list \<Rightarrow> (string, nat) dict res" where
  "region_counts c [] = Inr []"
| "region_counts c (k # ks) = rbind (config_get c k) (\<lambda>v. rbind (region_counts c ks) (\<lambda>d. Inr ((k, region_number v) # d)))"

definition region_param_name :: "string \<Rightarrow> string" where
  "region_param_name backend = (if backend = ''aws'' then ''region_name'' else ''gce_datacenter'')"

definition check_multi_region_params :: "sct_config \<Rightarrow> string \<Rightarrow> unit res" where
  "check_multi_region_params c backend = rbind (region_counts c (sc_multi_region_params c)) (\<lambda>counts.
     if counts = [] then Inr ()
     else rbind (dindex counts (region_param_name backend)) (\<lambda>n. raise_if (\<not> list_all (\<lambda>(k, m). n = m) counts)))"

text \<open>The numbers of \<open>str(self.get('n_db_nodes')).split(' ')\<close>.\<close>

definition db_node_numbers :: "py_lib \<Rightarrow> sct_config \<Rightarrow> int list res" where
  "db_node_numbers L c = rbind (config_get c ''n_db_nodes'') (\<lambda>v. ints_of (py_split (CHR '' '') (py_str L v)))"

definition validate_seeds_number :: "py_lib \<Rightarrow> sct_config \<Rightarrow> unit res" where
  "validate_seeds_number L c =
     rbind (config_get c ''seeds_num'') (\<lambda>v. rbind (number_res v) (\<lambda>seeds. rbind (py_assert (0 < seeds)) (\<lambda>u.
     rbind (db_node_numbers L c) (\<lambda>ns. py_assert (sum_list ns = 0 \<or> seeds \<le> of_int (sum_list ns))))))"

definition validate_nemesis_can_run_on_non_seed :: "py_lib \<Rightarrow> sct_config \<Rightarrow> unit res" where
  "validate_nemesis_can_run_on_non_seed L c =
     rbind (config_get c ''nemesis_filter_seeds'') (\<lambda>f. rbind (config_get c ''nemesis_class_name'') (\<lambda>n.
     if f = CBool False \<or> n = CStr ''NoOpMonkey'' then Inr ()
     else rbind (config_get c ''seeds_num'') (\<lambda>v. rbind (db_node_numbers L c) (\<lambda>ns.
       rbind (config_get c ''add_node_cnt'') (\<lambda>a. rbind (int_res a) (\<lambda>add. rbind (number_res v) (\<lambda>seeds.
         py_assert (seeds < of_int (sum_list ns + add)))))))))"

definition az_count :: "sct_config \<Rightarrow> nat res" where
  "az_count c = rbind (config_get c ''availability_zone'') (\<lambda>v.
     if truthy v then rbind (str_res v) (\<lambda>s. Inr (length (py_split (CHR '','') s))) else Inr 1)"

definition validate_number_of_db_nodes_divides_by_az_number :: "py_lib \<Rightarrow> sct_config \<Rightarrow> unit res" where
  "validate_number_of_db_nodes_divides_by_az_number L c =
     rbind (config_get c ''cluster_backend'') (\<lambda>b. rbind (str_res b) (\<lambda>backend. if starts_with backend ''k8s'' then Inr ()
     else rbind (az_count c) (\<lambda>az. rbind (db_node_numbers L c) (\<lambda>ns. py_assert (list_all (\<lambda>n. n mod int az = 0) ns)))))"

definition validate_placement_group_required_values :: "sct_config \<Rightarrow> unit res" where
  "validate_placement_group_required_values c = rbind (config_get c ''use_placement_group'') (\<lambda>use.
     if \<not> truthy use then Inr ()
     else rbind (az_count c) (\<lambda>az. rbind (region_names c) (\<lambda>rs. py_assert (az = 1 \<and> length rs = 1))))"

definition validate_zero_token_backend_support :: "cval \<Rightarrow> unit res" where
  "validate_zero_token_backend_support backend = py_assert (backend = CStr ''aws'')"

section \<open>Stress commands, disks and instances\<close>

text \<open>\<open>f\<close> on every command of an option that is not \<open>None\<close>.\<close>

definition each_command :: "(cval \<Rightarrow> unit res) \<Rightarrow> cval \<Rightarrow> unit res" where
  "each_command f v = (case v of
     CNone \<Rightarrow> Inr ()
   | CStr s \<Rightarrow> if s = [] then Inr () else f v
   | _ \<Rightarrow> (case list_of v of
       None \<Rightarrow> Inl TypeError
     | Some xs \<Rightarrow> check_all (\<lambda>x. if \<not> truthy x then Inr () else (case x of CList ys \<Rightarrow> check_all f ys | _ \<Rightarrow> f x)) xs))"

definition strip_spaces :: "string \<Rightarrow> string" where
  "strip_spaces s = rev (dropWhile (\<lambda>c. c = CHR '' '') (rev (dropWhile (\<lambda>c. c = CHR '' '') s)))"

definition scylla_bench_command :: "cval \<Rightarrow> unit res" where
  "scylla_bench_command cmd = rbind (str_res cmd) (\<lambda>s. let t = strip_spaces s in
     raise_if (starts_with t ''scylla-bench'' \<and> \<not> (contains t ''-mode='' \<and> contains t ''-workload='')))"

definition verify_scylla_bench_mode_and_workload_parameters :: "sct_config \<Rightarrow> unit res" where
  "verify_scylla_bench_mode_and_workload_parameters c =
     check_all (\<lambda>k. rbind (config_get c k) (each_command scylla_bench_command)) stress_cmd_params"

definition verify_data_volume_configuration :: "sct_config \<Rightarrow> cval \<Rightarrow> unit res" where
  "verify_data_volume_configuration c backend =
     rbind (config_get c ''data_volume_disk_num'') (\<lambda>n. if py_eq n (CInt 0) then Inr ()
     else rbind (raise_if (backend \<notin> {CStr ''aws'', CStr ''k8s-eks''})) (\<lambda>u.
       rbind (all_set c [''data_volume_disk_size'', ''data_volume_disk_type'']) (\<lambda>ok. raise_if (\<not> ok))))"

definition validate_docker_backend_parameters :: "sct_config \<Rightarrow> unit res" where
  "validate_docker_backend_parameters c = rbind (config_get c ''use_mgmt'') (\<lambda>v. raise_if (truthy v))"

definition check_partition_range_with_data_validation_correctness :: "sct_config \<Rightarrow> unit res" where
  "check_partition_range_with_data_validation_correctness c =
     rbind (config_get c ''partition_range_with_data_validation'') (\<lambda>v. if \<not> truthy v then Inr ()
     else rbind (in_value ''-'' v) (\<lambda>dash. rbind (raise_if (\<not> dash)) (\<lambda>u. rbind (str_res v) (\<lambda>s.
       let ps = py_split (CHR ''-'') s; lo = hd ps; hi = hd (tl ps) in
       rbind (raise_if (\<not> (is_digits lo \<and> is_digits hi))) (\<lambda>u. raise_if (nat_of_digits hi < nat_of_digits lo))))))"

text \<open>What the providers answer on an instance type in a region or a zone.\<close>

record instance_types =
  aws_check_instance_type_supported :: "cval \<Rightarrow> string \<Rightarrow> bool"
  gce_check_if_machine_type_supported :: "cval \<Rightarrow> string \<Rightarrow> bool"
  azure_check_instance_type_available :: "cval \<Rightarrow> cval \<Rightarrow> bool"

definition GCE_SUPPORTED_REGIONS :: "(string, string) dict" where
  "GCE_SUPPORTED_REGIONS = [(''us-east1'', ''cd''), (''us-east4'', ''abc''), (''us-west1'', ''abc''), (''us-central1'', ''a'')]"

definition gce_zones_supported :: "instance_types \<Rightarrow> cval \<Rightarrow> string \<Rightarrow> unit res" where
  "gce_zones_supported I t dc = (case dget GCE_SUPPORTED_REGIONS dc of
     None \<Rightarrow> Inl TypeError
   | Some zones \<Rightarrow> py_assert (list_all (\<lambda>z. gce_check_if_machine_type_supported I t (dc @ ''-'' @ [z])) zones))"

definition instance_type_validation :: "instance_types \<Rightarrow> sct_config \<Rightarrow> unit res" where
  "instance_type_validation I c =
     rbind (config_get c ''nemesis_grow_shrink_instance_type'') (\<lambda>t. if \<not> truthy t then Inr ()
     else rbind (config_get c ''cluster_backend'') (\<lambda>backend.
       if backend = CStr ''aws'' then rbind (region_names c) (\<lambda>rs. py_assert (list_all (aws_check_instance_type_supported I t) rs))
       else if backend = CStr ''gce'' then rbind (gce_datacenters c) (check_all (gce_zones_supported I t))
       else if backend = CStr ''azure'' then rbind (config_get c ''azure_region_name'') (\<lambda>v.
         if \<not> truthy v then Inr ()
         else (case list_of v of None \<Rightarrow> Inl TypeError | Some rs \<Rightarrow> py_assert (list_all (azure_check_instance_type_available I t) rs)))
       else Inl ValueError))"

section \<open>Verification\<close>

definition verify_configuration ::
  "py_lib \<Rightarrow> instance_types \<Rightarrow> config_option list \<Rightarrow> (string, string) dict \<Rightarrow> sct_config \<Rightarrow> unit res" where
  "verify_configuration L I opts environ c =
     rbind (check_unexpected_sct_variables opts environ c) (\<lambda>u. rbind (validate_sct_variable_values L opts c) (\<lambda>u.
     rbind (config_get c ''cluster_backend'') (\<lambda>backend. rbind (config_get c ''db_type'') (\<lambda>db.
     rbind (check_version_supplied c backend) (\<lambda>u. rbind (check_per_backend_required_values opts c backend) (\<lambda>u.
     rbind (if backend \<in> {CStr ''aws'', CStr ''gce''} \<and> db \<noteq> CStr ''cloud_scylla''
            then rbind (config_get c ''simulated_regions'') (\<lambda>r. rbind (number_res (or_else r (CInt 0))) (\<lambda>n.
              if n < 2 then check_multi_region_params c (py_str L backend) else Inr ()))
            else Inr ()) (\<lambda>u.
     rbind (if backend = CStr ''docker'' then validate_docker_backend_parameters c else Inr ()) (\<lambda>u.
     rbind (verify_data_volume_configuration c backend) (\<lambda>u.
     rbind (config_get c ''n_db_nodes'') (\<lambda>n. rbind (if truthy n
       then rbind (validate_seeds_number L c) (\<lambda>u. rbind (validate_nemesis_can_run_on_non_seed L c) (\<lambda>u. validate_number_of_db_nodes_divides_by_az_number L c))
       else Inr ()) (\<lambda>u.
     rbind (config_get c ''use_zero_nodes'') (\<lambda>z. rbind (if truthy z then validate_zero_token_backend_support backend else Inr ()) (\<lambda>u.
     rbind (check_partition_range_with_data_validation_correctness c) (\<lambda>u.
     rbind (verify_scylla_bench_mode_and_workload_parameters c) (\<lambda>u.
     rbind (validate_placement_group_required_values c) (\<lambda>u. instance_type_validation I c))))))))))))))))"

section \<open>The end of the constructor\<close>

definition check_instance_provision :: "sct_config \<Rightarrow> unit res" where
  "check_instance_provision c = rbind (config_get c ''instance_provision'') (\<lambda>v.
     raise_if (v \<notin> {CStr ''spot'', CStr ''on_demand'', CStr ''spot_fleet'', CStr ''spot_low_price''}))"

definition check_authenticator :: "sct_config \<Rightarrow> unit res" where
  "check_authenticator c = rbind (config_get c ''authenticator'') (\<lambda>a.
     rbind (if a = CStr ''PasswordAuthenticator''
            then rbind (all_set c [''authenticator_password'', ''authenticator_user'']) (\<lambda>ok. raise_if (\<not> ok)) else Inr ()) (\<lambda>u.
     rbind (config_get c ''alternator_enforce_authorization'') (\<lambda>e. if truthy e
       then rbind (all_set c [''authenticator'', ''authorizer'']) (\<lambda>ok. raise_if (\<not> ok)) else Inr ())))"

definition set_option :: "string \<Rightarrow> cval \<Rightarrow> sct_config \<Rightarrow> sct_config" where
  "set_option k v c = c\<lparr>sc_dict := dset k v (sc_dict c)\<rparr>"

definition absolute_duration :: "string \<Rightarrow> sct_config \<Rightarrow> sct_config res" where
  "absolute_duration k c = rbind (config_get c k) (\<lambda>v. if truthy v then rbind (int_res v) (\<lambda>i. Inr (set_option k (CInt \<bar>i\<bar>) c)) else Inr c)"

definition GossipingPropertyFileSnitch :: string where
  "GossipingPropertyFileSnitch = ''org.apache.cassandra.locator.GossipingPropertyFileSnitch''"

definition force_snitch :: "sct_config \<Rightarrow> sct_config res" where
  "force_snitch c =
     rbind (config_get c ''simulated_regions'') (\<lambda>r. rbind (gt_one (or_else r (CInt 0))) (\<lambda>regions.
     rbind (if regions then Inr True else rbind (config_get c ''simulated_racks'') (\<lambda>k. gt_one (or_else k (CInt 0)))) (\<lambda>simulated.
     if \<not> simulated then Inr c
     else rbind (config_get c ''endpoint_snitch'') (\<lambda>s.
       rbind (if truthy s then rbind (str_res s) (\<lambda>t. py_assert (ends_with t ''GossipingPropertyFileSnitch'')) else Inr ()) (\<lambda>u.
       Inr (set_option ''endpoint_snitch'' (CStr GossipingPropertyFileSnitch) c))))))"

definition check_dns_names :: "sct_config \<Rightarrow> cval \<Rightarrow> unit res" where
  "check_dns_names c cluster_backend = rbind (config_get c ''use_dns_names'') (\<lambda>v. raise_if (truthy v \<and> cluster_backend \<noteq> CStr ''aws''))"

definition hashable :: "cval \<Rightarrow> bool" where
  "hashable v = (case v of CList xs \<Rightarrow> False | CDict d \<Rightarrow> False | _ \<Rightarrow> True)"

text \<open>One address: its name and its interface. \<open>number2word\<close> has words for three addresses.\<close>

definition check_address :: "nat \<Rightarrow> cval \<Rightarrow> (cval \<times> cval) res" where
  "check_address i a = (case a of
     CDict d \<Rightarrow> if \<not> list_all (\<lambda>k. cget d k \<noteq> CNone) [''address'', ''ip_type'', ''public'', ''nic'']
         then Inl (if i + 1 \<in> {1, 2, 3} then ValueError else KeyError)
       else if cget d ''ip_type'' = CStr ''ipv4'' \<and> py_eq (cget d ''nic'') (CInt 1) \<and> cget d ''public'' = CBool True then Inl ValueError
       else if hashable (cget d ''nic'') \<and> hashable (cget d ''address'') then Inr (cget d ''address'', cget d ''nic'') else Inl TypeError
   | _ \<Rightarrow> Inl AttributeError)"

fun check_addresses :: "nat \<Rightarrow> cval list \<Rightarrow> (cval \<times> cval) list res" where
  "check_addresses i [] = Inr []"
| "check_addresses i (a # as) = rbind (check_address i a) (\<lambda>p. rbind (check_addresses (i + 1) as) (\<lambda>ps. Inr (p # ps)))"

definition network_addresses :: "string list" where
  "network_addresses = [''listen_address'', ''rpc_address'', ''broadcast_rpc_address'', ''broadcast_address'', ''test_communication'']"

fun distinct_values :: "cval list \<Rightarrow> cval list" where
  "distinct_values [] = []"
| "distinct_values (v # vs) = (if list_ex (py_eq v) vs then distinct_values vs else v # distinct_values vs)"

definition check_network_config :: "sct_config \<Rightarrow> unit res" where
  "check_network_config c = rbind (config_get c ''scylla_network_config'') (\<lambda>v. if \<not> truthy v then Inr ()
     else (case list_of v of
         None \<Rightarrow> Inl TypeError
       | Some as \<Rightarrow> rbind (check_addresses 0 as) (\<lambda>ps.
           rbind (raise_if (\<not> list_all (\<lambda>n. CStr n \<in> set (map fst ps)) network_addresses)) (\<lambda>u.
           if 1 < length (distinct_values (map snd ps)) then rbind (region_names c) (\<lambda>rs. raise_if (2 \<le> length rs)) else Inr ()))))"

definition check_sni :: "sct_config \<Rightarrow> unit res" where
  "check_sni c = rbind (config_get c ''k8s_enable_sni'') (\<lambda>s. rbind (config_get c ''k8s_enable_tls'') (\<lambda>t. raise_if (truthy s \<and> \<not> truthy t)))"

definition check_zero_nodes :: "py_lib \<Rightarrow> sct_config \<Rightarrow> cval \<Rightarrow> unit res" where
  "check_zero_nodes L c cluster_backend = rbind (config_get c ''use_zero_nodes'') (\<lambda>use. if \<not> truthy use then Inr ()
     else rbind (validate_zero_token_backend_support cluster_backend) (\<lambda>u.
       rbind (config_get c ''n_db_zero_token_nodes'') (\<lambda>z. rbind (config_get c ''n_db_nodes'') (\<lambda>n. if \<not> truthy z then Inr ()
         else rbind (node_numbers L z) (\<lambda>zs. rbind (node_numbers L n) (\<lambda>ns. py_assert (length zs = length ns)))))))"

text \<open>
  What the constructor calls of other modules: the files (\<open>anyconfig.load\<close>, \<open>None\<close> for a \<open>ValueError\<close>), the look-up of images,
  versions and repositories (steps 4 to 8), the check of one item of \<open>run_fullscan\<close>, the capacity reservation, and the models of
  the Kafka connectors and of the backup parameters.
\<close>

record init_lib =
  path_exists :: "string \<Rightarrow> bool"
  load_yaml :: "string list \<Rightarrow> config option"
  lookups :: "sct_config \<Rightarrow> sct_config res"
  fullscan_item :: "cval \<Rightarrow> unit res"
  reserve_capacity :: "sct_config \<Rightarrow> sct_config res"
  kafka_connectors :: "cval \<Rightarrow> cval res"
  backup_parameters :: "cval \<Rightarrow> cval res"

definition check_fullscan :: "init_lib \<Rightarrow> sct_config \<Rightarrow> unit res" where
  "check_fullscan F c = rbind (config_get c ''run_fullscan'') (\<lambda>v. if \<not> truthy v then Inr ()
     else (case v of CList xs \<Rightarrow> check_all (fullscan_item F) xs | _ \<Rightarrow> Inl ValueError))"

definition replace_option :: "(cval \<Rightarrow> cval res) \<Rightarrow> string \<Rightarrow> sct_config \<Rightarrow> sct_config res" where
  "replace_option f k c = rbind (config_get c k) (\<lambda>v. if truthy v then rbind (f v) (\<lambda>w. Inr (set_option k w c)) else Inr c)"

definition finish_configuration :: "py_lib \<Rightarrow> init_lib \<Rightarrow> cval \<Rightarrow> sct_config \<Rightarrow> sct_config res" where
  "finish_configuration L F cluster_backend c =
     rbind (check_instance_provision c) (\<lambda>u. rbind (check_authenticator c) (\<lambda>u.
     rbind (absolute_duration ''stress_duration'' c) (\<lambda>c1. rbind (absolute_duration ''prepare_stress_duration'' c1) (\<lambda>c2.
     rbind (check_fullscan F c2) (\<lambda>u. rbind (force_snitch c2) (\<lambda>c3.
     rbind (check_dns_names c3 cluster_backend) (\<lambda>u. rbind (check_network_config c3) (\<lambda>u. rbind (check_sni c3) (\<lambda>u.
     rbind (reserve_capacity F c3) (\<lambda>c4.
     rbind (replace_option (kafka_connectors F) ''kafka_connectors'' c4) (\<lambda>c5.
     rbind (replace_option (backup_parameters F) ''mgmt_agent_backup_config'' c5) (\<lambda>c6.
     rbind (check_zero_nodes L c6 cluster_backend) (\<lambda>u. Inr c6)))))))))))))"

definition backend_config_files :: "py_lib \<Rightarrow> config \<Rightarrow> string list res" where
  "backend_config_files L env = (let backend = cget env ''cluster_backend'' in
     rbind (if truthy backend then dindex defaults_config_files (py_str L backend) else Inr []) (\<lambda>fs. Inr (''defaults/test_default.yaml'' # fs)))"

definition user_config_files :: "init_lib \<Rightarrow> config \<Rightarrow> config res" where
  "user_config_files F env = (case list_of (dget_default env ''config_files'' (CList [])) of
     None \<Rightarrow> Inl TypeError
   | Some xs \<Rightarrow> (case strings_of xs of
       None \<Rightarrow> Inl TypeError
     | Some fs \<Rightarrow> if list_all (path_exists F) fs then Inr (case load_yaml F fs of Some d \<Rightarrow> d | None \<Rightarrow> []) else Inl (UnknownException ''FileNotFoundError'')))"

definition new_configuration ::
  "py_lib \<Rightarrow> init_lib \<Rightarrow> (config \<Rightarrow> config \<Rightarrow> config) \<Rightarrow> config_option list \<Rightarrow> config \<Rightarrow> string \<Rightarrow> (string, string) dict \<Rightarrow> sct_config res" where
  "new_configuration L F merge opts images user environ =
     rbind (load_environment_variables L opts environ) (\<lambda>env. rbind (backend_config_files L env) (\<lambda>bfs.
     (case load_yaml F bfs of
        None \<Rightarrow> Inl ValueError
      | Some defaults \<Rightarrow> rbind (load_sources L merge opts images defaults (user_config_files F env) env) (\<lambda>(backend, c).
          rbind (lookups F c) (\<lambda>c1. rbind (set_user_prefix L user c1) (finish_configuration L F backend))))))"

section \<open>What verification guarantees\<close>

lemma check_all_iff: "check_all f xs = Inr () \<longleftrightarrow> list_all (\<lambda>x. f x = Inr ()) xs"
  by (induction xs) (auto simp: rbind_Inr_iff)

lemma py_assert_iff: "py_assert b = Inr () \<longleftrightarrow> b"
  by (simp add: py_assert_def)

lemma raise_if_iff: "raise_if b = Inr () \<longleftrightarrow> \<not> b"
  by (simp add: raise_if_def)

lemmas check_iffs = rbind_Inr_iff check_all_iff py_assert_iff raise_if_iff

lemma typed_values_convert: "typed_values L c o' = Inr vs \<Longrightarrow> list_all (\<lambda>v. convert L (co_type o') v \<noteq> None) vs"
  by (auto simp: typed_values_def rbind_Inr_iff split: sum.splits if_splits option.splits)

lemma validate_value_iff: "validate_value L c o' = Inr () \<longleftrightarrow> (\<exists>vs. typed_values L c o' = Inr vs \<and>
    list_all (\<lambda>v. convert L (co_type o') v \<noteq> None \<and> (co_choices o' = [] \<or> list_ex (py_eq v) (co_choices o'))) vs)"
  using typed_values_convert [of L c o'] by (fastforce simp: validate_value_def check_iffs list_all_iff)

lemma ex_unit: "(\<exists>u :: unit. P u) \<longleftrightarrow> P ()"
  by auto

lemma verify_configuration_steps:
  assumes "verify_configuration L I opts environ c = Inr ()"
  obtains backend n where "check_unexpected_sct_variables opts environ c = Inr ()" "validate_sct_variable_values L opts c = Inr ()"
    "config_get c ''cluster_backend'' = Inr backend" "check_per_backend_required_values opts c backend = Inr ()"
    "config_get c ''n_db_nodes'' = Inr n"
    "truthy n \<Longrightarrow> validate_seeds_number L c = Inr ()" "truthy n \<Longrightarrow> validate_number_of_db_nodes_divides_by_az_number L c = Inr ()"
  using assms unfolding verify_configuration_def rbind_Inr_iff ex_unit
proof (elim exE conjE)
  fix backend n
  assume u: "check_unexpected_sct_variables opts environ c = Inr ()" "validate_sct_variable_values L opts c = Inr ()"
      "config_get c ''cluster_backend'' = Inr backend" "check_per_backend_required_values opts c backend = Inr ()"
      "config_get c ''n_db_nodes'' = Inr n"
    and n: "(if truthy n then rbind (validate_seeds_number L c) (\<lambda>u. rbind (validate_nemesis_can_run_on_non_seed L c) (\<lambda>u.
         validate_number_of_db_nodes_divides_by_az_number L c)) else Inr ()) = Inr ()"
  show thesis
    by (rule that [OF u]) (use n in \<open>simp_all add: rbind_Inr_iff\<close>)
qed

lemma check_backend_defaults_iff:
  "check_backend_defaults opts required c = Inr () \<longleftrightarrow> set required \<inter> set (map co_name opts) \<subseteq> set (map fst (sc_dict c))"
  by (auto simp: check_backend_defaults_def py_assert_iff list_all_iff dmem_iff)

lemma dindex_Inr_iff: "dindex d k = Inr v \<longleftrightarrow> dget d k = Some v"
  by (simp add: dindex_def split: option.splits)

lemma required_lookup:
  assumes "(if b \<notin> B then Inl ValueError else rbind g (\<lambda>x. rbind (dindex P (if C x then k1 else k2)) (\<lambda>req. check_backend_defaults opts req c))) = Inr ()"
  shows "b \<in> B \<and> (\<exists>req. (dget P k2 = Some req \<or> dget P k1 = Some req) \<and> set req \<inter> set (map co_name opts) \<subseteq> set (map fst (sc_dict c)))"
  using assms unfolding rbind_Inr_iff check_backend_defaults_iff by (auto simp: rbind_Inr_iff dindex_Inr_iff check_backend_defaults_iff split: if_splits)

lemma required_values_present:
  assumes "check_per_backend_required_values opts c backend = Inr ()"
  shows "\<exists>b. backend = CStr b \<and> b \<in> set available_backends \<and>
    (\<exists>req. (dget backend_required_params b = Some req \<or> dget backend_required_params (b @ ''-siren'') = Some req) \<and>
      set req \<inter> set (map co_name opts) \<subseteq> set (map fst (sc_dict c)))"
proof (cases backend)
  case (CStr b)
  show ?thesis
    by (rule exI [of _ b], rule conjI [OF CStr], rule required_lookup)
      (rule assms [unfolded check_per_backend_required_values_def CStr cval.case])
qed (use assms in \<open>simp_all only: check_per_backend_required_values_def cval.case sum.distinct\<close>)


definition sample_options :: "config_option list" where
  "sample_options = [opt ''cluster_backend'' ''SCT_CLUSTER_BACKEND'' T_str, opt ''n_db_nodes'' ''SCT_N_DB_NODES'' T_int_or_space_separated_ints,
     opt ''seeds_num'' ''SCT_SEEDS_NUM'' T_int, opt ''add_node_cnt'' ''SCT_ADD_NODE_CNT'' T_int, opt ''docker_image'' ''SCT_DOCKER_IMAGE'' T_str,
     opt ''use_preinstalled_scylla'' ''SCT_USE_PREINSTALLED_SCYLLA'' T_boolean, opt ''data_volume_disk_num'' ''SCT_DATA_VOLUME_DISK_NUM'' T_int,
     opt ''user_credentials_path'' ''SCT_USER_CREDENTIALS_PATH'' T_str, opt ''scylla_version'' ''SCT_SCYLLA_VERSION'' T_str,
     (opt ''logs_transport'' ''SCT_LOGS_TRANSPORT'' T_str)\<lparr>co_choices := [CStr ''ssh'', CStr ''docker'', CStr ''syslog-ng'']\<rparr>]"

definition sample_verified :: sct_config where
  "sample_verified = \<lparr>sc_dict = [(''cluster_backend'', CStr ''docker''), (''n_db_nodes'', CStr ''2 4''), (''seeds_num'', CInt 2), (''add_node_cnt'', CInt 1),
     (''docker_image'', CStr ''scylladb/scylla''), (''use_preinstalled_scylla'', CBool True), (''data_volume_disk_num'', CInt 0),
     (''user_credentials_path'', CStr ''key''), (''scylla_version'', CStr ''6.2''), (''logs_transport'', CStr ''ssh'')],
     sc_multi_region_params = [], sc_environment = []\<rparr>"

definition all_types :: instance_types where
  "all_types = \<lparr>aws_check_instance_type_supported = (\<lambda>t r. True), gce_check_if_machine_type_supported = (\<lambda>t r. True),
     azure_check_instance_type_available = (\<lambda>t r. True)\<rparr>"

lemma sample_verified_accepted: "verify_configuration sample_lib all_types sample_options [(''SCT_SEEDS_NUM'', ''2''), (''HOME'', ''/root'')] sample_verified = Inr ()"
  by code_simp


text \<open>
  In a verified configuration with database nodes there is at least one seed, no more seeds than nodes, and, outside Kubernetes,
  every data centre's number of nodes is divisible by the number of availability zones.
\<close>

theorem verified_cluster:
  assumes "verify_configuration L I opts environ c = Inr ()" "config_get c ''n_db_nodes'' = Inr n" "truthy n"
  shows "\<exists>seeds v ns. config_get c ''seeds_num'' = Inr v \<and> number_of v = Some seeds \<and> 0 < seeds \<and> db_node_numbers L c = Inr ns \<and>
    (sum_list ns = 0 \<or> seeds \<le> of_int (sum_list ns)) \<and>
    (\<exists>b. config_get c ''cluster_backend'' = Inr (CStr b) \<and> (starts_with b ''k8s'' \<or>
      (\<exists>az. az_count c = Inr az \<and> list_all (\<lambda>m. m mod int az = 0) ns)))"
  using assms(1)
proof (rule verify_configuration_steps)
  fix n'
  assume "config_get c ''n_db_nodes'' = Inr n'" and "truthy n' \<Longrightarrow> validate_seeds_number L c = Inr ()"
    "truthy n' \<Longrightarrow> validate_number_of_db_nodes_divides_by_az_number L c = Inr ()"
  with assms(2,3) have s: "validate_seeds_number L c = Inr ()" and z: "validate_number_of_db_nodes_divides_by_az_number L c = Inr ()"
    by (simp_all only: sum.inject)
  from s obtain v seeds ns where v: "config_get c ''seeds_num'' = Inr v" "number_res v = Inr seeds" "0 < seeds" and ns: "db_node_numbers L c = Inr ns"
    and le: "sum_list ns = 0 \<or> seeds \<le> of_int (sum_list ns)"
    unfolding validate_seeds_number_def rbind_Inr_iff py_assert_iff ex_unit by blast
  have v': "number_of v = Some seeds"
    using v(2) by (simp add: number_res_def split: option.splits)
  from z obtain b where b: "config_get c ''cluster_backend'' = Inr b"
      "rbind (str_res b) (\<lambda>backend. if starts_with backend ''k8s'' then Inr ()
        else rbind (az_count c) (\<lambda>az. rbind (db_node_numbers L c) (\<lambda>ns. py_assert (list_all (\<lambda>n. n mod int az = 0) ns)))) = Inr ()"
    unfolding validate_number_of_db_nodes_divides_by_az_number_def rbind_Inr_iff [of "config_get c ''cluster_backend''"] by blast
  obtain K where K: "K = ''k8s''" by simp
  have "\<exists>t. b = CStr t \<and> (starts_with t ''k8s'' \<or> (\<exists>az. az_count c = Inr az \<and> list_all (\<lambda>m. m mod int az = 0) ns))"
    using b(2) ns unfolding K [symmetric] rbind_Inr_iff py_assert_iff
    by (cases b) (auto simp: str_res_def rbind_Inr_iff py_assert_iff split: if_splits)
  with v(1,3) v' ns le b(1) show ?thesis by blast
qed

lemma sample_verified_nodes: "config_get sample_verified ''n_db_nodes'' = Inr (CStr ''2 4'')" "truthy (CStr ''2 4'')"
  by code_simp+

theorem verified_cluster_witness:
  "\<exists>seeds v ns. config_get sample_verified ''seeds_num'' = Inr v \<and> number_of v = Some seeds \<and> 0 < seeds \<and>
    db_node_numbers sample_lib sample_verified = Inr ns \<and> (sum_list ns = 0 \<or> seeds \<le> of_int (sum_list ns)) \<and>
    (\<exists>b. config_get sample_verified ''cluster_backend'' = Inr (CStr b) \<and> (starts_with b ''k8s'' \<or>
      (\<exists>az. az_count sample_verified = Inr az \<and> list_all (\<lambda>m. m mod int az = 0) ns)))"
  by (rule verified_cluster [OF sample_verified_accepted sample_verified_nodes])

text \<open>
  C39. The check that the options of a multi-region cluster have a value for each region depends on the environment alone: if the
  backend is named in a configuration file and not in the environment, every configuration passes it.
\<close>

theorem multi_region_unchecked:
  assumes "load_sources L merge opts images defaults files env = Inr (b, c)" "dget env ''cluster_backend'' = None"
  shows "check_multi_region_params c backend = Inr ()"
  using assms(1)
proof (rule load_sources_steps)
  have "dget per_provider_multi_region_params ''None'' = None"
    by code_simp
  then have n: "dget_default per_provider_multi_region_params (py_str L (cget env ''cluster_backend'')) [] = []"
    using assms(2) by (simp only: cget_def dget_default_def py_str_def option.case cval.case)
  assume "sc_multi_region_params c = dget_default per_provider_multi_region_params (py_str L (cget env ''cluster_backend'')) []"
  with n show ?thesis
    by (simp add: check_multi_region_params_def)
qed

definition sample_regions :: config where
  "sample_regions = [(''cluster_backend'', CStr ''aws''), (''region_name'', CStr ''eu-west-1 us-east-1''), (''n_db_nodes'', CStr ''3 3 3'')]"

theorem multi_region_unchecked_witness:
  "case load_sources sample_lib overwrite sample_options [] [] (Inr sample_regions) [] of
     Inl e \<Rightarrow> False
   | Inr (b, c) \<Rightarrow> b = CStr ''aws'' \<and> check_multi_region_params c ''aws'' = Inr () \<and>
       check_multi_region_params (c\<lparr>sc_multi_region_params := [''region_name'', ''n_db_nodes'']\<rparr>) ''aws'' = Inl ValueError"
proof -
  have l: "load_sources sample_lib overwrite sample_options [] [] (Inr sample_regions) [] =
      Inr (CStr ''aws'', \<lparr>sc_dict = rev sample_regions, sc_multi_region_params = [], sc_environment = []\<rparr>)"
    by code_simp
  have n: "dget ([] :: config) ''cluster_backend'' = None"
    by code_simp
  have e: "check_multi_region_params (\<lparr>sc_dict = rev sample_regions, sc_multi_region_params = [], sc_environment = []\<rparr>
      \<lparr>sc_multi_region_params := [''region_name'', ''n_db_nodes'']\<rparr>) ''aws'' = Inl ValueError"
    by code_simp
  show ?thesis
    unfolding l sum.case prod.case using multi_region_unchecked [OF l n] e by (intro conjI refl) simp_all
qed

text \<open>
  A network configuration needs five addresses, but the words for the message about an incomplete one end at the third: an
  incomplete fourth or later address is not reported with \<open>ValueError\<close> but ends with \<open>KeyError\<close>.
\<close>

theorem late_address_unnamed:
  assumes "list_all (\<lambda>a. \<exists>p. \<forall>j. check_address j a = Inr p) before" "3 \<le> length before"
    and "cget d k = CNone" "k \<in> {''address'', ''ip_type'', ''public'', ''nic''}"
  shows "check_addresses 0 (before @ CDict d # after) = Inl KeyError"
proof -
  have bad: "check_address j (CDict d) = Inl KeyError" if "3 \<le> j" for j
  proof -
    have "\<not> list_all (\<lambda>k. cget d k \<noteq> CNone) [''address'', ''ip_type'', ''public'', ''nic'']"
      using assms(3,4) by (simp only: list_all_iff list.set) blast
    with that show ?thesis
      by (simp only: check_address_def cval.case if_True simp_thms) simp
  qed
  have "check_addresses i (before @ CDict d # after) = Inl KeyError" if "3 \<le> i + length before" for i
    using assms(1) that
  proof (induction before arbitrary: i)
    case Nil
    then show ?case using bad by simp
  next
    case (Cons a as)
    then obtain p where "check_address i a = Inr p" by auto
    with Cons show ?case by simp
  qed
  then show ?thesis using assms(2) by simp
qed

definition sample_address :: "string \<Rightarrow> cval" where
  "sample_address a = CDict [(''address'', CStr a), (''ip_type'', CStr ''ipv4''), (''public'', CBool False), (''nic'', CInt 0)]"

lemma sample_address_complete: "\<exists>p. \<forall>j. check_address j (sample_address a) = Inr p"
proof -
  have "check_address j (sample_address a) = Inr (CStr a, CInt 0)" for j
    by (simp add: check_address_def sample_address_def cget_def dget_default_def hashable_def)
  then show ?thesis by blast
qed

theorem late_address_unnamed_witness:
  "check_addresses 0 (map sample_address [''listen_address'', ''rpc_address'', ''broadcast_rpc_address''] @
     CDict [(''address'', CStr ''broadcast_address''), (''ip_type'', CStr ''ipv4''), (''public'', CBool False)] # [sample_address ''test_communication'']) = Inl KeyError"
proof (rule late_address_unnamed)
  show "list_all (\<lambda>a. \<exists>p. \<forall>j. check_address j a = Inr p) (map sample_address [''listen_address'', ''rpc_address'', ''broadcast_rpc_address''])"
    by (simp only: list.map list.pred_inject sample_address_complete simp_thms)
  show "cget [(''address'', CStr ''broadcast_address''), (''ip_type'', CStr ''ipv4''), (''public'', CBool False)] ''nic'' = CNone"
    by code_simp
qed simp_all

text \<open>
  A required parameter that the table of options does not have is never enforced: \<open>aws_root_disk_name_monitor\<close> is required on
  AWS, is not in the table, and every configuration passes or fails the check as without it.
\<close>

theorem required_option_unchecked:
  "(case dget backend_required_params ''aws'' of None \<Rightarrow> False | Some req \<Rightarrow> ''aws_root_disk_name_monitor'' \<in> set req \<and>
     check_backend_defaults config_options req c = check_backend_defaults config_options (removeAll ''aws_root_disk_name_monitor'' req) c)"
proof -
  obtain N where N: "N = ''aws_root_disk_name_monitor''" by simp
  have "list_all (\<lambda>o'. co_name o' \<noteq> ''aws_root_disk_name_monitor'') config_options"
    by code_simp
  then have "filter (\<lambda>o'. co_name o' \<in> set req) config_options = filter (\<lambda>o'. co_name o' \<in> set (removeAll N req)) config_options" for req
    by (intro filter_cong) (auto simp: list_all_iff N [symmetric])
  then have e: "check_backend_defaults config_options req c = check_backend_defaults config_options (removeAll N req) c" for req
    by (simp add: check_backend_defaults_def)
  have "case dget backend_required_params ''aws'' of None \<Rightarrow> False | Some req \<Rightarrow> ''aws_root_disk_name_monitor'' \<in> set req"
    by code_simp
  with e show ?thesis
    unfolding N [symmetric] by (simp split: option.splits)
qed

end
