(* ===== verification/Spec2Isabelle.thy ===== *)
theory Spec2Isabelle
  imports Events_Device Continuous File_Logger Event_Counter Grafana Analyzer Processes Db_Log_Reader
    Group_Filters Made_Events Health Nemesis_Table Nemesis_Lock Nemesis_Run Config_Checks
begin

text \<open>
  A verification development for the Scylla Cluster Tests (\<open>src/sdcm\<close>): the system of events, the reading and
  checking of a cluster's state, the selection and the running of nemeses, and the configuration of a test.

  \<^bold>\<open>The program.\<close> A test runs a load on a Scylla cluster while nemeses disrupt its nodes. Everything that
  happens is an event (\<open>sct_events\<close>): its class is registered with a maximal severity, it is printed with a
  template and published to the main device, which applies filters, limits its severity and hands it to the
  consumers: log files, counters, Grafana annotations, and the analyzer, which ends the test on a critical
  event. Readers of the database logs (\<open>db_log_reader.py\<close>) turn lines into events. A nemesis (\<open>nemesis.py\<close>)
  selects disruptions by the flags of its classes, and before and after each of them the cluster is checked: every
  node is asked for its view of the others (\<open>cluster.py\<close>, \<open>utils/health_checker.py\<close>) and of the Raft
  group 0 (\<open>utils/raft\<close>), and differences are tried again (\<open>utils/decorators.py\<close>, \<open>wait.py\<close>).
  What is run, and the limits of severities, come from the configuration (\<open>sct_config.py\<close>).

  \<^bold>\<open>How it is modelled.\<close> A class with state is a \<open>record\<close>, an enumeration a \<open>datatype\<close>, a method a function
  from the state and its arguments to a result and the new state. A dictionary is an association list, which keeps
  the order of insertion; an exception is a value of \<open>py_error\<close> in a sum; points of time are rational numbers; the
  counter of events is a \<open>32 word\<close>. What is not in the sources is an argument: clocks, random choices, the answers of
  nodes, the hash of strings. Generators and processes are functions on the list of what they receive.
  Names are those of the sources.

  \<^bold>\<open>The theories.\<close>
  \<^item> \<open>Prelude\<close>: results, dictionaries, strings and numbers of Python, loops that yield (locale \<open>gen_loop\<close>).
  \<^item> \<open>Pystd\<close>: regular expressions, \<open>fnmatch\<close> and \<open>str.format\<close>. The matcher computes all matches in the order of
    Python's backtracking.
  \<^item> \<open>Events_Base\<close>: \<open>sct_events/__init__.py\<close> and \<open>base.py\<close>. In every reachable registry an event has a maximal
    severity, the limit rule added last decides it, and an event is sent once for each time it is made ready.
  \<^item> \<open>Event_Text\<close>: the texts of events; durations can be read back.
  \<^item> \<open>Filters\<close>: \<open>filters.py\<close>, with the locale \<open>event_filter\<close> for what all filters share.
  \<^item> \<open>Events_Device\<close>: \<open>events_device.py\<close>. What leaves the device is within its limit and in order, a cancelled
    filter has exactly its time window, the collection of filters changes nothing, a stop drains the queue.
  \<^item> \<open>Continuous\<close>: \<open>continuous_event.py\<close>; the registry refines the set of open events (locale \<open>bucket_store\<close>).
  \<^item> \<open>File_Logger\<close>, \<open>Event_Counter\<close>, \<open>Grafana\<close>, \<open>Analyzer\<close>: the consumers. Logged events are read back, the
    histogram of stalls sums up, five annotations pass in a window, the test is killed at most once.
  \<^item> \<open>Processes\<close>: \<open>events_processes.py\<close> and \<open>setup.py\<close>: pipes are first in, first out; what was started is stopped.
  \<^item> \<open>Db_Events\<close>, \<open>Db_Log_Reader\<close>: the tables of log patterns and one poll of a log: complete lines are read once,
    backtraces are attached to the errors before them.
  \<^item> \<open>Group_Filters\<close>: the groups of filters of \<open>group_common_events.py\<close>; a group has no effect after its end.
  \<^item> \<open>Event_Init\<close>, \<open>Event_Printing\<close>, \<open>Made_Events\<close>: the constructors of all event classes; every event the program
    can make prints without an error.
  \<^item> \<open>Retrying\<close>: \<open>retrying\<close> and the waits; the value of the first call that succeeds in time.
  \<^item> \<open>Raft\<close>: \<open>utils/raft/__init__.py\<close>; the clean up of the group 0 ends and checks what it leaves.
  \<^item> \<open>Node_Status\<close>, \<open>Health\<close>: reading of \<open>nodetool\<close>, gossip and peers, and the checks: no finding exactly when all
    views agree, findings published only by the last attempt.
  \<^item> \<open>Nemesis_Classes\<close>, \<open>Nemesis_Select\<close>, \<open>Nemesis_Table\<close>: the classes of \<open>nemesis.py\<close> with their flags and the
    lines of their sources that call disruptions; the selection by flags is exact, rounds of disruptions are fair, and
    the set for the free tier is what its documentation says.
  \<^item> \<open>Nemesis_Targets\<close>: the pools, the choice and the marks of target nodes. A nemesis takes only a free node; nemeses
    that are active together have different targets as long as none starts with an old target that another one has
    taken, and without this condition two of them can share one.
  \<^item> \<open>Nemesis_Lock\<close>: the lock of exclusive disruptions, with the steps of all threads interleaved. An exclusive disruption
    runs alone; a kill at the wrong moment leaves the lock held for ever, or breaks the exclusion.
  \<^item> \<open>Nemesis_Run\<close>: \<open>disrupt_method_wrapper\<close> and the loop of the thread. However a disruption ends it is booked once, the
    books agree, and the loop ends as it should.
  \<^item> \<open>Config_Options\<close>, \<open>Config\<close>, \<open>Config_Checks\<close>: the table of options, the sources of a configuration and its checks
    (\<open>SCTConfiguration\<close>). The environment wins over the files and these over the defaults; what is verified has only
    known options with values of their types and choices; names are short and clean. Files with an error are dropped,
    and some checks check nothing: this is shown too.
  \<^item> This theory: the way from a limit in the configuration through the device to the analyzer.

  \<^bold>\<open>Loops and fuel.\<close> Loops over data are structural. The loop over the subclasses has the number of classes as fuel, which
  is shown to be enough for every table whose classes come after their bases. The loop that cleans the group 0
  is a function with its termination proof. Tries have their count as fuel, as in the code. Loops that poll are
  functions on the sequence of what they observe. The loop of a nemesis thread, which may go on for ever, has fuel and
  gives \<open>None\<close> without; more fuel than cycles is shown to be enough.

  \<^bold>\<open>Not modelled.\<close> The bodies of the disruptions, the tester, provisioning, remote commands, cloud and Kubernetes
  interfaces, the stress tools, the collection of logs and the reports: each of their steps is a call of a live system
  through a library that is not in the sources, and what they compute themselves is the text of a command. Of the
  configuration, the reading of YAML, the look-up of images, versions and repositories (parameters of
  \<open>new_configuration\<close>), the checks of files and URLs, and the dumps and help texts. Of the decorators, those that only
  measure and log; delays at the start of processes; the writing of log messages. The definitions for the
  conventions of Python (\<open>truthy\<close>, \<open>py_str\<close>, \<open>list_of\<close> and the like) model the language, not a line of the sources.
\<close>

section \<open>From a limit to the end of a test\<close>

text \<open>
  What the analyzer does of the events that leave the main device, with limit rules added to a registry: the texts it
  kills the test with.
\<close>

definition analyzed :: "env \<Rightarrow> types_registry \<Rightarrow> string list \<Rightarrow> time \<Rightarrow> (tick \<times> msg) list \<Rightarrow> analyzer \<times> string list" where
  "analyzed w reg rules perf inbound = run_gen (analyzer_step w True) \<lparr>stop_set = False, memo = False\<rparr>
     (snd (outbound_events w (add_severity_limit_rules reg rules) perf inbound))"

lemma outbound_limited: "y \<in> set (snd (outbound_events w reg perf inbound)) \<Longrightarrow> \<exists>m. max_severity reg (snd y) = Inr m \<and> severity (snd y) \<le> m"
  using outbound.loop_good [of "Inr (new_outbound perf)" y w reg inbound]
  by (auto simp: outbound_events_def within_limit_def filters_ok_def new_outbound_def)

lemma analyzer_idle:
  "list_all (\<lambda>y. severity (snd y) \<noteq> CRITICAL) ys \<Longrightarrow> run_gen (analyzer_step w tester) s ys = (s, [])"
  by (induction ys) (auto simp: analyzer_step_def analyze_step_def)

lemma limit_all:
  assumes "parse_limit_rule r = Inr (''*'', m)"
  shows "max_severity (add_severity_limit_rules reg (rs @ [r])) e = Inr m"
  using assms parse_limit_rule_nonempty [OF assms]
  by (simp add: max_severity_def max_severity_of_def add_severity_limit_rules_append fnmatch_filter_def severity_keys_def glob_star)

text \<open>
  C4. If the last limit rule of the configuration (\<open>max_events_severities\<close>) limits every class to a severity below critical, no
  sequence of events at the device, filters included, makes the analyzer stop or kill the test.
\<close>

theorem limited_test_survives:
  assumes "parse_limit_rule r = Inr (''*'', m)" "m < CRITICAL"
  shows "analyzed w reg (rs @ [r]) perf inbound = (\<lparr>stop_set = False, memo = False\<rparr>, [])"
proof -
  have "severity (snd y) \<noteq> CRITICAL"
    if "y \<in> set (snd (outbound_events w (add_severity_limit_rules reg (rs @ [r])) perf inbound))" for y
    using outbound_limited [OF that] assms(2) by (auto simp: limit_all [OF assms(1)])
  then show ?thesis
    unfolding analyzed_def by (intro analyzer_idle) (simp add: list_all_iff)
qed

definition oom_registry :: types_registry where
  "oom_registry = \<lparr>reg_types = [], max_severities = [(''DatabaseLogEvent.OOM'', CRITICAL)], limit_rules = []\<rparr>"

theorem limited_test_survives_witness:
  "analyzed sample_env oom_registry ([''Database*=CRITICAL''] @ [''* = ERROR'']) 0 [(sample_tick, MEvent sample_log_event)] =
     (\<lparr>stop_set = False, memo = False\<rparr>, []) \<and>
   length (snd (analyzed sample_env oom_registry [''Database*=CRITICAL''] 0 [(sample_tick, MEvent sample_log_event)])) = 1"
proof
  have p: "parse_limit_rule ''* = ERROR'' = Inr (''*'', ERROR)" "ERROR < CRITICAL"
    by code_simp+
  show "analyzed sample_env oom_registry ([''Database*=CRITICAL''] @ [''* = ERROR'']) 0 [(sample_tick, MEvent sample_log_event)] =
     (\<lparr>stop_set = False, memo = False\<rparr>, [])"
    by (rule limited_test_survives [OF p])
  show "length (snd (analyzed sample_env oom_registry [''Database*=CRITICAL''] 0 [(sample_tick, MEvent sample_log_event)])) = 1"
    by code_simp
qed

end
